(* ===== verification/Prelude.thy ===== *)
theory Prelude
  imports Main
begin

text \<open>
  Shared vocabulary of the development.

  \<^item> \<open>pyexn\<close>: the Python exceptions the modelled code raises or catches, with their message
    (and, for \<open>IntegrationError\<close>, its code). A function that may raise returns
    \<open>pyexn + 'a\<close>; \<open>Inl\<close> is a raise, \<open>Inr\<close> a return.
  \<^item> \<open>dict\<close>: a Python dict as an association list with distinct keys, in insertion order
    (Python iterates a dict in insertion order; storing to an existing key keeps its place).
  \<^item> \<open>slice_to\<close>: the Python slice \<open>xs[:n]\<close> with a non-negative bound is \<open>take\<close>.
  \<^item> two collections of facts: \<open>dict_simps\<close> for dictionaries and \<open>res_simps\<close> for results.
\<close>

named_theorems dict_simps
named_theorems res_simps

section \<open>Exceptions and results\<close>

datatype pyexn =
    ValueError string
  | LookupError string
  | KeyError string
  | RuntimeError string
  | TimeoutError string
  | OSError string
  | TypeError string
  | IntegrityError string
  | DoesNotExist string
  | ValidationError string
  | AttributeError string
  | GraphQLError string
  | DeployError string
  | BackupError string
  | HealthTransportError string
  | IntegrationError string string

type_synonym 'a res = "pyexn + 'a"

text \<open>\<open>bindR r f\<close>: run \<open>r\<close>, continue with its value, or propagate its exception.\<close>

definition bindR :: "'a res \<Rightarrow> ('a \<Rightarrow> 'b res) \<Rightarrow> 'b res" where
  "bindR r f = (case r of Inl e \<Rightarrow> Inl e | Inr x \<Rightarrow> f x)"

text \<open>\<open>guardR b e\<close>: \<open>if not b: raise e\<close>.\<close>

definition guardR :: "bool \<Rightarrow> pyexn \<Rightarrow> unit res" where
  "guardR b e = (if b then Inr () else Inl e)"

definition isOk :: "'a res \<Rightarrow> bool" where
  "isOk r = (case r of Inl _ \<Rightarrow> False | Inr _ \<Rightarrow> True)"

text \<open>The exception classes an \<open>except\<close> clause names: a class catches its subclasses.\<close>

fun is_ValueError :: "pyexn \<Rightarrow> bool" where
  "is_ValueError (ValueError _) = True"
| "is_ValueError (IntegrationError _ _) = True"
| "is_ValueError _ = False"

fun is_RuntimeError :: "pyexn \<Rightarrow> bool" where
  "is_RuntimeError (RuntimeError _) = True"
| "is_RuntimeError (DeployError _) = True"
| "is_RuntimeError (BackupError _) = True"
| "is_RuntimeError (HealthTransportError _) = True"
| "is_RuntimeError _ = False"

fun is_LookupError :: "pyexn \<Rightarrow> bool" where
  "is_LookupError (LookupError _) = True"
| "is_LookupError (KeyError _) = True"
| "is_LookupError _ = False"

fun is_OSError :: "pyexn \<Rightarrow> bool" where
  "is_OSError (OSError _) = True"
| "is_OSError (TimeoutError _) = True"
| "is_OSError _ = False"

fun is_TimeoutError :: "pyexn \<Rightarrow> bool" where
  "is_TimeoutError (TimeoutError _) = True"
| "is_TimeoutError _ = False"

lemma bindR_simps [simp, res_simps]:
  "bindR (Inl e) f = Inl e"
  "bindR (Inr x) f = f x"
  by (simp_all add: bindR_def)

lemma bindR_Inr_iff [res_simps]: "bindR r f = Inr y \<longleftrightarrow> (\<exists>x. r = Inr x \<and> f x = Inr y)"
  by (cases r) auto

lemma bindR_Inl_iff [res_simps]:
  "bindR r f = Inl e \<longleftrightarrow> r = Inl e \<or> (\<exists>x. r = Inr x \<and> f x = Inl e)"
  by (cases r) auto

lemma guardR_iff [simp, res_simps]:
  "guardR b e = Inr u \<longleftrightarrow> b"
  "guardR b e = Inl e' \<longleftrightarrow> \<not> b \<and> e' = e"
  by (auto simp: guardR_def)

lemma guardR_eval [simp]:
  "guardR True e = Inr ()"
  "guardR False e = Inl e"
  by (simp_all add: guardR_def)

lemma isOk_simps [simp, res_simps]:
  "isOk (Inl e) \<longleftrightarrow> False"
  "isOk (Inr x) \<longleftrightarrow> True"
  by (simp_all add: isOk_def)

lemma isOk_iff: "isOk r \<longleftrightarrow> (\<exists>x. r = Inr x)"
  by (cases r) auto

text \<open>\<open>[f(x) for x in xs]\<close> where \<open>f\<close> may raise: the first exception stops the loop.\<close>

fun mapR :: "('a \<Rightarrow> 'b res) \<Rightarrow> 'a list \<Rightarrow> 'b list res" where
  "mapR f [] = Inr []"
| "mapR f (x # xs) = bindR (f x) (\<lambda>y. bindR (mapR f xs) (\<lambda>ys. Inr (y # ys)))"

lemma mapR_Inr_iff: "mapR f xs = Inr ys \<longleftrightarrow> list_all2 (\<lambda>x y. f x = Inr y) xs ys"
  by (induction xs arbitrary: ys) (auto simp: res_simps list_all2_Cons1)

section \<open>Dictionaries\<close>

type_synonym ('k, 'v) dict = "('k \<times> 'v) list"

abbreviation dget :: "('k, 'v) dict \<Rightarrow> 'k \<Rightarrow> 'v option" where
  "dget d k \<equiv> map_of d k"

abbreviation dkeys :: "('k, 'v) dict \<Rightarrow> 'k list" where
  "dkeys d \<equiv> map fst d"

definition dict_wf :: "('k, 'v) dict \<Rightarrow> bool" where
  "dict_wf d \<longleftrightarrow> distinct (dkeys d)"

text \<open>\<open>d[k] = v\<close>\<close>

fun dput :: "'k \<Rightarrow> 'v \<Rightarrow> ('k, 'v) dict \<Rightarrow> ('k, 'v) dict" where
  "dput k v [] = [(k, v)]"
| "dput k v ((k', v') # d) = (if k' = k then (k, v) # d else (k', v') # dput k v d)"

text \<open>\<open>d.pop(k, None)\<close>\<close>

definition ddel :: "'k \<Rightarrow> ('k, 'v) dict \<Rightarrow> ('k, 'v) dict" where
  "ddel k d = filter (\<lambda>(k', _). k' \<noteq> k) d"

text \<open>\<open>d.update(e)\<close>\<close>

definition dupdate :: "('k, 'v) dict \<Rightarrow> ('k, 'v) dict \<Rightarrow> ('k, 'v) dict" where
  "dupdate d e = fold (\<lambda>(k, v) acc. dput k v acc) e d"

lemma dget_dput [simp, dict_simps]: "dget (dput k v d) k' = (if k' = k then Some v else dget d k')"
  by (induction d) auto

lemma dget_ddel [simp, dict_simps]: "dget (ddel k d) k' = (if k' = k then None else dget d k')"
  unfolding ddel_def by (induction d) auto

lemma set_dkeys_dput [simp, dict_simps]: "fst ` set (dput k v d) = insert k (fst ` set d)"
proof (induction d)
  case (Cons a d)
  then show ?case by (cases a) (simp add: insert_commute)
qed simp

lemma set_dkeys_ddel [simp, dict_simps]: "fst ` set (ddel k d) = fst ` set d - {k}"
  unfolding ddel_def by force

lemma dict_wf_Nil [simp, dict_simps]: "dict_wf []"
  by (simp add: dict_wf_def)

lemma dict_wf_dput [simp, dict_simps]: "dict_wf d \<Longrightarrow> dict_wf (dput k v d)"
proof (induction d)
  case (Cons a d)
  obtain k' v' where "a = (k', v')" by (cases a)
  with Cons show ?case by (auto simp: dict_wf_def)
qed (simp add: dict_wf_def)

lemma dict_wf_ddel [simp, dict_simps]: "dict_wf d \<Longrightarrow> dict_wf (ddel k d)"
  unfolding dict_wf_def ddel_def by (induction d) auto

lemma dget_in_dkeys: "dget d k = Some v \<Longrightarrow> k \<in> set (dkeys d)"
  by (metis domI dom_map_of_conv_image_fst set_map)

lemma dget_None_iff: "dget d k = None \<longleftrightarrow> k \<notin> set (dkeys d)"
  by (simp add: map_of_eq_None_iff)

lemma dict_wf_mem: "dict_wf d \<Longrightarrow> (k, v) \<in> set d \<longleftrightarrow> dget d k = Some v"
  by (auto simp: dict_wf_def)

lemma dput_fresh [dict_simps]: "k \<notin> set (dkeys d) \<Longrightarrow> dput k v d = d @ [(k, v)]"
  by (induction d) auto

text \<open>A dict's count of the values that satisfy \<open>P\<close>: \<open>sum(1 for v in d.values() if P(v))\<close>.\<close>

definition dcount :: "('v \<Rightarrow> bool) \<Rightarrow> ('k, 'v) dict \<Rightarrow> nat" where
  "dcount P d = length (filter (\<lambda>(_, v). P v) d)"

lemma dcount_Nil [simp, dict_simps]: "dcount P [] = 0"
  by (simp add: dcount_def)

lemma dcount_Cons: "dcount P ((k, v) # d) = (if P v then 1 else 0) + dcount P d"
  by (simp add: dcount_def)

lemma dcount_dput_fresh [dict_simps]:
  "k \<notin> set (dkeys d) \<Longrightarrow> dcount P (dput k v d) = dcount P d + (if P v then 1 else 0)"
  by (simp add: dput_fresh dcount_def)

lemma dcount_dput_same:
  "dget d k = Some v \<Longrightarrow> P v' = P v \<Longrightarrow> dcount P (dput k v' d) = dcount P d"
proof (induction d)
  case (Cons a d)
  then show ?case by (cases a) (auto simp: dcount_Cons split: if_splits)
qed simp

lemma dcount_ddel_le: "dcount P (ddel k d) \<le> dcount P d"
proof (induction d)
  case (Cons a d)
  then show ?case by (cases a) (auto simp: dcount_def ddel_def)
qed (simp add: ddel_def)

end
