(* ===== verification/PyString.thy ===== *)
theory PyString
  imports Prelude
begin

text \<open>
  The part of Python's \<open>str\<close> the modelled code uses.

  A Python string is a \<open>string\<close>, one \<open>char\<close> per code point; the model's strings are those
  whose code points are at most 255. On that range \<open>is_space\<close> is what \<open>str.isspace\<close>,
  \<open>str.split\<close>, \<open>str.strip\<close> and the pattern \<open>\s\<close> take as white space, \<open>is_word\<close> is the
  pattern \<open>\w\<close>, and \<open>lower\<close> is \<open>str.lower\<close>. \<open>upper\<close> is \<open>str.upper\<close> but for the two code
  points 181 and 255, whose upper case lies above 255: it leaves them as they are.
\<close>

section \<open>Characters\<close>

abbreviation ord :: "char \<Rightarrow> nat" where
  "ord c \<equiv> of_char c"

definition in_range :: "nat \<Rightarrow> nat \<Rightarrow> char \<Rightarrow> bool" where
  "in_range a b c \<longleftrightarrow> a \<le> ord c \<and> ord c \<le> b"

definition is_digit :: "char \<Rightarrow> bool" where
  "is_digit = in_range 48 57"

definition is_lower_az :: "char \<Rightarrow> bool" where
  "is_lower_az = in_range 97 122"

definition is_upper_az :: "char \<Rightarrow> bool" where
  "is_upper_az = in_range 65 90"

definition is_alpha_az :: "char \<Rightarrow> bool" where
  "is_alpha_az c \<longleftrightarrow> is_lower_az c \<or> is_upper_az c"

text \<open>The class \<open>[A-Za-z0-9]\<close>.\<close>

definition is_alnum_az :: "char \<Rightarrow> bool" where
  "is_alnum_az c \<longleftrightarrow> is_alpha_az c \<or> is_digit c"

text \<open>The pattern \<open>\s\<close> and \<open>str.isspace\<close>.\<close>

definition is_space :: "char \<Rightarrow> bool" where
  "is_space c \<longleftrightarrow> in_range 9 13 c \<or> in_range 28 32 c \<or> ord c = 133 \<or> ord c = 160"

text \<open>The pattern \<open>\w\<close>.\<close>

definition is_word :: "char \<Rightarrow> bool" where
  "is_word c \<longleftrightarrow> is_alnum_az c \<or> ord c = 95 \<or> ord c \<in> {170, 178, 179, 181, 185, 186, 188, 189, 190}
     \<or> in_range 192 214 c \<or> in_range 216 246 c \<or> in_range 248 255 c"

definition is_control :: "char \<Rightarrow> bool" where
  "is_control c \<longleftrightarrow> ord c < 32 \<or> ord c = 127"

lemmas char_class_defs = in_range_def is_digit_def is_lower_az_def is_upper_az_def is_alpha_az_def
  is_alnum_az_def is_space_def is_word_def is_control_def

definition lower_char :: "char \<Rightarrow> char" where
  "lower_char c =
     (if in_range 65 90 c \<or> in_range 192 214 c \<or> in_range 216 222 c then char_of (ord c + 32) else c)"

definition upper_char :: "char \<Rightarrow> string" where
  "upper_char c =
     (if ord c = 223 then ''SS''
      else if in_range 97 122 c \<or> in_range 224 246 c \<or> in_range 248 254 c
      then [char_of (ord c - 32)] else [c])"

definition lower :: "string \<Rightarrow> string" where
  "lower = map lower_char"

definition upper :: "string \<Rightarrow> string" where
  "upper s = concat (map upper_char s)"

lemma char_of_range: "char_of n = c \<longleftrightarrow> n mod 256 = (of_char c :: nat)"
  by (metis char_of_char of_char_of char_of_mod_256)

lemma lower_char_idem [simp]: "lower_char (lower_char c) = lower_char c"
  by (auto simp: lower_char_def in_range_def)

lemma lower_idem [simp]: "lower (lower s) = lower s"
  by (simp add: lower_def)

lemma length_lower [simp]: "length (lower s) = length s"
  by (simp add: lower_def)

lemma lower_append [simp]: "lower (s @ t) = lower s @ lower t"
  by (simp add: lower_def)

section \<open>Searching\<close>

fun starts_with :: "string \<Rightarrow> string \<Rightarrow> bool" where
  "starts_with [] s = True"
| "starts_with (p # ps) [] = False"
| "starts_with (p # ps) (c # cs) = (p = c \<and> starts_with ps cs)"

definition ends_with :: "string \<Rightarrow> string \<Rightarrow> bool" where
  "ends_with p s = starts_with (rev p) (rev s)"

text \<open>\<open>p in s\<close>\<close>

fun substring_in :: "string \<Rightarrow> string \<Rightarrow> bool" where
  "substring_in p [] = (p = [])"
| "substring_in p (c # cs) = (starts_with p (c # cs) \<or> substring_in p cs)"

lemma starts_with_iff: "starts_with p s \<longleftrightarrow> (\<exists>t. s = p @ t)"
  by (induction p s rule: starts_with.induct) auto

lemma starts_with_append [simp]: "starts_with p (p @ t)"
  by (simp add: starts_with_iff)

lemma ends_with_iff: "ends_with p s \<longleftrightarrow> (\<exists>t. s = t @ p)"
  unfolding ends_with_def starts_with_iff by (metis rev_append rev_rev_ident)

lemma substring_in_iff: "substring_in p s \<longleftrightarrow> (\<exists>u t. s = u @ p @ t)"
proof (induction s)
  case (Cons c cs)
  show ?case
  proof
    assume "substring_in p (c # cs)"
    then consider "starts_with p (c # cs)" | "substring_in p cs" by auto
    then show "\<exists>u t. c # cs = u @ p @ t"
    proof cases
      case 1
      then show ?thesis by (metis append_Nil starts_with_iff)
    next
      case 2
      then show ?thesis using Cons by (metis append_Cons)
    qed
  next
    assume "\<exists>u t. c # cs = u @ p @ t"
    then obtain u t where e: "c # cs = u @ p @ t" by blast
    show "substring_in p (c # cs)"
    proof (cases u)
      case Nil
      with e have "starts_with p (c # cs)" by (metis append_Nil starts_with_iff)
      then show ?thesis by simp
    next
      case (Cons a u')
      with e \<open>substring_in p cs \<longleftrightarrow> (\<exists>u t. cs = u @ p @ t)\<close> show ?thesis by auto
    qed
  qed
qed simp

lemma substring_in_single [simp]: "substring_in [c] s \<longleftrightarrow> c \<in> set s"
  by (auto simp: substring_in_iff in_set_conv_decomp)

section \<open>Stripping, splitting, joining\<close>

definition lstrip_by :: "(char \<Rightarrow> bool) \<Rightarrow> string \<Rightarrow> string" where
  "lstrip_by p s = dropWhile p s"

definition rstrip_by :: "(char \<Rightarrow> bool) \<Rightarrow> string \<Rightarrow> string" where
  "rstrip_by p s = rev (dropWhile p (rev s))"

text \<open>\<open>s.strip()\<close>\<close>

definition strip :: "string \<Rightarrow> string" where
  "strip s = rstrip_by is_space (lstrip_by is_space s)"

text \<open>\<open>s.split(c)\<close> with a one-character separator; never empty.\<close>

fun split_on :: "char \<Rightarrow> string \<Rightarrow> string list" where
  "split_on d [] = [[]]"
| "split_on d (c # cs) =
     (if c = d then [] # split_on d cs
      else (case split_on d cs of [] \<Rightarrow> [[c]] | w # ws \<Rightarrow> (c # w) # ws))"

text \<open>\<open>s.split()\<close>: the maximal runs of characters that are not white space.\<close>

fun split_ws_acc :: "string \<Rightarrow> string \<Rightarrow> string list" where
  "split_ws_acc w [] = (if w = [] then [] else [rev w])"
| "split_ws_acc w (c # cs) =
     (if is_space c then (if w = [] then split_ws_acc [] cs else rev w # split_ws_acc [] cs)
      else split_ws_acc (c # w) cs)"

definition split_ws :: "string \<Rightarrow> string list" where
  "split_ws s = split_ws_acc [] s"

text \<open>\<open>sep.join(ws)\<close>\<close>

fun join :: "string \<Rightarrow> string list \<Rightarrow> string" where
  "join sep [] = []"
| "join sep [w] = w"
| "join sep (w # v # ws) = w @ sep @ join sep (v # ws)"

text \<open>\<open>s.replace(c, t)\<close> for a one-character \<open>c\<close>.\<close>

definition replace_char :: "char \<Rightarrow> string \<Rightarrow> string \<Rightarrow> string" where
  "replace_char d t s = concat (map (\<lambda>c. if c = d then t else [c]) s)"

text \<open>Quotation marks around a literal, to write texts that contain them.\<close>

definition quoted :: "string \<Rightarrow> string" where
  "quoted s = [CHR 0x27] @ s @ [CHR 0x27]"

definition dquoted :: "string \<Rightarrow> string" where
  "dquoted s = [CHR 0x22] @ s @ [CHR 0x22]"

text \<open>\<open>s.partition(c)\<close> and \<open>s.rpartition(c)\<close>: the part before, whether the separator was found,
  the part after. With no separator \<open>rpartition\<close> puts the whole string last.\<close>

definition partition_on :: "char \<Rightarrow> string \<Rightarrow> string \<times> bool \<times> string" where
  "partition_on d s = (takeWhile (\<lambda>c. c \<noteq> d) s, d \<in> set s, tl (dropWhile (\<lambda>c. c \<noteq> d) s))"

definition rpartition_on :: "char \<Rightarrow> string \<Rightarrow> string \<times> bool \<times> string" where
  "rpartition_on d s =
     (if d \<in> set s
      then (rev (tl (dropWhile (\<lambda>c. c \<noteq> d) (rev s))), True, rev (takeWhile (\<lambda>c. c \<noteq> d) (rev s)))
      else ([], False, s))"

text \<open>\<open>s.splitlines()\<close>: a line ends at any of Python's line boundaries; a carriage return and a
  newline together are one boundary; a final boundary opens no further line.\<close>

definition is_line_break :: "char \<Rightarrow> bool" where
  "is_line_break c \<longleftrightarrow> in_range 10 13 c \<or> in_range 28 30 c \<or> ord c = 133"

fun splitlines_acc :: "string \<Rightarrow> string \<Rightarrow> string list" where
  "splitlines_acc w [] = (if w = [] then [] else [rev w])"
| "splitlines_acc w (c # cs) =
     (if is_line_break c
      then rev w # splitlines_acc [] (if ord c = 13 \<and> cs \<noteq> [] \<and> ord (hd cs) = 10 then tl cs else cs)
      else splitlines_acc (c # w) cs)"

definition splitlines :: "string \<Rightarrow> string list" where
  "splitlines s = splitlines_acc [] s"

section \<open>Decimal numbers\<close>

fun nat_digits :: "nat \<Rightarrow> string" where
  "nat_digits n =
     (if n < 10 then [char_of (48 + n)] else nat_digits (n div 10) @ [char_of (48 + n mod 10)])"

declare nat_digits.simps [simp del]

text \<open>\<open>str(n)\<close>\<close>

definition int_str :: "int \<Rightarrow> string" where
  "int_str n = (if n < 0 then CHR ''-'' # nat_digits (nat (- n)) else nat_digits (nat n))"

text \<open>\<open>int(s)\<close> of a string of decimal digits.\<close>

definition digits_val :: "string \<Rightarrow> nat" where
  "digits_val s = foldl (\<lambda>a c. a * 10 + (ord c - 48)) 0 s"

lemma nat_digits_ne: "nat_digits n \<noteq> []"
  by (subst nat_digits.simps) simp

section \<open>Lemmas\<close>

lemma set_rstrip_by: "set (rstrip_by p s) \<subseteq> set s"
  unfolding rstrip_by_def by (auto dest: set_dropWhileD)

lemma set_lstrip_by: "set (lstrip_by p s) \<subseteq> set s"
  unfolding lstrip_by_def by (auto dest: set_dropWhileD)

lemma set_strip: "set (strip s) \<subseteq> set s"
  unfolding strip_def using set_rstrip_by set_lstrip_by by blast

lemma length_rstrip_by: "length (rstrip_by p s) \<le> length s"
  unfolding rstrip_by_def by (metis length_dropWhile_le length_rev)

lemma rstrip_by_decomp: "\<exists>t. s = rstrip_by p s @ t \<and> (\<forall>c \<in> set t. p c)"
proof -
  have "rev s = takeWhile p (rev s) @ dropWhile p (rev s)" by simp
  then have "s = rev (dropWhile p (rev s)) @ rev (takeWhile p (rev s))"
    by (metis rev_append rev_rev_ident)
  then show ?thesis unfolding rstrip_by_def by (metis set_rev set_takeWhileD)
qed

lemma rstrip_by_last: "rstrip_by p s \<noteq> [] \<Longrightarrow> \<not> p (last (rstrip_by p s))"
  unfolding rstrip_by_def using hd_dropWhile by (metis last_rev rev_is_Nil_conv)

lemma rstrip_by_idem [simp]: "rstrip_by p (rstrip_by p s) = rstrip_by p s"
  unfolding rstrip_by_def by simp

lemma rstrip_by_id: "s = [] \<or> \<not> p (last s) \<Longrightarrow> rstrip_by p s = s"
  unfolding rstrip_by_def by (cases s rule: rev_cases) auto

lemma split_on_ne [simp]: "split_on d s \<noteq> []"
  by (induction s) (auto split: list.splits)

lemma split_on_no_sep: "w \<in> set (split_on d s) \<Longrightarrow> d \<notin> set w"
  by (induction s arbitrary: w) (auto split: list.splits if_splits)

lemma join_split_on: "join [d] (split_on d s) = s"
proof (induction s)
  case (Cons c cs)
  obtain w ws where w: "split_on d cs = w # ws" by (cases "split_on d cs") auto
  with Cons show ?case by (cases ws) auto
qed simp

lemma split_on_append: "d \<notin> set w \<Longrightarrow> split_on d (w @ d # s) = w # split_on d s"
  by (induction w) auto

lemma split_on_single: "d \<notin> set w \<Longrightarrow> split_on d w = [w]"
  by (induction w) auto

lemma split_on_join:
  "ws \<noteq> [] \<Longrightarrow> \<forall>w \<in> set ws. d \<notin> set w \<Longrightarrow> split_on d (join [d] ws) = ws"
  by (induction ws rule: induct_list012) (simp_all add: split_on_append split_on_single)

lemma split_ws_acc_props:
  "list_all (\<lambda>c. \<not> is_space c) w
   \<Longrightarrow> \<forall>v \<in> set (split_ws_acc w s). v \<noteq> [] \<and> list_all (\<lambda>c. \<not> is_space c) v"
proof (induction s arbitrary: w)
  case Nil
  then show ?case by (simp add: list_all_iff)
next
  case (Cons c cs)
  have "\<forall>v \<in> set (split_ws_acc [] cs). v \<noteq> [] \<and> list_all (\<lambda>c. \<not> is_space c) v"
    using Cons.IH [of "[]"] by simp
  moreover have "\<not> is_space c \<Longrightarrow>
      \<forall>v \<in> set (split_ws_acc (c # w) cs). v \<noteq> [] \<and> list_all (\<lambda>c. \<not> is_space c) v"
    using Cons.IH [of "c # w"] Cons.prems by simp
  ultimately show ?case using Cons.prems by (simp add: list_all_iff)
qed

lemma split_ws_props: "v \<in> set (split_ws s) \<Longrightarrow> v \<noteq> [] \<and> list_all (\<lambda>c. \<not> is_space c) v"
  unfolding split_ws_def using split_ws_acc_props [of "[]" s] by simp

lemma split_ws_acc_word:
  "list_all (\<lambda>c. \<not> is_space c) v \<Longrightarrow> split_ws_acc w (v @ s) = split_ws_acc (rev v @ w) s"
  by (induction v arbitrary: w) auto

lemma split_ws_join:
  assumes "\<forall>w \<in> set ws. w \<noteq> [] \<and> list_all (\<lambda>c. \<not> is_space c) w" and "is_space d"
  shows "split_ws (join [d] ws) = ws"
  using assms unfolding split_ws_def
proof (induction ws rule: induct_list012)
  case (2 w)
  then show ?case using split_ws_acc_word [of w "[]" "[]"] by simp
next
  case (3 w v ws)
  then show ?case using split_ws_acc_word [of w "[]" "d # join [d] (v # ws)"] by simp
qed simp

lemma concat_map_single: "concat (map (\<lambda>c. [f c]) s) = map f s"
  by (induction s) auto

end
