(* ===== verification/Regex.thy ===== *)
theory Regex
  imports PyString
begin

text \<open>
  Python's \<open>re\<close>, as far as the modelled code uses it: character classes, sequence, ordered
  alternation, greedy repetition, and the calls \<open>fullmatch\<close>, \<open>search\<close> and \<open>sub\<close>.

  \<open>rx_ends r s\<close> is the backtracking matcher: every rest of \<open>s\<close> that a match of \<open>r\<close> at its start can
  leave, in the order Python tries them; the first element is the match Python reports. The
  reference is \<open>rx_lang r\<close>, the set of strings the pattern denotes, and \<open>rx_ends_iff\<close> shows
  that the matcher finds exactly the prefixes in that set. The anchors \<open>^\<close> and \<open>$\<close> of the
  source's patterns add nothing under \<open>fullmatch\<close>, which already requires the whole string,
  and are left out of the pattern terms.
\<close>

section \<open>Patterns and the matcher\<close>

datatype rx =
    Eps
  | Cls "char \<Rightarrow> bool"
  | Seq rx rx
  | Alt rx rx
  | Star rx
  | Rep nat nat rx  \<comment> \<open>\<open>Rep m k r\<close> is \<open>r{m,m+k}\<close>\<close>

fun star_ends :: "(string \<Rightarrow> string list) \<Rightarrow> nat \<Rightarrow> string \<Rightarrow> string list" where
  "star_ends f 0 s = [s]"
| "star_ends f (Suc n) s =
     concat (map (star_ends f n) (filter (\<lambda>t. length t < length s) (f s))) @ [s]"

fun rep_ends :: "(string \<Rightarrow> string list) \<Rightarrow> nat \<Rightarrow> nat \<Rightarrow> string \<Rightarrow> string list" where
  "rep_ends f (Suc m) k s = concat (map (rep_ends f m k) (f s))"
| "rep_ends f 0 (Suc k) s = concat (map (rep_ends f 0 k) (f s)) @ [s]"
| "rep_ends f 0 0 s = [s]"

primrec rx_ends :: "rx \<Rightarrow> string \<Rightarrow> string list" where
  "rx_ends Eps s = [s]"
| "rx_ends (Cls p) s = (case s of [] \<Rightarrow> [] | c # cs \<Rightarrow> if p c then [cs] else [])"
| "rx_ends (Seq r1 r2) s = concat (map (rx_ends r2) (rx_ends r1 s))"
| "rx_ends (Alt r1 r2) s = rx_ends r1 s @ rx_ends r2 s"
| "rx_ends (Star r) s = star_ends (rx_ends r) (length s) s"
| "rx_ends (Rep m k r) s = rep_ends (rx_ends r) m k s"

text \<open>\<open>r.fullmatch(s)\<close>\<close>

definition fullmatch :: "rx \<Rightarrow> string \<Rightarrow> bool" where
  "fullmatch r s \<longleftrightarrow> [] \<in> set (rx_ends r s)"

text \<open>\<open>r.search(s)\<close>: a match starts somewhere in the string.\<close>

fun search :: "rx \<Rightarrow> string \<Rightarrow> bool" where
  "search r [] = (rx_ends r [] \<noteq> [])"
| "search r (c # cs) = (rx_ends r (c # cs) \<noteq> [] \<or> search r cs)"

text \<open>\<open>r.sub(repl, s)\<close> for a pattern that matches no empty string: from left to right, each match
  is replaced and the scan goes on behind it.\<close>

fun re_sub :: "rx \<Rightarrow> string \<Rightarrow> string \<Rightarrow> string" where
  "re_sub r repl [] = []"
| "re_sub r repl (c # cs) =
     (case filter (\<lambda>t. length t \<le> length cs) (rx_ends r (c # cs)) of
        [] \<Rightarrow> c # re_sub r repl cs
      | t # _ \<Rightarrow> repl @ (if length t \<le> length cs then re_sub r repl t else []))"

text \<open>The inner bound on \<open>t\<close> always holds where it is tested (the list was filtered by it); it
  makes the recursion visibly terminate.\<close>

section \<open>Building patterns\<close>

abbreviation Opt :: "rx \<Rightarrow> rx" where
  "Opt r \<equiv> Rep 0 1 r"

abbreviation Plus :: "rx \<Rightarrow> rx" where
  "Plus r \<equiv> Seq r (Star r)"

definition Lit :: "string \<Rightarrow> rx" where
  "Lit s = foldr (\<lambda>c r. Seq (Cls (\<lambda>x. x = c)) r) s Eps"

text \<open>A literal under \<open>(?i)\<close>.\<close>

definition LitI :: "string \<Rightarrow> rx" where
  "LitI s = foldr (\<lambda>c r. Seq (Cls (\<lambda>x. lower_char x = lower_char c)) r) s Eps"

fun Alts :: "rx list \<Rightarrow> rx" where
  "Alts [] = Alt (Cls (\<lambda>_. False)) (Cls (\<lambda>_. False))"
| "Alts [r] = r"
| "Alts (r # r' # rs) = Alt r (Alts (r' # rs))"

section \<open>The reference: the language of a pattern\<close>

primrec rx_lang :: "rx \<Rightarrow> string set" where
  "rx_lang Eps = {[]}"
| "rx_lang (Cls p) = {[c] |c. p c}"
| "rx_lang (Seq r1 r2) = {u @ v |u v. u \<in> rx_lang r1 \<and> v \<in> rx_lang r2}"
| "rx_lang (Alt r1 r2) = rx_lang r1 \<union> rx_lang r2"
| "rx_lang (Star r) = {concat us |us. set us \<subseteq> rx_lang r}"
| "rx_lang (Rep m k r) = {concat us |us. set us \<subseteq> rx_lang r \<and> m \<le> length us \<and> length us \<le> m + k}"

section \<open>The matcher finds exactly the language\<close>

lemma star_ends_sound:
  assumes f: "\<And>s t. t \<in> set (f s) \<Longrightarrow> \<exists>u. s = u @ t \<and> u \<in> L"
  shows "t \<in> set (star_ends f n s) \<Longrightarrow> \<exists>us. s = concat us @ t \<and> set us \<subseteq> L"
proof (induction n arbitrary: s)
  case 0
  then show ?case by (intro exI [of _ "[]"]) simp
next
  case (Suc n)
  then consider "t = s" | s' where "s' \<in> set (f s)" "t \<in> set (star_ends f n s')" by auto
  then show ?case
  proof cases
    case 1
    then show ?thesis by (intro exI [of _ "[]"]) simp
  next
    case 2
    from f [OF 2(1)] obtain u where u: "s = u @ s'" "u \<in> L" by blast
    from Suc.IH [OF 2(2)] obtain us where "s' = concat us @ t" "set us \<subseteq> L" by blast
    with u show ?thesis by (intro exI [of _ "u # us"]) simp
  qed
qed

lemma star_ends_complete:
  assumes f: "\<And>s t u. s = u @ t \<Longrightarrow> u \<in> L \<Longrightarrow> t \<in> set (f s)"
  shows "set us \<subseteq> L \<Longrightarrow> length (concat us) \<le> n \<Longrightarrow> t \<in> set (star_ends f n (concat us @ t))"
proof (induction us arbitrary: n)
  case Nil
  then show ?case by (cases n) auto
next
  case (Cons u us)
  show ?case
  proof (cases "u = []")
    case True
    with Cons show ?thesis by simp
  next
    case False
    with Cons.prems obtain n' where n: "n = Suc n'" by (cases n) auto
    have "length u \<ge> 1" using False by (cases u) auto
    then have "t \<in> set (star_ends f n' (concat us @ t))"
      using Cons n by auto
    moreover have "concat us @ t \<in> set (f (concat (u # us) @ t))"
      using f Cons.prems(1) by simp
    moreover have "length (concat us @ t) < length (concat (u # us) @ t)"
      using \<open>u \<noteq> []\<close> by simp
    ultimately show ?thesis unfolding n star_ends.simps by (simp del: length_concat) (intro exI [of _ "concat us @ t"], simp del: length_concat)
  qed
qed

lemma rep_ends_0_iff:
  assumes f: "\<And>s t. t \<in> set (f s) \<longleftrightarrow> (\<exists>u. s = u @ t \<and> u \<in> L)"
  shows "t \<in> set (rep_ends f 0 k s) \<longleftrightarrow> (\<exists>us. s = concat us @ t \<and> set us \<subseteq> L \<and> length us \<le> k)"
proof (induction k arbitrary: s)
  case (Suc k)
  have "t \<in> set (rep_ends f 0 (Suc k) s) \<longleftrightarrow>
      t = s \<or> (\<exists>u s'. s = u @ s' \<and> u \<in> L \<and> t \<in> set (rep_ends f 0 k s'))"
    using f by auto
  also have "\<dots> \<longleftrightarrow> (\<exists>us. s = concat us @ t \<and> set us \<subseteq> L \<and> length us \<le> Suc k)" (is "?l \<longleftrightarrow> ?r")
  proof
    assume ?l
    then show ?r
    proof
      assume "t = s"
      then show ?r by (intro exI [of _ "[]"]) simp
    next
      assume "\<exists>u s'. s = u @ s' \<and> u \<in> L \<and> t \<in> set (rep_ends f 0 k s')"
      then obtain u us where "s = u @ concat us @ t" "u \<in> L" "set us \<subseteq> L" "length us \<le> k"
        using Suc.IH by auto
      then show ?r by (intro exI [of _ "u # us"]) simp
    qed
  next
    assume ?r
    then obtain us where us: "s = concat us @ t" "set us \<subseteq> L" "length us \<le> Suc k" by auto
    show ?l
    proof (cases us)
      case (Cons u us')
      with us Suc.IH show ?thesis
        by (intro disjI2 exI [of _ u] exI [of _ "concat us' @ t"]) auto
    qed (use us in simp)
  qed
  finally show ?case .
qed auto

lemma rep_ends_iff:
  assumes f: "\<And>s t. t \<in> set (f s) \<longleftrightarrow> (\<exists>u. s = u @ t \<and> u \<in> L)"
  shows "t \<in> set (rep_ends f m k s) \<longleftrightarrow>
    (\<exists>us. s = concat us @ t \<and> set us \<subseteq> L \<and> m \<le> length us \<and> length us \<le> m + k)"
proof (induction m arbitrary: s)
  case 0
  then show ?case using rep_ends_0_iff [of f L t k s] f by simp
next
  case (Suc m)
  have "t \<in> set (rep_ends f (Suc m) k s) \<longleftrightarrow> (\<exists>u s'. s = u @ s' \<and> u \<in> L \<and> t \<in> set (rep_ends f m k s'))"
    using f by (auto, blast)
  also have "\<dots> \<longleftrightarrow> (\<exists>us. s = concat us @ t \<and> set us \<subseteq> L \<and> Suc m \<le> length us \<and> length us \<le> Suc m + k)"
    (is "?l \<longleftrightarrow> ?r")
  proof
    assume ?l
    then obtain u us where "s = u @ concat us @ t" "u \<in> L" "set us \<subseteq> L" "m \<le> length us" "length us \<le> m + k"
      using Suc.IH by blast
    then show ?r by (intro exI [of _ "u # us"]) simp
  next
    assume ?r
    then obtain us where us: "s = concat us @ t" "set us \<subseteq> L" "Suc m \<le> length us" "length us \<le> Suc m + k"
      by blast
    then obtain u us' where u: "us = u # us'" by (cases us) auto
    with us Suc.IH show ?l by (intro exI [of _ u] exI [of _ "concat us' @ t"]) auto
  qed
  finally show ?case .
qed

theorem rx_ends_iff: "t \<in> set (rx_ends r s) \<longleftrightarrow> (\<exists>u. s = u @ t \<and> u \<in> rx_lang r)"
proof (induction r arbitrary: s t)
  case (Cls p)
  then show ?case by (cases s) auto
next
  case (Seq r1 r2)
  show ?case
  proof
    assume "t \<in> set (rx_ends (Seq r1 r2) s)"
    then obtain u v where "s = u @ v @ t" "u \<in> rx_lang r1" "v \<in> rx_lang r2"
      using Seq by auto
    then show "\<exists>u. s = u @ t \<and> u \<in> rx_lang (Seq r1 r2)"
      by (intro exI [of _ "u @ v"]) auto
  next
    assume "\<exists>u. s = u @ t \<and> u \<in> rx_lang (Seq r1 r2)"
    then obtain u v where "s = u @ v @ t" "u \<in> rx_lang r1" "v \<in> rx_lang r2" by auto
    then show "t \<in> set (rx_ends (Seq r1 r2) s)"
      using Seq by (auto intro!: bexI [of _ "v @ t"])
  qed
next
  case (Alt r1 r2)
  then show ?case by auto
next
  case (Star r)
  show ?case
  proof
    assume "t \<in> set (rx_ends (Star r) s)"
    then have "\<exists>us. s = concat us @ t \<and> set us \<subseteq> rx_lang r"
      using star_ends_sound [of "rx_ends r" "rx_lang r" t "length s" s] Star by auto
    then show "\<exists>u. s = u @ t \<and> u \<in> rx_lang (Star r)" by auto
  next
    assume "\<exists>u. s = u @ t \<and> u \<in> rx_lang (Star r)"
    then obtain us where "s = concat us @ t" "set us \<subseteq> rx_lang r" by auto
    then show "t \<in> set (rx_ends (Star r) s)"
      using star_ends_complete [of "rx_lang r" "rx_ends r" us "length s" t] Star by auto
  qed
next
  case (Rep m k r)
  then show ?case using rep_ends_iff [of "rx_ends r" "rx_lang r" t m k s] by auto
qed auto

lemma fullmatch_iff: "fullmatch r s \<longleftrightarrow> s \<in> rx_lang r"
  by (auto simp: fullmatch_def rx_ends_iff)

section \<open>Languages of the common shapes\<close>

named_theorems rx_shapes

lemma rx_lang_Seq_Cls [rx_shapes]: "rx_lang (Seq (Cls p) r) = {c # t |c t. p c \<and> t \<in> rx_lang r}"
  by (auto, metis append_Cons append_Nil)

lemma singles_iff: "(\<exists>us. s = concat us \<and> set us \<subseteq> {[c] |c. p c} \<and> P (length us)) \<longleftrightarrow>
    list_all p s \<and> P (length s)"
proof
  assume "\<exists>us. s = concat us \<and> set us \<subseteq> {[c] |c. p c} \<and> P (length us)"
  then obtain us where us: "s = concat us" "set us \<subseteq> {[c] |c. p c}" "P (length us)" by blast
  from us(2) have "list_all p (concat us) \<and> length (concat us) = length us"
    by (induction us) (force simp del: length_concat)+
  with us show "list_all p s \<and> P (length s)" by simp
next
  assume a: "list_all p s \<and> P (length s)"
  have "s = concat (map (\<lambda>c. [c]) s)" by (induction s) auto
  with a show "\<exists>us. s = concat us \<and> set us \<subseteq> {[c] |c. p c} \<and> P (length us)"
    by (intro exI [of _ "map (\<lambda>c. [c]) s"]) (auto simp: list_all_iff)
qed

lemma rx_lang_Star_Cls [rx_shapes]: "rx_lang (Star (Cls p)) = {s. list_all p s}"
  using singles_iff [of _ p "\<lambda>_. True"] by auto

lemma rx_lang_Rep_Cls [rx_shapes]:
  "rx_lang (Rep m k (Cls p)) = {s. list_all p s \<and> m \<le> length s \<and> length s \<le> m + k}"
  using singles_iff [of _ p "\<lambda>n. m \<le> n \<and> n \<le> m + k"] by auto

lemma rx_lang_Plus_Cls [rx_shapes]: "rx_lang (Plus (Cls p)) = {s. s \<noteq> [] \<and> list_all p s}"
proof -
  have "(\<exists>c t. s = c # t \<and> p c \<and> list_all p t) \<longleftrightarrow> s \<noteq> [] \<and> list_all p s" for s
    by (cases s) auto
  then show ?thesis
    unfolding rx_lang_Seq_Cls rx_lang_Star_Cls by simp
qed

lemma rx_lang_Lit [rx_shapes]: "rx_lang (Lit s) = {s}"
  unfolding Lit_def by (induction s) auto

lemma rx_lang_LitI [rx_shapes]: "rx_lang (LitI s) = {t. lower t = lower s}"
proof (induction s)
  case Nil
  then show ?case by (auto simp: LitI_def lower_def)
next
  case (Cons c s)
  have "rx_lang (LitI (c # s)) = {a # t |a t. lower_char a = lower_char c \<and> t \<in> rx_lang (LitI s)}"
    by (auto simp: LitI_def rx_lang_Seq_Cls simp del: rx_lang.simps)
  with Cons show ?case by (auto simp: lower_def map_eq_Cons_conv)
qed

lemma fullmatch_head_tail:
  "fullmatch (Seq (Cls p) (Rep 0 k (Cls q))) s \<longleftrightarrow>
     (\<exists>c cs. s = c # cs \<and> p c \<and> list_all q cs \<and> length cs \<le> k)"
  by (auto simp: fullmatch_iff rx_shapes simp del: rx_lang.simps)

lemma fullmatch_head_tail_min:
  "fullmatch (Seq (Cls p) (Rep m k (Cls q))) s \<longleftrightarrow>
     (\<exists>c cs. s = c # cs \<and> p c \<and> list_all q cs \<and> m \<le> length cs \<and> length cs \<le> m + k)"
  by (auto simp: fullmatch_iff rx_shapes simp del: rx_lang.simps)

lemma fullmatch_Plus_Cls: "fullmatch (Plus (Cls p)) s \<longleftrightarrow> s \<noteq> [] \<and> list_all p s"
  unfolding fullmatch_iff rx_lang_Plus_Cls by simp

section \<open>Searching and substituting\<close>

lemma rx_ends_ne_iff: "rx_ends r s \<noteq> [] \<longleftrightarrow> (\<exists>u t. s = u @ t \<and> u \<in> rx_lang r)"
  by (metis list.set_intros(1) neq_Nil_conv rx_ends_iff list.set_cases)

lemma search_iff: "search r s \<longleftrightarrow> (\<exists>v u t. s = v @ u @ t \<and> u \<in> rx_lang r)"
proof (induction s)
  case Nil
  then show ?case by (simp add: rx_ends_iff rx_ends_ne_iff)
next
  case (Cons c cs)
  show ?case
  proof
    assume "search r (c # cs)"
    then consider "rx_ends r (c # cs) \<noteq> []" | "search r cs" by auto
    then show "\<exists>v u t. c # cs = v @ u @ t \<and> u \<in> rx_lang r"
    proof cases
      case 1
      then show ?thesis by (metis append_Nil rx_ends_ne_iff)
    next
      case 2
      then show ?thesis using Cons by (metis append_Cons)
    qed
  next
    assume "\<exists>v u t. c # cs = v @ u @ t \<and> u \<in> rx_lang r"
    then obtain v u t where e: "c # cs = v @ u @ t" "u \<in> rx_lang r" by blast
    show "search r (c # cs)"
    proof (cases v)
      case Nil
      with e have "rx_ends r (c # cs) \<noteq> []" by (auto simp: rx_ends_ne_iff)
      then show ?thesis by simp
    next
      case (Cons a v')
      with e \<open>search r cs \<longleftrightarrow> (\<exists>v u t. cs = v @ u @ t \<and> u \<in> rx_lang r)\<close> show ?thesis by auto
    qed
  qed
qed

lemma search_take: "search r (take n s) \<Longrightarrow> search r s"
  unfolding search_iff by (metis append_assoc append_take_drop_id)

text \<open>A pattern that matches no empty string: the filter in \<open>re_sub\<close> drops nothing.\<close>

lemma re_sub_step:
  assumes "[] \<notin> rx_lang r"
  shows "re_sub r repl (c # cs) =
    (case rx_ends r (c # cs) of [] \<Rightarrow> c # re_sub r repl cs | t # _ \<Rightarrow> repl @ re_sub r repl t)"
proof -
  have "length t \<le> length cs" if "t \<in> set (rx_ends r (c # cs))" for t
  proof -
    from that obtain u where "c # cs = u @ t" "u \<in> rx_lang r" by (auto simp: rx_ends_iff)
    with assms show ?thesis by (cases u) auto
  qed
  then have "filter (\<lambda>t. length t \<le> length cs) (rx_ends r (c # cs)) = rx_ends r (c # cs)"
    and "\<And>t ts. rx_ends r (c # cs) = t # ts \<Longrightarrow> length t \<le> length cs"
    by (auto simp: filter_id_conv)
  then show ?thesis by (auto split: list.splits)
qed

declare re_sub.simps(2) [simp del]

lemma re_sub_Cls: "re_sub (Cls p) repl s = concat (map (\<lambda>c. if p c then repl else [c]) s)"
proof (induction s)
  case (Cons c cs)
  have "[] \<notin> rx_lang (Cls p)" by simp
  from re_sub_step [OF this] Cons show ?case by simp
qed simp

lemma re_sub_set:
  assumes "[] \<notin> rx_lang r"
  shows "set (re_sub r repl s) \<subseteq> set s \<union> set repl"
proof (induction "length s" arbitrary: s rule: less_induct)
  case less
  show ?case
  proof (cases s)
    case (Cons c cs)
    show ?thesis
    proof (cases "rx_ends r (c # cs)")
      case Nil
      then show ?thesis using less [of cs] Cons by (auto simp: re_sub_step [OF assms])
    next
      case (Cons t ts)
      then have "t \<in> set (rx_ends r (c # cs))" by simp
      then obtain u where u: "c # cs = u @ t" "u \<in> rx_lang r" by (auto simp: rx_ends_iff)
      with assms have "length t < length s" using \<open>s = c # cs\<close> by (cases u) auto
      from less [OF this] have "set (re_sub r repl t) \<subseteq> set s \<union> set repl"
        using u(1) \<open>s = c # cs\<close> by (metis Un_assoc Un_mono le_sup_iff order_refl order_trans set_append sup.cobounded2 sup.coboundedI1)
      then show ?thesis using Cons \<open>s = c # cs\<close> by (auto simp: re_sub_step [OF assms])
    qed
  qed simp
qed

end
