(* ===== verification/Redaction.thy ===== *)
theory Redaction
  imports Regex
begin

text \<open>
  Redaction of secret-like text. Both redacting modules of the control plane
  (\<open>controlplane/services.py\<close> and \<open>controlplane/telemetry.py\<close>) replace every match of a pattern
  of one shape, a keyword followed by \<open>\s*[:=]\s*\S+\<close>, by \<open>[REDACTED]\<close>. The locale \<open>redactor\<close>
  states what the keyword alternatives must satisfy and proves once that nothing is left to
  match, also after the result is cut to a length; each module interprets it.
\<close>

definition is_sep :: "char \<Rightarrow> bool" where
  "is_sep c \<longleftrightarrow> c = CHR '':'' \<or> c = CHR ''=''"

text \<open>\<open>kw\s*[:=]\s*\S+\<close>\<close>

definition secret_rx :: "rx \<Rightarrow> rx" where
  "secret_rx kw =
     Seq kw (Seq (Star (Cls is_space)) (Seq (Cls is_sep)
       (Seq (Star (Cls is_space)) (Plus (Cls (\<lambda>c. \<not> is_space c))))))"

text \<open>\<open>v[_-]?w\<close> under \<open>(?i)\<close>\<close>

definition two_words :: "string \<Rightarrow> string \<Rightarrow> rx" where
  "two_words v w = Seq (LitI v) (Seq (Opt (Cls (\<lambda>c. c \<in> set ''_-''))) (LitI w))"

definition redacted_mark :: string where
  "redacted_mark = ''[REDACTED]''"

text \<open>The words a match consists of before its secret value.\<close>

definition secret_heads :: "rx \<Rightarrow> string set" where
  "secret_heads kw =
     {k @ w @ [c] @ v |k w c v. k \<in> rx_lang kw \<and> list_all is_space w \<and> is_sep c \<and> list_all is_space v}"

lemma rx_lang_secret_rx:
  "rx_lang (secret_rx kw) = {h @ x # n |h x n. h \<in> secret_heads kw \<and> \<not> is_space x \<and> list_all (\<lambda>c. \<not> is_space c) n}"
proof -
  have plus: "rx_lang (Plus (Cls (\<lambda>c. \<not> is_space c))) =
      {x # n |x n. \<not> is_space x \<and> list_all (\<lambda>c. \<not> is_space c) n}"
    unfolding rx_lang_Seq_Cls rx_lang_Star_Cls by simp
  have tail: "rx_lang (Seq (Star (Cls is_space)) (Plus (Cls (\<lambda>c. \<not> is_space c)))) =
      {v @ x # n |v x n. list_all is_space v \<and> \<not> is_space x \<and> list_all (\<lambda>c. \<not> is_space c) n}"
    unfolding rx_lang.simps(3) [of "Star (Cls is_space)"] plus rx_lang_Star_Cls by blast
  have sep: "rx_lang (Seq (Cls is_sep) (Seq (Star (Cls is_space)) (Plus (Cls (\<lambda>c. \<not> is_space c))))) =
      {c # v @ x # n |c v x n. is_sep c \<and> list_all is_space v \<and> \<not> is_space x \<and> list_all (\<lambda>c. \<not> is_space c) n}"
    unfolding rx_lang_Seq_Cls [of is_sep] tail by blast
  have mid: "rx_lang (Seq (Star (Cls is_space)) (Seq (Cls is_sep)
        (Seq (Star (Cls is_space)) (Plus (Cls (\<lambda>c. \<not> is_space c)))))) =
      {w @ c # v @ x # n |w c v x n. list_all is_space w \<and> is_sep c \<and> list_all is_space v
         \<and> \<not> is_space x \<and> list_all (\<lambda>c. \<not> is_space c) n}"
    unfolding rx_lang.simps(3) [of "Star (Cls is_space)" "Seq (Cls is_sep) _"] sep rx_lang_Star_Cls by blast
  have "rx_lang (secret_rx kw) =
      {k @ w @ c # v @ x # n |k w c v x n. k \<in> rx_lang kw \<and> list_all is_space w \<and> is_sep c
         \<and> list_all is_space v \<and> \<not> is_space x \<and> list_all (\<lambda>c. \<not> is_space c) n}"
    unfolding secret_rx_def rx_lang.simps(3) [of kw] mid by blast
  also have "\<dots> = {h @ x # n |h x n. h \<in> secret_heads kw \<and> \<not> is_space x \<and> list_all (\<lambda>c. \<not> is_space c) n}"
    unfolding secret_heads_def by (auto, metis append_Cons append_assoc append_Nil) blast
  finally show ?thesis .
qed

lemma append_split_at:
  "a @ b = v @ y \<Longrightarrow> (\<exists>w. a = v @ w \<and> w \<noteq> [] \<and> w @ b = y) \<or> (\<exists>w. v = a @ w \<and> b = w @ y)"
  by (metis append_Nil append_Nil2 append_eq_append_conv2)

locale redactor =
  fixes kw :: rx
  assumes kw_word: "k \<in> rx_lang kw \<Longrightarrow> k \<noteq> [] \<and> \<not> is_space (hd k) \<and> CHR ''['' \<notin> set k"
    and kw_not_in_mark: "k \<in> rx_lang kw \<Longrightarrow> redacted_mark = u @ v \<Longrightarrow> v \<noteq> [] \<Longrightarrow> \<not> starts_with k (v @ t)"
begin

lemma head_no_bracket: "h \<in> secret_heads kw \<Longrightarrow> CHR ''['' \<notin> set h"
proof -
  have "\<not> is_space CHR ''[''" "\<not> is_sep CHR ''[''" by (simp_all add: is_space_def is_sep_def in_range_def)
  then show "h \<in> secret_heads kw \<Longrightarrow> CHR ''['' \<notin> set h"
    using kw_word unfolding secret_heads_def by (auto simp: list_all_iff)
qed

lemma match_ne: "[] \<notin> rx_lang (secret_rx kw)"
  by (simp add: rx_lang_secret_rx)

lemma match_starts_word: "u \<in> rx_lang (secret_rx kw) \<Longrightarrow> \<exists>y z. u = y # z \<and> \<not> is_space y"
  unfolding rx_lang_secret_rx secret_heads_def using kw_word
  by (auto simp: neq_Nil_conv) (metis append_Cons list.sel(1) neq_Nil_conv)

text \<open>Substitution leaves the text before the first bracket alone, but for one word character.\<close>

lemma sub_prefix:
  "CHR ''['' \<notin> set w \<Longrightarrow> re_sub (secret_rx kw) redacted_mark s = w @ x # z \<Longrightarrow> \<not> is_space x
   \<Longrightarrow> \<exists>y z'. s = w @ y # z' \<and> \<not> is_space y"
proof (induction s arbitrary: w)
  case Nil
  then show ?case by simp
next
  case (Cons c cs)
  show ?case
  proof (cases "rx_ends (secret_rx kw) (c # cs)")
    case Nil
    then have e: "c # re_sub (secret_rx kw) redacted_mark cs = w @ x # z"
      using Cons.prems(2) re_sub_step [OF match_ne] by simp
    show ?thesis
    proof (cases w)
      case Nil
      with e Cons.prems(3) show ?thesis by auto
    next
      case (Cons a w')
      with e have "a = c" "re_sub (secret_rx kw) redacted_mark cs = w' @ x # z" by auto
      with Cons.IH [of w'] Cons.prems Cons show ?thesis by auto
    qed
  next
    case (Cons t ts)
    then have "w @ x # z = redacted_mark @ re_sub (secret_rx kw) redacted_mark t"
      using Cons.prems(2) re_sub_step [OF match_ne] by simp
    then have "w = []" using Cons.prems(1) by (cases w) (auto simp: redacted_mark_def)
    moreover from Cons obtain u where "c # cs = u @ t" "u \<in> rx_lang (secret_rx kw)"
      by (metis list.set_intros(1) rx_ends_iff)
    then have "\<not> is_space c" using match_starts_word by fastforce
    ultimately show ?thesis by auto
  qed
qed

lemma no_match_in_mark:
  "redacted_mark = u @ v \<Longrightarrow> v \<noteq> [] \<Longrightarrow> v @ t = m @ r \<Longrightarrow> m \<notin> rx_lang (secret_rx kw)"
proof
  assume v: "redacted_mark = u @ v" "v \<noteq> []" and e: "v @ t = m @ r" and "m \<in> rx_lang (secret_rx kw)"
  then obtain k l where k: "m = k @ l" "k \<in> rx_lang kw"
    unfolding rx_lang_secret_rx secret_heads_def by auto
  then have "starts_with k (v @ t)" using e by (simp add: starts_with_iff)
  with kw_not_in_mark [OF k(2) v] show False by blast
qed

theorem sub_no_match: "\<not> search (secret_rx kw) (re_sub (secret_rx kw) redacted_mark s)"
proof (induction s rule: length_induct)
  case (1 s)
  show ?case
  proof (cases s)
    case Nil
    then show ?thesis using match_ne by (simp add: search_iff)
  next
    case (Cons c cs)
    let ?R = "secret_rx kw" and ?sub = "re_sub (secret_rx kw) redacted_mark"
    show ?thesis
    proof (cases "rx_ends ?R (c # cs)")
      case Nil
      then have sub: "?sub s = c # ?sub cs" using Cons re_sub_step [OF match_ne] by simp
      have "rx_ends ?R (?sub s) = []"
      proof (rule ccontr)
        assume "rx_ends ?R (?sub s) \<noteq> []"
        then obtain h x n where h: "?sub s = h @ x # n" "h \<in> secret_heads kw" "\<not> is_space x"
          unfolding rx_ends_ne_iff rx_lang_secret_rx by auto
        from sub_prefix [OF head_no_bracket [OF h(2)] h(1) h(3)]
        obtain y z where y: "s = h @ y # z" "\<not> is_space y" by blast
        with h(2) have "h @ [y] \<in> rx_lang ?R" unfolding rx_lang_secret_rx by fastforce
        moreover have "s = (h @ [y]) @ z" using y(1) by simp
        ultimately have "rx_ends ?R s \<noteq> []" unfolding rx_ends_ne_iff by blast
        with Nil Cons show False by simp
      qed
      moreover have "\<not> search ?R (?sub cs)" using 1 Cons by simp
      ultimately show ?thesis using sub by simp
    next
      case (Cons t ts)
      then obtain u where u: "c # cs = u @ t" "u \<in> rx_lang ?R"
        by (metis list.set_intros(1) rx_ends_iff)
      then have "length t < length s" using match_ne \<open>s = c # cs\<close> by (cases u) auto
      then have IH: "\<not> search ?R (?sub t)" using 1 by blast
      have sub: "?sub s = redacted_mark @ ?sub t"
        using Cons \<open>s = c # cs\<close> re_sub_step [OF match_ne] by simp
      have "\<not> (\<exists>v m r. redacted_mark @ ?sub t = v @ m @ r \<and> m \<in> rx_lang ?R)"
      proof (rule notI, elim exE conjE)
        fix v m r
        assume e: "redacted_mark @ ?sub t = v @ m @ r" and m: "m \<in> rx_lang ?R"
        from append_split_at [OF e]
        have "(\<exists>w. redacted_mark = v @ w \<and> w \<noteq> [] \<and> w @ ?sub t = m @ r) \<or> (\<exists>w. v = redacted_mark @ w \<and> ?sub t = w @ m @ r)" .
        then show False
        proof (elim disjE exE conjE)
          fix w
          assume "redacted_mark = v @ w" "w \<noteq> []" "w @ ?sub t = m @ r"
          from no_match_in_mark [OF this] m show False by contradiction
        next
          fix w
          assume "?sub t = w @ m @ r"
          with m have "search ?R (?sub t)" unfolding search_iff by blast
          with IH show False by contradiction
        qed
      qed
      then show ?thesis unfolding sub search_iff .
    qed
  qed
qed

theorem redact_no_match: "\<not> search (secret_rx kw) (take n (re_sub (secret_rx kw) redacted_mark s))"
  using sub_no_match search_take by blast

theorem redact_fixpoint: "\<not> search (secret_rx kw) s \<Longrightarrow> re_sub (secret_rx kw) redacted_mark s = s"
  by (induction s) (simp_all add: re_sub_step [OF match_ne])

end


section \<open>Keywords given by their beginnings\<close>

text \<open>What a module has to check of its keywords: each begins, in lower case, with one of a few
  words, and each of these words differs from every part of the mark at some position both have.\<close>

fun clash :: "string \<Rightarrow> string \<Rightarrow> bool" where
  "clash (a # p) (b # v) = (a \<noteq> b \<or> clash p v)"
| "clash _ _ = False"

definition mark_tails :: "string list" where
  "mark_tails = map (\<lambda>i. drop i (lower redacted_mark)) [0..<length redacted_mark]"

definition is_kw_char :: "char \<Rightarrow> bool" where
  "is_kw_char c \<longleftrightarrow> is_lower_az c \<or> c = CHR ''_'' \<or> c = CHR ''-''"

lemma mark_tails_eval:
  "mark_tails = [''[redacted]'', ''redacted]'', ''edacted]'', ''dacted]'', ''acted]'', ''cted]'', ''ted]'', ''ed]'', ''d]'', '']'']"
  by code_simp

text \<open>The keyword of an alternative: a word, or two words with at most one of \<open>_-\<close> between them.\<close>

lemma keyword_word: "k \<in> rx_lang (LitI w) \<Longrightarrow> lower k = lower w"
  by (simp add: rx_lang_LitI)

lemma keyword_two_words:
  assumes "k \<in> rx_lang (two_words v w)"
  shows "\<exists>m. lower k = lower v @ m @ lower w \<and> list_all is_kw_char m"
proof -
  from assms obtain a b c where k: "k = a @ b @ c" "lower a = lower v" "lower c = lower w"
    and b: "list_all (\<lambda>c. c \<in> set ''_-'') b"
    by (auto simp: two_words_def rx_lang_LitI rx_lang_Rep_Cls simp del: rx_lang.simps(6))
  have "list_all is_kw_char (lower b)"
    using b unfolding lower_def by (induction b) (auto simp: is_kw_char_def lower_char_def in_range_def)
  with k show ?thesis by (intro exI [of _ "lower b"]) simp
qed

lemma clash_starts_with: "clash p v \<Longrightarrow> \<not> starts_with p (v @ t)"
  by (induction p v rule: clash.induct) auto

lemma kw_char_plain: "is_kw_char (lower_char c) \<Longrightarrow> \<not> is_space c \<and> c \<noteq> CHR ''[''"
  by (auto simp: is_kw_char_def lower_char_def char_class_defs split: if_splits)

lemma kw_chars_plain: "list_all is_kw_char (lower k) \<Longrightarrow> list_all (\<lambda>c. \<not> is_space c \<and> c \<noteq> CHR ''['') k"
  unfolding lower_def by (induction k) (auto dest: kw_char_plain)

lemma redactor_by_words:
  assumes lang: "\<And>k. k \<in> rx_lang kw \<Longrightarrow> list_all is_kw_char (lower k) \<and> (\<exists>p \<in> set ps. starts_with p (lower k))"
    and words: "list_all (\<lambda>p. p \<noteq> [] \<and> list_all (clash p) mark_tails) ps"
  shows "redactor kw"
proof
  fix k assume k: "k \<in> rx_lang kw"
  then obtain p where p: "p \<in> set ps" "starts_with p (lower k)" using lang by blast
  with words have "p \<noteq> []" by (simp add: list_all_iff)
  with p(2) have "k \<noteq> []" by (cases p) (auto simp: lower_def)
  moreover have "list_all (\<lambda>c. \<not> is_space c \<and> c \<noteq> CHR ''['') k" using lang [OF k] kw_chars_plain by blast
  ultimately show "k \<noteq> [] \<and> \<not> is_space (hd k) \<and> CHR ''['' \<notin> set k"
    by (cases k) (auto simp: list_all_iff)
  fix u v t assume v: "redacted_mark = u @ v" "v \<noteq> []"
  have "length u < length redacted_mark" "lower v = drop (length u) (lower redacted_mark)"
    unfolding v(1) using v(2) by (simp_all add: lower_def)
  then have "lower v \<in> set mark_tails" unfolding mark_tails_def by auto
  with words p(1) have "clash p (lower v)" by (simp add: list_all_iff)
  from clash_starts_with [OF this] have no: "\<not> starts_with p (lower v @ r)" for r .
  show "\<not> starts_with k (v @ t)"
  proof
    assume "starts_with k (v @ t)"
    then obtain r where "v @ t = k @ r" by (auto simp: starts_with_iff)
    then have "lower v @ lower t = lower k @ lower r" by (metis lower_append)
    moreover obtain r' where "lower k = p @ r'" using p(2) by (auto simp: starts_with_iff)
    ultimately have "starts_with p (lower v @ lower t)" by (simp add: starts_with_iff)
    with no show False by blast
  qed
qed

end
