(* ===== verification/PyUrl.thy ===== *)
theory PyUrl
  imports PyString
begin

text \<open>
  Python's \<open>urllib.parse.urlsplit\<close> and the attributes of its result, as the modelled code uses them.
  Whether the text between brackets in a network location is an IPv6 (or later) address is the
  argument \<open>ip_ok\<close> (the standard library asks its \<open>ipaddress\<close> module). The check of a non-ASCII location
  for characters that normalise to a delimiter never fires on code points up to 255.
\<close>

record url =
  u_scheme :: string
  u_netloc :: string
  u_path :: string
  u_query :: string
  u_fragment :: string

definition is_scheme_char :: "char \<Rightarrow> bool" where
  "is_scheme_char c \<longleftrightarrow> is_alnum_az c \<or> c \<in> set ''+-.''"

text \<open>\<open>lstrip\<close> of control characters and spaces, then tabs and line ends are removed everywhere.\<close>

definition url_clean :: "string \<Rightarrow> string" where
  "url_clean s = filter (\<lambda>c. ord c \<notin> {9, 10, 13}) (lstrip_by (\<lambda>c. ord c \<le> 32) s)"

definition split_scheme :: "string \<Rightarrow> string \<times> string" where
  "split_scheme s =
     (case partition_on CHR '':'' s of (h, found, r) \<Rightarrow>
        if found \<and> h \<noteq> [] \<and> is_alpha_az (hd h) \<and> list_all is_scheme_char h then (lower h, r) else ([], s))"

definition is_netloc_end :: "char \<Rightarrow> bool" where
  "is_netloc_end c \<longleftrightarrow> c \<in> set ''/?#''"

definition split_netloc :: "string \<Rightarrow> string \<times> string" where
  "split_netloc s =
     (if starts_with ''//'' s
      then (takeWhile (\<lambda>c. \<not> is_netloc_end c) (drop 2 s), dropWhile (\<lambda>c. \<not> is_netloc_end c) (drop 2 s))
      else ([], s))"

definition bracketed_host :: "string \<Rightarrow> string" where
  "bracketed_host netloc = fst (partition_on CHR '']'' (snd (snd (partition_on CHR ''['' netloc))))"

definition urlsplit :: "(string \<Rightarrow> bool) \<Rightarrow> string \<Rightarrow> url res" where
  "urlsplit ip_ok s =
     (let (scheme, r) = split_scheme (url_clean s);
          (netloc, r1) = split_netloc r
      in if (CHR ''['' \<in> set netloc) \<noteq> (CHR '']'' \<in> set netloc) then Inl (ValueError ''Invalid IPv6 URL'')
         else if CHR ''['' \<in> set netloc \<and> \<not> ip_ok (bracketed_host netloc)
         then Inl (ValueError ''Invalid IPv6 address'')
         else
           let (r2, _, fragment) = partition_on CHR ''#'' r1;
               (path, _, query) = partition_on CHR ''?'' r2
           in Inr \<lparr>u_scheme = scheme, u_netloc = netloc, u_path = path, u_query = query, u_fragment = fragment\<rparr>)"

text \<open>\<open>username\<close>, \<open>password\<close>: \<open>None\<close> without the delimiter that would introduce them.\<close>

definition u_username :: "url \<Rightarrow> string option" where
  "u_username u =
     (case rpartition_on CHR ''@'' (u_netloc u) of (userinfo, found, _) \<Rightarrow>
        if found then Some (fst (partition_on CHR '':'' userinfo)) else None)"

definition u_password :: "url \<Rightarrow> string option" where
  "u_password u =
     (case rpartition_on CHR ''@'' (u_netloc u) of (userinfo, found, _) \<Rightarrow>
        if found then (case partition_on CHR '':'' userinfo of (_, have, pw) \<Rightarrow> if have then Some pw else None) else None)"

text \<open>The host and the text of the port.\<close>

definition u_hostinfo :: "url \<Rightarrow> string \<times> string option" where
  "u_hostinfo u =
     (let hostinfo = snd (snd (rpartition_on CHR ''@'' (u_netloc u)));
          (_, bracketed, inner) = partition_on CHR ''['' hostinfo;
          (host, port) =
            (if bracketed
             then (case partition_on CHR '']'' inner of (h, _, r) \<Rightarrow> (h, snd (snd (partition_on CHR '':'' r))))
             else (case partition_on CHR '':'' hostinfo of (h, _, p) \<Rightarrow> (h, p)))
      in (host, if port = [] then None else Some port))"

text \<open>The host in lower case, but for an IPv6 zone behind a percent sign.\<close>

definition u_hostname :: "url \<Rightarrow> string option" where
  "u_hostname u =
     (let h = fst (u_hostinfo u)
      in if h = [] then None
         else (case partition_on CHR ''%'' h of (a, found, z) \<Rightarrow>
           Some (lower a @ (if found then CHR ''%'' # z else []))))"

definition u_port :: "url \<Rightarrow> nat option res" where
  "u_port u =
     (case snd (u_hostinfo u) of None \<Rightarrow> Inr None
      | Some p \<Rightarrow>
          if \<not> list_all is_digit p then Inl (ValueError ''Port could not be cast to integer value'')
          else if 65535 < digits_val p then Inl (ValueError ''Port out of range 0-65535'')
          else Inr (Some (digits_val p)))"

section \<open>Lemmas\<close>

lemma partition_on_fst: "c \<notin> set (fst (partition_on c s))"
  by (auto simp: partition_on_def dest: set_takeWhileD)

lemma rpartition_on_found: "fst (snd (rpartition_on c s)) \<longleftrightarrow> c \<in> set s"
  by (simp add: rpartition_on_def)

lemma userinfo_iff: "u_username u = None \<longleftrightarrow> CHR ''@'' \<notin> set (u_netloc u)"
  by (simp add: u_username_def rpartition_on_def)

lemma urlsplit_netloc: "urlsplit ip_ok s = Inr u \<Longrightarrow> \<forall>c \<in> set (u_netloc u). \<not> is_netloc_end c"
  by (auto simp: urlsplit_def split_netloc_def Let_def split: prod.splits if_splits dest: set_takeWhileD)

end
