(* ===== verification/Telemetry.thy ===== *)
theory Telemetry
  imports Redaction PyUrl Json "HOL-Library.List_Lexorder" "HOL-Library.Char_ord" "HOL-Library.Product_Lexorder"
begin

text \<open>
  The telemetry of the control plane: \<open>controlplane/telemetry.py\<close>. Class \<open>Telemetry\<close> is the record
  \<open>telemetry\<close>. What a method does while it holds the lock is one atomic operation; \<open>observe\<close> is two of
  them, \<open>record_event\<close> and then \<open>enqueue\<close>, between which other threads may run. Durations and clock
  readings are integers in milliseconds; the random identifiers \<open>secrets.token_hex\<close> gives are arguments.
  Of the exporter thread one round of its loop is modelled, with the outcome of the HTTP request as an
  argument; the request itself and the log line of an event are not.
\<close>

section \<open>Text\<close>

definition MAX_CORRELATION :: nat where
  "MAX_CORRELATION = 64"

definition MAX_VALUE :: nat where
  "MAX_VALUE = 256"

definition ALLOWED_COMPONENTS :: "string list" where
  "ALLOWED_COMPONENTS = [''controlplane'', ''agent'', ''cli'']"

definition ALLOWED_KINDS :: "string list" where
  "ALLOWED_KINDS = [''diagnostic'', ''kubernetes_release'', ''deploy'', ''health'', ''backup'', ''restore'', ''graphql'']"

definition ALLOWED_OUTCOMES :: "string list" where
  "ALLOWED_OUTCOMES = [''pending'', ''running'', ''succeeded'', ''failed'', ''cancelled'', ''offline'', ''overloaded'',
     ''disconnected'', ''timeout'', ''rolled_back'', ''rollback_blocked'', ''recovery_required'']"

text \<open>The complement of \<open>_SAFE\<close>: \<open>[a-zA-Z0-9_.:/@+-]\<close>.\<close>

definition is_safe_char :: "char \<Rightarrow> bool" where
  "is_safe_char c \<longleftrightarrow> is_alnum_az c \<or> c \<in> set ''_.:/@+-''"

definition SENSITIVE_KEYWORDS :: rx where
  "SENSITIVE_KEYWORDS = Alts [LitI ''credential'', LitI ''password'', LitI ''secret'', LitI ''token'', LitI ''authorization'',
     two_words ''access'' ''key'', two_words ''database'' ''url'', LitI ''kubeconfig'']"

text \<open>\<open>fresh\<close> is what \<open>secrets.token_hex(16)\<close> would give.\<close>

definition correlation_id :: "string \<Rightarrow> string option \<Rightarrow> string" where
  "correlation_id fresh value =
     (case value of None \<Rightarrow> fresh
      | Some v \<Rightarrow>
          let cleaned = take MAX_CORRELATION (re_sub (Cls (\<lambda>c. \<not> is_safe_char c)) ''_''
                (replace_char CHR 0x0D ''_'' (replace_char CHR 0x0A ''_'' v)))
          in if cleaned = [] then fresh else cleaned)"

definition telemetry_redact :: "string \<Rightarrow> string" where
  "telemetry_redact value =
     take MAX_VALUE (re_sub (secret_rx SENSITIVE_KEYWORDS) redacted_mark
       (replace_char CHR 0x0A '' '' (replace_char CHR 0x0D '' '' value)))"

definition validate_otlp_endpoint :: "(string \<Rightarrow> bool) \<Rightarrow> string \<Rightarrow> string res" where
  "validate_otlp_endpoint ip_ok value =
     (let value = strip value
      in if value = [] then Inr []
         else bindR (urlsplit ip_ok value) (\<lambda>parsed.
           if u_scheme parsed \<notin> {''http'', ''https''} \<or> u_hostname parsed = None
           then Inl (ValueError ''OTLP endpoint must be an http(s) URL'')
           else if u_username parsed \<notin> {None, Some []} \<or> u_password parsed \<notin> {None, Some []}
                \<or> u_query parsed \<noteq> [] \<or> u_fragment parsed \<noteq> []
           then Inl (ValueError ''OTLP endpoint must be configured without credentials, query, or fragment'')
           else Inr (rstrip_by (\<lambda>c. c = CHR ''/'') value)))"

definition traceparent :: "string \<Rightarrow> string \<Rightarrow> string option \<Rightarrow> string option \<Rightarrow> string" where
  "traceparent fresh16 fresh8 trace_id span_id =
     (let trace = (case trace_id of Some t \<Rightarrow> if length t = 32 then t else fresh16 | None \<Rightarrow> fresh16);
          span = (case span_id of Some t \<Rightarrow> if length t = 16 then t else fresh8 | None \<Rightarrow> fresh8)
      in ''00-'' @ trace @ ''-'' @ span @ ''-01'')"

section \<open>State\<close>

record telemetry_event =
  te_component :: string
  te_kind :: string
  te_outcome :: string
  te_duration_ms :: int
  te_correlation :: string
  te_project_id :: "nat option"

definition event_payload :: "telemetry_event \<Rightarrow> json" where
  "event_payload e = JObj
     [(''component'', JStr (te_component e)), (''kind'', JStr (te_kind e)), (''outcome'', JStr (te_outcome e)),
      (''duration_ms'', JInt (te_duration_ms e)), (''correlation_id'', JStr (te_correlation e)),
      (''project_id'', (case te_project_id e of None \<Rightarrow> JNull | Some n \<Rightarrow> JInt (int n)))]"

text \<open>\<open>ids\<close> are the trace and span identifiers \<open>secrets.token_hex\<close> gives.\<close>

definition otlp_attribute :: "string \<Rightarrow> string \<Rightarrow> json" where
  "otlp_attribute k v = JObj [(''key'', JStr k), (''value'', JObj [(''stringValue'', JStr v)])]"

definition otlp_payload :: "string \<times> string \<Rightarrow> telemetry_event \<Rightarrow> json" where
  "otlp_payload ids e = JObj [(''resourceSpans'', JArr [JObj
     [(''resource'', JObj [(''attributes'', JArr [otlp_attribute ''service.name'' ''djangoops-controlplane''])]),
      (''scopeSpans'', JArr [JObj
        [(''scope'', JObj [(''name'', JStr ''djangoops'')]),
         (''spans'', JArr [JObj
           [(''traceId'', JStr (fst ids)), (''spanId'', JStr (snd ids)), (''name'', JStr (''djangoops.'' @ te_kind e)),
            (''attributes'', JArr [otlp_attribute ''djangoops.outcome'' (te_outcome e),
                                 otlp_attribute ''djangoops.correlation_id'' (te_correlation e)])]])]])]])]"

type_synonym label = "string \<times> string \<times> string"

record telemetry =
  tl_endpoint :: string
  tl_counts :: "(label, int) dict"
  tl_durations :: "(label, int) dict"
  tl_inflight :: "(string \<times> string, int) dict"
  tl_events :: "telemetry_event list"
  tl_exports :: "json list"
  tl_size :: nat
  tl_dropped :: int
  tl_export_errors :: int
  tl_worker_started :: bool

definition init_telemetry :: "(string \<Rightarrow> bool) \<Rightarrow> int \<Rightarrow> string \<Rightarrow> telemetry res" where
  "init_telemetry ip_ok max_buffer configured =
     bindR (validate_otlp_endpoint ip_ok configured) (\<lambda>endpoint. Inr
       \<lparr>tl_endpoint = endpoint, tl_counts = [], tl_durations = [], tl_inflight = [], tl_events = [], tl_exports = [],
        tl_size = nat (max 8 (min max_buffer 1024)), tl_dropped = 0, tl_export_errors = 0, tl_worker_started = False\<rparr>)"

text \<open>\<open>Counter\<close>: a missing key counts as zero.\<close>

definition counter_get :: "('k, int) dict \<Rightarrow> 'k \<Rightarrow> int" where
  "counter_get d k = (case dget d k of None \<Rightarrow> 0 | Some n \<Rightarrow> n)"

definition counter_add :: "'k \<Rightarrow> int \<Rightarrow> ('k, int) dict \<Rightarrow> ('k, int) dict" where
  "counter_add k n d = dput k (counter_get d k + n) d"

definition labels_of :: "string \<Rightarrow> string \<Rightarrow> string \<Rightarrow> label" where
  "labels_of component kind outcome =
     (if component \<in> set ALLOWED_COMPONENTS then component else ''controlplane'',
      if kind \<in> set ALLOWED_KINDS then kind else ''diagnostic'',
      if outcome \<in> set ALLOWED_OUTCOMES then outcome else ''failed'')"

text \<open>\<open>deque(maxlen=cap).append\<close>\<close>

definition bounded_append :: "nat \<Rightarrow> 'a \<Rightarrow> 'a list \<Rightarrow> 'a list" where
  "bounded_append cap x xs = drop (Suc (length xs) - cap) (xs @ [x])"

section \<open>Operations\<close>

definition start_inflight :: "string \<Rightarrow> string \<Rightarrow> telemetry \<Rightarrow> telemetry" where
  "start_inflight component kind t =
     (case labels_of component kind ''pending'' of (c, k, _) \<Rightarrow>
        t\<lparr>tl_inflight := counter_add (c, k) 1 (tl_inflight t)\<rparr>)"

definition telemetry_start :: "string \<Rightarrow> int \<Rightarrow> string \<Rightarrow> string \<Rightarrow> telemetry \<Rightarrow> (string \<times> int) \<times> telemetry" where
  "telemetry_start fresh now component kind t = ((correlation_id fresh None, now), start_inflight component kind t)"

definition enqueue :: "string \<times> string \<Rightarrow> telemetry_event \<Rightarrow> telemetry \<Rightarrow> telemetry" where
  "enqueue ids event t =
     (if tl_endpoint t = [] then t
      else if tl_size t \<le> length (tl_exports t) then t\<lparr>tl_dropped := tl_dropped t + 1\<rparr>
      else t\<lparr>tl_exports := tl_exports t @ [otlp_payload ids event], tl_worker_started := True\<rparr>)"

definition make_event :: "string \<Rightarrow> string \<Rightarrow> string \<Rightarrow> string \<Rightarrow> int \<Rightarrow> string option \<Rightarrow> nat option \<Rightarrow> telemetry_event" where
  "make_event fresh component kind outcome duration_ms correlation project_id =
     (case labels_of component kind outcome of (c, k, oc) \<Rightarrow>
        \<lparr>te_component = c, te_kind = k, te_outcome = oc, te_duration_ms = max 0 (min duration_ms 86400000),
         te_correlation = correlation_id fresh correlation, te_project_id = project_id\<rparr>)"

definition record_event :: "telemetry_event \<Rightarrow> bool \<Rightarrow> telemetry \<Rightarrow> telemetry" where
  "record_event event decrement_inflight t =
     (let l = (te_component event, te_kind event, te_outcome event);
          key = (te_component event, te_kind event)
      in t\<lparr>tl_counts := counter_add l 1 (tl_counts t),
           tl_durations := counter_add l (te_duration_ms event) (tl_durations t),
           tl_inflight := (if decrement_inflight
             then dput key (max 0 (counter_get (tl_inflight t) key - 1)) (tl_inflight t) else tl_inflight t),
           tl_events := bounded_append (tl_size t) event (tl_events t)\<rparr>)"

definition observe :: "string \<Rightarrow> string \<times> string \<Rightarrow> string \<Rightarrow> string \<Rightarrow> string \<Rightarrow> int \<Rightarrow> string option \<Rightarrow> nat option \<Rightarrow> bool \<Rightarrow> telemetry \<Rightarrow> telemetry" where
  "observe fresh ids component kind outcome duration_ms correlation project_id decrement_inflight t =
     (let event = make_event fresh component kind outcome duration_ms correlation project_id
      in enqueue ids event (record_event event decrement_inflight t))"

definition finish :: "string \<Rightarrow> string \<times> string \<Rightarrow> string \<Rightarrow> string \<Rightarrow> string \<Rightarrow> string \<Rightarrow> int \<Rightarrow> nat option \<Rightarrow> int \<Rightarrow> telemetry \<Rightarrow> telemetry" where
  "finish fresh ids component kind outcome correlation started project_id now t =
     observe fresh ids component kind outcome (min (max 0 (now - started)) 86400000) (Some correlation) project_id True t"

text \<open>One round of \<open>_export_loop\<close>: the payload it takes from the queue (none: it waits), and the state
  after the request; \<open>ok\<close> is whether the request went through.\<close>

definition export_round :: "bool \<Rightarrow> telemetry \<Rightarrow> json option \<times> telemetry" where
  "export_round ok t =
     (case tl_exports t of [] \<Rightarrow> (None, t)
      | x # xs \<Rightarrow> (Some x, t\<lparr>tl_exports := xs, tl_export_errors := tl_export_errors t + (if ok then 0 else 1)\<rparr>))"

definition recent_for_project :: "nat \<Rightarrow> int \<Rightarrow> telemetry \<Rightarrow> json list" where
  "recent_for_project project_id limit t =
     (let xs = map event_payload (filter (\<lambda>e. te_project_id e = Some project_id) (tl_events t));
          n = nat (max 1 (min limit 50))
      in drop (length xs - n) xs)"

section \<open>Exposition\<close>

definition quoted :: "string \<Rightarrow> string \<Rightarrow> string" where
  "quoted name value = name @ ''='' @ [CHR 0x22] @ value @ [CHR 0x22]"

definition label_text :: "label \<Rightarrow> string" where
  "label_text l = (case l of (c, k, oc) \<Rightarrow>
     ''{'' @ join '','' [quoted ''component'' c, quoted ''kind'' k, quoted ''outcome'' oc] @ ''}'')"

definition inflight_text :: "string \<times> string \<Rightarrow> string" where
  "inflight_text l = (case l of (c, k) \<Rightarrow> ''{'' @ join '','' [quoted ''component'' c, quoted ''kind'' k] @ ''}'')"

definition METRIC_NAME :: rx where
  "METRIC_NAME = Seq (Lit ''djangoops_'') (Plus (Cls (\<lambda>c. is_lower_az c \<or> is_digit c \<or> c = CHR ''_'')))"

definition prometheus_lines :: "(string, int) dict \<Rightarrow> telemetry \<Rightarrow> string list" where
  "prometheus_lines extra t =
     ''# TYPE djangoops_operations_total counter''
     # map (\<lambda>(l, n). ''djangoops_operations_total'' @ label_text l @ '' '' @ int_str n) (sort_key fst (tl_counts t))
     @ ''# TYPE djangoops_operation_duration_milliseconds_total counter''
     # map (\<lambda>(l, n). ''djangoops_operation_duration_milliseconds_total'' @ label_text l @ '' '' @ int_str n) (sort_key fst (tl_durations t))
     @ ''# TYPE djangoops_operations_inflight gauge''
     # map (\<lambda>(l, n). ''djangoops_operations_inflight'' @ inflight_text l @ '' '' @ int_str n) (sort_key fst (tl_inflight t))
     @ [''djangoops_telemetry_dropped_total '' @ int_str (tl_dropped t),
        ''djangoops_telemetry_export_errors_total '' @ int_str (tl_export_errors t)]
     @ map (\<lambda>(name, n). name @ '' '' @ int_str (max 0 n))
         (filter (\<lambda>(name, _). fullmatch METRIC_NAME name) (sort_key fst extra))"

definition prometheus :: "(string, int) dict \<Rightarrow> telemetry \<Rightarrow> string" where
  "prometheus extra t = join [CHR 0x0A] (prometheus_lines extra t) @ [CHR 0x0A]"

end
