(* ===== verification/Json_Roundtrip.thy ===== *)
theory Json_Roundtrip
  imports Json
begin

text \<open>
  Reading back what \<open>json.dumps\<close> wrote gives the value with the keys of its objects in order:
  strings with every escape, integers, floats given by a number text, nested lists and objects with
  distinct keys. The fuel of \<open>json_loads\<close> is shown to be enough.
\<close>

section \<open>Strings\<close>

lemma ord_inject: "ord c = ord d \<Longrightarrow> c = d"
  by simp

lemma ord_char_of [simp]: "n < 256 \<Longrightarrow> ord (char_of n :: char) = n"
  by (simp add: of_char_of)

lemma hex_val_digit: "k < 16 \<Longrightarrow> hex_val (hex_digit k) = Some k"
  by (auto simp: hex_val_def hex_digit_def is_digit_def in_range_def)

lemma hex4_byte: "ord c < 256 \<and> hex4 CHR ''0'' CHR ''0'' (hex_digit (ord c div 16)) (hex_digit (ord c mod 16)) = Some (ord c)"
proof -
  have "hex_val (hex_digit (ord c div 16)) = Some (ord c div 16)" "hex_val (hex_digit (ord c mod 16)) = Some (ord c mod 16)"
  proof -
    have "ord c div 16 < 16" using nat_of_char_less_256 [of c] by (simp add: less_mult_imp_div_less)
    then show "hex_val (hex_digit (ord c div 16)) = Some (ord c div 16)" by (rule hex_val_digit)
    show "hex_val (hex_digit (ord c mod 16)) = Some (ord c mod 16)" by (rule hex_val_digit) simp
  qed
  moreover have "hex_val CHR ''0'' = Some 0" by (simp add: hex_val_def is_digit_def in_range_def)
  ultimately show ?thesis by (simp add: hex4_def)
qed

lemma parse_str_char: "parse_str (json_char c @ r) = map_option (\<lambda>(t, q). (c # t, q)) (parse_str r)"
proof -
  have hex: "parse_str ([backslash, CHR ''u'', CHR ''0'', CHR ''0'', hex_digit (ord c div 16), hex_digit (ord c mod 16)] @ r)
      = map_option (\<lambda>(t, q). (c # t, q)) (parse_str r)"
    using hex4_byte [of c] by (simp add: char_of_char)
  have esc: "parse_str ([backslash, e] @ r) = map_option (\<lambda>(t, q). (c # t, q)) (parse_str r)"
    if "unescape e = Some c" "e \<noteq> CHR ''u''" for e
    using that by simp
  consider "c = quote \<or> c = backslash" | "ord c = 10" | "ord c = 13" | "ord c = 9" | "ord c = 12" | "ord c = 8"
    | "c \<noteq> quote" "c \<noteq> backslash" "32 \<le> ord c" "ord c \<le> 126"
    | "c \<noteq> quote" "c \<noteq> backslash" "ord c \<notin> {8, 9, 10, 12, 13}" "\<not> (32 \<le> ord c \<and> ord c \<le> 126)"
    by blast
  then show ?thesis
  proof cases
    case 1
    then show ?thesis by (auto simp: json_char_def unescape_def)
  next
    case 2
    then have "c = CHR 0x0A" by (intro ord_inject) simp
    then show ?thesis by (simp add: json_char_def unescape_def)
  next
    case 3
    then have "c = CHR 0x0D" by (intro ord_inject) simp
    then show ?thesis by (simp add: json_char_def unescape_def)
  next
    case 4
    then have "c = CHR 0x09" by (intro ord_inject) simp
    then show ?thesis by (simp add: json_char_def unescape_def)
  next
    case 5
    then have "c = CHR 0x0C" by (intro ord_inject) simp
    then show ?thesis by (simp add: json_char_def unescape_def)
  next
    case 6
    then have "c = CHR 0x08" by (intro ord_inject) simp
    then show ?thesis by (simp add: json_char_def unescape_def)
  next
    case 7
    then have "json_char c = [c]" by (auto simp: json_char_def)
    with 7 show ?thesis by simp
  next
    case 8
    then have "json_char c = [backslash, CHR ''u'', CHR ''0'', CHR ''0'', hex_digit (ord c div 16), hex_digit (ord c mod 16)]"
      unfolding json_char_def by simp
    with hex show ?thesis by simp
  qed
qed

lemma parse_str_chars: "parse_str (concat (map json_char s) @ quote # rest) = Some (s, rest)"
  by (induction s) (simp_all add: parse_str_char)

section \<open>Numbers\<close>

definition ends_token :: "string \<Rightarrow> bool" where
  "ends_token rest \<longleftrightarrow> rest = [] \<or> hd rest \<in> set '',]}''"

lemma digits_val_snoc: "digits_val (s @ [c]) = digits_val s * 10 + (ord c - 48)"
  by (simp add: digits_val_def)

lemma nat_digits_props:
  "list_all is_digit (nat_digits n) \<and> digits_val (nat_digits n) = n \<and> (n \<noteq> 0 \<longrightarrow> hd (nat_digits n) \<noteq> CHR ''0'')"
proof (induction n rule: nat_digits.induct)
  case (1 n)
  have digit: "is_digit (char_of (48 + m))" "ord (char_of (48 + m) :: char) - 48 = m" if "m < 10" for m
    using that by (simp_all add: is_digit_def in_range_def)
  show ?case
  proof (cases "n < 10")
    case True
    have "char_of (48 + n) \<noteq> CHR ''0''" if "n \<noteq> 0"
    proof
      assume "char_of (48 + n) = CHR ''0''"
      then have "ord (char_of (48 + n) :: char) = ord CHR ''0''" by simp
      with True that show False by simp
    qed
    with True digit show ?thesis by (subst (1 2 3) nat_digits.simps) (simp add: digits_val_def)
  next
    case False
    with 1 digit [of "n mod 10"] nat_digits_ne [of "n div 10"] show ?thesis
      by (subst (1 2 3) nat_digits.simps) (simp add: digits_val_snoc)
  qed
qed

lemma number_tail: "ends_token rest \<Longrightarrow> number_fraction rest = ([], rest) \<and> number_exponent rest = ([], rest)"
  by (cases rest) (auto simp: ends_token_def number_fraction_def number_exponent_def)

lemma take_digits: "list_all is_digit ds \<Longrightarrow> ends_token rest \<Longrightarrow> takeWhile is_digit (ds @ rest) = ds"
  by (induction ds) (cases rest; auto simp: ends_token_def is_digit_def in_range_def)+

lemma json_number_digits:
  assumes "ends_token rest" and "sg = [] \<or> sg = ''-''"
  shows "json_number (sg @ nat_digits n @ rest) = Some (JInt ((if sg = [] then 1 else - 1) * int n), rest)"
proof -
  have d: "list_all is_digit (nat_digits n)" "digits_val (nat_digits n) = n" using nat_digits_props by blast+
  obtain c ds where c: "nat_digits n = c # ds" using nat_digits_ne by (cases "nat_digits n") auto
  then have "c \<noteq> CHR ''-''" using d(1) by (auto simp: is_digit_def in_range_def)
  then have r: "(if starts_with ''-'' (sg @ nat_digits n @ rest) then (''-'', tl (sg @ nat_digits n @ rest)) else ([], sg @ nat_digits n @ rest))
      = (sg, nat_digits n @ rest)" using assms(2) c by auto
  have ip: "(if starts_with ''0'' (nat_digits n @ rest) then ''0'' else takeWhile is_digit (nat_digits n @ rest)) = nat_digits n"
  proof (cases "n = 0")
    case True
    moreover have "char_of (48 :: nat) = CHR ''0''" by (rule ord_inject) simp
    ultimately show ?thesis by (simp add: nat_digits.simps)
  next
    case False
    then have "c \<noteq> CHR ''0''" using nat_digits_props [of n] c by auto
    then show ?thesis using take_digits [OF d(1) assms(1)] c by auto
  qed
  show ?thesis
    unfolding json_number_def Let_def r prod.case ip
    using nat_digits_ne number_tail [OF assms(1)] d by (simp add: Let_def)
qed


section \<open>Values\<close>

definition number_text :: "string \<Rightarrow> bool" where
  "number_text t \<longleftrightarrow> t \<noteq> [] \<and> (is_digit (hd t) \<or> hd t = CHR ''-'')
     \<and> (\<forall>rest. ends_token rest \<longrightarrow> json_atom (t @ rest) = Some (JFloat t, rest))"

fun json_wf :: "json \<Rightarrow> bool" where
  "json_wf (JFloat t) = number_text t"
| "json_wf (JArr vs) = (\<forall>v \<in> set vs. json_wf v)"
| "json_wf (JObj kvs) = (distinct (map fst kvs) \<and> (\<forall>kv \<in> set kvs. json_wf (snd kv)))"
| "json_wf _ = True"

lemma json_atom_int: "ends_token rest \<Longrightarrow> json_atom (int_str n @ rest) = Some (JInt n, rest)"
proof -
  assume rest: "ends_token rest"
  obtain c ds where c: "nat_digits (nat \<bar>n\<bar>) = c # ds" using nat_digits_ne by (cases "nat_digits (nat \<bar>n\<bar>)") auto
  then have digit: "is_digit c" using nat_digits_props [of "nat \<bar>n\<bar>"] by simp
  then have plain: "c \<noteq> CHR ''n''" "c \<noteq> CHR ''t''" "c \<noteq> CHR ''f''" "c \<noteq> CHR ''N''" "c \<noteq> CHR ''I''" "c \<noteq> CHR ''-''"
    by (auto simp: is_digit_def in_range_def)
  have atom: "json_atom (d # ds) = json_number (d # ds)"
    if "d \<noteq> CHR ''n''" "d \<noteq> CHR ''t''" "d \<noteq> CHR ''f''" "d \<noteq> CHR ''N''" "d \<noteq> CHR ''I''" "d = CHR ''-'' \<longrightarrow> \<not> starts_with ''I'' ds" for d ds
    using that by (cases ds) (auto simp: json_atom_def)
  show ?thesis
  proof (cases "n < 0")
    case True
    then have i: "int_str n = ''-'' @ c # ds" using c by (simp add: int_str_def)
    then have "json_atom (int_str n @ rest) = json_number (int_str n @ rest)"
      using atom plain by simp
    also have "\<dots> = Some (JInt n, rest)"
      using json_number_digits [OF rest, of "''-''" "nat \<bar>n\<bar>"] True c i by simp
    finally show ?thesis .
  next
    case False
    then have i: "int_str n = c # ds" using c by (simp add: int_str_def)
    then have "json_atom (int_str n @ rest) = json_number (int_str n @ rest)"
      using atom plain by simp
    also have "\<dots> = Some (JInt n, rest)"
      using json_number_digits [OF rest, of "[]" "nat \<bar>n\<bar>"] False c i by simp
    finally show ?thesis .
  qed
qed

lemma skip_ws_id: "s \<noteq> [] \<Longrightarrow> \<not> json_ws (hd s) \<Longrightarrow> skip_ws s = s"
  by (cases s) (simp_all add: skip_ws_def)

definition value_start :: "char \<Rightarrow> bool" where
  "value_start c \<longleftrightarrow> is_digit c \<or> c \<in> set ''-ntf[{'' \<or> c = quote"

lemma value_start_plain: "value_start c \<Longrightarrow> \<not> json_ws c \<and> c \<noteq> CHR '']'' \<and> c \<noteq> CHR ''}''"
  by (auto simp: value_start_def json_ws_def is_digit_def in_range_def)

lemma int_str_start: "\<exists>c cs. int_str n = c # cs \<and> (is_digit c \<or> c = CHR ''-'')"
proof -
  obtain c ds where "nat_digits (nat n) = c # ds" using nat_digits_ne by (cases "nat_digits (nat n)") auto
  then show ?thesis using nat_digits_props [of "nat n"] by (auto simp: int_str_def)
qed

lemma encode_start: "json_wf v \<Longrightarrow> \<exists>c cs. json_encode v = c # cs \<and> value_start c"
proof (cases v)
  case (JInt n)
  then show ?thesis using int_str_start [of n] by (auto simp: value_start_def)
next
  case (JFloat t)
  assume "json_wf v"
  with JFloat show ?thesis by (cases t) (auto simp: value_start_def number_text_def)
qed (auto simp: value_start_def json_string_def)

lemma parse_atom:
  assumes "json_encode v = c # cs" and "is_digit c \<or> c \<in> set ''-ntf''" and "n \<noteq> 0"
  shows "parse_value n (json_encode v @ rest) = json_atom (json_encode v @ rest)"
proof -
  have "\<not> json_ws c" using assms(2) by (auto simp: json_ws_def is_digit_def in_range_def)
  then have "skip_ws (json_encode v @ rest) = c # cs @ rest" using assms(1) by (simp add: skip_ws_def)
  then show ?thesis using assms by (cases n) (auto simp: is_digit_def in_range_def)
qed

definition reads :: "json \<Rightarrow> bool" where
  "reads v \<longleftrightarrow> (\<forall>n rest. 2 * length (json_encode v) \<le> n \<longrightarrow> ends_token rest \<longrightarrow>
     parse_value n (json_encode v @ rest) = Some (v, rest))"

lemma readsD: "reads v \<Longrightarrow> 2 * length (json_encode v) \<le> n \<Longrightarrow> ends_token rest \<Longrightarrow>
    parse_value n (json_encode v @ rest) = Some (v, rest)"
  by (simp add: reads_def)

lemma delimiter: "ends_token ('','' @ s)" "ends_token ('']'' @ s)" "ends_token (''}'' @ s)"
  by (simp_all add: ends_token_def)

lemma skip_delimiter: "skip_ws ('','' @ s) = '','' @ s" "skip_ws ('']'' @ s) = '']'' @ s" "skip_ws (''}'' @ s) = ''}'' @ s"
    "skip_ws ('':'' @ s) = '':'' @ s" "skip_ws (quote # s) = quote # s"
  by (simp_all add: skip_ws_def json_ws_def)

lemma parse_elems_encode:
  "vs \<noteq> [] \<Longrightarrow> \<forall>v \<in> set vs. reads v \<Longrightarrow> 2 * length (join '','' (map json_encode vs)) + 1 \<le> n \<Longrightarrow>
   parse_elems n (join '','' (map json_encode vs) @ '']'' @ rest) = Some (vs, rest)"
proof (induction vs arbitrary: n rule: induct_list012)
  case (2 v)
  then obtain m where n: "n = Suc m" by (cases n) auto
  then have "parse_value m (json_encode v @ '']'' @ rest) = Some (v, '']'' @ rest)"
    using 2 by (intro readsD delimiter) auto
  with n skip_delimiter(2) [of rest] show ?case by simp
next
  case (3 v w vs)
  then obtain m where n: "n = Suc m" by (cases n) auto
  let ?s = "join '','' (map json_encode (w # vs)) @ '']'' @ rest"
  have "parse_value m (json_encode v @ '','' @ ?s) = Some (v, '','' @ ?s)"
    using 3 n by (intro readsD delimiter) auto
  moreover have "parse_elems m ?s = Some (w # vs, rest)" using 3 n by simp
  ultimately show ?case using n skip_delimiter(1) [of ?s] by simp
qed simp

definition member :: "string \<times> json \<Rightarrow> string" where
  "member kv = json_string (fst kv) @ '':'' @ json_encode (snd kv)"

lemma parse_member:
  assumes "reads v" and "2 * length (json_encode v) \<le> m" and "ends_token (c # s)" "\<not> json_ws c"
  shows "parse_members (Suc m) (member (k, v) @ c # s) =
    (if c = CHR '','' then map_option (\<lambda>(kvs, q). ((k, v) # kvs, q)) (parse_members m s)
     else if c = CHR ''}'' then Some ([(k, v)], s) else None)"
proof -
  have "parse_str (concat (map json_char k) @ quote # '':'' @ json_encode v @ c # s) = Some (k, '':'' @ json_encode v @ c # s)"
    by (rule parse_str_chars)
  moreover have "parse_value m (json_encode v @ c # s) = Some (v, c # s)" using assms by (intro readsD)
  moreover have "skip_ws (c # s) = c # s" using assms(4) by (simp add: skip_ws_def)
  ultimately show ?thesis
    using skip_delimiter(4) [of "json_encode v @ c # s"]
    by (simp add: member_def json_string_def skip_delimiter(5))
qed

lemma parse_members_encode:
  "kvs \<noteq> [] \<Longrightarrow> \<forall>kv \<in> set kvs. reads (snd kv) \<Longrightarrow> 2 * length (join '','' (map member kvs)) + 1 \<le> n \<Longrightarrow>
   parse_members n (join '','' (map member kvs) @ ''}'' @ rest) = Some (kvs, rest)"
proof (induction kvs arbitrary: n rule: induct_list012)
  case (2 kv)
  then obtain m where n: "n = Suc m" by (cases n) auto
  obtain k v where kv: "kv = (k, v)" by (cases kv)
  with 2 n have "2 * length (json_encode v) \<le> m" by (simp add: member_def)
  from parse_member [OF _ this, of "CHR ''}''" rest k] 2 n kv show ?case by (simp add: ends_token_def json_ws_def)
next
  case (3 kv w kvs)
  then obtain m where n: "n = Suc m" by (cases n) auto
  obtain k v where kv: "kv = (k, v)" by (cases kv)
  let ?s = "join '','' (map member (w # kvs)) @ ''}'' @ rest"
  have "2 * length (json_encode v) \<le> m" using 3 n kv by (simp add: member_def)
  from parse_member [OF _ this, of "CHR '',''" ?s k] have
    "parse_members n (member kv @ '','' @ ?s) = map_option (\<lambda>(kvs, q). ((k, v) # kvs, q)) (parse_members m ?s)"
    using 3 n kv by (simp add: ends_token_def json_ws_def)
  moreover have "parse_members m ?s = Some (w # kvs, rest)" using 3 n by simp
  ultimately show ?case using kv by simp
qed simp


lemma join_start: "vs \<noteq> [] \<Longrightarrow> \<exists>t. join sep (map f vs) = f (hd vs) @ t"
  by (cases vs rule: remdups_adj.cases) auto

lemma reads_array:
  assumes "\<forall>v \<in> set vs. reads v \<and> json_wf v"
  shows "reads (JArr vs)"
  unfolding reads_def
proof (intro allI impI)
  fix n rest
  assume n: "2 * length (json_encode (JArr vs)) \<le> n" and "ends_token rest"
  then obtain m where m: "n = Suc m" by (cases n) auto
  show "parse_value n (json_encode (JArr vs) @ rest) = Some (JArr vs, rest)"
  proof (cases "vs = []")
    case True
    then show ?thesis using m by (simp add: skip_ws_def json_ws_def)
  next
    case False
    let ?s = "join '','' (map json_encode vs) @ '']'' @ rest"
    obtain t c cs where "?s = c # cs @ t" "value_start c"
      using join_start [OF False, of "'',''" json_encode] encode_start [of "hd vs"] assms False
      by (metis append.assoc append_Cons hd_in_set)
    then have "\<not> starts_with '']'' (skip_ws ?s)" using value_start_plain [of c] by (auto simp: skip_ws_def)
    moreover have "parse_elems m ?s = Some (vs, rest)"
      using parse_elems_encode [OF False] assms n m by simp
    ultimately show ?thesis using m by (simp add: skip_ws_def json_ws_def)
  qed
qed

lemma fold_dput_distinct: "distinct (map fst (d @ kvs)) \<Longrightarrow> fold (\<lambda>(k, v) d. dput k v d) kvs d = d @ kvs"
proof (induction kvs arbitrary: d)
  case (Cons kv kvs)
  obtain k v where kv: "kv = (k, v)" by (cases kv)
  with Cons.prems have "dput k v d = d @ [kv]" by (auto intro: dput_fresh)
  with Cons kv show ?case by simp
qed simp

lemma reads_object:
  assumes "\<forall>kv \<in> set kvs. reads (snd kv)" and "distinct (map fst kvs)"
  shows "reads (JObj kvs)"
  unfolding reads_def
proof (intro allI impI)
  fix n rest
  assume n: "2 * length (json_encode (JObj kvs)) \<le> n" and "ends_token rest"
  then obtain m where m: "n = Suc m" by (cases n) auto
  have "member = (\<lambda>(k, v). json_string k @ '':'' @ json_encode v)" by (rule ext) (simp add: member_def split_def)
  then have e: "json_encode (JObj kvs) = ''{'' @ join '','' (map member kvs) @ ''}''" by simp
  show "parse_value n (json_encode (JObj kvs) @ rest) = Some (JObj kvs, rest)"
  proof (cases "kvs = []")
    case True
    then show ?thesis using m by (simp add: skip_ws_def json_ws_def)
  next
    case False
    let ?s = "join '','' (map member kvs) @ ''}'' @ rest"
    obtain t where "?s = quote # t"
      using join_start [OF False, of "'',''" member] by (auto simp: member_def json_string_def)
    then have "\<not> starts_with ''}'' (skip_ws ?s)" by (simp add: skip_ws_def json_ws_def)
    moreover have "parse_members m ?s = Some (kvs, rest)"
      using parse_members_encode [OF False] assms n m unfolding e by simp
    moreover have "fold (\<lambda>(k, v) d. dput k v d) kvs [] = kvs" using fold_dput_distinct [of "[]" kvs] assms(2) by simp
    ultimately show ?thesis unfolding e using m by (simp add: skip_ws_def json_ws_def)
  qed
qed

lemma reads_atom:
  assumes "json_encode v = c # cs" and "is_digit c \<or> c \<in> set ''-ntf''"
    and "\<And>rest. ends_token rest \<Longrightarrow> json_atom (json_encode v @ rest) = Some (v, rest)"
  shows "reads v"
  unfolding reads_def
proof (intro allI impI)
  fix n rest
  assume "2 * length (json_encode v) \<le> n" and "ends_token rest"
  then show "parse_value n (json_encode v @ rest) = Some (v, rest)"
    using parse_atom [OF assms(1,2), of n rest] assms(1,3) by (cases n) auto
qed

lemma json_reads: "json_wf v \<Longrightarrow> reads v"
proof (induction v)
  case JNull
  show ?case by (rule reads_atom) (auto simp: json_atom_def)
next
  case (JBool b)
  show ?case
  proof (cases b)
    case True
    show ?thesis by (rule reads_atom [of _ "CHR ''t''" "''rue''"]) (simp_all add: True json_atom_def)
  next
    case False
    show ?thesis by (rule reads_atom [of _ "CHR ''f''" "''alse''"]) (simp_all add: False json_atom_def)
  qed
next
  case (JInt n)
  obtain c cs where c: "int_str n = c # cs" and "is_digit c \<or> c = CHR ''-''" using int_str_start by blast
  then show ?case using json_atom_int [of _ n, unfolded c] by (intro reads_atom [of _ c cs]) auto
next
  case (JFloat t)
  then obtain c cs where "t = c # cs" "is_digit c \<or> c = CHR ''-''" by (cases t) (auto simp: number_text_def)
  with JFloat show ?case by (intro reads_atom [of _ c cs]) (auto simp: number_text_def)
next
  case (JStr s)
  have "parse_value n (json_string s @ rest) = Some (JStr s, rest)" if "n \<noteq> 0" for n rest
    using that parse_str_chars [of s rest] by (cases n) (auto simp: json_string_def skip_delimiter(5))
  then show ?case by (auto simp: reads_def json_string_def)
next
  case (JArr vs)
  then show ?case by (intro reads_array) auto
next
  case (JObj kvs)
  then show ?case by (intro reads_object) (auto simp: snds.simps)
qed

lemma json_sort_wf: "json_wf v \<Longrightarrow> json_wf (json_sort v)"
proof (induction v rule: json_sort.induct)
  case (2 kvs)
  have "map fst (map (\<lambda>(k, v). (k, json_sort v)) kvs) = map fst kvs" by (induction kvs) auto
  then have "distinct (map fst (map (\<lambda>(k, v). (k, json_sort v)) kvs))"
    using 2 by (metis json_wf.simps(3))
  then have "distinct (map fst (sort_key fst (map (\<lambda>(k, v). (k, json_sort v)) kvs)))"
    unfolding distinct_map set_sort distinct_sort .
  with 2 show ?case by auto
qed auto

theorem json_loads_dumps: "json_wf v \<Longrightarrow> json_loads (json_dumps v) = Some (json_sort v)"
proof -
  assume "json_wf v"
  then have "reads (json_sort v)" by (intro json_reads json_sort_wf)
  from readsD [OF this, of "2 * length (json_dumps v) + 2" "[]"]
  have "parse_value (2 * length (json_dumps v) + 2) (json_dumps v) = Some (json_sort v, [])"
    by (simp add: json_dumps_def ends_token_def)
  then show ?thesis by (simp add: json_loads_def skip_ws_def)
qed

text \<open>The order of the keys is canonical.\<close>

lemma json_sort_idem [simp]: "json_sort (json_sort v) = json_sort v"
proof (induction v rule: json_sort.induct)
  case (2 kvs)
  let ?f = "\<lambda>(k, v). (k, json_sort v)"
  define xs where "xs = sort_key fst (map ?f kvs)"
  have "set xs = ?f ` set kvs" by (simp add: xs_def)
  then have same: "map ?f xs = xs"
    using 2 by (auto intro!: map_idI)
  have "sort_key fst xs = xs" unfolding xs_def by (rule sort_key_id_if_sorted) (rule sorted_sort_key)
  with same show ?case by (simp add: xs_def)
qed auto

lemma json_dumps_cong: "json_sort v = json_sort w \<Longrightarrow> json_dumps v = json_dumps w"
  by (simp add: json_dumps_def)

lemma json_dumps_inj: "json_wf v \<Longrightarrow> json_wf w \<Longrightarrow> json_dumps v = json_dumps w \<Longrightarrow> json_sort v = json_sort w"
  using json_loads_dumps [of v] json_loads_dumps [of w] by simp

end
