(* ===== verification/PyPath.thy ===== *)
theory PyPath
  imports PyString
begin

text \<open>
  Python's \<open>pathlib.PurePosixPath\<close> (3.12), as far as the modelled code uses it. A path is its root
  (empty, \<open>/\<close>, or \<open>//\<close> for exactly two leading slashes) and its components; empty components and
  \<open>.\<close> components are dropped when the path is built, so \<open>parts\<close> never shows a \<open>.\<close>; \<open>..\<close> is kept.
\<close>

abbreviation slash :: char where
  "slash \<equiv> CHR ''/''"

definition path_root :: "string \<Rightarrow> string" where
  "path_root s =
     (if \<not> starts_with ''/'' s then ''''
      else if starts_with ''//'' s \<and> \<not> starts_with ''///'' s then ''//''
      else ''/'')"

definition path_tail :: "string \<Rightarrow> string list" where
  "path_tail s = filter (\<lambda>w. w \<noteq> '''' \<and> w \<noteq> ''.'') (split_on slash (drop (length (path_root s)) s))"

text \<open>\<open>PurePosixPath(s).parts\<close>\<close>

definition path_parts :: "string \<Rightarrow> string list" where
  "path_parts s = (if path_root s = '''' then path_tail s else path_root s # path_tail s)"

text \<open>\<open>PurePosixPath(s).is_absolute()\<close>\<close>

definition path_is_absolute :: "string \<Rightarrow> bool" where
  "path_is_absolute s \<longleftrightarrow> path_root s \<noteq> ''''"

text \<open>\<open>PurePosixPath(s).as_posix()\<close>\<close>

definition path_as_posix :: "string \<Rightarrow> string" where
  "path_as_posix s =
     (if path_root s \<noteq> '''' then path_root s @ join ''/'' (path_tail s)
      else if path_tail s = [] then ''.'' else join ''/'' (path_tail s))"

text \<open>\<open>PurePosixPath(s).name\<close>\<close>

definition path_name :: "string \<Rightarrow> string" where
  "path_name s = (if path_tail s = [] then '''' else last (path_tail s))"

lemma path_is_absolute_iff: "path_is_absolute s \<longleftrightarrow> (\<exists>t. s = slash # t)"
  by (auto simp: path_is_absolute_def path_root_def starts_with_iff)

lemma path_tail_no_dot: "w \<in> set (path_tail s) \<Longrightarrow> w \<noteq> '''' \<and> w \<noteq> ''.'' \<and> slash \<notin> set w"
  by (auto simp: path_tail_def dest: split_on_no_sep)

lemma path_parts_no_dot: "''.'' \<notin> set (path_parts s)"
  by (auto simp: path_parts_def path_root_def dest: path_tail_no_dot)

text \<open>A relative path is rebuilt from its components: normalising is idempotent.\<close>

lemma join_slash_relative:
  assumes "ws \<noteq> []" and "\<forall>w \<in> set ws. w \<noteq> '''' \<and> slash \<notin> set w"
  shows "\<not> starts_with ''/'' (join ''/'' ws)"
  using assms by (induction ws rule: induct_list012) (auto simp: neq_Nil_conv)

lemma path_as_posix_relative:
  assumes "\<not> path_is_absolute s"
  shows "\<not> path_is_absolute (path_as_posix s)" and "path_tail (path_as_posix s) = path_tail s"
proof -
  have root: "path_root s = ''''" using assms by (simp add: path_is_absolute_def)
  have ok: "\<forall>w \<in> set (path_tail s). w \<noteq> '''' \<and> w \<noteq> ''.'' \<and> slash \<notin> set w"
    using path_tail_no_dot by blast
  have "\<not> path_is_absolute (path_as_posix s) \<and> path_tail (path_as_posix s) = path_tail s"
  proof (cases "path_tail s = []")
    case True
    then show ?thesis using root
      by (simp add: path_as_posix_def path_is_absolute_def path_root_def path_tail_def)
  next
    case False
    then have p: "path_as_posix s = join ''/'' (path_tail s)" using root by (simp add: path_as_posix_def)
    have r: "path_root (path_as_posix s) = ''''"
      unfolding p path_root_def using join_slash_relative [OF False] ok by simp
    have "split_on slash (path_as_posix s) = path_tail s"
      unfolding p using split_on_join [OF False] ok by simp
    then have "path_tail (path_as_posix s) = path_tail s"
      unfolding path_tail_def [of "path_as_posix s"] r using ok by (simp add: filter_id_conv)
    with r show ?thesis by (simp add: path_is_absolute_def)
  qed
  then show "\<not> path_is_absolute (path_as_posix s)" "path_tail (path_as_posix s) = path_tail s" by auto
qed

end
