(* ===== verification/Contracts.thy ===== *)
theory Contracts
  imports Prelude
begin

text \<open>
  Two contracts several components keep, each stated as a locale and interpreted on the model's
  definitions where the component is.

  \<^item> \<open>bounded_memory\<close>: a set of remembered keys with their order of arrival, of bounded size; a
    full memory forgets its oldest key. The agent gateway keeps one of completed job ids, the
    telemetry signals one of reported operations.
  \<^item> \<open>lifecycle\<close>: a table of rows whose terminal rows no step changes. The diagnostic operations
    and the Kubernetes releases of the control plane are such tables.
\<close>

section \<open>Bounded memory\<close>

locale bounded_memory =
  fixes remember :: "'k \<Rightarrow> 's \<Rightarrow> 's"
    and members :: "'s \<Rightarrow> 'k set"
    and arrival :: "'s \<Rightarrow> 'k list"
    and cap :: "'s \<Rightarrow> nat"
  assumes remember_old: "k \<in> members s \<Longrightarrow> remember k s = s"
    and arrival_new: "k \<notin> members s \<Longrightarrow>
      arrival (remember k s) = (if cap s \<le> length (arrival s) then tl (arrival s) else arrival s) @ [k]"
    and members_new: "k \<notin> members s \<Longrightarrow>
      members (remember k s) =
        insert k (if cap s \<le> length (arrival s) then members s - {hd (arrival s)} else members s)"
    and cap_same: "cap (remember k s) = cap s"
begin

definition mem_inv :: "'s \<Rightarrow> bool" where
  "mem_inv s \<longleftrightarrow> distinct (arrival s) \<and> set (arrival s) = members s
     \<and> length (arrival s) \<le> cap s \<and> 1 \<le> cap s"

lemma remember_member: "k \<in> members (remember k s)"
  using remember_old members_new by (cases "k \<in> members s") auto

lemma remember_inv:
  assumes "mem_inv s"
  shows "mem_inv (remember k s)"
proof (cases "k \<in> members s")
  case True
  with assms show ?thesis by (simp add: remember_old)
next
  case False
  obtain "distinct (arrival s)" and m: "set (arrival s) = members s" and "length (arrival s) \<le> cap s"
    and "1 \<le> cap s"
    using assms by (auto simp: mem_inv_def)
  moreover have "set (tl (arrival s)) = members s - {hd (arrival s)}" if "arrival s \<noteq> []"
    using that m \<open>distinct (arrival s)\<close> by (cases "arrival s") auto
  moreover have "arrival s \<noteq> []" if "cap s \<le> length (arrival s)"
    using that \<open>1 \<le> cap s\<close> by auto
  ultimately show ?thesis
    using False unfolding mem_inv_def arrival_new [OF False] members_new [OF False] cap_same
    by (auto simp: distinct_tl dest: list.set_sel(2))
qed

lemma remember_bound: "mem_inv s \<Longrightarrow> card (members s) \<le> cap s"
  by (metis distinct_card mem_inv_def)

lemma fold_remember_inv: "mem_inv s \<Longrightarrow> mem_inv (fold remember ks s)"
  by (induction ks arbitrary: s) (simp_all add: remember_inv)

text \<open>A key is forgotten only after as many newer keys have arrived as the memory holds: with \<open>n\<close>
  keys behind it, \<open>cap - n - 1\<close> further calls cannot push it out.\<close>

lemma remember_keeps:
  assumes "mem_inv s" and "arrival s = xs @ k # ys" and "length ys + 1 < cap s"
  shows "\<exists>xs' ys'. arrival (remember j s) = xs' @ k # ys' \<and> length ys' \<le> length ys + 1"
proof (cases "j \<in> members s")
  case True
  with assms have "arrival (remember j s) = xs @ k # ys" by (simp add: remember_old)
  then show ?thesis by (intro exI [of _ xs] exI [of _ ys]) simp
next
  case False
  show ?thesis
  proof (cases "cap s \<le> length (arrival s)")
    case True
    with assms obtain x xs'' where "xs = x # xs''" by (cases xs) auto
    with False True assms show ?thesis by (simp add: arrival_new) (metis length_append_singleton le_refl)
  next
    case False
    with \<open>j \<notin> members s\<close> assms show ?thesis
      by (simp add: arrival_new) (metis length_append_singleton le_refl)
  qed
qed

lemma remembered_window:
  assumes "mem_inv s" and "arrival s = xs @ k # ys" and "length ys + length js < cap s"
  shows "k \<in> members (fold remember js s)"
  using assms
proof (induction js arbitrary: s xs ys)
  case Nil
  then show ?case by (auto simp: mem_inv_def)
next
  case (Cons j js)
  then obtain xs' ys' where n: "arrival (remember j s) = xs' @ k # ys'" "length ys' \<le> length ys + 1"
    using remember_keeps [of s xs k ys j] by auto
  have "k \<in> members (fold remember js (remember j s))"
    using Cons.IH [OF remember_inv [OF Cons.prems(1)] n(1)] n(2) Cons.prems(3) by (simp add: cap_same)
  then show ?case by simp
qed

end

section \<open>Lifecycle tables\<close>

text \<open>\<open>lookup\<close> reads a row by primary key, \<open>used\<close> are the keys ever given out, \<open>wf\<close> is the table's
  well-formedness. A step may delete a terminal row (history is trimmed) but never alters it, and
  a key given out before is not given out again.\<close>

locale lifecycle =
  fixes step :: "'ev \<Rightarrow> 'db \<Rightarrow> 'db"
    and lookup :: "'db \<Rightarrow> nat \<Rightarrow> 'row option"
    and terminal :: "'row \<Rightarrow> bool"
    and wf :: "'db \<Rightarrow> bool"
    and used :: "'db \<Rightarrow> nat set"
  assumes wf_step: "wf db \<Longrightarrow> wf (step e db)"
    and lookup_used: "wf db \<Longrightarrow> lookup db k = Some r \<Longrightarrow> k \<in> used db"
    and used_mono: "wf db \<Longrightarrow> used db \<subseteq> used (step e db)"
    and final_step: "wf db \<Longrightarrow> lookup db k = Some r \<Longrightarrow> terminal r \<Longrightarrow>
      lookup (step e db) k = Some r \<or> lookup (step e db) k = None"
    and gone_step: "wf db \<Longrightarrow> k \<in> used db \<Longrightarrow> lookup db k = None \<Longrightarrow> lookup (step e db) k = None"
begin

lemma wf_run: "wf db \<Longrightarrow> wf (fold step es db)"
  by (induction es arbitrary: db) (simp_all add: wf_step)

lemma gone_run: "wf db \<Longrightarrow> k \<in> used db \<Longrightarrow> lookup db k = None \<Longrightarrow> lookup (fold step es db) k = None"
proof (induction es arbitrary: db)
  case (Cons e es)
  then show ?case using wf_step used_mono gone_step by (metis fold_simps(2) subsetD)
qed simp

theorem final_run:
  "wf db \<Longrightarrow> lookup db k = Some r \<Longrightarrow> terminal r \<Longrightarrow>
   lookup (fold step es db) k = Some r \<or> lookup (fold step es db) k = None"
proof (induction es arbitrary: db)
  case (Cons e es)
  note wf = wf_step [OF Cons.prems(1), of e]
  from final_step [OF Cons.prems] show ?case
  proof
    assume "lookup (step e db) k = Some r"
    from Cons.IH [OF wf this Cons.prems(3)] show ?thesis by simp
  next
    assume "lookup (step e db) k = None"
    moreover have "k \<in> used (step e db)"
      using lookup_used [OF Cons.prems(1,2)] used_mono [OF Cons.prems(1)] by blast
    ultimately show ?thesis using gone_run [OF wf, of k es] by simp
  qed
qed simp

end

end
