(* ===== verification/Gateway.thy ===== *)
theory Gateway
  imports Regex PyPath Contracts
begin

text \<open>
  The agent gateway (\<open>controlplane/gateway.py\<close>, class \<open>AgentGateway\<close>): its state, the frames of
  the protocol and one definition per segment of its coroutines.

  The gateway runs on one asyncio event loop, so code between two awaits is atomic. A
  coroutine that awaits is a program counter (\<open>consumer\<close>, \<open>sender\<close>, \<open>stream\<close>) that says where it is
  suspended and what it will do next, and each definition below runs a coroutine from one such
  point to the next. The locked regions (\<open>async with self._lock\<close>) contain no await but the
  \<open>context.abort\<close> that ends a refused call, so they are atomic segments too and the lock itself
  carries no state. How the segments interleave is the step relation of \<open>Gateway_System\<close>.

  \<open>AgentSession\<close> and \<open>JobState\<close> are mutable objects shared between coroutines and compared by identity; they
  live in two stores, and the dictionaries \<open>_sessions\<close> and \<open>_jobs\<close> hold their addresses. Clock
  readings (\<open>time.monotonic\<close>) are integers.
\<close>

section \<open>Frames of the protocol\<close>

record agent_hello =
  h_agent_id :: string
  h_major :: int
  h_minor :: int
  h_capabilities :: "string list"
  h_auth_token :: string

record diagnostic_check =
  dc_name :: string
  dc_status :: string
  dc_detail :: string

record release_request =
  rq_job_id :: string
  rq_namespace :: string
  rq_release_name :: string
  rq_chart_path :: string
  rq_image :: string
  rq_values_json :: string
  rq_credential_ref :: string
  rq_migration_timeout_seconds :: int
  rq_rollout_timeout_seconds :: int
  rq_rollback_policy :: string
  rq_mode :: string
  rq_previous_revision :: int

record release_result =
  rr_status :: string
  rr_helm_revision :: int
  rr_previous_revision :: int
  rr_rollback_status :: string
  rr_error_code :: string

text \<open>The \<open>oneof\<close> payloads; \<open>NoPayload\<close> is a frame with none set.\<close>

datatype agent_frame =
    Hello agent_hello
  | Heartbeat
  | Progress string int string string
  | Result string int string "diagnostic_check list"
  | KProgress string int string string
  | KResult string int release_result
  | NoPayload

datatype control_frame =
    Diagnostics string string
  | Cancel string
  | KubernetesRelease release_request

fun is_terminal_frame :: "agent_frame \<Rightarrow> bool" where
  "is_terminal_frame (Result _ _ _ _) = True"
| "is_terminal_frame (KResult _ _ _) = True"
| "is_terminal_frame _ = False"

section \<open>State\<close>

record job_state =
  js_agent_id :: string
  js_kind :: string
  js_queue :: "agent_frame list"
  js_next_sequence :: int
  js_cancel_sent :: bool

text \<open>In \<open>as_outgoing\<close> the sentinel \<open>None\<close> of the source is \<open>None\<close>.\<close>

record agent_session =
  as_agent_id :: string
  as_capabilities :: "string list"
  as_protocol_major :: int
  as_protocol_minor :: int
  as_outgoing :: "control_frame option list"
  as_last_heartbeat :: int

record gateway =
  gw_tokens :: "(string, string) dict"
  gw_sessions :: "(string, nat) dict"
  gw_jobs :: "(string, nat) dict"
  gw_completed_jobs :: "string set"
  gw_completed_order :: "string list"
  gw_max_completed_jobs :: int
  gw_max_inflight :: int
  gw_session_store :: "nat \<Rightarrow> agent_session option"
  gw_job_store :: "nat \<Rightarrow> job_state option"
  gw_fresh :: nat

definition PROTOCOL_MAJOR :: int where
  "PROTOCOL_MAJOR = 1"

definition DIAGNOSTIC_CAPABILITY :: string where
  "DIAGNOSTIC_CAPABILITY = ''django_diagnostics_v1''"

definition KUBERNETES_CAPABILITY :: string where
  "KUBERNETES_CAPABILITY = ''kubernetes_release_v1''"

definition is_id_char :: "char \<Rightarrow> bool" where
  "is_id_char c \<longleftrightarrow> is_alnum_az c \<or> c \<in> set ''._-''"

definition ID_RE :: rx where
  "ID_RE = Seq (Cls is_alnum_az) (Rep 0 63 (Cls is_id_char))"

definition MAX_JOB_EVENTS :: nat where
  "MAX_JOB_EVENTS = 32"

definition MAX_OUTGOING_FRAMES :: nat where
  "MAX_OUTGOING_FRAMES = 32"

definition new_job_state :: "string \<Rightarrow> string \<Rightarrow> job_state" where
  "new_job_state agent_id kind =
     \<lparr>js_agent_id = agent_id, js_kind = kind, js_queue = [], js_next_sequence = 1, js_cancel_sent = False\<rparr>"

definition new_session :: "agent_hello \<Rightarrow> int \<Rightarrow> agent_session" where
  "new_session hello now =
     \<lparr>as_agent_id = h_agent_id hello, as_capabilities = h_capabilities hello,
      as_protocol_major = h_major hello, as_protocol_minor = h_minor hello,
      as_outgoing = [], as_last_heartbeat = now\<rparr>"

text \<open>\<open>AgentGateway.__init__\<close>\<close>

definition init_gateway :: "(string, string) dict \<Rightarrow> int \<Rightarrow> int \<Rightarrow> gateway res" where
  "init_gateway tokens max_completed_jobs max_inflight_per_agent =
     (if max_completed_jobs < 1 \<or> max_inflight_per_agent < 1
      then Inl (ValueError ''gateway resource limits must be positive'')
      else Inr \<lparr>gw_tokens = tokens, gw_sessions = [], gw_jobs = [], gw_completed_jobs = {},
                gw_completed_order = [], gw_max_completed_jobs = max_completed_jobs,
                gw_max_inflight = max_inflight_per_agent, gw_session_store = Map.empty,
                gw_job_store = Map.empty, gw_fresh = 0\<rparr>)"

section \<open>Queues\<close>

text \<open>\<open>asyncio.Queue.put\<close> on a job's or a session's queue: \<open>None\<close> while the queue is full, when the
  putting coroutine stays suspended.\<close>

definition job_put :: "nat \<Rightarrow> agent_frame \<Rightarrow> gateway \<Rightarrow> gateway option" where
  "job_put jo f g =
     (case gw_job_store g jo of None \<Rightarrow> None
      | Some st \<Rightarrow>
          if length (js_queue st) < MAX_JOB_EVENTS
          then Some (g\<lparr>gw_job_store := (gw_job_store g)(jo \<mapsto> st\<lparr>js_queue := js_queue st @ [f]\<rparr>)\<rparr>)
          else None)"

definition outgoing_put :: "nat \<Rightarrow> control_frame option \<Rightarrow> gateway \<Rightarrow> gateway option" where
  "outgoing_put so f g =
     (case gw_session_store g so of None \<Rightarrow> None
      | Some s \<Rightarrow>
          if length (as_outgoing s) < MAX_OUTGOING_FRAMES
          then Some (g\<lparr>gw_session_store := (gw_session_store g)(so \<mapsto> s\<lparr>as_outgoing := as_outgoing s @ [f]\<rparr>)\<rparr>)
          else None)"

text \<open>\<open>asyncio.Queue.get\<close>: \<open>None\<close> while the queue is empty.\<close>

definition job_get :: "nat \<Rightarrow> gateway \<Rightarrow> (agent_frame \<times> gateway) option" where
  "job_get jo g =
     (case gw_job_store g jo of None \<Rightarrow> None
      | Some st \<Rightarrow>
          (case js_queue st of [] \<Rightarrow> None
           | f # fs \<Rightarrow> Some (f, g\<lparr>gw_job_store := (gw_job_store g)(jo \<mapsto> st\<lparr>js_queue := fs\<rparr>)\<rparr>)))"

definition outgoing_get :: "nat \<Rightarrow> gateway \<Rightarrow> (control_frame option \<times> gateway) option" where
  "outgoing_get so g =
     (case gw_session_store g so of None \<Rightarrow> None
      | Some s \<Rightarrow>
          (case as_outgoing s of [] \<Rightarrow> None
           | f # fs \<Rightarrow> Some (f, g\<lparr>gw_session_store := (gw_session_store g)(so \<mapsto> s\<lparr>as_outgoing := fs\<rparr>)\<rparr>)))"

section \<open>Connect\<close>

datatype grpc_status = INVALID_ARGUMENT | FAILED_PRECONDITION | UNAUTHENTICATED | ALREADY_EXISTS

text \<open>How the call begins: \<open>context.abort\<close> with a status, an exception out of the handler, or a
  registered session (its address).\<close>

datatype connect_result = Aborted grpc_status string | Raised pyexn | Registered gateway nat

text \<open>\<open>hmac.compare_digest\<close> on two \<open>str\<close>: equality, but a \<open>TypeError\<close> unless both are ASCII.\<close>

definition compare_digest :: "string \<Rightarrow> string \<Rightarrow> bool res" where
  "compare_digest a b =
     (if list_all (\<lambda>c. ord c < 128) a \<and> list_all (\<lambda>c. ord c < 128) b then Inr (a = b)
      else Inl (TypeError ''comparing strings with non-ASCII characters is not supported''))"

definition connect_hello :: "agent_hello \<Rightarrow> int \<Rightarrow> gateway \<Rightarrow> connect_result" where
  "connect_hello hello now g =
     (if \<not> fullmatch ID_RE (h_agent_id hello)
      then Aborted INVALID_ARGUMENT ''invalid agent identity''
      else if h_major hello \<noteq> PROTOCOL_MAJOR
      then Aborted FAILED_PRECONDITION ''unsupported protocol version''
      else if DIAGNOSTIC_CAPABILITY \<notin> set (h_capabilities hello)
      then Aborted FAILED_PRECONDITION ''diagnostics capability required''
      else (case dget (gw_tokens g) (h_agent_id hello) of
          None \<Rightarrow> Aborted UNAUTHENTICATED ''agent authentication failed''
        | Some expected \<Rightarrow>
            (case compare_digest expected (h_auth_token hello) of
               Inl e \<Rightarrow> Raised e
             | Inr False \<Rightarrow> Aborted UNAUTHENTICATED ''agent authentication failed''
             | Inr True \<Rightarrow>
                 if h_agent_id hello \<in> set (dkeys (gw_sessions g))
                 then Aborted ALREADY_EXISTS ''agent identity already connected''
                 else Registered
                   (g\<lparr>gw_sessions := dput (h_agent_id hello) (gw_fresh g) (gw_sessions g),
                      gw_session_store := (gw_session_store g)(gw_fresh g \<mapsto> new_session hello now),
                      gw_fresh := Suc (gw_fresh g)\<rparr>) (gw_fresh g))))"

text \<open>\<open>first\<close> is the first frame of the request stream, \<open>None\<close> when the stream ends before it.\<close>

definition connect :: "agent_frame option \<Rightarrow> int \<Rightarrow> gateway \<Rightarrow> connect_result" where
  "connect first now g =
     (case first of
        None \<Rightarrow> Aborted INVALID_ARGUMENT ''agent hello is required''
      | Some (Hello hello) \<Rightarrow> connect_hello hello now g
      | Some _ \<Rightarrow> Aborted INVALID_ARGUMENT ''first frame must be agent hello'')"

section \<open>Consuming the agent's frames\<close>

text \<open>Where the consumer task of a session is suspended: waiting for a frame; putting an event in a
  job's queue (and then, when a job id is given, sending its cancellation); putting a
  cancellation; putting the sentinel of its \<open>finally\<close>; or done.\<close>

datatype consumer =
    CRead
  | CPutEvent nat agent_frame "string option"
  | CPutCancel string
  | CPutEnd
  | CDone

definition failure_frame :: "job_state \<Rightarrow> string \<Rightarrow> int \<Rightarrow> string \<Rightarrow> agent_frame" where
  "failure_frame st job_id sequence code =
     (if js_kind st = ''kubernetes''
      then KResult job_id sequence
        \<lparr>rr_status = ''failed'', rr_helm_revision = 0, rr_previous_revision = 0, rr_rollback_status = '''',
         rr_error_code = code\<rparr>
      else Result job_id sequence ''failed''
        [\<lparr>dc_name = ''control_channel'', dc_status = ''fail'', dc_detail = lower code\<rparr>])"

definition session_agent :: "gateway \<Rightarrow> nat \<Rightarrow> string option" where
  "session_agent g so = map_option as_agent_id (gw_session_store g so)"

definition accept_event :: "nat \<Rightarrow> string \<Rightarrow> int \<Rightarrow> agent_frame \<Rightarrow> gateway \<Rightarrow> gateway \<times> consumer" where
  "accept_event so job_id sequence frame g =
     (case Option.bind (dget (gw_jobs g) job_id) (\<lambda>jo. map_option (Pair jo) (gw_job_store g jo)) of
        None \<Rightarrow> (g, CRead)
      | Some (jo, st) \<Rightarrow>
          if session_agent g so \<noteq> Some (js_agent_id st) then (g, CRead)
          else if sequence \<noteq> js_next_sequence st
          then (g, CPutEvent jo (failure_frame st job_id (js_next_sequence st) ''STREAM_ORDER'') (Some job_id))
          else (g\<lparr>gw_job_store := (gw_job_store g)(jo \<mapsto> st\<lparr>js_next_sequence := js_next_sequence st + 1\<rparr>)\<rparr>,
                CPutEvent jo frame None))"

text \<open>One round of the loop in \<open>_consume\<close>.\<close>

definition consume_frame :: "nat \<Rightarrow> agent_frame \<Rightarrow> int \<Rightarrow> gateway \<Rightarrow> gateway \<times> consumer" where
  "consume_frame so frame now g =
     (case frame of
        Heartbeat \<Rightarrow>
          (g\<lparr>gw_session_store := (gw_session_store g)(so :=
               map_option (\<lambda>s. s\<lparr>as_last_heartbeat := now\<rparr>) (gw_session_store g so))\<rparr>, CRead)
      | Progress job_id sequence phase message \<Rightarrow> accept_event so job_id sequence frame g
      | Result job_id sequence status checks \<Rightarrow> accept_event so job_id sequence frame g
      | KProgress job_id sequence phase message \<Rightarrow> accept_event so job_id sequence frame g
      | KResult job_id sequence result \<Rightarrow> accept_event so job_id sequence frame g
      | _ \<Rightarrow> (g, CRead))"

text \<open>The suspended put of the consumer task goes through.\<close>

fun consumer_resume :: "nat \<Rightarrow> consumer \<Rightarrow> gateway \<Rightarrow> (gateway \<times> consumer) option" where
  "consumer_resume so (CPutEvent jo f c) g =
     map_option (\<lambda>g'. (g', case c of None \<Rightarrow> CRead | Some job_id \<Rightarrow> CPutCancel job_id)) (job_put jo f g)"
| "consumer_resume so (CPutCancel job_id) g =
     map_option (\<lambda>g'. (g', CRead)) (outgoing_put so (Some (Cancel job_id)) g)"
| "consumer_resume so CPutEnd g = map_option (\<lambda>g'. (g', CDone)) (outgoing_put so None g)"
| "consumer_resume so c g = None"

section \<open>Disconnecting\<close>

text \<open>Where the handler of a session is suspended: sending frames to the agent; waiting for the
  cancelled consumer; putting a failure frame in a job's queue with further jobs to go; or done.\<close>

datatype sender =
    SLoop
  | SFinal
  | SDisc nat agent_frame "(string \<times> nat) list"
  | SDone

text \<open>The loop of \<open>_disconnect\<close> reaches its next job of that agent.\<close>

fun disc_next :: "string \<Rightarrow> gateway \<Rightarrow> (string \<times> nat) list \<Rightarrow> sender" where
  "disc_next a g [] = SDone"
| "disc_next a g ((job_id, jo) # rest) =
     (case gw_job_store g jo of None \<Rightarrow> disc_next a g rest
      | Some st \<Rightarrow>
          if js_agent_id st = a
          then SDisc jo (failure_frame st job_id (js_next_sequence st) ''AGENT_DISCONNECTED'') rest
          else disc_next a g rest)"

definition disconnect :: "nat \<Rightarrow> gateway \<Rightarrow> gateway \<times> sender" where
  "disconnect so g =
     (case gw_session_store g so of None \<Rightarrow> (g, SDone)
      | Some s \<Rightarrow>
          let g' = (if dget (gw_sessions g) (as_agent_id s) = Some so
                    then g\<lparr>gw_sessions := ddel (as_agent_id s) (gw_sessions g)\<rparr> else g)
          in (g', disc_next (as_agent_id s) g' (gw_jobs g')))"

section \<open>Queries\<close>

definition is_connected :: "string \<Rightarrow> gateway \<Rightarrow> bool" where
  "is_connected agent_id g \<longleftrightarrow> agent_id \<in> set (dkeys (gw_sessions g))"

definition get_session :: "string \<Rightarrow> gateway \<Rightarrow> (nat \<times> agent_session) res" where
  "get_session agent_id g =
     (case Option.bind (dget (gw_sessions g) agent_id) (\<lambda>so. map_option (Pair so) (gw_session_store g so)) of
        None \<Rightarrow> Inl (LookupError ''agent is not connected'')
      | Some s \<Rightarrow> Inr s)"

definition heartbeat_age :: "string \<Rightarrow> int \<Rightarrow> gateway \<Rightarrow> int res" where
  "heartbeat_age agent_id now g =
     bindR (get_session agent_id g) (\<lambda>(_, s). Inr (max 0 (now - as_last_heartbeat s)))"

definition capabilities :: "string \<Rightarrow> gateway \<Rightarrow> string list res" where
  "capabilities agent_id g = bindR (get_session agent_id g) (\<lambda>(_, s). Inr (as_capabilities s))"

definition protocol_version :: "string \<Rightarrow> gateway \<Rightarrow> (int \<times> int) res" where
  "protocol_version agent_id g =
     bindR (get_session agent_id g) (\<lambda>(_, s). Inr (as_protocol_major s, as_protocol_minor s))"

section \<open>Jobs\<close>

definition validate_job_id :: "string \<Rightarrow> unit res" where
  "validate_job_id job_id =
     guardR (fullmatch ID_RE job_id) (ValueError ''job_id must be a safe 1-64 character identifier'')"

definition validate_release_root :: "string \<Rightarrow> unit res" where
  "validate_release_root release_root =
     (if release_root = '''' \<or> length release_root > 256 \<or> CHR 0x5C \<in> set release_root
      then Inl (ValueError ''release_root must be a bounded relative path'')
      else if path_is_absolute release_root \<or> ''..'' \<in> set (path_parts release_root)
      then Inl (ValueError ''release_root may not escape the configured project root'')
      else Inr ())"

text \<open>\<open>sum(1 for state in self._jobs.values() if state.agent_id == agent_id)\<close>\<close>

definition inflight :: "string \<Rightarrow> gateway \<Rightarrow> nat" where
  "inflight agent_id g =
     dcount (\<lambda>jo. map_option js_agent_id (gw_job_store g jo) = Some agent_id) (gw_jobs g)"

text \<open>\<open>_open_job\<close>: the new gateway, the session's address and the new job's address.\<close>

definition open_job :: "string \<Rightarrow> string \<Rightarrow> string \<Rightarrow> bool \<Rightarrow> gateway \<Rightarrow> (gateway \<times> nat \<times> nat) res" where
  "open_job agent_id job_id kind allow_completed_reuse g =
     bindR (validate_job_id job_id) (\<lambda>_.
     if job_id \<in> set (dkeys (gw_jobs g)) then Inl (ValueError ''job_id is already active'')
     else if job_id \<in> gw_completed_jobs g \<and> \<not> allow_completed_reuse
     then Inl (ValueError ''job_id has already been used'')
     else bindR (get_session agent_id g) (\<lambda>(so, _).
     if int (inflight agent_id g) \<ge> gw_max_inflight g
     then Inl (RuntimeError ''agent operation capacity reached'')
     else Inr
       (g\<lparr>gw_jobs := dput job_id (gw_fresh g) (gw_jobs g),
          gw_job_store := (gw_job_store g)(gw_fresh g \<mapsto> new_job_state agent_id kind),
          gw_fresh := Suc (gw_fresh g)\<rparr>, so, gw_fresh g)))"

text \<open>Where a caller's event stream (\<open>diagnostics\<close>, \<open>kubernetes_release\<close> with the \<open>_events\<close> they
  delegate to) is suspended: putting its request in the session's queue; waiting for an event;
  at the \<open>yield\<close> of an event, terminal or not; or done. Each carries the job id.\<close>

datatype stream =
    StPut string nat control_frame
  | StGet string
  | StYield string bool
  | StDone

definition diagnostics ::
    "string \<Rightarrow> string \<Rightarrow> string \<Rightarrow> gateway \<Rightarrow> (gateway \<times> nat \<times> stream) res" where
  "diagnostics agent_id job_id release_root g =
     bindR (validate_release_root release_root) (\<lambda>_.
     bindR (open_job agent_id job_id ''diagnostic'' False g) (\<lambda>(g', so, jo).
     Inr (g', jo, StPut job_id so (Diagnostics job_id release_root))))"

text \<open>\<open>kubernetes_release\<close>: an agent without the capability has the job taken off again, and the
  call raises; both the outcome and the gateway it leaves are returned.\<close>

definition kubernetes_release ::
    "string \<Rightarrow> release_request \<Rightarrow> gateway \<Rightarrow> gateway \<times> (nat \<times> stream) res" where
  "kubernetes_release agent_id request g =
     (case open_job agent_id (rq_job_id request) ''kubernetes'' True g of
        Inl e \<Rightarrow> (g, Inl e)
      | Inr (g', so, jo) \<Rightarrow>
          if KUBERNETES_CAPABILITY \<notin> (case gw_session_store g' so of None \<Rightarrow> {} | Some s \<Rightarrow> set (as_capabilities s))
          then (g'\<lparr>gw_jobs := ddel (rq_job_id request) (gw_jobs g')\<rparr>,
                Inl (LookupError ''agent does not advertise Kubernetes release capability''))
          else (g', Inr (jo, StPut (rq_job_id request) so (KubernetesRelease request))))"

definition remember_completed :: "string \<Rightarrow> gateway \<Rightarrow> gateway" where
  "remember_completed job_id g =
     (if job_id \<in> gw_completed_jobs g then g
      else
        let g' = (if int (length (gw_completed_order g)) \<ge> gw_max_completed_jobs g
                  then g\<lparr>gw_completed_jobs := gw_completed_jobs g - {hd (gw_completed_order g)},
                         gw_completed_order := tl (gw_completed_order g)\<rparr>
                  else g)
        in g'\<lparr>gw_completed_order := gw_completed_order g' @ [job_id],
              gw_completed_jobs := insert job_id (gw_completed_jobs g')\<rparr>)"

text \<open>The \<open>finally\<close> of \<open>_events\<close>.\<close>

definition finish_job :: "string \<Rightarrow> gateway \<Rightarrow> gateway" where
  "finish_job job_id g = remember_completed job_id (g\<lparr>gw_jobs := ddel job_id (gw_jobs g)\<rparr>)"

text \<open>The caller's stream resumes: its request goes out, the next event arrives (second component:
  the event handed to the caller), or the loop goes on behind the \<open>yield\<close>.\<close>

fun stream_resume :: "nat \<Rightarrow> stream \<Rightarrow> gateway \<Rightarrow> (gateway \<times> agent_frame option \<times> stream) option" where
  "stream_resume jo (StPut job_id so f) g =
     map_option (\<lambda>g'. (g', None, StGet job_id)) (outgoing_put so (Some f) g)"
| "stream_resume jo (StGet job_id) g =
     map_option (\<lambda>(f, g'). (g', Some f, StYield job_id (is_terminal_frame f))) (job_get jo g)"
| "stream_resume jo (StYield job_id fin) g =
     Some (if fin then (finish_job job_id g, None, StDone) else (g, None, StGet job_id))"
| "stream_resume jo StDone g = None"

text \<open>The caller abandons its stream (a timeout or a cancelled task): the exception is raised at the
  await or the \<open>yield\<close>, and only a stream inside \<open>_events\<close> has a \<open>finally\<close> to run.\<close>

fun stream_close :: "stream \<Rightarrow> gateway \<Rightarrow> gateway" where
  "stream_close (StPut job_id so f) g = g"
| "stream_close (StGet job_id) g = finish_job job_id g"
| "stream_close (StYield job_id fin) g = finish_job job_id g"
| "stream_close StDone g = g"

text \<open>\<open>cancel\<close>, up to its await: the answer when there is nothing to send, or the session whose
  queue the cancellation goes to (the call then returns \<open>True\<close>).\<close>

definition cancel :: "string \<Rightarrow> gateway \<Rightarrow> gateway \<times> (bool + nat)" where
  "cancel job_id g =
     (case Option.bind (dget (gw_jobs g) job_id) (\<lambda>jo. map_option (Pair jo) (gw_job_store g jo)) of
        None \<Rightarrow> (g, Inl False)
      | Some (jo, st) \<Rightarrow>
          if js_cancel_sent st then (g, Inl True)
          else (case dget (gw_sessions g) (js_agent_id st) of
              None \<Rightarrow> (g, Inl False)
            | Some so \<Rightarrow>
                (g\<lparr>gw_job_store := (gw_job_store g)(jo \<mapsto> st\<lparr>js_cancel_sent := True\<rparr>)\<rparr>, Inr so)))"

end
