(* ===== verification/Gateway_Invariant.thy ===== *)
theory Gateway_Invariant
  imports Gateway
begin

text \<open>
  The gateway's well-formedness and resource bounds, \<open>gw_ok\<close>, and that every operation keeps them:
  the dictionaries have distinct keys and point to live objects, every registered session was
  admitted (safe id, known token, protocol and capability), no agent has more than
  \<open>max_inflight_per_agent\<close> jobs, the memory of completed jobs is bounded and consistent, and no
  queue exceeds its size.
\<close>

section \<open>The memory of completed jobs\<close>

interpretation completed: bounded_memory remember_completed gw_completed_jobs gw_completed_order
  "\<lambda>g. nat (gw_max_completed_jobs g)"
proof
  fix k :: string and s :: gateway
  show "k \<in> gw_completed_jobs s \<Longrightarrow> remember_completed k s = s"
    by (simp add: remember_completed_def)
  show "k \<notin> gw_completed_jobs s \<Longrightarrow> gw_completed_order (remember_completed k s) =
      (if nat (gw_max_completed_jobs s) \<le> length (gw_completed_order s)
       then tl (gw_completed_order s) else gw_completed_order s) @ [k]"
    by (simp add: remember_completed_def Let_def nat_le_iff)
  show "k \<notin> gw_completed_jobs s \<Longrightarrow> gw_completed_jobs (remember_completed k s) =
      insert k (if nat (gw_max_completed_jobs s) \<le> length (gw_completed_order s)
                then gw_completed_jobs s - {hd (gw_completed_order s)} else gw_completed_jobs s)"
    by (simp add: remember_completed_def Let_def nat_le_iff)
  show "nat (gw_max_completed_jobs (remember_completed k s)) = nat (gw_max_completed_jobs s)"
    by (simp add: remember_completed_def Let_def)
qed

lemma remember_completed_fields [simp]:
  "gw_tokens (remember_completed k g) = gw_tokens g"
  "gw_sessions (remember_completed k g) = gw_sessions g"
  "gw_jobs (remember_completed k g) = gw_jobs g"
  "gw_max_completed_jobs (remember_completed k g) = gw_max_completed_jobs g"
  "gw_max_inflight (remember_completed k g) = gw_max_inflight g"
  "gw_session_store (remember_completed k g) = gw_session_store g"
  "gw_job_store (remember_completed k g) = gw_job_store g"
  "gw_fresh (remember_completed k g) = gw_fresh g"
  by (simp_all add: remember_completed_def Let_def)

section \<open>The invariant\<close>

definition admitted :: "(string, string) dict \<Rightarrow> agent_session \<Rightarrow> bool" where
  "admitted tokens s \<longleftrightarrow> fullmatch ID_RE (as_agent_id s) \<and> as_protocol_major s = PROTOCOL_MAJOR
     \<and> DIAGNOSTIC_CAPABILITY \<in> set (as_capabilities s) \<and> as_agent_id s \<in> set (dkeys tokens)"

definition stores_ok :: "gateway \<Rightarrow> bool" where
  "stores_ok g \<longleftrightarrow>
     (\<forall>so s. gw_session_store g so = Some s \<longrightarrow>
        so < gw_fresh g \<and> admitted (gw_tokens g) s \<and> length (as_outgoing s) \<le> MAX_OUTGOING_FRAMES)
   \<and> (\<forall>jo st. gw_job_store g jo = Some st \<longrightarrow>
        jo < gw_fresh g \<and> length (js_queue st) \<le> MAX_JOB_EVENTS \<and> 1 \<le> js_next_sequence st)"

definition dicts_ok :: "gateway \<Rightarrow> bool" where
  "dicts_ok g \<longleftrightarrow> dict_wf (gw_sessions g) \<and> dict_wf (gw_jobs g)
   \<and> (\<forall>a so. dget (gw_sessions g) a = Some so \<longrightarrow> session_agent g so = Some a)
   \<and> (\<forall>j jo. dget (gw_jobs g) j = Some jo \<longrightarrow> fullmatch ID_RE j \<and> gw_job_store g jo \<noteq> None)
   \<and> (\<forall>j j' jo. dget (gw_jobs g) j = Some jo \<longrightarrow> dget (gw_jobs g) j' = Some jo \<longrightarrow> j = j')"

definition limits_ok :: "gateway \<Rightarrow> bool" where
  "limits_ok g \<longleftrightarrow> (\<forall>a. int (inflight a g) \<le> gw_max_inflight g) \<and> 1 \<le> gw_max_inflight g \<and> completed.mem_inv g"

definition gw_ok :: "gateway \<Rightarrow> bool" where
  "gw_ok g \<longleftrightarrow> stores_ok g \<and> dicts_ok g \<and> limits_ok g"

lemmas gw_ok_defs = gw_ok_def stores_ok_def dicts_ok_def limits_ok_def completed.mem_inv_def

lemma init_gateway_ok: "init_gateway tokens n m = Inr g \<Longrightarrow> gw_ok g"
  by (auto simp: init_gateway_def gw_ok_defs session_agent_def inflight_def split: if_splits)

section \<open>Updating one object\<close>

text \<open>Every operation changes the stores one object at a time; these are the two ways.\<close>

lemma inflight_cong:
  "gw_jobs g' = gw_jobs g \<Longrightarrow>
   (\<And>jo. map_option js_agent_id (gw_job_store g' jo) = map_option js_agent_id (gw_job_store g jo)) \<Longrightarrow>
   inflight a g' = inflight a g"
  by (simp add: inflight_def)

lemma gw_ok_set_session:
  assumes "gw_ok g" and "gw_session_store g so = Some s" and "as_agent_id s' = as_agent_id s"
    and "as_protocol_major s' = as_protocol_major s" and "as_capabilities s' = as_capabilities s"
    and "length (as_outgoing s') \<le> MAX_OUTGOING_FRAMES"
  shows "gw_ok (g\<lparr>gw_session_store := (gw_session_store g)(so \<mapsto> s')\<rparr>)"
proof -
  let ?g = "g\<lparr>gw_session_store := (gw_session_store g)(so \<mapsto> s')\<rparr>"
  have "session_agent ?g o' = session_agent g o'" for o'
    using assms(2,3) by (simp add: session_agent_def)
  moreover have "inflight a ?g = inflight a g" for a by (rule inflight_cong) simp_all
  moreover have "admitted (gw_tokens g) s' = admitted (gw_tokens g) s"
    using assms by (simp add: admitted_def)
  ultimately show ?thesis using assms unfolding gw_ok_defs by simp
qed

lemma gw_ok_set_job:
  assumes "gw_ok g" and "gw_job_store g jo = Some st" and "js_agent_id st' = js_agent_id st"
    and "length (js_queue st') \<le> MAX_JOB_EVENTS" and "1 \<le> js_next_sequence st'"
  shows "gw_ok (g\<lparr>gw_job_store := (gw_job_store g)(jo \<mapsto> st')\<rparr>)"
proof -
  let ?g = "g\<lparr>gw_job_store := (gw_job_store g)(jo \<mapsto> st')\<rparr>"
  have "inflight a ?g = inflight a g" for a by (rule inflight_cong) (simp_all add: assms(2,3))
  moreover have "session_agent ?g o' = session_agent g o'" for o' by (simp add: session_agent_def)
  ultimately show ?thesis using assms unfolding gw_ok_defs by simp
qed

lemma gw_ok_queue: "gw_ok g \<Longrightarrow> gw_job_store g jo = Some st \<Longrightarrow>
    length (js_queue st) \<le> MAX_JOB_EVENTS \<and> 1 \<le> js_next_sequence st"
  by (simp add: gw_ok_def stores_ok_def)

lemma gw_ok_outgoing: "gw_ok g \<Longrightarrow> gw_session_store g so = Some s \<Longrightarrow>
    length (as_outgoing s) \<le> MAX_OUTGOING_FRAMES"
  by (simp add: gw_ok_def stores_ok_def)

lemma gw_ok_job:
  assumes "gw_ok g" and "dget (gw_jobs g) j = Some jo"
  obtains st where "gw_job_store g jo = Some st" "jo < gw_fresh g" "fullmatch ID_RE j"
proof -
  from assms have "gw_job_store g jo \<noteq> None" "fullmatch ID_RE j"
    unfolding gw_ok_def dicts_ok_def by blast+
  then obtain st where "gw_job_store g jo = Some st" "fullmatch ID_RE j" by blast
  moreover from this assms(1) have "jo < gw_fresh g" by (simp add: gw_ok_def stores_ok_def)
  ultimately show thesis using that by blast
qed

lemma gw_ok_session:
  assumes "gw_ok g" and "dget (gw_sessions g) a = Some so"
  obtains s where "gw_session_store g so = Some s" "as_agent_id s = a" "so < gw_fresh g"
    "admitted (gw_tokens g) s"
proof -
  from assms obtain s where s: "gw_session_store g so = Some s" "as_agent_id s = a"
    by (auto simp: gw_ok_def dicts_ok_def session_agent_def)
  moreover from s(1) assms(1) have "so < gw_fresh g" "admitted (gw_tokens g) s"
    by (simp_all add: gw_ok_def stores_ok_def)
  ultimately show thesis by (rule that)
qed

lemma gw_ok_job_updates:
  assumes "gw_ok g" and "gw_job_store g jo = Some st"
  shows "length q \<le> MAX_JOB_EVENTS \<Longrightarrow> gw_ok (g\<lparr>gw_job_store := (gw_job_store g)(jo \<mapsto> st\<lparr>js_queue := q\<rparr>)\<rparr>)"
    and "1 \<le> n \<Longrightarrow> gw_ok (g\<lparr>gw_job_store := (gw_job_store g)(jo \<mapsto> st\<lparr>js_next_sequence := n\<rparr>)\<rparr>)"
    and "gw_ok (g\<lparr>gw_job_store := (gw_job_store g)(jo \<mapsto> st\<lparr>js_cancel_sent := b\<rparr>)\<rparr>)"
  using gw_ok_set_job [OF assms] gw_ok_queue [OF assms] by simp_all

lemma gw_ok_session_updates:
  assumes "gw_ok g" and "gw_session_store g so = Some s"
  shows "length q \<le> MAX_OUTGOING_FRAMES \<Longrightarrow>
      gw_ok (g\<lparr>gw_session_store := (gw_session_store g)(so \<mapsto> s\<lparr>as_outgoing := q\<rparr>)\<rparr>)"
    and "gw_ok (g\<lparr>gw_session_store := (gw_session_store g)(so \<mapsto> s\<lparr>as_last_heartbeat := t\<rparr>)\<rparr>)"
  using gw_ok_set_session [OF assms] gw_ok_outgoing [OF assms] by simp_all

section \<open>Every operation keeps it\<close>

lemma job_put_ok: "gw_ok g \<Longrightarrow> job_put jo f g = Some g' \<Longrightarrow> gw_ok g'"
  by (auto simp: job_put_def intro!: gw_ok_job_updates split: option.splits if_splits)

lemma outgoing_put_ok: "gw_ok g \<Longrightarrow> outgoing_put so f g = Some g' \<Longrightarrow> gw_ok g'"
  by (auto simp: outgoing_put_def intro!: gw_ok_session_updates split: option.splits if_splits)

lemma job_get_ok: "gw_ok g \<Longrightarrow> job_get jo g = Some (f, g') \<Longrightarrow> gw_ok g'"
  by (auto simp: job_get_def dest: gw_ok_queue intro!: gw_ok_job_updates split: option.splits list.splits)

lemma outgoing_get_ok: "gw_ok g \<Longrightarrow> outgoing_get so g = Some (f, g') \<Longrightarrow> gw_ok g'"
  by (auto simp: outgoing_get_def dest: gw_ok_outgoing intro!: gw_ok_session_updates
      split: option.splits list.splits)

lemma accept_event_ok: "gw_ok g \<Longrightarrow> accept_event so j n f g = (g', c) \<Longrightarrow> gw_ok g'"
  using gw_ok_queue [of g] 
  by (fastforce simp: accept_event_def intro!: gw_ok_job_updates
      split: option.splits if_splits bind_splits)

lemma heartbeat_ok:
  "gw_ok g \<Longrightarrow> gw_ok (g\<lparr>gw_session_store := (gw_session_store g)(so :=
     map_option (\<lambda>s. s\<lparr>as_last_heartbeat := now\<rparr>) (gw_session_store g so))\<rparr>)"
proof (cases "gw_session_store g so")
  case None
  then have "(gw_session_store g)(so := None) = gw_session_store g" by auto
  moreover assume "gw_ok g"
  ultimately show ?thesis using None by simp
next
  case (Some s)
  moreover assume "gw_ok g"
  ultimately show ?thesis by (simp add: gw_ok_session_updates)
qed

lemma consume_frame_ok: "gw_ok g \<Longrightarrow> consume_frame so f now g = (g', c) \<Longrightarrow> gw_ok g'"
  by (auto simp: consume_frame_def heartbeat_ok split: agent_frame.splits dest: accept_event_ok)

lemma consumer_resume_ok: "gw_ok g \<Longrightarrow> consumer_resume so c g = Some (g', c') \<Longrightarrow> gw_ok g'"
  by (cases "(so, c, g)" rule: consumer_resume.cases) (auto dest: job_put_ok outgoing_put_ok)

lemma gw_ok_drop_session: "gw_ok g \<Longrightarrow> gw_ok (g\<lparr>gw_sessions := ddel a (gw_sessions g)\<rparr>)"
  by (auto simp: gw_ok_defs session_agent_def inflight_def split: if_splits)

lemma disconnect_ok: "gw_ok g \<Longrightarrow> disconnect so g = (g', sd) \<Longrightarrow> gw_ok g'"
  by (auto simp: disconnect_def Let_def intro: gw_ok_drop_session split: option.splits if_splits)

lemma gw_ok_drop_job: 
  assumes "gw_ok g"
  shows "gw_ok (g\<lparr>gw_jobs := ddel j (gw_jobs g)\<rparr>)"
proof -
  have "inflight a (g\<lparr>gw_jobs := ddel j (gw_jobs g)\<rparr>) \<le> inflight a g" for a
    by (simp add: inflight_def dcount_ddel_le)
  moreover have "\<forall>a. int (inflight a g) \<le> gw_max_inflight g"
    using assms by (simp add: gw_ok_def limits_ok_def)
  ultimately have "int (inflight a (g\<lparr>gw_jobs := ddel j (gw_jobs g)\<rparr>)) \<le> gw_max_inflight g" for a
    by (meson of_nat_mono order_trans)
  with assms show ?thesis by (auto simp: gw_ok_defs session_agent_def split: if_splits)
qed

lemma remember_completed_ok: "gw_ok g \<Longrightarrow> gw_ok (remember_completed j g)"
  using completed.remember_inv [of g j] inflight_cong [of "remember_completed j g" g]
  by (simp add: gw_ok_def stores_ok_def dicts_ok_def limits_ok_def session_agent_def)

lemma finish_job_ok: "gw_ok g \<Longrightarrow> gw_ok (finish_job j g)"
  by (simp add: finish_job_def gw_ok_drop_job remember_completed_ok)

lemma cancel_ok: "gw_ok g \<Longrightarrow> cancel j g = (g', r) \<Longrightarrow> gw_ok g'"
  by (auto simp: cancel_def intro!: gw_ok_job_updates split: option.splits if_splits bind_splits)

lemma connect_cases:
  assumes "connect first now g = Registered g' so"
  obtains hello where "first = Some (Hello hello)" "fullmatch ID_RE (h_agent_id hello)"
    "h_major hello = PROTOCOL_MAJOR" "DIAGNOSTIC_CAPABILITY \<in> set (h_capabilities hello)"
    "dget (gw_tokens g) (h_agent_id hello) = Some (h_auth_token hello)"
    "h_agent_id hello \<notin> set (dkeys (gw_sessions g))" "so = gw_fresh g"
    "g' = g\<lparr>gw_sessions := dput (h_agent_id hello) (gw_fresh g) (gw_sessions g),
            gw_session_store := (gw_session_store g)(gw_fresh g \<mapsto> new_session hello now),
            gw_fresh := Suc (gw_fresh g)\<rparr>"
  using assms
  by (auto simp: connect_def connect_hello_def compare_digest_def
      split: option.splits agent_frame.splits if_splits sum.splits bool.splits)

lemma connect_ok:
  assumes "gw_ok g" and "connect first now g = Registered g' so"
  shows "gw_ok g'"
proof -
  from assms(2) obtain hello where id: "fullmatch ID_RE (h_agent_id hello)"
    and m: "h_major hello = PROTOCOL_MAJOR"
    and cap: "DIAGNOSTIC_CAPABILITY \<in> set (h_capabilities hello)"
    and tok: "dget (gw_tokens g) (h_agent_id hello) = Some (h_auth_token hello)"
    and g': "g' = g\<lparr>gw_sessions := dput (h_agent_id hello) (gw_fresh g) (gw_sessions g),
                      gw_session_store := (gw_session_store g)(gw_fresh g \<mapsto> new_session hello now),
                      gw_fresh := Suc (gw_fresh g)\<rparr>"
    by (rule connect_cases)
  have "admitted (gw_tokens g) (new_session hello now)"
    using id m cap dget_in_dkeys [OF tok] by (simp add: admitted_def new_session_def)
  moreover have "session_agent g' so' = (if so' = gw_fresh g then Some (h_agent_id hello) else session_agent g so')" for so'
    unfolding g' by (simp add: session_agent_def new_session_def)
  moreover have "dget (gw_sessions g) a \<noteq> Some (gw_fresh g)" for a
    using gw_ok_session [OF assms(1)] by (metis less_irrefl)
  moreover have "inflight a g' = inflight a g" for a unfolding g' by (rule inflight_cong) simp_all
  ultimately show ?thesis
    using assms(1) unfolding gw_ok_defs
    by (auto simp: g' new_session_def less_Suc_eq ran_def split: if_splits)
qed

lemma open_job_cases:
  assumes "open_job a j k r g = Inr (g', so, jo)"
  obtains s where "fullmatch ID_RE j" "j \<notin> set (dkeys (gw_jobs g))" "j \<in> gw_completed_jobs g \<longrightarrow> r"
    "dget (gw_sessions g) a = Some so" "gw_session_store g so = Some s"
    "int (inflight a g) < gw_max_inflight g" "jo = gw_fresh g"
    "g' = g\<lparr>gw_jobs := dput j (gw_fresh g) (gw_jobs g),
            gw_job_store := (gw_job_store g)(gw_fresh g \<mapsto> new_job_state a k), gw_fresh := Suc (gw_fresh g)\<rparr>"
  using assms
  by (auto simp: open_job_def get_session_def validate_job_id_def res_simps
      split: option.splits if_splits bind_splits)

lemma open_job_inflight:
  assumes "gw_ok g" and "open_job a j k r g = Inr (g', so, jo)"
  shows "inflight b g' = inflight b g + (if b = a then 1 else 0)"
proof -
  from assms(2) obtain s where j: "j \<notin> set (dkeys (gw_jobs g))"
    and g': "g' = g\<lparr>gw_jobs := dput j (gw_fresh g) (gw_jobs g),
            gw_job_store := (gw_job_store g)(gw_fresh g \<mapsto> new_job_state a k), gw_fresh := Suc (gw_fresh g)\<rparr>"
    by (rule open_job_cases)
  have "dict_wf (gw_jobs g)" using assms(1) by (simp add: gw_ok_def dicts_ok_def)
  then have fresh: "\<forall>(j', jo) \<in> set (gw_jobs g). jo \<noteq> gw_fresh g"
    using gw_ok_job [OF assms(1)] by (auto simp: dict_wf_mem) (metis less_irrefl)
  have "dcount (\<lambda>jo. map_option js_agent_id (gw_job_store g' jo) = Some b) (gw_jobs g) = inflight b g"
    unfolding inflight_def dcount_def g' using fresh
    by (intro arg_cong [where f = length] filter_cong) auto
  then show ?thesis using j
    by (simp add: inflight_def g' dcount_dput_fresh new_job_state_def)
qed

lemma open_job_ok:
  assumes "gw_ok g" and "open_job a j k r g = Inr (g', so, jo)"
  shows "gw_ok g'"
proof -
  note infl = open_job_inflight [OF assms]
  from assms(2) obtain s where j: "j \<notin> set (dkeys (gw_jobs g))" and id: "fullmatch ID_RE j"
    and lim: "int (inflight a g) < gw_max_inflight g"
    and g': "g' = g\<lparr>gw_jobs := dput j (gw_fresh g) (gw_jobs g),
            gw_job_store := (gw_job_store g)(gw_fresh g \<mapsto> new_job_state a k), gw_fresh := Suc (gw_fresh g)\<rparr>"
    by (rule open_job_cases)
  have lims: "int (inflight b g') \<le> gw_max_inflight g'" for b
    using infl [of b] lim assms(1) by (auto simp: g' gw_ok_def limits_ok_def)
  have fresh: "dget (gw_jobs g) j' \<noteq> Some (gw_fresh g)" for j'
    using gw_ok_job [OF assms(1)] by (metis less_irrefl)
  have "stores_ok g'" "dicts_ok g'"
    using assms(1) id fresh unfolding gw_ok_defs
    by (auto simp: g' session_agent_def new_job_state_def less_Suc_eq MAX_JOB_EVENTS_def split: if_splits)
  moreover have "completed.mem_inv g'"
    using assms(1) by (simp add: g' gw_ok_def limits_ok_def completed.mem_inv_def)
  ultimately show ?thesis using lims assms(1) by (simp add: gw_ok_def limits_ok_def g')
qed

lemma diagnostics_ok: "gw_ok g \<Longrightarrow> diagnostics a j root g = Inr (g', jo, st) \<Longrightarrow> gw_ok g'"
  by (auto simp: diagnostics_def res_simps dest: open_job_ok)

lemma kubernetes_release_ok: "gw_ok g \<Longrightarrow> kubernetes_release a rq g = (g', r) \<Longrightarrow> gw_ok g'"
  by (auto simp: kubernetes_release_def dest: open_job_ok gw_ok_drop_job split: sum.splits prod.splits if_splits)

lemma stream_resume_ok: "gw_ok g \<Longrightarrow> stream_resume jo st g = Some (g', f, st') \<Longrightarrow> gw_ok g'"
  by (cases "(jo, st, g)" rule: stream_resume.cases)
    (auto dest: job_get_ok outgoing_put_ok simp: finish_job_ok split: if_splits)

lemma stream_close_ok: "gw_ok g \<Longrightarrow> gw_ok (stream_close st g)"
  by (cases st) (simp_all add: finish_job_ok)

lemmas gateway_ops_ok = job_put_ok outgoing_put_ok outgoing_get_ok consume_frame_ok consumer_resume_ok
  disconnect_ok connect_ok diagnostics_ok kubernetes_release_ok stream_resume_ok stream_close_ok cancel_ok

end
