(* ===== verification/Diagnostics.thy ===== *)
theory Diagnostics
  imports Gateway_Invariant Redaction "HOL-Library.Multiset"
begin

text \<open>
  Diagnostic operations of the control plane: the table \<open>DiagnosticOperation\<close> of
  \<open>controlplane/models.py\<close>, the service and the consuming coroutine of \<open>controlplane/services.py\<close>, and the
  backend that ties them to the gateway.

  The table is a list of rows with a counter for primary keys. Each database statement of the
  source (create, save, filtered update, delete) is one atomic change of the table, one constructor of
  \<open>dbstep\<close>; a request or the consuming coroutine is a sequence of such statements, and statements of
  several requests interleave. Times are integers; what the database leaves open (the order of rows with
  the same \<open>created_at\<close>) is the parameter \<open>ordr\<close> with the law \<open>newest_first\<close>.
\<close>

section \<open>Rows\<close>

datatype op_status = PENDING | RUNNING | SUCCEEDED | FAILED | CANCELLED | OFFLINE | OVERLOADED | DISCONNECTED | TIMEOUT

definition op_active :: "op_status \<Rightarrow> bool" where
  "op_active s \<longleftrightarrow> s \<in> {PENDING, RUNNING}"

definition op_terminal :: "op_status \<Rightarrow> bool" where
  "op_terminal s \<longleftrightarrow> s \<in> {SUCCEEDED, FAILED, CANCELLED, OFFLINE, OVERLOADED, DISCONNECTED, TIMEOUT}"

datatype op_summary =
    EmptySummary
  | ProgressSummary string string
  | ChecksSummary "diagnostic_check list"

record project =
  pr_id :: nat
  pr_slug :: string
  pr_release_root :: string

record agent_registration =
  ar_agent_id :: string
  ar_project :: project
  ar_capabilities :: "string list"

record diagnostic_operation =
  op_pk :: nat
  op_public_id :: string
  op_project_id :: nat
  op_agent :: agent_registration
  op_requested_by :: nat
  op_diagnostic :: string
  op_status :: op_status
  op_result_summary :: op_summary
  op_error_code :: string
  op_created_at :: int
  op_updated_at :: int

record op_table =
  ot_rows :: "diagnostic_operation list"
  ot_next :: nat

definition empty_table :: op_table where
  "empty_table = \<lparr>ot_rows = [], ot_next = 0\<rparr>"

definition op_find :: "op_table \<Rightarrow> nat \<Rightarrow> diagnostic_operation option" where
  "op_find t pk = List.find (\<lambda>r. op_pk r = pk) (ot_rows t)"

section \<open>Statements\<close>

definition MAX_HISTORY_PER_PROJECT :: nat where
  "MAX_HISTORY_PER_PROJECT = 200"

definition MAX_CHECKS :: nat where
  "MAX_CHECKS = 32"

definition MAX_DETAIL :: nat where
  "MAX_DETAIL = 2048"

text \<open>\<open>(?i)(secret|password|token|access[_-]?key)\<close>\<close>

definition service_keywords :: rx where
  "service_keywords = Alts [LitI ''secret'', LitI ''password'', LitI ''token'',
     two_words ''access'' ''key'']"

definition redact :: "string \<Rightarrow> string" where
  "redact value = take MAX_DETAIL (re_sub (secret_rx service_keywords) redacted_mark value)"

text \<open>\<open>DiagnosticOperation.objects.create\<close>; \<open>uid\<close> is the generated UUID.\<close>

definition new_operation :: "nat \<Rightarrow> string \<Rightarrow> agent_registration \<Rightarrow> nat \<Rightarrow> string \<Rightarrow> int \<Rightarrow> diagnostic_operation" where
  "new_operation pk uid agent user diagnostic now =
     \<lparr>op_pk = pk, op_public_id = uid, op_project_id = pr_id (ar_project agent), op_agent = agent,
      op_requested_by = user, op_diagnostic = diagnostic, op_status = PENDING, op_result_summary = EmptySummary,
      op_error_code = '''', op_created_at = now, op_updated_at = now\<rparr>"

definition op_create :: "string \<Rightarrow> agent_registration \<Rightarrow> nat \<Rightarrow> string \<Rightarrow> int \<Rightarrow> op_table \<Rightarrow> op_table" where
  "op_create uid agent user diagnostic now t =
     t\<lparr>ot_rows := ot_rows t @ [new_operation (ot_next t) uid agent user diagnostic now], ot_next := Suc (ot_next t)\<rparr>"

text \<open>\<open>objects.filter(pk=pk, status__in=...).update(...)\<close>\<close>

definition op_update :: "nat \<Rightarrow> (op_status \<Rightarrow> bool) \<Rightarrow> (diagnostic_operation \<Rightarrow> diagnostic_operation) \<Rightarrow> op_table \<Rightarrow> op_table" where
  "op_update pk p f t =
     t\<lparr>ot_rows := map (\<lambda>r. if op_pk r = pk \<and> p (op_status r) then f r else r) (ot_rows t)\<rparr>"

definition set_running :: "nat \<Rightarrow> op_table \<Rightarrow> op_table" where
  "set_running pk = op_update pk (\<lambda>s. s = PENDING) (\<lambda>r. r\<lparr>op_status := RUNNING\<rparr>)"

definition save_progress :: "nat \<Rightarrow> string \<Rightarrow> string \<Rightarrow> op_table \<Rightarrow> op_table" where
  "save_progress pk phase message =
     op_update pk op_active (\<lambda>r. r\<lparr>op_result_summary := ProgressSummary (take 64 phase) (redact message)\<rparr>)"

definition mapped_status :: "string \<Rightarrow> op_status" where
  "mapped_status status =
     (if status = ''succeeded'' then SUCCEEDED
      else if status = ''cancelled'' then CANCELLED
      else if status = ''disconnected'' then DISCONNECTED
      else FAILED)"

definition save_result :: "nat \<Rightarrow> string \<Rightarrow> diagnostic_check list \<Rightarrow> op_table \<Rightarrow> op_table" where
  "save_result pk status checks =
     op_update pk op_active (\<lambda>r. r\<lparr>op_status := mapped_status status, op_result_summary := ChecksSummary checks,
       op_error_code := (if mapped_status status = SUCCEEDED then '''' else take 32 (upper status))\<rparr>)"

definition save_error :: "nat \<Rightarrow> op_status \<Rightarrow> string \<Rightarrow> op_table \<Rightarrow> op_table" where
  "save_error pk status code = op_update pk op_active (\<lambda>r. r\<lparr>op_status := status, op_error_code := code\<rparr>)"

text \<open>\<open>operation.save(update_fields=("status", "error_code", "updated_at"))\<close>: by primary key, whatever
  the row's status is by then.\<close>

definition op_save :: "nat \<Rightarrow> op_status \<Rightarrow> string \<Rightarrow> int \<Rightarrow> op_table \<Rightarrow> op_table" where
  "op_save pk status code now =
     op_update pk (\<lambda>_. True) (\<lambda>r. r\<lparr>op_status := status, op_error_code := code, op_updated_at := now\<rparr>)"

definition newest_first :: "(diagnostic_operation list \<Rightarrow> diagnostic_operation list) \<Rightarrow> bool" where
  "newest_first ordr \<longleftrightarrow> (\<forall>rs. mset (ordr rs) = mset rs \<and> sorted_wrt (\<lambda>a b. op_created_at b \<le> op_created_at a) (ordr rs))"

definition stale_pks :: "(diagnostic_operation list \<Rightarrow> diagnostic_operation list) \<Rightarrow> nat \<Rightarrow> op_table \<Rightarrow> nat list" where
  "stale_pks ordr project_id t =
     map op_pk (drop MAX_HISTORY_PER_PROJECT
       (ordr (filter (\<lambda>r. op_project_id r = project_id \<and> op_status r \<noteq> PENDING \<and> op_status r \<noteq> RUNNING) (ot_rows t))))"

definition trim_history :: "(diagnostic_operation list \<Rightarrow> diagnostic_operation list) \<Rightarrow> nat \<Rightarrow> op_table \<Rightarrow> op_table" where
  "trim_history ordr project_id t =
     t\<lparr>ot_rows := filter (\<lambda>r. op_pk r \<notin> set (stale_pks ordr project_id t)) (ot_rows t)\<rparr>"

section \<open>The backend\<close>

text \<open>\<open>OperationsBackend\<close> with what each call returns or raises.\<close>

record operations_backend =
  be_connected :: "string \<Rightarrow> bool"
  be_heartbeat_age :: "string \<Rightarrow> int option"
  be_capabilities :: "string \<Rightarrow> string list"
  be_protocol_version :: "string \<Rightarrow> int \<times> int"
  be_start :: "diagnostic_operation \<Rightarrow> unit res"
  be_cancel :: "diagnostic_operation \<Rightarrow> bool res"

text \<open>\<open>runtime.gateway_runtime\<close>: \<open>None\<close> while no gateway is registered.\<close>

definition gateway_runtime :: "gateway option \<Rightarrow> gateway res" where
  "gateway_runtime rt =
     (case rt of None \<Rightarrow> Inl (RuntimeError ''Phase 1 gateway runtime is unavailable'') | Some g \<Rightarrow> Inr g)"

text \<open>\<open>except (RuntimeError, LookupError): return d\<close>\<close>

definition or_default :: "'a \<Rightarrow> 'a res \<Rightarrow> 'a" where
  "or_default d r = (case r of Inl _ \<Rightarrow> d | Inr x \<Rightarrow> x)"

text \<open>\<open>RuntimeGatewayBackend\<close> at clock reading \<open>now\<close>. A cancellation that finds no room in the session's queue
  is still waiting when \<open>future.result(timeout=2)\<close> gives up.\<close>

definition runtime_cancel :: "gateway option \<Rightarrow> string \<Rightarrow> bool res" where
  "runtime_cancel rt job_id =
     bindR (gateway_runtime rt) (\<lambda>g.
       case cancel job_id g of
         (_, Inl accepted) \<Rightarrow> Inr accepted
       | (g', Inr so) \<Rightarrow> (case outgoing_put so (Some (Cancel job_id)) g' of
           None \<Rightarrow> Inl (TimeoutError '''') | Some _ \<Rightarrow> Inr True))"

definition runtime_backend :: "gateway option \<Rightarrow> int \<Rightarrow> operations_backend" where
  "runtime_backend rt now =
     \<lparr>be_connected = (\<lambda>a. or_default False (bindR (gateway_runtime rt) (\<lambda>g. Inr (is_connected a g)))),
      be_heartbeat_age = (\<lambda>a. or_default None (bindR (gateway_runtime rt) (\<lambda>g. bindR (heartbeat_age a now g) (\<lambda>n. Inr (Some n))))),
      be_capabilities = (\<lambda>a. or_default [] (bindR (gateway_runtime rt) (capabilities a))),
      be_protocol_version = (\<lambda>a. or_default (0, 0) (bindR (gateway_runtime rt) (protocol_version a))),
      be_start = (\<lambda>_. bindR (gateway_runtime rt) (\<lambda>_. Inr ())),
      be_cancel = (\<lambda>op. runtime_cancel rt (op_public_id op))\<rparr>"

section \<open>The service\<close>

record agent_state =
  st_connected :: bool
  st_heartbeat_age :: "int option"
  st_capabilities :: "string list"
  st_protocol_major :: "int option"
  st_protocol_minor :: "int option"

definition agent_state_of :: "operations_backend \<Rightarrow> agent_registration \<Rightarrow> agent_state" where
  "agent_state_of be agent =
     (if \<not> be_connected be (ar_agent_id agent)
      then \<lparr>st_connected = False, st_heartbeat_age = None, st_capabilities = ar_capabilities agent,
            st_protocol_major = None, st_protocol_minor = None\<rparr>
      else \<lparr>st_connected = True, st_heartbeat_age = be_heartbeat_age be (ar_agent_id agent),
            st_capabilities = be_capabilities be (ar_agent_id agent),
            st_protocol_major = Some (fst (be_protocol_version be (ar_agent_id agent))),
            st_protocol_minor = Some (snd (be_protocol_version be (ar_agent_id agent)))\<rparr>)"

text \<open>\<open>str(exc)\<close> of an exception an \<open>except RuntimeError\<close> catches.\<close>

fun exn_text :: "pyexn \<Rightarrow> string" where
  "exn_text (RuntimeError m) = m"
| "exn_text (DeployError m) = m"
| "exn_text (BackupError m) = m"
| "exn_text (HealthTransportError m) = m"
| "exn_text _ = ''''"

text \<open>What \<open>start\<close> saves after it created the operation: nothing, a status and code, or an
  exception that leaves the service.\<close>

definition start_outcome :: "operations_backend \<Rightarrow> diagnostic_operation \<Rightarrow> (op_status \<times> string) option res" where
  "start_outcome be operation =
     (if \<not> be_connected be (ar_agent_id (op_agent operation)) then Inr (Some (OFFLINE, ''AGENT_OFFLINE''))
      else (case be_start be operation of
          Inr _ \<Rightarrow> Inr None
        | Inl e \<Rightarrow>
            if is_RuntimeError e
            then Inr (Some (if substring_in ''capacity'' (lower (exn_text e)) then (OVERLOADED, ''OVERLOADED'')
                            else (FAILED, ''GATEWAY_UNAVAILABLE'')))
            else Inl e))"

text \<open>\<open>start\<close>: the table it leaves, and the operation it returns (its primary key) or what it raises. \<open>now'\<close> is
  the time of the second statement.\<close>

definition start_diagnostic ::
    "operations_backend \<Rightarrow> (diagnostic_operation list \<Rightarrow> diagnostic_operation list) \<Rightarrow> string \<Rightarrow> agent_registration \<Rightarrow> nat
     \<Rightarrow> string \<Rightarrow> int \<Rightarrow> int \<Rightarrow> op_table \<Rightarrow> op_table \<times> nat res" where
  "start_diagnostic be ordr uid agent user diagnostic now now' t =
     (if diagnostic \<noteq> ''django_health'' then (t, Inl (ValueError ''unsupported diagnostic''))
      else
        let pk = ot_next t;
            operation = new_operation pk uid agent user diagnostic now;
            t1 = op_create uid agent user diagnostic now t
        in (case start_outcome be operation of
              Inl e \<Rightarrow> (t1, Inl e)
            | Inr None \<Rightarrow> (trim_history ordr (pr_id (ar_project agent)) t1, Inr pk)
            | Inr (Some (s, c)) \<Rightarrow> (trim_history ordr (pr_id (ar_project agent)) (op_save pk s c now' t1), Inr pk)))"

definition cancel_outcome :: "bool res \<Rightarrow> (op_status \<times> string) res" where
  "cancel_outcome r =
     (case r of
        Inl e \<Rightarrow>
          if is_TimeoutError e then Inr (FAILED, ''CANCEL_TIMEOUT'')
          else if is_RuntimeError e then Inr (FAILED, ''CANCEL_FAILED'')
          else Inl e
      | Inr True \<Rightarrow> Inr (CANCELLED, '''')
      | Inr False \<Rightarrow> Inr (DISCONNECTED, ''CANCEL_UNAVAILABLE''))"

definition cancel_diagnostic :: "operations_backend \<Rightarrow> nat \<Rightarrow> op_table \<Rightarrow> op_table \<times> diagnostic_operation res" where
  "cancel_diagnostic be pk t =
     (case op_find t pk of
        None \<Rightarrow> (t, Inl (DoesNotExist ''DiagnosticOperation''))
      | Some r \<Rightarrow>
          if op_terminal (op_status r) then (t, Inr r)
          else (case cancel_outcome (be_cancel be r) of
              Inl e \<Rightarrow> (t, Inl e)
            | Inr (s, c) \<Rightarrow>
                let t' = save_error pk s c t
                in (t', case op_find t' pk of None \<Rightarrow> Inl (DoesNotExist ''DiagnosticOperation'') | Some r' \<Rightarrow> Inr r')))"

section \<open>The consuming coroutine\<close>

text \<open>One statement on the table. The one statement not among them is the unguarded save of \<open>start\<close> (\<open>op_save\<close>).\<close>

datatype dbstep =
    Create string agent_registration nat string int
  | SetRunning nat
  | SaveProgress nat string string
  | SaveResult nat string "diagnostic_check list"
  | SaveError nat op_status string
  | Trim nat

fun db_step :: "(diagnostic_operation list \<Rightarrow> diagnostic_operation list) \<Rightarrow> dbstep \<Rightarrow> op_table \<Rightarrow> op_table" where
  "db_step ordr (Create uid agent user diagnostic now) t = op_create uid agent user diagnostic now t"
| "db_step ordr (SetRunning pk) t = set_running pk t"
| "db_step ordr (SaveProgress pk phase message) t = save_progress pk phase message t"
| "db_step ordr (SaveResult pk status checks) t = save_result pk status checks t"
| "db_step ordr (SaveError pk status code) t = save_error pk status code t"
| "db_step ordr (Trim project_id) t = trim_history ordr project_id t"

definition bounded_checks :: "diagnostic_check list \<Rightarrow> diagnostic_check list" where
  "bounded_checks checks =
     map (\<lambda>c. \<lparr>dc_name = take 128 (dc_name c), dc_status = take 32 (dc_status c), dc_detail = redact (dc_detail c)\<rparr>)
       (take MAX_CHECKS checks)"

fun consume_event :: "nat \<Rightarrow> agent_frame \<Rightarrow> dbstep list" where
  "consume_event pk (Progress _ _ phase message) = [SaveProgress pk phase message]"
| "consume_event pk (Result _ _ status checks) = [SaveResult pk status (bounded_checks checks)]"
| "consume_event pk _ = []"

text \<open>How the event stream ends: exhausted, an exception (the timeout's \<open>TimeoutError\<close> among them), or the
  cancellation of the coroutine's own task, which no \<open>except\<close> clause catches.\<close>

datatype stream_end = Exhausted | Failed_with pyexn | Task_cancelled

fun consume_end :: "nat \<Rightarrow> stream_end \<Rightarrow> dbstep list" where
  "consume_end pk Exhausted = []"
| "consume_end pk Task_cancelled = []"
| "consume_end pk (Failed_with e) =
     (if is_TimeoutError e then [SaveError pk TIMEOUT ''DIAGNOSTIC_TIMEOUT'']
      else if is_LookupError e then [SaveError pk OFFLINE ''AGENT_OFFLINE'']
      else if is_RuntimeError e then [SaveError pk OVERLOADED ''OVERLOADED'']
      else [SaveError pk FAILED ''DIAGNOSTIC_FAILED''])"

definition consume_operation :: "nat \<Rightarrow> agent_frame list \<Rightarrow> stream_end \<Rightarrow> dbstep list" where
  "consume_operation pk frames fin = SetRunning pk # concat (map (consume_event pk) frames) @ consume_end pk fin"

end
