(* ===== verification/Kubernetes.thy ===== *)
theory Kubernetes
  imports Json_Roundtrip PyUrl Diagnostics
begin

text \<open>
  Kubernetes targets and releases: \<open>controlplane/kubernetes.py\<close> with its tables in
  \<open>controlplane/models.py\<close>.

  The tables are lists of rows, as in \<open>Diagnostics\<close>. \<open>start_release\<close> is its three segments:
  the locked transaction (\<open>open_release\<close>), the backend's call, and the guarded update with its
  result (\<open>settle_release\<close>); other requests run between them. Parameters: \<open>ip_ok\<close> of \<open>PyUrl\<close>, the
  hexadecimal SHA-256 \<open>sha\<close> of an ASCII text, the generated identifiers, and the order \<open>ordr\<close> in which
  the database lists releases (newest first).
\<close>

section \<open>Validation\<close>

definition is_label_end :: "char \<Rightarrow> bool" where
  "is_label_end c \<longleftrightarrow> is_lower_az c \<or> is_digit c"

definition is_label_char :: "char \<Rightarrow> bool" where
  "is_label_char c \<longleftrightarrow> c = CHR ''-'' \<or> is_label_end c"

definition DNS_LABEL :: rx where
  "DNS_LABEL = Seq (Cls is_label_end) (Opt (Seq (Star (Cls is_label_char)) (Cls is_label_end)))"

definition CREDENTIAL_REF :: rx where
  "CREDENTIAL_REF = Seq (Cls is_alnum_az) (Rep 2 125 (Cls (\<lambda>c. is_alnum_az c \<or> c \<in> set '':/_.-'')))"

definition is_hex_lower :: "char \<Rightarrow> bool" where
  "is_hex_lower c \<longleftrightarrow> is_digit c \<or> in_range 97 102 c"

definition DIGEST_IMAGE :: rx where
  "DIGEST_IMAGE = Seq (Plus (Cls (\<lambda>c. ord c \<noteq> 10))) (Seq (Lit ''@sha256:'') (Rep 64 0 (Cls is_hex_lower)))"

definition validate_name :: "bool \<Rightarrow> string \<Rightarrow> string res" where
  "validate_name release value =
     (let value = strip value; limit = (if release then 53 else 63)
      in if value = [] \<or> length value > limit \<or> \<not> fullmatch DNS_LABEL value
         then Inl (ValueError ''invalid Kubernetes name'') else Inr value)"

definition validate_api_server :: "(string \<Rightarrow> bool) \<Rightarrow> string \<Rightarrow> string res" where
  "validate_api_server ip_ok value =
     bindR (urlsplit ip_ok value) (\<lambda>parsed.
       if u_scheme parsed \<noteq> ''https'' \<or> u_hostname parsed = None
          \<or> u_username parsed \<notin> {None, Some []} \<or> u_password parsed \<notin> {None, Some []}
       then Inl (ValueError ''api_server must be an https endpoint without embedded credentials'')
       else Inr (rstrip_by (\<lambda>c. c = CHR ''/'') value))"

definition validate_credential_ref :: "string \<Rightarrow> string res" where
  "validate_credential_ref value =
     (if fullmatch CREDENTIAL_REF value then Inr value
      else Inl (ValueError ''credential_ref must be an opaque server-side reference''))"

definition validate_image :: "string \<Rightarrow> string res" where
  "validate_image value =
     (if fullmatch DIGEST_IMAGE value then Inr value
      else Inl (ValueError ''release image must use an immutable sha256 digest''))"

section \<open>Helm values\<close>

definition allowed_values :: "string list" where
  "allowed_values = [''webReplicas'', ''celeryWorker'', ''celeryBeat'', ''ingress'', ''resources'', ''health'',
     ''environmentSecretName'', ''migrationCompatibility'']"

definition secret_tokens :: "string list" where
  "secret_tokens = [quote # ''password'' @ [quote], quote # ''token'' @ [quote], quote # ''secretkey'' @ [quote],
     quote # ''access_key'' @ [quote]]"

text \<open>The values are the members of a JSON object.\<close>

definition sanitize_values :: "(string \<times> json) list \<Rightarrow> (string \<times> json) list res" where
  "sanitize_values values =
     (let unknown = filter (\<lambda>k. k \<notin> set allowed_values) (map fst values);
          encoded = json_dumps (JObj values)
      in if unknown \<noteq> [] then Inl (ValueError (''unsupported Helm values: '' @ join '', '' (sort unknown)))
         else if list_ex (\<lambda>tok. substring_in tok (lower encoded)) secret_tokens
         then Inl (ValueError ''plaintext secret-like Helm values are not accepted'')
         else (case json_loads encoded of
             Some (JObj kvs) \<Rightarrow> Inr kvs
           | _ \<Rightarrow> Inl (ValueError ''invalid JSON'')))"

definition values_digest :: "(string \<Rightarrow> string) \<Rightarrow> (string \<times> json) list \<Rightarrow> string" where
  "values_digest sha values = sha (json_dumps (JObj values))"

text \<open>\<open>str(v)\<close> as far as the comparison with \<open>safe\<close> and \<open>unknown\<close> goes: the text of a list or an object begins with
  its bracket.\<close>

fun py_str :: "json \<Rightarrow> string" where
  "py_str JNull = ''None''"
| "py_str (JBool b) = (if b then ''True'' else ''False'')"
| "py_str (JInt n) = int_str n"
| "py_str (JFloat t) = t"
| "py_str (JStr s) = s"
| "py_str (JArr vs) = ''[...]''"
| "py_str (JObj kvs) = ''{...}''"

definition compatibility_of :: "(string \<times> json) list \<Rightarrow> string" where
  "compatibility_of values = (case dget values ''migrationCompatibility'' of None \<Rightarrow> ''unknown'' | Some v \<Rightarrow> py_str v)"

section \<open>Tables\<close>

record target_validation =
  tv_reachable :: bool
  tv_namespace_access :: bool
  tv_helm_available :: bool
  tv_permissions :: "string list"

definition tv_valid :: "target_validation \<Rightarrow> bool" where
  "tv_valid v \<longleftrightarrow> tv_reachable v \<and> tv_namespace_access v \<and> tv_helm_available v"

record kubernetes_target =
  kt_pk :: nat
  kt_project :: nat
  kt_agent :: agent_registration
  kt_name :: string
  kt_api_server :: string
  kt_namespace :: string
  kt_release_name :: string
  kt_credential_ref :: string
  kt_ingress_class :: string
  kt_tls_secret_name :: string
  kt_validated_at :: "int option"
  kt_validation_summary :: "target_validation option"

record target_table =
  tt_rows :: "kubernetes_target list"
  tt_next :: nat

datatype release_status = KPENDING | KVALIDATING | KMIGRATING | KAPPLYING | KVERIFYING | KSUCCEEDED | KFAILED | KCANCELLED
  | KROLLED_BACK | KROLLBACK_BLOCKED

definition rel_active :: "release_status \<Rightarrow> bool" where
  "rel_active s \<longleftrightarrow> s \<in> {KPENDING, KVALIDATING, KMIGRATING, KAPPLYING, KVERIFYING}"

definition rel_terminal :: "release_status \<Rightarrow> bool" where
  "rel_terminal s \<longleftrightarrow> s \<in> {KSUCCEEDED, KFAILED, KCANCELLED, KROLLED_BACK, KROLLBACK_BLOCKED}"

definition recoverable_errors :: "string list" where
  "recoverable_errors = [''AGENT_UNAVAILABLE'', ''AGENT_RESULT_UNAVAILABLE'', ''CANCEL_UNAVAILABLE'',
     ''DURABLE_STATE_UNAVAILABLE'', ''RECOVERY_REQUIRED'']"

text \<open>\<open>result.status if result.status in _TERMINAL else "failed"\<close>\<close>

definition terminal_status :: "string \<Rightarrow> release_status" where
  "terminal_status s =
     (if s = ''succeeded'' then KSUCCEEDED else if s = ''cancelled'' then KCANCELLED
      else if s = ''rolled_back'' then KROLLED_BACK else if s = ''rollback_blocked'' then KROLLBACK_BLOCKED else KFAILED)"

record kubernetes_release_row =
  kr_pk :: nat
  kr_project :: nat
  kr_target :: nat
  kr_requested_by :: nat
  kr_status :: release_status
  kr_operation_id :: string
  kr_image :: string
  kr_chart_version :: string
  kr_values_digest :: string
  kr_values_snapshot :: "(string \<times> json) list"
  kr_helm_revision :: "int option"
  kr_previous_helm_revision :: "int option"
  kr_previous_image :: string
  kr_previous_values_digest :: string
  kr_migration_compatibility :: string
  kr_rollback_status :: string
  kr_error_code :: string
  kr_created_at :: int

record release_table =
  rt_rows :: "kubernetes_release_row list"
  rt_next :: nat

definition rel_find :: "release_table \<Rightarrow> nat \<Rightarrow> kubernetes_release_row option" where
  "rel_find t pk = List.find (\<lambda>r. kr_pk r = pk) (rt_rows t)"

definition rel_update :: "nat \<Rightarrow> (release_status \<Rightarrow> bool) \<Rightarrow> (kubernetes_release_row \<Rightarrow> kubernetes_release_row)
    \<Rightarrow> release_table \<Rightarrow> release_table" where
  "rel_update pk p f t = t\<lparr>rt_rows := map (\<lambda>r. if kr_pk r = pk \<and> p (kr_status r) then f r else r) (rt_rows t)\<rparr>"

section \<open>Backends\<close>

record krequest =
  kq_operation_id :: string
  kq_namespace :: string
  kq_release_name :: string
  kq_image :: string
  kq_values_json :: string
  kq_credential_ref :: string
  kq_rollback_policy :: string
  kq_mode :: string
  kq_previous_revision :: int
  kq_migration_timeout_seconds :: int
  kq_rollout_timeout_seconds :: int

record kresult =
  ks_status :: string
  ks_helm_revision :: "int option"
  ks_previous_revision :: "int option"
  ks_rollback_status :: string
  ks_error_code :: string

record kubernetes_backend =
  kb_validate :: "kubernetes_target \<Rightarrow> target_validation res"
  kb_start :: "kubernetes_target \<Rightarrow> krequest \<Rightarrow> kresult res"
  kb_cancel :: "string \<Rightarrow> bool res"

definition gateway_request :: "krequest \<Rightarrow> release_request" where
  "gateway_request q =
     \<lparr>rq_job_id = kq_operation_id q, rq_namespace = kq_namespace q, rq_release_name = kq_release_name q,
      rq_chart_path = ''charts/djangoops'', rq_image = kq_image q, rq_values_json = kq_values_json q,
      rq_credential_ref = kq_credential_ref q, rq_migration_timeout_seconds = kq_migration_timeout_seconds q,
      rq_rollout_timeout_seconds = kq_rollout_timeout_seconds q, rq_rollback_policy = kq_rollback_policy q,
      rq_mode = kq_mode q, rq_previous_revision = kq_previous_revision q\<rparr>"

definition nonzero :: "int \<Rightarrow> int option" where
  "nonzero n = (if n = 0 then None else Some n)"

text \<open>\<open>collect()\<close> on what the gateway's stream yields and how it ends.\<close>

fun kubernetes_results :: "agent_frame list \<Rightarrow> release_result list" where
  "kubernetes_results [] = []"
| "kubernetes_results (KResult _ _ r # fs) = r # kubernetes_results fs"
| "kubernetes_results (_ # fs) = kubernetes_results fs"

definition collect :: "agent_frame list \<times> stream_end \<Rightarrow> kresult res" where
  "collect s =
     (case snd s of
        Failed_with e \<Rightarrow> Inl e
      | _ \<Rightarrow>
          if kubernetes_results (fst s) = [] then Inl (RuntimeError ''agent returned no Kubernetes result'')
          else let r = last (kubernetes_results (fst s))
               in Inr \<lparr>ks_status = rr_status r, ks_helm_revision = nonzero (rr_helm_revision r),
                      ks_previous_revision = nonzero (rr_previous_revision r), ks_rollback_status = rr_rollback_status r,
                      ks_error_code = rr_error_code r\<rparr>)"

text \<open>What the gateway answers to a request: the exception its \<open>kubernetes_release\<close> raises, else the stream \<open>events\<close>.\<close>

definition gateway_stream :: "gateway \<Rightarrow> (string \<Rightarrow> release_request \<Rightarrow> agent_frame list \<times> stream_end)
    \<Rightarrow> string \<Rightarrow> release_request \<Rightarrow> agent_frame list \<times> stream_end" where
  "gateway_stream g events agent_id rq =
     (case kubernetes_release agent_id rq g of (_, Inl e) \<Rightarrow> ([], Failed_with e) | _ \<Rightarrow> events agent_id rq)"

text \<open>\<open>RuntimeKubernetesBackend._run\<close>: only a \<open>TimeoutError\<close> (of the stream or of \<open>future.result\<close>) and a
  \<open>RuntimeError\<close> are caught.\<close>

definition runtime_run :: "gateway option \<Rightarrow> (string \<Rightarrow> release_request \<Rightarrow> agent_frame list \<times> stream_end)
    \<Rightarrow> string \<Rightarrow> krequest \<Rightarrow> kresult res" where
  "runtime_run rt events agent_id request =
     (case rt of
        None \<Rightarrow> Inl (RuntimeError ''kubernetes agent backend unavailable'')
      | Some g \<Rightarrow>
          (case collect (gateway_stream g events agent_id (gateway_request request)) of
             Inr r \<Rightarrow> Inr r
           | Inl e \<Rightarrow>
               if is_TimeoutError e \<or> is_RuntimeError e then Inl (RuntimeError ''kubernetes agent operation failed'')
               else Inl e))"

definition validation_request :: "string \<Rightarrow> kubernetes_target \<Rightarrow> krequest" where
  "validation_request uid target =
     \<lparr>kq_operation_id = ''k8sv-'' @ uid, kq_namespace = kt_namespace target, kq_release_name = kt_release_name target,
      kq_image = ''validation.invalid/app@sha256:'' @ replicate 64 CHR ''0'', kq_values_json = ''{}'',
      kq_credential_ref = kt_credential_ref target, kq_rollback_policy = ''block-after-migration'', kq_mode = ''validate'',
      kq_previous_revision = 0, kq_migration_timeout_seconds = 300, kq_rollout_timeout_seconds = 300\<rparr>"

definition required_permissions :: "string list" where
  "required_permissions = [''deployments'', ''jobs'', ''services'', ''ingresses'', ''secrets'']"

definition runtime_validate :: "gateway option \<Rightarrow> (string \<Rightarrow> release_request \<Rightarrow> agent_frame list \<times> stream_end) \<Rightarrow> string
    \<Rightarrow> kubernetes_target \<Rightarrow> target_validation res" where
  "runtime_validate rt events uid target =
     bindR (runtime_run rt events (ar_agent_id (kt_agent target)) (validation_request uid target)) (\<lambda>r.
       if ks_status r \<noteq> ''succeeded''
       then Inr \<lparr>tv_reachable = False, tv_namespace_access = False, tv_helm_available = False, tv_permissions = []\<rparr>
       else Inr \<lparr>tv_reachable = True, tv_namespace_access = True, tv_helm_available = True,
                 tv_permissions = required_permissions\<rparr>)"

definition runtime_kcancel :: "gateway option \<Rightarrow> string \<Rightarrow> bool res" where
  "runtime_kcancel rt operation_id =
     (case rt of None \<Rightarrow> Inr False
      | Some g \<Rightarrow> (case runtime_cancel (Some g) operation_id of
           Inl e \<Rightarrow> if is_TimeoutError e then Inr False else Inl e | Inr b \<Rightarrow> Inr b))"

definition runtime_kubernetes :: "gateway option \<Rightarrow> (string \<Rightarrow> release_request \<Rightarrow> agent_frame list \<times> stream_end) \<Rightarrow> string
    \<Rightarrow> kubernetes_backend" where
  "runtime_kubernetes rt events uid =
     \<lparr>kb_validate = runtime_validate rt events uid,
      kb_start = (\<lambda>target request. runtime_run rt events (ar_agent_id (kt_agent target)) request),
      kb_cancel = runtime_kcancel rt\<rparr>"

section \<open>Registering a target\<close>

definition same_identity :: "string \<Rightarrow> string \<Rightarrow> string \<Rightarrow> kubernetes_target \<Rightarrow> bool" where
  "same_identity api namespace release r \<longleftrightarrow>
     kt_api_server r = api \<and> kt_namespace r = namespace \<and> kt_release_name r = release"

definition optional_name :: "string \<Rightarrow> string res" where
  "optional_name s = (if s = [] then Inr [] else validate_name False s)"

text \<open>The validation that ends in the insertion of a row (with the unique constraint of the table).\<close>

definition create_target :: "(string \<Rightarrow> bool) \<Rightarrow> project \<Rightarrow> agent_registration \<Rightarrow> string \<Rightarrow> string \<Rightarrow> string \<Rightarrow> string \<Rightarrow> string
    \<Rightarrow> string \<Rightarrow> string \<Rightarrow> target_table \<Rightarrow> kubernetes_target res" where
  "create_target ip_ok project agent name api_server namespace release_name credential_ref ingress_class tls_secret_name t =
     bindR (guardR (pr_id (ar_project agent) = pr_id project) (ValueError ''agent and target project must match'')) (\<lambda>_.
     bindR (validate_api_server ip_ok api_server) (\<lambda>api.
     bindR (validate_name False namespace) (\<lambda>ns.
     bindR (validate_name True release_name) (\<lambda>rel.
     bindR (guardR (\<not> list_ex (\<lambda>r. same_identity api ns rel r \<and> kt_project r \<noteq> pr_id project) (tt_rows t))
       (ValueError ''cluster namespace/release identity belongs to another project'')) (\<lambda>_.
     bindR (validate_credential_ref credential_ref) (\<lambda>cred.
     bindR (optional_name ingress_class) (\<lambda>ing.
     bindR (optional_name tls_secret_name) (\<lambda>tls.
     bindR (guardR (\<not> list_ex (same_identity api ns rel) (tt_rows t)) (IntegrityError ''cp_k8s_cluster_release_unique'')) (\<lambda>_.
     Inr \<lparr>kt_pk = tt_next t, kt_project = pr_id project, kt_agent = agent, kt_name = take 80 (strip name),
          kt_api_server = api, kt_namespace = ns, kt_release_name = rel, kt_credential_ref = cred,
          kt_ingress_class = ing, kt_tls_secret_name = tls, kt_validated_at = None, kt_validation_summary = None\<rparr>)))))))))"

definition insert_target :: "kubernetes_target \<Rightarrow> target_table \<Rightarrow> target_table" where
  "insert_target r t = t\<lparr>tt_rows := tt_rows t @ [r], tt_next := Suc (tt_next t)\<rparr>"

definition delete_target :: "nat \<Rightarrow> target_table \<Rightarrow> target_table" where
  "delete_target pk t = t\<lparr>tt_rows := filter (\<lambda>r. kt_pk r \<noteq> pk) (tt_rows t)\<rparr>"

definition save_validation :: "nat \<Rightarrow> target_validation \<Rightarrow> int \<Rightarrow> target_table \<Rightarrow> target_table" where
  "save_validation pk v now t =
     t\<lparr>tt_rows := map (\<lambda>r. if kt_pk r = pk
        then r\<lparr>kt_validated_at := Some now, kt_validation_summary := Some (v\<lparr>tv_permissions := take 32 (tv_permissions v)\<rparr>)\<rparr>
        else r) (tt_rows t)\<rparr>"

definition register_target :: "kubernetes_backend \<Rightarrow> (string \<Rightarrow> bool) \<Rightarrow> int \<Rightarrow> project \<Rightarrow> agent_registration \<Rightarrow> string \<Rightarrow> string
    \<Rightarrow> string \<Rightarrow> string \<Rightarrow> string \<Rightarrow> string \<Rightarrow> string \<Rightarrow> target_table \<Rightarrow> target_table \<times> nat res" where
  "register_target be ip_ok now project agent name api_server namespace release_name credential_ref ingress_class tls_secret_name t =
     (case create_target ip_ok project agent name api_server namespace release_name credential_ref ingress_class tls_secret_name t of
        Inl e \<Rightarrow> (t, Inl e)
      | Inr target \<Rightarrow>
          let t1 = insert_target target t
          in (case kb_validate be target of
                Inl e \<Rightarrow> (t1, Inl e)
              | Inr v \<Rightarrow>
                  if \<not> tv_valid v then (delete_target (kt_pk target) t1, Inl (ValueError ''cluster validation failed''))
                  else (save_validation (kt_pk target) v now t1, Inr (kt_pk target))))"

section \<open>Starting and cancelling a release\<close>

definition rel_recoverable :: "kubernetes_release_row \<Rightarrow> bool" where
  "rel_recoverable r \<longleftrightarrow> kr_status r = KFAILED \<and> kr_error_code r \<in> set recoverable_errors"

definition rel_live :: "kubernetes_release_row \<Rightarrow> bool" where
  "rel_live r \<longleftrightarrow> rel_active (kr_status r) \<or> rel_recoverable r"

definition same_release :: "nat \<Rightarrow> string \<Rightarrow> string \<Rightarrow> string \<Rightarrow> kubernetes_release_row \<Rightarrow> bool" where
  "same_release target img chart digest r \<longleftrightarrow>
     kr_target r = target \<and> kr_image r = img \<and> kr_chart_version r = chart \<and> kr_values_digest r = digest"

definition first_row :: "(kubernetes_release_row list \<Rightarrow> kubernetes_release_row list) \<Rightarrow> (kubernetes_release_row \<Rightarrow> bool)
    \<Rightarrow> release_table \<Rightarrow> kubernetes_release_row option" where
  "first_row ordr p t = (case ordr (filter p (rt_rows t)) of [] \<Rightarrow> None | r # _ \<Rightarrow> Some r)"

definition new_release :: "nat \<Rightarrow> kubernetes_target \<Rightarrow> nat \<Rightarrow> string \<Rightarrow> string \<Rightarrow> string \<Rightarrow> string \<Rightarrow> (string \<times> json) list \<Rightarrow> string
    \<Rightarrow> kubernetes_release_row option \<Rightarrow> int \<Rightarrow> kubernetes_release_row" where
  "new_release pk target user uid img chart digest values compatibility previous now =
     \<lparr>kr_pk = pk, kr_project = kt_project target, kr_target = kt_pk target, kr_requested_by = user,
      kr_status = KVALIDATING, kr_operation_id = ''k8s-'' @ uid, kr_image = img, kr_chart_version = chart,
      kr_values_digest = digest, kr_values_snapshot = values, kr_helm_revision = None,
      kr_previous_helm_revision = Option.bind previous kr_helm_revision,
      kr_previous_image = (case previous of None \<Rightarrow> [] | Some p \<Rightarrow> kr_image p),
      kr_previous_values_digest = (case previous of None \<Rightarrow> [] | Some p \<Rightarrow> kr_values_digest p),
      kr_migration_compatibility = compatibility, kr_rollback_status = [], kr_error_code = [], kr_created_at = now\<rparr>"

text \<open>The transaction: the table it leaves, the release and whether it has to be dispatched.\<close>

definition open_release :: "(kubernetes_release_row list \<Rightarrow> kubernetes_release_row list) \<Rightarrow> kubernetes_target \<Rightarrow> nat \<Rightarrow> string \<Rightarrow> string
    \<Rightarrow> string \<Rightarrow> string \<Rightarrow> (string \<times> json) list \<Rightarrow> string \<Rightarrow> int \<Rightarrow> release_table
    \<Rightarrow> release_table \<times> kubernetes_release_row \<times> bool" where
  "open_release ordr target user uid img chart digest values compatibility now t =
     (case first_row ordr (\<lambda>r. same_release (kt_pk target) img chart digest r \<and> rel_live r) t of
        Some existing \<Rightarrow>
          if rel_active (kr_status existing) then (t, existing, False)
          else (rel_update (kr_pk existing) (\<lambda>_. True) (\<lambda>r. r\<lparr>kr_status := KVALIDATING, kr_error_code := []\<rparr>) t,
                existing\<lparr>kr_status := KVALIDATING, kr_error_code := []\<rparr>, True)
      | None \<Rightarrow>
          let previous = first_row ordr (\<lambda>r. kr_target r = kt_pk target \<and> kr_status r = KSUCCEEDED) t;
              release = new_release (rt_next t) target user uid img chart digest values compatibility previous now
          in (t\<lparr>rt_rows := rt_rows t @ [release], rt_next := Suc (rt_next t)\<rparr>, release, True))"

definition dispatch_request :: "kubernetes_target \<Rightarrow> kubernetes_release_row \<Rightarrow> string \<Rightarrow> (string \<times> json) list \<Rightarrow> string \<Rightarrow> krequest" where
  "dispatch_request target release img values compatibility =
     \<lparr>kq_operation_id = kr_operation_id release, kq_namespace = kt_namespace target,
      kq_release_name = kt_release_name target, kq_image = img, kq_values_json = json_dumps (JObj values),
      kq_credential_ref = kt_credential_ref target,
      kq_rollback_policy = (if compatibility = ''safe'' then ''allow'' else ''block-after-migration''),
      kq_mode = ''release'',
      kq_previous_revision = (case kr_previous_helm_revision release of None \<Rightarrow> 0 | Some n \<Rightarrow> n),
      kq_migration_timeout_seconds = 300, kq_rollout_timeout_seconds = 300\<rparr>"

text \<open>The update with the backend's result; \<open>None\<close> when the exception is not caught.\<close>

definition settle_release :: "kubernetes_release_row \<Rightarrow> kresult res \<Rightarrow> release_table \<Rightarrow> release_table res" where
  "settle_release release result t =
     (case result of
        Inl e \<Rightarrow>
          if is_RuntimeError e
          then Inr (rel_update (kr_pk release) rel_active (\<lambda>r. r\<lparr>kr_status := KFAILED, kr_error_code := ''AGENT_UNAVAILABLE''\<rparr>) t)
          else Inl e
      | Inr k \<Rightarrow> Inr (rel_update (kr_pk release) rel_active (\<lambda>r. r\<lparr>
            kr_status := terminal_status (ks_status k), kr_helm_revision := ks_helm_revision k,
            kr_previous_helm_revision := (case ks_previous_revision k of
                None \<Rightarrow> kr_previous_helm_revision release
              | Some n \<Rightarrow> if n = 0 then kr_previous_helm_revision release else Some n),
            kr_rollback_status := take 32 (ks_rollback_status k), kr_error_code := take 48 (ks_error_code k)\<rparr>) t))"

definition inputs_of :: "(string \<Rightarrow> string) \<Rightarrow> string \<Rightarrow> (string \<times> json) list res \<Rightarrow> ((string \<times> json) list \<times> string \<times> string \<times> string) res" where
  "inputs_of sha img cleaned =
     bindR cleaned (\<lambda>clean.
     bindR (validate_image img) (\<lambda>img.
     let compatibility = compatibility_of clean
     in if compatibility \<notin> {''safe'', ''unknown''}
        then Inl (ValueError ''migrationCompatibility must be safe or unknown'')
        else Inr (clean, img, values_digest sha clean, compatibility)))"

definition release_inputs :: "(string \<Rightarrow> string) \<Rightarrow> string \<Rightarrow> (string \<times> json) list \<Rightarrow> ((string \<times> json) list \<times> string \<times> string \<times> string) res" where
  "release_inputs sha img values = inputs_of sha img (sanitize_values values)"

text \<open>The call behind its checked inputs, when no other request runs in between.\<close>

definition run_release :: "kubernetes_backend \<Rightarrow> (kubernetes_release_row list \<Rightarrow> kubernetes_release_row list)
    \<Rightarrow> kubernetes_target \<Rightarrow> nat \<Rightarrow> string \<Rightarrow> ((string \<times> json) list \<times> string \<times> string \<times> string) res \<Rightarrow> string \<Rightarrow> int
    \<Rightarrow> release_table \<Rightarrow> release_table \<times> nat res" where
  "run_release be ordr target user uid inputs chart now t =
     (case inputs of
        Inl e \<Rightarrow> (t, Inl e)
      | Inr (clean, img, digest, compatibility) \<Rightarrow>
          (case open_release ordr target user uid img chart digest clean compatibility now t of
             (t1, release, dispatch) \<Rightarrow>
               if \<not> dispatch then (t1, Inr (kr_pk release))
               else (case settle_release release (kb_start be target (dispatch_request target release img clean compatibility)) t1 of
                   Inl e \<Rightarrow> (t1, Inl e)
                 | Inr t2 \<Rightarrow> (t2, Inr (kr_pk release)))))"

text \<open>The whole call.\<close>

definition start_release :: "kubernetes_backend \<Rightarrow> (string \<Rightarrow> string) \<Rightarrow> (kubernetes_release_row list \<Rightarrow> kubernetes_release_row list)
    \<Rightarrow> kubernetes_target \<Rightarrow> nat \<Rightarrow> string \<Rightarrow> string \<Rightarrow> (string \<times> json) list \<Rightarrow> string \<Rightarrow> int \<Rightarrow> release_table
    \<Rightarrow> release_table \<times> nat res" where
  "start_release be sha ordr target user uid img values chart now t =
     run_release be ordr target user uid (release_inputs sha img values) chart now t"

definition settle_cancel :: "nat \<Rightarrow> bool \<Rightarrow> release_table \<Rightarrow> release_table" where
  "settle_cancel pk accepted t =
     rel_update pk rel_active (\<lambda>r. r\<lparr>kr_status := (if accepted then KCANCELLED else KFAILED),
       kr_error_code := (if accepted then [] else ''CANCEL_UNAVAILABLE'')\<rparr>) t"

definition cancel_release :: "kubernetes_backend \<Rightarrow> nat \<Rightarrow> release_table \<Rightarrow> release_table \<times> kubernetes_release_row res" where
  "cancel_release be pk t =
     (case rel_find t pk of
        None \<Rightarrow> (t, Inl (DoesNotExist ''KubernetesRelease''))
      | Some r \<Rightarrow>
          if rel_terminal (kr_status r) then (t, Inr r)
          else (case kb_cancel be (kr_operation_id r) of
              Inl e \<Rightarrow> (t, Inl e)
            | Inr accepted \<Rightarrow>
                let t' = settle_cancel pk accepted t
                in (t', case rel_find t' pk of None \<Rightarrow> Inl (DoesNotExist ''KubernetesRelease'') | Some r' \<Rightarrow> Inr r')))"

end
