(* ===== verification/PyUuid.thy ===== *)
theory PyUuid
  imports Json_Roundtrip
begin

text \<open>
  Python's \<open>uuid.UUID(text)\<close> and what Django makes of it: a lookup on a \<open>UUIDField\<close> with a text first turns the text into
  a UUID, whatever its spelling, and raises \<open>ValidationError\<close> for a text that is none (it is no \<open>ValueError\<close>). The
  stored ids are their canonical texts. The theorem \<open>uuid_text_roundtrip\<close> reads back a canonical text.
\<close>

section \<open>Reading\<close>

text \<open>\<open>s.replace(w, "")\<close>\<close>

fun remove_all :: "string \<Rightarrow> string \<Rightarrow> string" where
  "remove_all w [] = []"
| "remove_all w (c # cs) =
     (if w \<noteq> [] \<and> starts_with w (c # cs) then remove_all w (drop (length w - 1) cs) else c # remove_all w cs)"

definition hex_value :: "string \<Rightarrow> nat" where
  "hex_value s = foldl (\<lambda>a c. a * 16 + (case hex_val c of None \<Rightarrow> 0 | Some n \<Rightarrow> n)) 0 s"

text \<open>\<open>int(s, 16)\<close>: white space around, a sign, a prefix, hexadecimal digits with single underscores between them. No
  text the caller passes has more than 32 characters.\<close>

definition py_int16 :: "string \<Rightarrow> int res" where
  "py_int16 s =
     (let s = strip s;
          (negative, body) = (if s \<noteq> [] \<and> hd s = CHR ''-'' then (True, tl s)
                              else if s \<noteq> [] \<and> hd s = CHR ''+'' then (False, tl s) else (False, s));
          body = (if starts_with ''0x'' body \<or> starts_with ''0X'' body
                  then (if starts_with ''_'' (drop 2 body) then drop 3 body else drop 2 body) else body);
          groups = split_on CHR ''_'' body
      in if list_all (\<lambda>g. g \<noteq> [] \<and> list_all (\<lambda>c. hex_val c \<noteq> None) g) groups
         then Inr (if negative then - int (hex_value (concat groups)) else int (hex_value (concat groups)))
         else Inl (ValueError ''invalid literal for int() with base 16''))"

definition uuid_of :: "string \<Rightarrow> nat res" where
  "uuid_of text =
     (let hex = remove_all ''uuid:'' (remove_all ''urn:'' text);
          braces = (\<lambda>c. c \<in> set ''{}'');
          hex = filter (\<lambda>c. c \<noteq> CHR ''-'') (rstrip_by braces (lstrip_by braces hex))
      in if length hex \<noteq> 32 then Inl (ValueError ''badly formed hexadecimal UUID string'')
         else bindR (py_int16 hex) (\<lambda>n.
           if 0 \<le> n \<and> n < 2 ^ 128 then Inr (nat n) else Inl (ValueError ''int is out of range (need a 128-bit value)'')))"

section \<open>Writing\<close>

fun hex_text :: "nat \<Rightarrow> nat \<Rightarrow> string" where
  "hex_text 0 n = []"
| "hex_text (Suc k) n = hex_text k (n div 16) @ [hex_digit (n mod 16)]"

definition uuid_text :: "nat \<Rightarrow> string" where
  "uuid_text n =
     (let h = hex_text 32 n
      in take 8 h @ ''-'' @ take 4 (drop 8 h) @ ''-'' @ take 4 (drop 12 h) @ ''-'' @ take 4 (drop 16 h) @ ''-'' @ drop 20 h)"

text \<open>\<open>UUIDField.to_python\<close>: the id a lookup compares with. The exception carries the rejected text.\<close>

definition uuid_field :: "string \<Rightarrow> string res" where
  "uuid_field text = (case uuid_of text of Inl _ \<Rightarrow> Inl (ValidationError text) | Inr n \<Rightarrow> Inr (uuid_text n))"

lemma uuid_field_fails: "uuid_field text = Inl e \<Longrightarrow> e = ValidationError text \<and> \<not> isOk (uuid_of text)"
  by (simp add: uuid_field_def isOk_def split: sum.splits)

section \<open>The round trip\<close>

lemma remove_all_absent: "hd w \<notin> set s \<Longrightarrow> w \<noteq> [] \<Longrightarrow> remove_all w s = s"
proof (induction s)
  case (Cons c s)
  then show ?case by (cases w) auto
qed simp

definition is_hex_digit :: "char \<Rightarrow> bool" where
  "is_hex_digit c \<longleftrightarrow> (\<exists>k < 16. c = hex_digit k)"

lemma hex_digit_chars:
  assumes "is_hex_digit c"
  shows "hex_val c \<noteq> None \<and> c \<notin> set ''u_{}-+xX'' \<and> \<not> is_space c"
proof -
  obtain k where k: "k < 16" and c: "c = hex_digit k" using assms by (auto simp: is_hex_digit_def)
  have o: "ord c = (if k < 10 then 48 + k else 87 + k)" using k by (simp add: c hex_digit_def)
  have "ord x \<in> {117, 95, 123, 125, 45, 43, 120, 88}" if "x \<in> set ''u_{}-+xX''" for x using that by auto
  then have "c \<notin> set ''u_{}-+xX''" using o k by (fastforce split: if_splits)
  moreover have "\<not> is_space c" using o k by (auto simp: is_space_def in_range_def)
  ultimately show ?thesis using hex_val_digit [OF k] c by simp
qed

lemma hex_text_length [simp]: "length (hex_text k n) = k"
  by (induction k arbitrary: n) auto

lemma hex_text_digits: "list_all is_hex_digit (hex_text k n)"
  by (induction k arbitrary: n) (auto simp: is_hex_digit_def intro!: exI [of _ "n mod 16" for n :: nat])

lemma hex_value_text: "hex_value (hex_text k n) = n mod 16 ^ k"
proof (induction k arbitrary: n)
  case (Suc k)
  have "n mod 16 ^ Suc k = 16 * (n div 16 mod 16 ^ k) + n mod 16"
    using mod_mult2_eq [of n 16 "16 ^ k"] by simp
  then show ?case using Suc [of "n div 16"] hex_val_digit [of "n mod 16"] by (simp add: hex_value_def)
qed (simp add: hex_value_def)

lemma split_on_absent: "d \<notin> set s \<Longrightarrow> split_on d s = [s]"
  by (induction s) auto

lemma py_int16_text:
  assumes "k > 0" and "list_all is_hex_digit s" and "length s = k"
  shows "py_int16 s = Inr (int (hex_value s))"
proof -
  have ch: "hex_val c \<noteq> None \<and> c \<notin> set ''u_{}-+xX'' \<and> \<not> is_space c" if "c \<in> set s" for c
    using assms(2) that hex_digit_chars by (simp add: list_all_iff del: list.set)
  have ne: "s \<noteq> []" using assms(1,3) by auto
  have "lstrip_by is_space s = s" unfolding lstrip_by_def using ne ch by (cases s) auto
  moreover have "rstrip_by is_space s = s" using ne ch by (intro rstrip_by_id) (simp del: list.set)
  ultimately have st: "strip s = s" by (simp add: strip_def)
  have "hd s \<in> set s" using ne by simp
  then have sign: "hd s \<noteq> CHR ''-''" "hd s \<noteq> CHR ''+''" using ch [of "hd s"] by auto
  have x: "\<not> starts_with ''0x'' s" "\<not> starts_with ''0X'' s" using ch [of "CHR ''x''"] ch [of "CHR ''X''"] by (auto simp: starts_with_iff)
  have "CHR ''_'' \<notin> set s" using ch [of "CHR ''_''"] by auto
  then have g: "split_on CHR ''_'' s = [s]" by (rule split_on_absent)
  have "list_all (\<lambda>c. hex_val c \<noteq> None) s" using ch by (simp add: list_all_iff del: list.set)
  then show ?thesis using st sign x g ne by (simp add: py_int16_def Let_def)
qed

theorem uuid_text_roundtrip:
  assumes "n < 2 ^ 128"
  shows "uuid_of (uuid_text n) = Inr n" and "uuid_field (uuid_text n) = Inr (uuid_text n)"
proof -
  let ?h = "hex_text 32 n" and ?b = "\<lambda>c. c \<in> set ''{}''"
  have digits: "list_all is_hex_digit ?h" by (rule hex_text_digits)
  have "set (uuid_text n) \<subseteq> set ?h \<union> {CHR ''-''}"
    unfolding uuid_text_def Let_def by (auto dest: in_set_takeD in_set_dropD)
  then have ch: "c = CHR ''-'' \<or> is_hex_digit c" if "c \<in> set (uuid_text n)" for c
    using digits that by (auto simp: list_all_iff)
  have no: "c \<notin> set (uuid_text n)" if "c \<in> set ''u{}''" for c
  proof
    assume "c \<in> set (uuid_text n)"
    from ch [OF this] that hex_digit_chars [of c] show False by auto
  qed
  have ne: "uuid_text n \<noteq> []" by (simp add: uuid_text_def Let_def)
  have "remove_all ''uuid:'' (remove_all ''urn:'' (uuid_text n)) = uuid_text n"
    using no [of "CHR ''u''"] by (simp add: remove_all_absent)
  moreover have "lstrip_by ?b (uuid_text n) = uuid_text n"
    unfolding lstrip_by_def using ne no hd_in_set [OF ne] by (cases "uuid_text n") auto
  moreover have "rstrip_by ?b (uuid_text n) = uuid_text n"
    using no last_in_set [OF ne] by (intro rstrip_by_id) auto
  moreover have "filter (\<lambda>c. c \<noteq> CHR ''-'') (uuid_text n) = ?h"
  proof -
    have "CHR ''-'' \<notin> set ?h" using digits hex_digit_chars [of "CHR ''-''"] by (auto simp: list_all_iff)
    then have keep: "filter (\<lambda>c. c \<noteq> CHR ''-'') u = u" if "set u \<subseteq> set ?h" for u using that by (auto simp: filter_id_conv)
    have "take 8 ?h @ take 4 (drop 8 ?h) @ take 4 (drop 12 ?h) @ take 4 (drop 16 ?h) @ drop 20 ?h = ?h"
      by (simp add: take_drop [symmetric] append_take_drop_id flip: append_assoc take_add)
    then show ?thesis
      unfolding uuid_text_def Let_def
      by (simp add: keep set_take_subset set_drop_subset order_trans [OF set_take_subset set_drop_subset])
  qed
  moreover have "py_int16 ?h = Inr (int n)"
    using py_int16_text [OF _ digits, of 32] hex_value_text [of 32 n] assms by simp
  ultimately show "uuid_of (uuid_text n) = Inr n" using assms by (simp add: uuid_of_def Let_def)
  then show "uuid_field (uuid_text n) = Inr (uuid_text n)" by (simp add: uuid_field_def)
qed

end
