(* ===== verification/Tenancy.thy ===== *)
theory Tenancy
  imports Kubernetes PyUuid
begin

text \<open>
  The control plane's database as the GraphQL resolvers, the project summary and the ecosystem pages see
  it, and the lookups every one of them starts with (\<open>controlplane/graphql/schema.py\<close>, \<open>_project\<close> and its
  neighbours): a row is found only through a project the user is a member of. The tables of operations,
  targets and releases are those of the theories \<open>Diagnostics\<close> and \<open>Kubernetes\<close>; the column \<open>public_id\<close> of
  the latter two is the map from public ids to primary keys, \<open>None\<close> for an id no row has. Public ids are the
  canonical texts of UUIDs; a text that is none raises \<open>ValidationError\<close> before any row is looked at.
\<close>

section \<open>Reading an integer\<close>

text \<open>\<open>int(s)\<close>: white space around, a sign, digits with single underscores between them, at most 4300 digits.\<close>

definition int_digits :: "string \<Rightarrow> string option" where
  "int_digits s =
     (let groups = split_on CHR ''_'' s
      in if list_all (\<lambda>g. g \<noteq> [] \<and> list_all is_digit g) groups \<and> length (concat groups) \<le> 4300
         then Some (concat groups) else None)"

definition py_int :: "string \<Rightarrow> int res" where
  "py_int s =
     (let s = strip s;
          (negative, body) = (if s \<noteq> [] \<and> hd s = CHR ''-'' then (True, tl s)
                              else if s \<noteq> [] \<and> hd s = CHR ''+'' then (False, tl s) else (False, s))
      in case int_digits body of
           None \<Rightarrow> Inl (ValueError ''invalid literal for int()'')
         | Some ds \<Rightarrow> Inr (if negative then - int (digits_val ds) else int (digits_val ds)))"

section \<open>The database\<close>

record control_db =
  db_projects :: "project list"
  db_members :: "(nat \<times> nat) list"
  db_agents :: "(nat \<times> agent_registration) list"
  db_operations :: op_table
  db_targets :: target_table
  db_target_ids :: "string \<Rightarrow> nat option"
  db_releases :: release_table
  db_release_ids :: "string \<Rightarrow> nat option"

definition is_member :: "control_db \<Rightarrow> nat \<Rightarrow> nat \<Rightarrow> bool" where
  "is_member db user project_id \<longleftrightarrow> (user, project_id) \<in> set (db_members db)"

text \<open>\<open>Project.objects.filter(members=user)\<close> and \<open>.get(pk=...)\<close>\<close>

definition member_projects :: "control_db \<Rightarrow> nat \<Rightarrow> project list" where
  "member_projects db user = filter (\<lambda>p. is_member db user (pr_id p)) (db_projects db)"

definition get_project :: "control_db \<Rightarrow> nat \<Rightarrow> int \<Rightarrow> project res" where
  "get_project db user pk =
     (case List.find (\<lambda>p. int (pr_id p) = pk) (member_projects db user) of
        None \<Rightarrow> Inl (DoesNotExist ''Project'') | Some p \<Rightarrow> Inr p)"

definition scoped_project :: "control_db \<Rightarrow> nat \<Rightarrow> string \<Rightarrow> project res" where
  "scoped_project db user project_id = bindR (py_int project_id) (get_project db user)"

text \<open>\<open>project.agents.get(pk=int(agent_id))\<close>\<close>

definition project_agents :: "control_db \<Rightarrow> project \<Rightarrow> (nat \<times> agent_registration) list" where
  "project_agents db p = filter (\<lambda>(_, a). pr_id (ar_project a) = pr_id p) (db_agents db)"

definition scoped_agent :: "control_db \<Rightarrow> project \<Rightarrow> string \<Rightarrow> agent_registration res" where
  "scoped_agent db p agent_id =
     bindR (py_int agent_id) (\<lambda>pk.
       case List.find (\<lambda>(n, _). int n = pk) (project_agents db p) of
         None \<Rightarrow> Inl (DoesNotExist ''AgentRegistration'') | Some (_, a) \<Rightarrow> Inr a)"

definition scoped_operation :: "control_db \<Rightarrow> nat \<Rightarrow> string \<Rightarrow> diagnostic_operation res" where
  "scoped_operation db user operation_id =
     bindR (uuid_field operation_id) (\<lambda>public_id.
       case List.find (\<lambda>r. op_public_id r = public_id) (filter (\<lambda>r. is_member db user (op_project_id r)) (ot_rows (db_operations db))) of
         None \<Rightarrow> Inl (DoesNotExist ''DiagnosticOperation'') | Some r \<Rightarrow> Inr r)"

definition scoped_target :: "control_db \<Rightarrow> nat \<Rightarrow> string \<Rightarrow> kubernetes_target res" where
  "scoped_target db user target_id =
     bindR (uuid_field target_id) (\<lambda>public_id.
       case db_target_ids db public_id of
        None \<Rightarrow> Inl (DoesNotExist ''KubernetesTarget'')
      | Some pk \<Rightarrow>
          (case List.find (\<lambda>r. kt_pk r = pk) (filter (\<lambda>r. is_member db user (kt_project r)) (tt_rows (db_targets db))) of
             None \<Rightarrow> Inl (DoesNotExist ''KubernetesTarget'') | Some r \<Rightarrow> Inr r))"

definition scoped_release :: "control_db \<Rightarrow> nat \<Rightarrow> string \<Rightarrow> kubernetes_release_row res" where
  "scoped_release db user release_id =
     bindR (uuid_field release_id) (\<lambda>public_id.
       case db_release_ids db public_id of
        None \<Rightarrow> Inl (DoesNotExist ''KubernetesRelease'')
      | Some pk \<Rightarrow>
          (case List.find (\<lambda>r. kr_pk r = pk) (filter (\<lambda>r. is_member db user (kr_project r)) (rt_rows (db_releases db))) of
             None \<Rightarrow> Inl (DoesNotExist ''KubernetesRelease'') | Some r \<Rightarrow> Inr r))"

section \<open>Lemmas\<close>

lemma find_member: "List.find P (filter Q xs) = Some x \<Longrightarrow> P x \<and> Q x \<and> x \<in> set xs"
  by (induction xs) (auto split: if_splits)

lemma get_project_member:
  "get_project db user pk = Inr p \<Longrightarrow> is_member db user (pr_id p) \<and> p \<in> set (db_projects db) \<and> int (pr_id p) = pk"
  by (auto simp: get_project_def member_projects_def split: option.splits dest!: find_member)

lemma scoped_project_member: "scoped_project db user i = Inr p \<Longrightarrow> is_member db user (pr_id p) \<and> p \<in> set (db_projects db)"
  by (auto simp: scoped_project_def res_simps dest!: get_project_member)

lemma scoped_agent_project:
  assumes "scoped_agent db p i = Inr a"
  shows "pr_id (ar_project a) = pr_id p"
proof -
  from assms obtain pk n where "List.find (\<lambda>(n, _). int n = pk) (project_agents db p) = Some (n, a)"
    by (cases "py_int i") (auto simp: scoped_agent_def split: option.splits prod.splits)
  from find_member [OF this [unfolded project_agents_def]] show ?thesis by simp
qed

lemma scoped_operation_member:
  "scoped_operation db user i = Inr r \<Longrightarrow>
   is_member db user (op_project_id r) \<and> r \<in> set (ot_rows (db_operations db)) \<and> uuid_field i = Inr (op_public_id r)"
  by (cases "uuid_field i") (auto simp: scoped_operation_def split: option.splits dest!: find_member)

lemma scoped_target_member:
  "scoped_target db user i = Inr r \<Longrightarrow>
   is_member db user (kt_project r) \<and> r \<in> set (tt_rows (db_targets db)) \<and> (\<exists>u. uuid_field i = Inr u \<and> db_target_ids db u = Some (kt_pk r))"
  by (cases "uuid_field i") (auto simp: scoped_target_def split: option.splits dest!: find_member)

lemma scoped_release_member:
  "scoped_release db user i = Inr r \<Longrightarrow>
   is_member db user (kr_project r) \<and> r \<in> set (rt_rows (db_releases db)) \<and> (\<exists>u. uuid_field i = Inr u \<and> db_release_ids db u = Some (kr_pk r))"
  by (cases "uuid_field i") (auto simp: scoped_release_def split: option.splits dest!: find_member)

lemma scoped_failures:
  "scoped_operation db user i = Inl e \<Longrightarrow> e = ValidationError i \<and> \<not> isOk (uuid_of i) \<or> e = DoesNotExist ''DiagnosticOperation''"
  "scoped_target db user i = Inl e \<Longrightarrow> e = ValidationError i \<and> \<not> isOk (uuid_of i) \<or> e = DoesNotExist ''KubernetesTarget''"
  "scoped_release db user i = Inl e \<Longrightarrow> e = ValidationError i \<and> \<not> isOk (uuid_of i) \<or> e = DoesNotExist ''KubernetesRelease''"
  by (cases "uuid_field i"; auto simp: scoped_operation_def scoped_target_def scoped_release_def split: option.splits dest: uuid_field_fails)+

end
