(* ===== verification/Observability.thy ===== *)
theory Observability
  imports Telemetry Tenancy Contracts
begin

text \<open>
  What the control plane reports of itself: \<open>controlplane/observability.py\<close> (the signal handlers that
  report settled operations and releases to telemetry, the project summary, the gauges for Prometheus)
  and \<open>controlplane/kubernetes_observability.py\<close> (the \<open>observability\<close> Helm values and the correlation id of a
  release). The two \<open>install_\<close> functions replace \<open>sanitize_values\<close>, \<open>RuntimeKubernetesBackend.start\<close> and
  \<open>_release_values\<close> when the app starts; the replacements are the definitions with \<open>observed_\<close> in their
  names, over the originals. Times are in milliseconds here.
\<close>

section \<open>Remembered keys\<close>

definition MAX_SEEN :: nat where
  "MAX_SEEN = 2048"

record seen =
  sn_set :: "string set"
  sn_order :: "string list"

definition init_seen :: seen where
  "init_seen = \<lparr>sn_set = {}, sn_order = []\<rparr>"

definition remember_key :: "string \<Rightarrow> seen \<Rightarrow> bool \<times> seen" where
  "remember_key key s =
     (if key \<in> sn_set s then (False, s)
      else
        let s1 = (if MAX_SEEN \<le> length (sn_order s)
                  then s\<lparr>sn_set := sn_set s - {hd (sn_order s)}, sn_order := tl (sn_order s)\<rparr> else s)
        in (True, s1\<lparr>sn_set := insert key (sn_set s1), sn_order := sn_order s1 @ [key]\<rparr>))"

section \<open>Signal handlers\<close>

text \<open>The values the status columns store.\<close>

definition op_status_text :: "op_status \<Rightarrow> string" where
  "op_status_text s = (case s of PENDING \<Rightarrow> ''pending'' | RUNNING \<Rightarrow> ''running'' | SUCCEEDED \<Rightarrow> ''succeeded''
     | FAILED \<Rightarrow> ''failed'' | CANCELLED \<Rightarrow> ''cancelled'' | OFFLINE \<Rightarrow> ''offline'' | OVERLOADED \<Rightarrow> ''overloaded''
     | DISCONNECTED \<Rightarrow> ''disconnected'' | TIMEOUT \<Rightarrow> ''timeout'')"

definition release_status_text :: "release_status \<Rightarrow> string" where
  "release_status_text s = (case s of KPENDING \<Rightarrow> ''pending'' | KVALIDATING \<Rightarrow> ''validating'' | KMIGRATING \<Rightarrow> ''migrating''
     | KAPPLYING \<Rightarrow> ''applying'' | KVERIFYING \<Rightarrow> ''verifying'' | KSUCCEEDED \<Rightarrow> ''succeeded'' | KFAILED \<Rightarrow> ''failed''
     | KCANCELLED \<Rightarrow> ''cancelled'' | KROLLED_BACK \<Rightarrow> ''rolled_back'' | KROLLBACK_BLOCKED \<Rightarrow> ''rollback_blocked'')"

type_synonym observer = "seen \<times> telemetry"

definition diagnostic_saved :: "string \<Rightarrow> string \<times> string \<Rightarrow> diagnostic_operation \<Rightarrow> observer \<Rightarrow> observer" where
  "diagnostic_saved fresh ids r ob =
     (let status = op_status_text (op_status r);
          key = ''diagnostic:'' @ op_public_id r @ '':'' @ status
      in if status \<notin> {''succeeded'', ''failed'', ''cancelled'', ''offline'', ''overloaded'', ''disconnected'', ''timeout''} then ob
         else (case remember_key key (fst ob) of
             (False, s) \<Rightarrow> (s, snd ob)
           | (True, s) \<Rightarrow> (s, observe fresh ids ''controlplane'' ''diagnostic'' status
               (max 0 (op_updated_at r - op_created_at r)) (Some (op_public_id r)) (Some (op_project_id r)) False (snd ob))))"

text \<open>The row of a release does not keep \<open>updated_at\<close>; it is an argument.\<close>

definition release_saved :: "string \<Rightarrow> string \<times> string \<Rightarrow> int \<Rightarrow> kubernetes_release_row \<Rightarrow> observer \<Rightarrow> observer" where
  "release_saved fresh ids updated_at r ob =
     (let status = release_status_text (kr_status r);
          key = ''release:'' @ kr_operation_id r @ '':'' @ status
      in if status \<notin> {''succeeded'', ''failed'', ''cancelled'', ''rolled_back'', ''rollback_blocked''} then ob
         else (case remember_key key (fst ob) of
             (False, s) \<Rightarrow> (s, snd ob)
           | (True, s) \<Rightarrow> (s, observe fresh ids ''controlplane'' ''kubernetes_release'' status
               (max 0 (updated_at - kr_created_at r)) (Some (kr_operation_id r)) (Some (kr_project r)) False (snd ob))))"

section \<open>Summary and gauges\<close>

record observability_summary =
  os_total_agents :: nat
  os_connected_agents :: nat
  os_recent_operations :: nat
  os_recent_releases :: nat
  os_recent_failures :: nat
  os_otlp_configured :: bool
  os_telemetry_status :: string

definition failed_statuses :: "string list" where
  "failed_statuses = [''failed'', ''offline'', ''overloaded'', ''disconnected'', ''timeout'', ''rollback_blocked'']"

definition connected_count :: "operations_backend \<Rightarrow> agent_registration list \<Rightarrow> nat" where
  "connected_count be agents = length (filter (\<lambda>a. st_connected (agent_state_of be a)) agents)"

text \<open>The orders are the tables' \<open>ordering = ("-created_at",)\<close>.\<close>

definition summary_for_project :: "operations_backend \<Rightarrow> (diagnostic_operation list \<Rightarrow> diagnostic_operation list)
    \<Rightarrow> (kubernetes_release_row list \<Rightarrow> kubernetes_release_row list) \<Rightarrow> telemetry \<Rightarrow> control_db \<Rightarrow> nat \<Rightarrow> int
    \<Rightarrow> observability_summary res" where
  "summary_for_project be ordr kordr t db user project_id =
     bindR (get_project db user project_id) (\<lambda>p.
       let agents = map snd (project_agents db p);
           operations = take 50 (ordr (filter (\<lambda>r. op_project_id r = pr_id p) (ot_rows (db_operations db))));
           releases = take 50 (kordr (filter (\<lambda>r. kr_project r = pr_id p) (rt_rows (db_releases db))))
       in Inr \<lparr>os_total_agents = length agents, os_connected_agents = connected_count be agents,
               os_recent_operations = length operations, os_recent_releases = length releases,
               os_recent_failures = length (filter (\<lambda>r. op_status_text (op_status r) \<in> set failed_statuses) operations)
                 + length (filter (\<lambda>r. release_status_text (kr_status r) \<in> set failed_statuses) releases),
               os_otlp_configured = (tl_endpoint t \<noteq> []),
               os_telemetry_status = (if tl_endpoint t \<noteq> [] then ''configured'' else ''disabled'')\<rparr>)"

definition prometheus_extra :: "operations_backend \<Rightarrow> control_db \<Rightarrow> (string, int) dict" where
  "prometheus_extra be db =
     (let agents = concat (map (\<lambda>p. map snd (project_agents db p)) (db_projects db))
      in [(''djangoops_agents_registered'', int (length agents)),
          (''djangoops_agents_connected'', int (connected_count be agents)),
          (''djangoops_diagnostics_inflight'',
            int (length (filter (\<lambda>r. op_status_text (op_status r) \<in> {''pending'', ''running''}) (ot_rows (db_operations db))))),
          (''djangoops_kubernetes_releases_inflight'',
            int (length (filter (\<lambda>r. release_status_text (kr_status r)
              \<in> {''pending'', ''validating'', ''migrating'', ''applying'', ''verifying''}) (rt_rows (db_releases db)))))])"

section \<open>Helm values with observability\<close>

definition OBS_NAMESPACE :: rx where
  "OBS_NAMESPACE = Seq (Cls is_alnum_az) (Rep 0 62 (Cls (\<lambda>c. is_alnum_az c \<or> c \<in> set ''_.-'')))"

text \<open>\<open>None\<close>: the key is absent (\<open>value is None\<close>); the result is the dictionary, empty when there is nothing to add.\<close>

definition sanitize_observability :: "(string \<Rightarrow> bool) \<Rightarrow> json option \<Rightarrow> (string \<times> json) list res" where
  "sanitize_observability ip_ok value =
     (case value of
        None \<Rightarrow> Inr [] | Some JNull \<Rightarrow> Inr [] | Some (JObj []) \<Rightarrow> Inr []
      | Some (JObj kvs) \<Rightarrow>
          if \<not> list_all (\<lambda>k. k \<in> {''enabled'', ''otlpEndpoint'', ''serviceNamespace'', ''correlationId''}) (dkeys kvs)
          then Inl (ValueError ''observability Helm values are invalid'')
          else (case (case dget kvs ''enabled'' of None \<Rightarrow> JBool False | Some v \<Rightarrow> v) of
              JBool False \<Rightarrow> Inr [(''enabled'', JBool False)]
            | JBool True \<Rightarrow>
                bindR (validate_otlp_endpoint ip_ok (case dget kvs ''otlpEndpoint'' of None \<Rightarrow> [] | Some v \<Rightarrow> py_str v)) (\<lambda>endpoint.
                bindR (guardR (endpoint \<noteq> []) (ValueError ''observability.otlpEndpoint is required when enabled'')) (\<lambda>_.
                let namespace = (case dget kvs ''serviceNamespace'' of None \<Rightarrow> ''djangoops'' | Some v \<Rightarrow> py_str v)
                in bindR (guardR (fullmatch OBS_NAMESPACE namespace) (ValueError ''observability.serviceNamespace is invalid'')) (\<lambda>_.
                Inr [(''enabled'', JBool True), (''otlpEndpoint'', JStr endpoint), (''serviceNamespace'', JStr namespace),
                     (''correlationId'', JStr [])])))
            | _ \<Rightarrow> Inl (ValueError ''observability.enabled must be a boolean''))
      | Some _ \<Rightarrow> Inl (ValueError ''observability Helm values are invalid''))"

text \<open>The replacement of \<open>sanitize_values\<close>.\<close>

definition observed_sanitize_values :: "(string \<Rightarrow> bool) \<Rightarrow> (string \<times> json) list \<Rightarrow> (string \<times> json) list res" where
  "observed_sanitize_values ip_ok values =
     bindR (sanitize_values (ddel ''observability'' values)) (\<lambda>cleaned.
     bindR (sanitize_observability ip_ok (dget values ''observability'')) (\<lambda>safe.
       Inr (if safe = [] then cleaned else dput ''observability'' (JObj safe) cleaned)))"

definition with_correlation :: "string \<Rightarrow> string \<Rightarrow> (string \<times> json) list \<Rightarrow> (string \<times> json) list" where
  "with_correlation fresh operation_id raw =
     (case dget raw ''observability'' of
        Some (JObj ob) \<Rightarrow>
          if dget ob ''enabled'' = Some (JBool True)
          then dput ''observability'' (JObj (dput ''correlationId'' (JStr (correlation_id fresh (Some operation_id))) ob)) raw
          else raw
      | _ \<Rightarrow> raw)"

definition inject_release_correlation :: "string \<Rightarrow> string \<Rightarrow> string \<Rightarrow> string res" where
  "inject_release_correlation fresh values_json operation_id =
     (case json_loads values_json of
        None \<Rightarrow> Inl (ValueError ''invalid JSON'')
      | Some (JObj raw) \<Rightarrow> Inr (json_dumps (JObj (with_correlation fresh operation_id raw)))
      | Some _ \<Rightarrow> Inl (ValueError ''Helm values must be a mapping''))"

text \<open>The replacement of \<open>RuntimeKubernetesBackend.start\<close>, over any backend.\<close>

definition observed_backend :: "string \<Rightarrow> kubernetes_backend \<Rightarrow> kubernetes_backend" where
  "observed_backend fresh be = be\<lparr>kb_start := (\<lambda>target request.
     bindR (inject_release_correlation fresh (kq_values_json request) (kq_operation_id request)) (\<lambda>vs.
       kb_start be target (request\<lparr>kq_values_json := vs\<rparr>)))\<rparr>"

text \<open>\<open>KubernetesService.start_release\<close> with both replacements in place.\<close>

definition observed_start_release :: "(string \<Rightarrow> bool) \<Rightarrow> string \<Rightarrow> kubernetes_backend \<Rightarrow> (string \<Rightarrow> string)
    \<Rightarrow> (kubernetes_release_row list \<Rightarrow> kubernetes_release_row list) \<Rightarrow> kubernetes_target \<Rightarrow> nat \<Rightarrow> string \<Rightarrow> string
    \<Rightarrow> (string \<times> json) list \<Rightarrow> string \<Rightarrow> int \<Rightarrow> release_table \<Rightarrow> release_table \<times> nat res" where
  "observed_start_release ip_ok fresh be sha ordr target user uid img values chart now t =
     run_release (observed_backend fresh be) ordr target user uid (inputs_of sha img (observed_sanitize_values ip_ok values)) chart now t"

text \<open>The replacement of \<open>_release_values\<close>: \<open>raw\<close> is the GraphQL input, \<open>values\<close> what the original makes of it.\<close>

definition json_truthy :: "json option \<Rightarrow> bool" where
  "json_truthy v \<longleftrightarrow> v \<notin> {None, Some JNull, Some (JBool False), Some (JInt 0), Some (JStr []), Some (JArr []), Some (JObj [])}"

definition observed_release_values :: "(string \<Rightarrow> bool) \<Rightarrow> (string \<times> json) list \<Rightarrow> (string \<times> json) list \<Rightarrow> (string \<times> json) list res" where
  "observed_release_values ip_ok raw values =
     (if json_truthy (dget raw ''observabilityEnabled'')
      then bindR (validate_otlp_endpoint ip_ok (case dget raw ''otlpEndpoint'' of None \<Rightarrow> [] | Some v \<Rightarrow> py_str v)) (\<lambda>endpoint.
        Inr (dput ''observability'' (JObj
          [(''enabled'', JBool True), (''otlpEndpoint'', JStr endpoint),
           (''serviceNamespace'', JStr (take 63 (case dget raw ''otelServiceNamespace'' of None \<Rightarrow> ''djangoops'' | Some v \<Rightarrow> py_str v)))]) values))
      else Inr values)"

end
