(* ===== verification/GraphQL.thy ===== *)
theory GraphQL
  imports Observability
begin

text \<open>
  The GraphQL surface of the control plane: \<open>controlplane/graphql/schema.py\<close> (what each type shows of its
  object, the queries and the mutations with their scoping and error mapping) and
  \<open>controlplane/graphql/views.py\<close> (the bounds on a query and the view). Parsing and executing a query is
  the library \<open>graphql-core\<close>, a parameter of the view; a document is what its parser makes of a query, as
  far as the bounds look at it. A resolver returns the database it leaves and its payload, or the
  exception that leaves it (which the library turns into an error of the response).
\<close>

section \<open>What the types show\<close>

definition opt_str :: "string \<Rightarrow> json" where
  "opt_str s = (if s = [] then JNull else JStr s)"

definition opt_int :: "int option \<Rightarrow> json" where
  "opt_int v = (case v of None \<Rightarrow> JNull | Some n \<Rightarrow> JInt n)"

definition project_fields :: "(nat \<Rightarrow> string) \<Rightarrow> project \<Rightarrow> (string \<times> json) list" where
  "project_fields name p = [(''id'', JStr (int_str (int (pr_id p)))), (''slug'', JStr (pr_slug p)), (''name'', JStr (name (pr_id p)))]"

definition agent_fields :: "operations_backend \<Rightarrow> nat \<times> agent_registration \<Rightarrow> (string \<times> json) list" where
  "agent_fields be a =
     (let st = agent_state_of be (snd a)
      in [(''id'', JStr (int_str (int (fst a)))), (''agentId'', JStr (ar_agent_id (snd a))),
          (''capabilities'', JArr (map JStr (st_capabilities st))), (''connected'', JBool (st_connected st)),
          (''heartbeatAgeSeconds'', opt_int (st_heartbeat_age st)), (''protocolMajor'', opt_int (st_protocol_major st)),
          (''protocolMinor'', opt_int (st_protocol_minor st))])"

definition check_fields :: "diagnostic_check \<Rightarrow> json" where
  "check_fields c = JObj [(''name'', JStr (dc_name c)), (''status'', JStr (dc_status c)), (''detail'', JStr (dc_detail c))]"

definition operation_checks :: "diagnostic_operation \<Rightarrow> diagnostic_check list" where
  "operation_checks r = (case op_result_summary r of ChecksSummary cs \<Rightarrow> cs | _ \<Rightarrow> [])"

text \<open>An enum's values are the statuses in upper case. \<open>isof\<close> is \<open>isoformat\<close>.\<close>

definition operation_fields :: "(int \<Rightarrow> string) \<Rightarrow> diagnostic_operation \<Rightarrow> (string \<times> json) list" where
  "operation_fields isof r =
     [(''id'', JStr (op_public_id r)), (''diagnostic'', JStr (upper (op_diagnostic r))),
      (''status'', JStr (upper (op_status_text (op_status r)))), (''errorCode'', opt_str (op_error_code r)),
      (''checks'', JArr (map check_fields (operation_checks r))), (''createdAt'', JStr (isof (op_created_at r)))]"

definition target_fields :: "(int \<Rightarrow> string) \<Rightarrow> string \<Rightarrow> kubernetes_target \<Rightarrow> (string \<times> json) list" where
  "target_fields isof public_id r =
     [(''id'', JStr public_id), (''name'', JStr (kt_name r)), (''apiServer'', JStr (kt_api_server r)),
      (''namespace'', JStr (kt_namespace r)), (''releaseName'', JStr (kt_release_name r)),
      (''ingressClass'', opt_str (kt_ingress_class r)), (''tlsSecretName'', opt_str (kt_tls_secret_name r)),
      (''validatedAt'', (case kt_validated_at r of None \<Rightarrow> JNull | Some n \<Rightarrow> JStr (isof n)))]"

definition release_fields :: "(int \<Rightarrow> string) \<Rightarrow> string \<Rightarrow> kubernetes_release_row \<Rightarrow> (string \<times> json) list" where
  "release_fields isof public_id r =
     [(''id'', JStr public_id), (''status'', JStr (upper (release_status_text (kr_status r)))), (''image'', JStr (kr_image r)),
      (''chartVersion'', JStr (kr_chart_version r)), (''valuesDigest'', JStr (kr_values_digest r)),
      (''helmRevision'', opt_int (kr_helm_revision r)), (''previousHelmRevision'', opt_int (kr_previous_helm_revision r)),
      (''rollbackStatus'', opt_str (kr_rollback_status r)), (''errorCode'', opt_str (kr_error_code r)),
      (''createdAt'', JStr (isof (kr_created_at r)))]"

section \<open>Queries\<close>

definition query_projects :: "control_db \<Rightarrow> nat \<Rightarrow> project list" where
  "query_projects = member_projects"

definition query_agents :: "control_db \<Rightarrow> nat \<Rightarrow> string \<Rightarrow> (nat \<times> agent_registration) list res" where
  "query_agents db user project_id = bindR (scoped_project db user project_id) (\<lambda>p. Inr (project_agents db p))"

definition page_size :: "int \<Rightarrow> nat" where
  "page_size first = nat (max 1 (min first 50))"

definition query_operations :: "(diagnostic_operation list \<Rightarrow> diagnostic_operation list) \<Rightarrow> control_db \<Rightarrow> nat \<Rightarrow> string \<Rightarrow> int
    \<Rightarrow> diagnostic_operation list res" where
  "query_operations ordr db user project_id first =
     bindR (scoped_project db user project_id) (\<lambda>p. Inr (take (page_size first)
       (ordr (filter (\<lambda>r. op_project_id r = pr_id p) (ot_rows (db_operations db))))))"

definition query_targets :: "control_db \<Rightarrow> nat \<Rightarrow> string \<Rightarrow> kubernetes_target list res" where
  "query_targets db user project_id =
     bindR (scoped_project db user project_id) (\<lambda>p. Inr (filter (\<lambda>r. kt_project r = pr_id p) (tt_rows (db_targets db))))"

definition query_releases :: "(kubernetes_release_row list \<Rightarrow> kubernetes_release_row list) \<Rightarrow> control_db \<Rightarrow> nat \<Rightarrow> string \<Rightarrow> int
    \<Rightarrow> kubernetes_release_row list res" where
  "query_releases kordr db user project_id first =
     bindR (scoped_project db user project_id) (\<lambda>p. Inr (take (page_size first)
       (kordr (filter (\<lambda>r. kr_project r = pr_id p) (rt_rows (db_releases db))))))"

section \<open>Mutations\<close>

datatype 'a payload = Done 'a | ApiError string string

text \<open>\<open>str(exc)\<close> of what \<open>except (ValueError, RuntimeError)\<close> catches.\<close>

definition error_text :: "pyexn \<Rightarrow> string" where
  "error_text e = (case e of ValueError m \<Rightarrow> m | IntegrationError _ m \<Rightarrow> m | _ \<Rightarrow> exn_text e)"

definition start_error :: "pyexn \<Rightarrow> 'a payload res" where
  "start_error e =
     (if e \<in> {DoesNotExist ''Project'', DoesNotExist ''AgentRegistration''}
      then Inr (ApiError ''NOT_FOUND'' ''resource not found'')
      else if is_ValueError e then Inr (ApiError ''INVALID_DIAGNOSTIC'' ''unsupported diagnostic'')
      else Inl e)"

definition resolve_start :: "operations_backend \<Rightarrow> (diagnostic_operation list \<Rightarrow> diagnostic_operation list) \<Rightarrow> string \<Rightarrow> int \<Rightarrow> int
    \<Rightarrow> nat \<Rightarrow> string \<Rightarrow> string \<Rightarrow> string \<Rightarrow> control_db \<Rightarrow> control_db \<times> nat payload res" where
  "resolve_start be ordr uid now now' user project_id agent_id diagnostic db =
     (case bindR (scoped_project db user project_id) (\<lambda>p. scoped_agent db p agent_id) of
        Inl e \<Rightarrow> (db, start_error e)
      | Inr agent \<Rightarrow>
          (case start_diagnostic be ordr uid agent user diagnostic now now' (db_operations db) of
             (t, r) \<Rightarrow> (db\<lparr>db_operations := t\<rparr>, (case r of Inl e \<Rightarrow> start_error e | Inr pk \<Rightarrow> Inr (Done pk)))))"

definition cancel_error :: "pyexn \<Rightarrow> 'a payload res" where
  "cancel_error e =
     (if e = DoesNotExist ''DiagnosticOperation'' then Inr (ApiError ''NOT_FOUND'' ''operation not found'') else Inl e)"

definition resolve_cancel :: "operations_backend \<Rightarrow> nat \<Rightarrow> string \<Rightarrow> control_db \<Rightarrow> control_db \<times> diagnostic_operation payload res" where
  "resolve_cancel be user operation_id db =
     (case scoped_operation db user operation_id of
        Inl e \<Rightarrow> (db, cancel_error e)
      | Inr r \<Rightarrow>
          (case cancel_diagnostic be (op_pk r) (db_operations db) of
             (t, res) \<Rightarrow> (db\<lparr>db_operations := t\<rparr>, (case res of Inl e \<Rightarrow> cancel_error e | Inr r' \<Rightarrow> Inr (Done r')))))"

record target_args =
  ta_project_id :: string
  ta_agent_id :: string
  ta_name :: string
  ta_api_server :: string
  ta_namespace :: string
  ta_release_name :: string
  ta_credential_ref :: string
  ta_ingress_class :: "string option"
  ta_tls_secret_name :: "string option"

definition or_empty :: "string option \<Rightarrow> string" where
  "or_empty v = (case v of None \<Rightarrow> [] | Some s \<Rightarrow> s)"

definition target_error :: "pyexn \<Rightarrow> 'a payload res" where
  "target_error e =
     (if e \<in> {DoesNotExist ''Project'', DoesNotExist ''AgentRegistration''}
      then Inr (ApiError ''NOT_FOUND'' ''resource not found'')
      else if is_ValueError e \<or> is_RuntimeError e then Inr (ApiError ''TARGET_VALIDATION_FAILED'' (error_text e))
      else Inl e)"

definition resolve_register :: "kubernetes_backend \<Rightarrow> (string \<Rightarrow> bool) \<Rightarrow> int \<Rightarrow> nat \<Rightarrow> target_args \<Rightarrow> control_db
    \<Rightarrow> control_db \<times> nat payload res" where
  "resolve_register be ip_ok now user a db =
     (case bindR (scoped_project db user (ta_project_id a)) (\<lambda>p. bindR (scoped_agent db p (ta_agent_id a)) (\<lambda>agent. Inr (p, agent))) of
        Inl e \<Rightarrow> (db, target_error e)
      | Inr (p, agent) \<Rightarrow>
          (case register_target be ip_ok now p agent (ta_name a) (ta_api_server a) (ta_namespace a) (ta_release_name a)
               (ta_credential_ref a) (or_empty (ta_ingress_class a)) (or_empty (ta_tls_secret_name a)) (db_targets db) of
             (t, r) \<Rightarrow> (db\<lparr>db_targets := t\<rparr>, (case r of Inl e \<Rightarrow> target_error e | Inr pk \<Rightarrow> Inr (Done pk)))))"

text \<open>\<open>raw.get(key) is not None\<close>, and the values of the chart from the input object.\<close>

definition given :: "(string \<times> json) list \<Rightarrow> string \<Rightarrow> json option" where
  "given raw key = (case dget raw key of Some JNull \<Rightarrow> None | v \<Rightarrow> v)"

definition get_or_blank :: "(string \<times> json) list \<Rightarrow> string \<Rightarrow> json" where
  "get_or_blank raw key = (case dget raw key of None \<Rightarrow> JStr [] | Some v \<Rightarrow> v)"

definition release_values :: "(string \<times> json) list \<Rightarrow> (string \<times> json) list" where
  "release_values raw =
     concat (map (\<lambda>key. case given raw key of None \<Rightarrow> [] | Some v \<Rightarrow> [(key, v)])
       [''webReplicas'', ''environmentSecretName'', ''migrationCompatibility''])
     @ (case given raw ''celeryWorkerEnabled'' of None \<Rightarrow> [] | Some v \<Rightarrow> [(''celeryWorker'', JObj [(''enabled'', v)])])
     @ (case given raw ''celeryBeatEnabled'' of None \<Rightarrow> [] | Some v \<Rightarrow> [(''celeryBeat'', JObj [(''enabled'', v)])])
     @ (if json_truthy (dget raw ''ingressHost'')
        then [(''ingress'', JObj [(''enabled'', JBool True), (''host'', get_or_blank raw ''ingressHost''),
          (''className'', get_or_blank raw ''ingressClass''), (''tlsSecretName'', get_or_blank raw ''tlsSecretName'')])]
        else [])"

definition release_error :: "pyexn \<Rightarrow> 'a payload res" where
  "release_error e =
     (if e = DoesNotExist ''KubernetesTarget'' then Inr (ApiError ''NOT_FOUND'' ''target not found'')
      else if is_ValueError e \<or> is_RuntimeError e then Inr (ApiError ''RELEASE_FAILED'' (error_text e))
      else Inl e)"

definition resolve_start_release :: "(string \<Rightarrow> bool) \<Rightarrow> string \<Rightarrow> kubernetes_backend \<Rightarrow> (string \<Rightarrow> string)
    \<Rightarrow> (kubernetes_release_row list \<Rightarrow> kubernetes_release_row list) \<Rightarrow> string \<Rightarrow> int
    \<Rightarrow> nat \<Rightarrow> string \<Rightarrow> string \<Rightarrow> (string \<times> json) list \<Rightarrow> control_db \<Rightarrow> control_db \<times> nat payload res" where
  "resolve_start_release ip_ok fresh be sha kordr uid now user target_id img raw db =
     (case bindR (scoped_target db user target_id) (\<lambda>target.
          bindR (observed_release_values ip_ok raw (release_values raw)) (\<lambda>vs. Inr (target, vs))) of
        Inl e \<Rightarrow> (db, release_error e)
      | Inr (target, vs) \<Rightarrow>
          (case observed_start_release ip_ok fresh be sha kordr target user uid img vs ''0.1.0'' now (db_releases db) of
             (t, r) \<Rightarrow> (db\<lparr>db_releases := t\<rparr>, (case r of Inl e \<Rightarrow> release_error e | Inr pk \<Rightarrow> Inr (Done pk)))))"

definition cancel_release_error :: "pyexn \<Rightarrow> 'a payload res" where
  "cancel_release_error e =
     (if e = DoesNotExist ''KubernetesRelease'' then Inr (ApiError ''NOT_FOUND'' ''release not found'') else Inl e)"

definition resolve_cancel_release :: "kubernetes_backend \<Rightarrow> nat \<Rightarrow> string \<Rightarrow> control_db \<Rightarrow> control_db \<times> kubernetes_release_row payload res" where
  "resolve_cancel_release be user release_id db =
     (case scoped_release db user release_id of
        Inl e \<Rightarrow> (db, cancel_release_error e)
      | Inr r \<Rightarrow>
          (case cancel_release be (kr_pk r) (db_releases db) of
             (t, res) \<Rightarrow> (db\<lparr>db_releases := t\<rparr>, (case res of Inl e \<Rightarrow> cancel_release_error e | Inr r' \<Rightarrow> Inr (Done r')))))"

section \<open>Bounds on a query\<close>

datatype selection =
    FieldSel "selection list option"
  | Spread string
  | InlineSel "selection list"

datatype doc_def =
    OperationDef "selection list"
  | FragmentDef string "selection list"
  | OtherDef

fun fragments_of :: "doc_def list \<Rightarrow> (string, selection list) dict \<Rightarrow> (string, selection list) dict" where
  "fragments_of [] acc = acc"
| "fragments_of (FragmentDef name sels # ds) acc = fragments_of ds (dput name sels acc)"
| "fragments_of (_ # ds) acc = fragments_of ds acc"

text \<open>\<open>walk\<close>: the pair is (\<open>max_depth\<close>, \<open>fields\<close>). \<open>walk_items\<close> is its loop over the selections, at a depth
  already entered.\<close>

definition enter :: "nat \<Rightarrow> nat \<times> nat \<Rightarrow> nat \<times> nat" where
  "enter depth st = (max (fst st) depth, snd st)"

definition names_left :: "(string, selection list) dict \<Rightarrow> string list \<Rightarrow> nat" where
  "names_left frs active = card (set (dkeys frs) - set active)"

lemma names_left_Cons:
  "n \<notin> set active \<Longrightarrow> dget frs n = Some sels \<Longrightarrow> names_left frs (n # active) < names_left frs active"
proof -
  assume "n \<notin> set active" "dget frs n = Some sels"
  then have "n \<in> set (dkeys frs) - set active" using dget_in_dkeys by fastforce
  then have "set (dkeys frs) - set (n # active) \<subset> set (dkeys frs) - set active" by auto
  then show ?thesis unfolding names_left_def by (intro psubset_card_mono) auto
qed

function walk_items :: "(string, selection list) dict \<Rightarrow> nat \<Rightarrow> string list \<Rightarrow> selection list \<Rightarrow> nat \<times> nat \<Rightarrow> nat \<times> nat" where
  "walk_items frs depth active [] st = st"
| "walk_items frs depth active (FieldSel None # ss) st = walk_items frs depth active ss (fst st, Suc (snd st))"
| "walk_items frs depth active (FieldSel (Some xs) # ss) st =
     walk_items frs depth active ss (walk_items frs (Suc depth) active xs (enter (Suc depth) (fst st, Suc (snd st))))"
| "walk_items frs depth active (Spread n # ss) st =
     walk_items frs depth active ss
       (if n \<in> set active then st
        else case dget frs n of None \<Rightarrow> st | Some xs \<Rightarrow> walk_items frs depth (n # active) xs (enter depth st))"
| "walk_items frs depth active (InlineSel xs # ss) st =
     walk_items frs depth active ss (walk_items frs depth active xs (enter depth st))"
  by pat_completeness auto

termination
  by (relation "(\<lambda>(frs, _, active, _, _). names_left frs active) <*mlex*> measure (\<lambda>(_, _, _, sels, _). size_list size sels)")
    (auto intro: mlex_less mlex_leq simp: wf_mlex names_left_Cons)

definition walk :: "(string, selection list) dict \<Rightarrow> nat \<Rightarrow> string list \<Rightarrow> selection list \<Rightarrow> nat \<times> nat \<Rightarrow> nat \<times> nat" where
  "walk frs depth active sels st = walk_items frs depth active sels (enter depth st)"

fun walk_operations :: "(string, selection list) dict \<Rightarrow> doc_def list \<Rightarrow> nat \<times> nat \<Rightarrow> nat \<times> nat" where
  "walk_operations frs [] st = st"
| "walk_operations frs (OperationDef sels # ds) st = walk_operations frs ds (walk frs 1 [] sels st)"
| "walk_operations frs (_ # ds) st = walk_operations frs ds st"

record graphql_settings =
  gs_max_depth :: nat
  gs_max_fields :: nat
  gs_introspection :: bool

definition resource_error :: "graphql_settings \<Rightarrow> doc_def list \<Rightarrow> string \<Rightarrow> string option" where
  "resource_error cfg document query =
     (case walk_operations (fragments_of document []) document (0, 0) of
        (max_depth, field_count) \<Rightarrow>
          if gs_max_depth cfg < max_depth then Some ''QUERY_TOO_DEEP''
          else if gs_max_fields cfg < field_count then Some ''QUERY_TOO_COMPLEX''
          else if \<not> gs_introspection cfg \<and> (substring_in ''__schema'' query \<or> substring_in ''__type'' query)
          then Some ''INTROSPECTION_DISABLED'' else None)"

section \<open>The view\<close>

definition errors_body :: "string list \<Rightarrow> json" where
  "errors_body ms = JObj [(''errors'', JArr (map (\<lambda>m. JObj [(''message'', JStr m)]) ms))]"

text \<open>The answer to a parsed request: status and body. \<open>parse\<close> and \<open>execute\<close> are the library's; the latter
  returns the data, if any, and the number of errors.\<close>

definition answer_query :: "graphql_settings \<Rightarrow> (string \<Rightarrow> doc_def list res) \<Rightarrow> (string \<Rightarrow> json option \<Rightarrow> (json option \<times> nat) res)
    \<Rightarrow> json \<Rightarrow> (string \<times> nat \<times> json) res" where
  "answer_query cfg parse execute payload =
     (case payload of
        JObj kvs \<Rightarrow>
          (case (case dget kvs ''query'' of None \<Rightarrow> JStr [] | Some q \<Rightarrow> q) of
             JStr query \<Rightarrow>
               if strip query = [] then Inr (''failed'', 400, errors_body [''query is required''])
               else bindR (parse query) (\<lambda>document.
                 case resource_error cfg document query of
                   Some m \<Rightarrow> Inr (''failed'', 400, errors_body [m])
                 | None \<Rightarrow> bindR (execute query (dget kvs ''variables'')) (\<lambda>(data, errors). Inr
                     (if errors = 0 then ''succeeded'' else ''failed'', if errors = 0 then 200 else 400,
                      JObj ((case data of None \<Rightarrow> [] | Some d \<Rightarrow> [(''data'', d)])
                        @ (if errors = 0 then []
                           else [(''errors'', JArr (replicate errors (JObj [(''message'', JStr ''request could not be completed'')])))])))))
           | _ \<Rightarrow> Inr (''failed'', 400, errors_body [''query is required'']))
      | _ \<Rightarrow> Inl (AttributeError ''get''))"

definition caught_by_view :: "pyexn \<Rightarrow> bool" where
  "caught_by_view e \<longleftrightarrow> is_ValueError e \<or> (case e of GraphQLError _ \<Rightarrow> True | TypeError _ \<Rightarrow> True | _ \<Rightarrow> False)"

definition graphql_view :: "graphql_settings \<Rightarrow> (string \<Rightarrow> doc_def list res) \<Rightarrow> (string \<Rightarrow> json option \<Rightarrow> (json option \<times> nat) res)
    \<Rightarrow> string \<Rightarrow> string \<times> string \<Rightarrow> int \<Rightarrow> int \<Rightarrow> string \<Rightarrow> telemetry \<Rightarrow> telemetry \<times> (nat \<times> json) res" where
  "graphql_view cfg parse execute fresh ids started now body t =
     (case telemetry_start fresh started ''controlplane'' ''graphql'' t of
        ((correlation, started), t1) \<Rightarrow>
          let r = (case json_loads (if body = [] then ''{}'' else body) of
                     None \<Rightarrow> Inl (ValueError ''invalid JSON'')
                   | Some payload \<Rightarrow> answer_query cfg parse execute payload);
              outcome = (case r of Inr (oc, _) \<Rightarrow> oc | Inl _ \<Rightarrow> ''failed'');
              t2 = finish fresh ids ''controlplane'' ''graphql'' outcome correlation started None now t1
          in (t2, (case r of
                Inr (_, status, b) \<Rightarrow> Inr (status, b)
              | Inl e \<Rightarrow> if caught_by_view e then Inr (400, errors_body [''invalid GraphQL request'']) else Inl e)))"

end
