(* ===== verification/Telemetry_Claims.thy ===== *)
theory Telemetry_Claims
  imports Telemetry "HOL-Library.Sublist"
begin

text \<open>
  The theorems on telemetry. A history is a list of atomic operations, of any threads in any order;
  \<open>telemetry_run\<close> also collects the payloads the exporter takes from its queue.
\<close>

section \<open>Redaction\<close>

lemmas telemetry_words = is_kw_char_def in_range_def is_digit_def is_lower_az_def is_upper_az_def
  is_alpha_az_def is_alnum_az_def is_word_def lower_char_def lower_def

lemma telemetry_keywords_lang:
  assumes "k \<in> rx_lang SENSITIVE_KEYWORDS"
  shows "list_all is_kw_char (lower k) \<and> (\<exists>p \<in> set [''credential'', ''password'', ''secret'', ''token'',
      ''authorization'', ''access'', ''database'', ''kubeconfig'']. starts_with p (lower k))"
  using assms unfolding SENSITIVE_KEYWORDS_def
  by (auto dest!: keyword_word keyword_two_words simp: telemetry_words)

interpretation event_text: redactor SENSITIVE_KEYWORDS
  by (rule redactor_by_words [OF telemetry_keywords_lang]) (assumption, simp add: mark_tails_eval)

section \<open>Histories\<close>

datatype telemetry_op =
    StartOp string string
  | RecordOp string string string string int "string option" "nat option" bool
  | EnqueueOp "string \<times> string" telemetry_event
  | ExportOp bool

fun telemetry_step :: "telemetry_op \<Rightarrow> json list \<times> telemetry \<Rightarrow> json list \<times> telemetry" where
  "telemetry_step (StartOp component kind) (sent, t) = (sent, start_inflight component kind t)"
| "telemetry_step (RecordOp fresh component kind outcome ms corr pid dec) (sent, t) =
     (sent, record_event (make_event fresh component kind outcome ms corr pid) dec t)"
| "telemetry_step (EnqueueOp ids event) (sent, t) = (sent, enqueue ids event t)"
| "telemetry_step (ExportOp ok) (sent, t) =
     (case export_round ok t of (taken, t') \<Rightarrow> (sent @ (case taken of None \<Rightarrow> [] | Some x \<Rightarrow> [x]), t'))"

definition telemetry_run :: "telemetry_op list \<Rightarrow> telemetry \<Rightarrow> json list \<times> telemetry" where
  "telemetry_run ops t = fold telemetry_step ops ([], t)"

lemma run_snoc: "telemetry_run (ops @ [op]) t = telemetry_step op (telemetry_run ops t)"
  by (simp add: telemetry_run_def)

lemma run_Nil [simp]: "telemetry_run [] t = ([], t)"
  by (simp add: telemetry_run_def)

text \<open>\<open>secrets.token_hex\<close>\<close>

definition is_token :: "string \<Rightarrow> bool" where
  "is_token s \<longleftrightarrow> s \<noteq> [] \<and> length s \<le> MAX_CORRELATION \<and> list_all is_safe_char s"

fun op_fresh :: "telemetry_op \<Rightarrow> bool" where
  "op_fresh (RecordOp fresh _ _ _ _ _ _ _) = is_token fresh"
| "op_fresh _ = True"

section \<open>Invariant\<close>

definition pair_ok :: "string \<times> string \<Rightarrow> bool" where
  "pair_ok l \<longleftrightarrow> fst l \<in> set ALLOWED_COMPONENTS \<and> snd l \<in> set ALLOWED_KINDS"

definition label_ok :: "label \<Rightarrow> bool" where
  "label_ok l \<longleftrightarrow> fst l \<in> set ALLOWED_COMPONENTS \<and> fst (snd l) \<in> set ALLOWED_KINDS \<and> snd (snd l) \<in> set ALLOWED_OUTCOMES"

definition event_ok :: "telemetry_event \<Rightarrow> bool" where
  "event_ok e \<longleftrightarrow> label_ok (te_component e, te_kind e, te_outcome e)
     \<and> 0 \<le> te_duration_ms e \<and> te_duration_ms e \<le> 86400000 \<and> is_token (te_correlation e)"

definition counter_ok :: "('k \<Rightarrow> bool) \<Rightarrow> ('k, int) dict \<Rightarrow> bool" where
  "counter_ok P d \<longleftrightarrow> dict_wf d \<and> (\<forall>(k, n) \<in> set d. P k \<and> 0 \<le> n)"

definition telemetry_ok :: "telemetry \<Rightarrow> bool" where
  "telemetry_ok t \<longleftrightarrow> 8 \<le> tl_size t \<and> tl_size t \<le> 1024
     \<and> length (tl_events t) \<le> tl_size t \<and> length (tl_exports t) \<le> tl_size t
     \<and> counter_ok label_ok (tl_counts t) \<and> counter_ok label_ok (tl_durations t) \<and> counter_ok pair_ok (tl_inflight t)
     \<and> list_all event_ok (tl_events t)"

lemma counter_ok_dput: "counter_ok P d \<Longrightarrow> P k \<Longrightarrow> 0 \<le> n \<Longrightarrow> counter_ok P (dput k n d)"
  unfolding counter_ok_def
proof (elim conjE, intro conjI)
  assume "\<forall>(k, n) \<in> set d. P k \<and> 0 \<le> n" and "P k" "0 \<le> n"
  then show "\<forall>(k, n) \<in> set (dput k n d). P k \<and> 0 \<le> n"
    by (induction d) (auto split: if_splits)
qed simp

lemma counter_get_ok: "counter_ok P d \<Longrightarrow> 0 \<le> counter_get d k"
  by (auto simp: counter_ok_def counter_get_def split: option.splits dest: map_of_SomeD)

lemma counter_ok_add: "counter_ok P d \<Longrightarrow> P k \<Longrightarrow> 0 \<le> n \<Longrightarrow> counter_ok P (counter_add k n d)"
  unfolding counter_add_def using counter_get_ok [of P d k] by (intro counter_ok_dput) auto

lemma labels_ok: "label_ok (labels_of c k oc)"
  by (simp add: label_ok_def labels_of_def ALLOWED_COMPONENTS_def ALLOWED_KINDS_def ALLOWED_OUTCOMES_def)

lemma all_safe: "list_all is_safe_char (re_sub (Cls (\<lambda>c. \<not> is_safe_char c)) ''_'' s)"
  unfolding re_sub_Cls by (induction s) (simp_all add: is_safe_char_def)

lemma correlation_ok: "is_token fresh \<Longrightarrow> is_token (correlation_id fresh v)"
  using all_safe unfolding correlation_id_def
  by (auto simp: is_token_def Let_def list_all_iff split: option.splits dest!: in_set_takeD)

lemma event_ok_make: "is_token fresh \<Longrightarrow> event_ok (make_event fresh c k oc ms corr pid)"
  using labels_ok [of c k oc] correlation_ok [of fresh corr]
  by (auto simp: make_event_def event_ok_def split: prod.splits)

lemma bounded_append_length: "length (bounded_append cap x xs) = min cap (Suc (length xs))"
  by (simp add: bounded_append_def)

lemma bounded_append_all: "list_all P xs \<Longrightarrow> P x \<Longrightarrow> list_all P (bounded_append cap x xs)"
  unfolding bounded_append_def by (auto simp: list_all_iff dest: in_set_dropD)

lemma record_ok:
  assumes "event_ok e" and "telemetry_ok t"
  shows "telemetry_ok (record_event e dec t)"
  using assms
  by (auto simp: telemetry_ok_def record_event_def Let_def event_ok_def pair_ok_def label_ok_def bounded_append_length
      intro!: counter_ok_add counter_ok_dput bounded_append_all)

lemma start_ok: "telemetry_ok t \<Longrightarrow> telemetry_ok (start_inflight c k t)"
  using labels_ok [of c k "''pending''"]
  by (auto simp: telemetry_ok_def start_inflight_def pair_ok_def label_ok_def split: prod.splits intro!: counter_ok_add)

lemma enqueue_ok: "telemetry_ok t \<Longrightarrow> telemetry_ok (enqueue ids e t)"
  by (simp add: telemetry_ok_def enqueue_def)

lemma export_ok: "telemetry_ok t \<Longrightarrow> telemetry_ok (snd (export_round ok t))"
  by (auto simp: telemetry_ok_def export_round_def split: list.splits)

lemma init_ok: "init_telemetry ip_ok n configured = Inr t \<Longrightarrow> telemetry_ok t"
  by (auto simp: init_telemetry_def res_simps telemetry_ok_def counter_ok_def)

lemma run_ok:
  "telemetry_ok t \<Longrightarrow> list_all op_fresh ops \<Longrightarrow> telemetry_ok (snd (telemetry_run ops t))"
proof (induction ops rule: rev_induct)
  case (snoc op ops)
  then have ok: "telemetry_ok (snd (telemetry_run ops t))" by simp
  obtain sent t' where r: "telemetry_run ops t = (sent, t')" by (cases "telemetry_run ops t")
  with ok have t': "telemetry_ok t'" by simp
  have "telemetry_ok (snd (export_round ok t'))" for ok using export_ok [OF t'] .
  with t' r snoc.prems(2) show ?case
    by (cases op) (simp_all add: run_snoc start_ok record_ok event_ok_make enqueue_ok split_beta)
qed simp

text \<open>There are finitely many labels, so the counters cannot grow beyond their product.\<close>

lemma label_set: "{l. label_ok l} = set (List.product ALLOWED_COMPONENTS (List.product ALLOWED_KINDS ALLOWED_OUTCOMES))"
  by (auto simp: label_ok_def)

lemma pair_set: "{l. pair_ok l} = set (List.product ALLOWED_COMPONENTS ALLOWED_KINDS)"
  by (auto simp: pair_ok_def)

lemma counter_size:
  assumes "counter_ok P d" and "{l. P l} = set ls"
  shows "length d \<le> length ls"
proof -
  from assms have "set (dkeys d) \<subseteq> set ls" and d: "distinct (dkeys d)"
    by (auto simp: counter_ok_def dict_wf_def)
  then have "card (set (dkeys d)) \<le> card (set ls)" by (simp add: card_mono)
  also have "\<dots> \<le> length ls" by (rule card_length)
  finally show ?thesis using d distinct_card [OF d] by simp
qed

lemma product_sizes:
  "length (List.product ALLOWED_COMPONENTS (List.product ALLOWED_KINDS ALLOWED_OUTCOMES)) = 252"
  "length (List.product ALLOWED_COMPONENTS ALLOWED_KINDS) = 21"
  by code_simp+

lemma counts_size: "counter_ok label_ok d \<Longrightarrow> length d \<le> 252"
  using counter_size [OF _ label_set] unfolding product_sizes .

lemma inflight_size: "counter_ok pair_ok d \<Longrightarrow> length d \<le> 21"
  using counter_size [OF _ pair_set] unfolding product_sizes .

section \<open>Conservation\<close>

definition counter_total :: "('k, int) dict \<Rightarrow> int" where
  "counter_total d = sum_list (map snd d)"

lemma counter_total_add: "counter_total (counter_add k n d) = counter_total d + n"
proof -
  have "counter_total (dput k (counter_get d k + n) d) = counter_total d + n"
    by (induction d) (auto simp: counter_total_def counter_get_def)
  then show ?thesis by (simp add: counter_add_def)
qed

fun is_record :: "telemetry_op \<Rightarrow> bool" where
  "is_record (RecordOp _ _ _ _ _ _ _ _) = True"
| "is_record _ = False"

fun enqueued :: "telemetry_op list \<Rightarrow> json list" where
  "enqueued [] = []"
| "enqueued (EnqueueOp ids event # ops) = otlp_payload ids event # enqueued ops"
| "enqueued (_ # ops) = enqueued ops"

lemma enqueued_append: "enqueued (xs @ ys) = enqueued xs @ enqueued ys"
  by (induction xs rule: enqueued.induct) auto

lemma enqueued_snoc: "enqueued (ops @ [op]) = enqueued ops @ (case op of EnqueueOp ids e \<Rightarrow> [otlp_payload ids e] | _ \<Rightarrow> [])"
  by (cases op) (simp_all add: enqueued_append)

definition conserved :: "telemetry_op list \<Rightarrow> json list \<times> telemetry \<Rightarrow> telemetry \<Rightarrow> bool" where
  "conserved ops r t0 \<longleftrightarrow> (case r of (sent, t) \<Rightarrow>
     tl_endpoint t = tl_endpoint t0
   \<and> counter_total (tl_counts t) = counter_total (tl_counts t0) + int (length (filter is_record ops))
   \<and> (tl_endpoint t0 = [] \<longrightarrow> tl_exports t0 = [] \<longrightarrow> sent = [] \<and> tl_exports t = [])
   \<and> (tl_endpoint t0 \<noteq> [] \<longrightarrow>
        subseq (sent @ tl_exports t) (tl_exports t0 @ enqueued ops)
      \<and> int (length sent) + int (length (tl_exports t)) + (tl_dropped t - tl_dropped t0)
          = int (length (tl_exports t0)) + int (length (enqueued ops)))
   \<and> tl_export_errors t - tl_export_errors t0 \<le> int (length sent)
   \<and> tl_export_errors t0 \<le> tl_export_errors t)"

lemma start_inflight_frame [simp]:
  "tl_endpoint (start_inflight c k t) = tl_endpoint t" "tl_counts (start_inflight c k t) = tl_counts t"
  "tl_exports (start_inflight c k t) = tl_exports t" "tl_dropped (start_inflight c k t) = tl_dropped t"
  "tl_export_errors (start_inflight c k t) = tl_export_errors t"
  by (simp_all add: start_inflight_def split_beta)

lemma record_frame [simp]:
  "tl_endpoint (record_event e dec t) = tl_endpoint t" "tl_exports (record_event e dec t) = tl_exports t"
  "tl_dropped (record_event e dec t) = tl_dropped t" "tl_export_errors (record_event e dec t) = tl_export_errors t"
  "counter_total (tl_counts (record_event e dec t)) = counter_total (tl_counts t) + 1"
  by (simp_all add: record_event_def Let_def counter_total_add)

lemma run_conserved: "conserved ops (telemetry_run ops t) t"
proof (induction ops rule: rev_induct)
  case Nil
  then show ?case by (simp add: conserved_def)
next
  case (snoc op ops)
  obtain sent t' where r: "telemetry_run ops t = (sent, t')" by (cases "telemetry_run ops t")
  note IH = snoc [unfolded r conserved_def split_conv]
  show ?case
  proof (cases op)
    case (StartOp c k)
    with IH r show ?thesis by (simp add: run_snoc conserved_def enqueued_snoc)
  next
    case (RecordOp f c k oc ms corr pid dec)
    with IH r show ?thesis by (simp add: run_snoc conserved_def enqueued_snoc)
  next
    case (EnqueueOp ids e)
    have more: "subseq (sent @ tl_exports t') (tl_exports t @ enqueued ops) \<Longrightarrow>
        subseq (sent @ tl_exports t') (tl_exports t @ enqueued ops @ [x])"
      "subseq (sent @ tl_exports t') (tl_exports t @ enqueued ops) \<Longrightarrow>
        subseq (sent @ tl_exports t' @ [x]) (tl_exports t @ enqueued ops @ [x])" for x
      using subseq_rev_drop_many [of "sent @ tl_exports t'" "tl_exports t @ enqueued ops" "[x]"]
        list_emb_append_mono [of "(=)" "sent @ tl_exports t'" "tl_exports t @ enqueued ops" "[x]" "[x]"] by simp_all
    with EnqueueOp IH r show ?thesis
      by (auto simp: run_snoc conserved_def enqueued_snoc enqueue_def)
  next
    case (ExportOp ok)
    with IH r show ?thesis
      by (cases "tl_exports t'") (auto simp: run_snoc conserved_def enqueued_snoc export_round_def)
  qed
qed

section \<open>The theorems\<close>

text \<open>C20. Whatever the threads of the process report, and however their operations interleave, telemetry
  stays bounded: at most the configured number of recent events and of payloads waiting for export,
  itself between 8 and 1024, and at most one counter per combination of the fixed labels (252, and 21
  for the gauges of operations in flight, which are never negative). Every buffered event carries
  allowed labels, a duration of at most a day and a correlation id of at most 64 safe characters.\<close>

theorem telemetry_bounded:
  assumes "init_telemetry ip_ok n configured = Inr t0" and "list_all op_fresh ops"
    and "telemetry_run ops t0 = (sent, t)"
  shows "8 \<le> tl_size t \<and> tl_size t \<le> 1024 \<and> length (tl_events t) \<le> tl_size t \<and> length (tl_exports t) \<le> tl_size t
    \<and> length (tl_counts t) \<le> 252 \<and> length (tl_durations t) \<le> 252 \<and> length (tl_inflight t) \<le> 21
    \<and> (\<forall>k. 0 \<le> counter_get (tl_inflight t) k) \<and> list_all event_ok (tl_events t)"
proof -
  have "telemetry_ok t" using run_ok [OF init_ok [OF assms(1)] assms(2)] assms(3) by simp
  then show ?thesis
    by (simp add: telemetry_ok_def counts_size inflight_size counter_get_ok [of pair_ok])
qed

definition demo_token :: string where
  "demo_token = ''0123456789abcdef0123456789abcdef''"

definition demo_telemetry_ops :: "telemetry_op list" where
  "demo_telemetry_ops =
     [StartOp ''agent'' ''deploy'',
      RecordOp demo_token ''agent'' ''deploy'' ''succeeded'' (-5) (Some ''a b'') (Some 1) True,
      EnqueueOp (demo_token, demo_token) (make_event demo_token ''x'' ''y'' ''z'' 7 None None),
      ExportOp False]"

definition demo_telemetry :: telemetry where
  "demo_telemetry = \<lparr>tl_endpoint = ''http://collector:4318'', tl_counts = [], tl_durations = [], tl_inflight = [],
     tl_events = [], tl_exports = [], tl_size = 8, tl_dropped = 0, tl_export_errors = 0, tl_worker_started = False\<rparr>"

lemma demo_init_telemetry: "init_telemetry (\<lambda>_. False) 2 '' http://collector:4318/ '' = Inr demo_telemetry"
  by code_simp

lemma demo_telemetry_fresh: "list_all op_fresh demo_telemetry_ops"
  by code_simp

theorem telemetry_bounded_witness:
  "length (tl_events (snd (telemetry_run demo_telemetry_ops demo_telemetry))) \<le> 1024"
  using telemetry_bounded [OF demo_init_telemetry demo_telemetry_fresh prod.collapse [symmetric]] by simp

text \<open>C21. Nothing is lost unseen: the counters add up to the number of observations, and, once an
  endpoint is configured, every payload handed to the export queue has been sent or tried, is still
  waiting, or is counted as dropped; what is sent and waiting keeps the order in which it was handed
  over, and errors are counted for payloads that were taken only. Without an endpoint nothing is ever
  queued or sent.\<close>

theorem telemetry_conserved:
  assumes "init_telemetry ip_ok n configured = Inr t0" and "telemetry_run ops t0 = (sent, t)"
  shows "counter_total (tl_counts t) = int (length (filter is_record ops))
    \<and> (if tl_endpoint t = [] then sent = [] \<and> tl_exports t = []
       else subseq (sent @ tl_exports t) (enqueued ops)
         \<and> int (length sent) + int (length (tl_exports t)) + tl_dropped t = int (length (enqueued ops)))
    \<and> 0 \<le> tl_export_errors t \<and> tl_export_errors t \<le> int (length sent)"
proof -
  have "tl_counts t0 = []" "tl_exports t0 = []" "tl_dropped t0 = 0" "tl_export_errors t0 = 0"
    using assms(1) by (auto simp: init_telemetry_def res_simps)
  then show ?thesis
    using run_conserved [of ops t0] unfolding assms(2) conserved_def by (simp add: counter_total_def)
qed

theorem telemetry_conserved_witness:
  "counter_total (tl_counts (snd (telemetry_run demo_telemetry_ops demo_telemetry))) = 1"
  using telemetry_conserved [OF demo_init_telemetry prod.collapse [symmetric], of demo_telemetry_ops]
  by (simp add: demo_telemetry_ops_def)

text \<open>A value redacted for telemetry has at most 256 characters, stands on one line, and has nothing
  left that looks like a secret, also where the cut falls.\<close>

lemma telemetry_redact_sound:
  "length (telemetry_redact s) \<le> 256 \<and> \<not> search (secret_rx SENSITIVE_KEYWORDS) (telemetry_redact s)
   \<and> CHR 0x0A \<notin> set (telemetry_redact s) \<and> CHR 0x0D \<notin> set (telemetry_redact s)"
proof -
  define v where "v = replace_char CHR 0x0A '' '' (replace_char CHR 0x0D '' '' s)"
  have v: "CHR 0x0A \<notin> set v" "CHR 0x0D \<notin> set v" by (auto simp: v_def replace_char_def split: if_splits)
  have "set (telemetry_redact s) \<subseteq> set v \<union> set redacted_mark"
    using re_sub_set [OF event_text.match_ne, of redacted_mark v]
    by (auto simp: telemetry_redact_def v_def dest: in_set_takeD)
  then have "CHR 0x0A \<notin> set (telemetry_redact s)" "CHR 0x0D \<notin> set (telemetry_redact s)"
    using v by (auto simp: redacted_mark_def)
  then show ?thesis
    using event_text.redact_no_match by (simp add: telemetry_redact_def MAX_VALUE_def)
qed

end
