(* ===== verification/Kubernetes_Properties.thy ===== *)
theory Kubernetes_Properties
  imports Kubernetes
begin

text \<open>
  Kubernetes releases: the accepted values, the lifecycle of a release row and the uniqueness of the
  live release of a target, image, chart and values under interleaved requests.
\<close>

section \<open>Names\<close>

lemma DNS_LABEL_iff:
  "fullmatch DNS_LABEL s \<longleftrightarrow> s \<noteq> [] \<and> is_label_end (hd s) \<and> is_label_end (last s) \<and> list_all is_label_char s"
proof -
  have inner: "rx_lang (Seq (Star (Cls is_label_char)) (Cls is_label_end)) =
      {u @ [c] |u c. list_all is_label_char u \<and> is_label_end c}"
    unfolding rx_lang.simps(3) rx_lang_Star_Cls by auto
  have opt: "rx_lang (Opt r) = insert [] (rx_lang r)" for r
  proof (intro equalityI subsetI)
    fix x assume "x \<in> rx_lang (Opt r)"
    then obtain us where "x = concat us" "set us \<subseteq> rx_lang r" "length us \<le> 1" by auto
    then show "x \<in> insert [] (rx_lang r)" by (cases us) auto
  next
    fix x assume "x \<in> insert [] (rx_lang r)"
    then consider "x = []" | "x \<in> rx_lang r" by blast
    then show "x \<in> rx_lang (Opt r)"
    proof cases
      case 1
      then show ?thesis by (auto intro: exI [of _ "[]"])
    next
      case 2
      then show ?thesis by (auto intro!: exI [of _ "[x]"])
    qed
  qed
  have "fullmatch DNS_LABEL s \<longleftrightarrow> (\<exists>a t. s = a # t \<and> is_label_end a \<and>
      (t = [] \<or> (\<exists>u c. t = u @ [c] \<and> list_all is_label_char u \<and> is_label_end c)))"
    unfolding fullmatch_iff DNS_LABEL_def rx_lang_Seq_Cls opt inner by blast
  also have "\<dots> \<longleftrightarrow> s \<noteq> [] \<and> is_label_end (hd s) \<and> is_label_end (last s) \<and> list_all is_label_char s"
  proof (cases s)
    case (Cons a t)
    then show ?thesis
      by (cases t rule: rev_cases) (auto simp: is_label_char_def)
  qed simp
  finally show ?thesis .
qed

lemma validate_name_iff:
  "validate_name release value = Inr v \<longleftrightarrow>
    v = strip value \<and> v \<noteq> [] \<and> length v \<le> (if release then 53 else 63) \<and> list_all is_label_char v
    \<and> is_label_end (hd v) \<and> is_label_end (last v)"
  by (auto simp: validate_name_def Let_def DNS_LABEL_iff)

lemma validate_image_iff:
  "validate_image s = Inr v \<longleftrightarrow> v = s \<and> (\<exists>name digest. s = name @ ''@sha256:'' @ digest
     \<and> name \<noteq> [] \<and> list_all (\<lambda>c. ord c \<noteq> 10) name \<and> length digest = 64 \<and> list_all is_hex_lower digest)"
proof -
  have "rx_lang (Rep 64 0 (Cls is_hex_lower)) = {h. list_all is_hex_lower h \<and> length h = 64}"
    by (auto simp: rx_lang_Rep_Cls simp del: rx_lang.simps(6))
  then have "rx_lang (Seq (Lit ''@sha256:'') (Rep 64 0 (Cls is_hex_lower))) = {''@sha256:'' @ h |h. list_all is_hex_lower h \<and> length h = 64}"
    unfolding rx_lang.simps(3) rx_lang_Lit by auto
  then have "fullmatch DIGEST_IMAGE s \<longleftrightarrow> (\<exists>name digest. s = name @ ''@sha256:'' @ digest
     \<and> name \<noteq> [] \<and> list_all (\<lambda>c. ord c \<noteq> 10) name \<and> length digest = 64 \<and> list_all is_hex_lower digest)"
    unfolding fullmatch_iff DIGEST_IMAGE_def rx_lang.simps(3) [of "Plus _"] rx_lang_Plus_Cls by blast
  then show ?thesis by (auto simp: validate_image_def)
qed

section \<open>Values\<close>

text \<open>Every string of a JSON value: keys and string values, at any depth.\<close>

fun json_strings :: "json \<Rightarrow> string set" where
  "json_strings (JStr s) = {s}"
| "json_strings (JArr vs) = (\<Union>v \<in> set vs. json_strings v)"
| "json_strings (JObj kvs) = (\<Union>kv \<in> set kvs. insert (fst kv) (json_strings (snd kv)))"
| "json_strings _ = {}"

definition infix_of :: "string \<Rightarrow> string \<Rightarrow> bool" where
  "infix_of s t \<longleftrightarrow> (\<exists>u w. t = u @ s @ w)"

lemma infix_append: "infix_of s t \<Longrightarrow> infix_of s (u @ t @ w)"
  unfolding infix_of_def by (metis append.assoc)

lemma infix_join: "s \<in> set ws \<Longrightarrow> infix_of s (join sep ws)"
proof (induction ws rule: induct_list012)
  case (3 x y zs)
  show ?case
  proof (cases "s = x")
    case True
    then show ?thesis unfolding infix_of_def by (intro exI [of _ "[]"] exI [of _ "sep @ join sep (y # zs)"]) simp
  next
    case False
    with 3 have "infix_of s (join sep (y # zs))" by simp
    from infix_append [OF this, of "x @ sep" "[]"] show ?thesis by simp
  qed
qed (auto simp: infix_of_def intro: exI [of _ "[]"])

lemma infix_trans: "infix_of a b \<Longrightarrow> infix_of b c \<Longrightarrow> infix_of a c"
  unfolding infix_of_def by (metis append.assoc)

lemma json_strings_encoded: "s \<in> json_strings v \<Longrightarrow> infix_of (json_string s) (json_encode v)"
proof (induction v rule: json_encode.induct)
  case (5 t)
  then show ?case by (auto simp: infix_of_def intro: exI [of _ "[]"])
next
  case (6 vs)
  then obtain v where v: "v \<in> set vs" "s \<in> json_strings v" by auto
  with 6 have "infix_of (json_string s) (json_encode v)" by blast
  moreover have "infix_of (json_encode v) (join '','' (map json_encode vs))" using v by (intro infix_join) simp
  ultimately have "infix_of (json_string s) (join '','' (map json_encode vs))" by (rule infix_trans)
  from infix_append [OF this, of "''[''" "'']''"] show ?case by simp
next
  case (7 kvs)
  then obtain k v where v: "(k, v) \<in> set kvs" "s = k \<or> s \<in> json_strings v" by auto
  let ?m = "json_string k @ '':'' @ json_encode v"
  have "infix_of (json_string s) ?m" using v(2)
  proof
    assume "s = k"
    then show ?thesis unfolding infix_of_def by (intro exI [of _ "[]"] exI [of _ "'':'' @ json_encode v"]) simp
  next
    assume "s \<in> json_strings v"
    with 7 v have "infix_of (json_string s) (json_encode v)" by blast
    from infix_append [OF this, of "json_string k @ '':''" "[]"] show ?thesis by simp
  qed
  moreover have "infix_of ?m (join '','' (map (\<lambda>(k, v). json_string k @ '':'' @ json_encode v) kvs))"
    using v(1) by (intro infix_join) force
  ultimately have "infix_of (json_string s) (join '','' (map (\<lambda>(k, v). json_string k @ '':'' @ json_encode v) kvs))"
    by (rule infix_trans)
  from infix_append [OF this, of "''{''" "''}''"] show ?case by simp
qed simp_all

lemma json_sort_strings: "json_strings (json_sort v) = json_strings v"
proof (induction v rule: json_sort.induct)
  case (2 kvs)
  have "json_strings (json_sort (JObj kvs)) = (\<Union>kv \<in> set kvs. insert (fst kv) (json_strings (json_sort (snd kv))))"
    by (auto simp: image_iff split_def)
  also have "\<dots> = json_strings (JObj kvs)" using 2 by (auto simp: split_def)
  finally show ?case .
qed auto

lemma json_char_word: "is_kw_char (lower_char c) \<Longrightarrow> json_char c = [c]"
proof -
  assume "is_kw_char (lower_char c)"
  then have "is_alpha_az c \<or> c = CHR ''_'' \<or> c = CHR ''-''"
    by (auto simp: is_kw_char_def lower_char_def char_class_defs char_of_range split: if_splits)
  then have "45 \<le> ord c \<and> ord c \<le> 122 \<and> c \<noteq> backslash" by (auto simp: char_class_defs)
  moreover from this have "c \<noteq> quote" by auto
  ultimately show ?thesis by (simp add: json_char_def)
qed

lemma json_string_word: "list_all is_kw_char (lower s) \<Longrightarrow> json_string s = quote # s @ [quote]"
  unfolding json_string_def lower_def by (induction s) (auto simp: json_char_word)

definition secret_names :: "string list" where
  "secret_names = [''password'', ''token'', ''secretkey'', ''access_key'']"

lemma secret_names_tokens: "secret_tokens = map (\<lambda>w. quote # w @ [quote]) secret_names"
  by (simp add: secret_tokens_def secret_names_def)

lemma secret_string_found:
  assumes "s \<in> json_strings v" and "lower s \<in> set secret_names"
  shows "list_ex (\<lambda>tok. substring_in tok (lower (json_encode v))) secret_tokens"
proof -
  have "list_all is_kw_char (lower s)"
    using assms(2) by (auto simp: secret_names_def is_kw_char_def char_class_defs)
  then have q: "json_string s = quote # s @ [quote]" by (rule json_string_word)
  obtain u w where "json_encode v = u @ json_string s @ w"
    using json_strings_encoded [OF assms(1)] by (auto simp: infix_of_def)
  then have "lower (json_encode v) = lower u @ (quote # lower s @ [quote]) @ lower w"
    by (simp add: q lower_def lower_char_def in_range_def)
  then have "substring_in (quote # lower s @ [quote]) (lower (json_encode v))" unfolding substring_in_iff by blast
  with assms(2) show ?thesis unfolding secret_names_tokens by (auto simp: list_ex_iff)
qed

lemma sanitize_values_accepts:
  assumes "json_wf (JObj values)" and "sanitize_values values = Inr clean"
  shows "set (map fst values) \<subseteq> set allowed_values" and "JObj clean = json_sort (JObj values)"
    and "s \<in> json_strings (JObj values) \<Longrightarrow> lower s \<notin> set secret_names"
proof -
  have loads: "json_loads (json_dumps (JObj values)) = Some (json_sort (JObj values))"
    by (rule json_loads_dumps [OF assms(1)])
  have ok: "filter (\<lambda>k. k \<notin> set allowed_values) (map fst values) = []"
      "\<not> list_ex (\<lambda>tok. substring_in tok (lower (json_dumps (JObj values)))) secret_tokens"
      "(case json_loads (json_dumps (JObj values)) of Some (JObj kvs) \<Rightarrow> Inr kvs
           | _ \<Rightarrow> Inl (ValueError ''invalid JSON'')) = (Inr clean :: _ res)"
    using assms(2) unfolding sanitize_values_def Let_def by (simp_all split: if_splits)
  show "set (map fst values) \<subseteq> set allowed_values" using ok(1) by (auto simp: filter_empty_conv)
  show "JObj clean = json_sort (JObj values)" using ok(3) unfolding loads by simp
  show "lower s \<notin> set secret_names" if "s \<in> json_strings (JObj values)"
    using secret_string_found [of s "json_sort (JObj values)"] that ok(2) unfolding json_dumps_def json_sort_strings by blast
qed


section \<open>The release table\<close>

definition releases_wf :: "release_table \<Rightarrow> bool" where
  "releases_wf t \<longleftrightarrow> distinct (map kr_pk (rt_rows t)) \<and> (\<forall>r \<in> set (rt_rows t). kr_pk r < rt_next t)"

text \<open>The order the database lists releases in; ties are its choice.\<close>

definition newest_releases :: "(kubernetes_release_row list \<Rightarrow> kubernetes_release_row list) \<Rightarrow> bool" where
  "newest_releases ordr \<longleftrightarrow> (\<forall>rs. mset (ordr rs) = mset rs \<and> sorted_wrt (\<lambda>a b. kr_created_at b \<le> kr_created_at a) (ordr rs))"

text \<open>What requests do to the table: the transaction of \<open>start_release\<close> (for inputs that were accepted), the
  update with a result, the update of a cancellation.\<close>

datatype kstep =
    Open kubernetes_target nat string string string string "(string \<times> json) list" string int
  | Settle kubernetes_release_row "kresult res"
  | CancelSettle nat bool

fun k_step :: "(kubernetes_release_row list \<Rightarrow> kubernetes_release_row list) \<Rightarrow> kstep \<Rightarrow> release_table \<Rightarrow> release_table" where
  "k_step ordr (Open target user uid img chart digest values compatible now) t =
     fst (open_release ordr target user uid img chart digest values compatible now t)"
| "k_step ordr (Settle release result) t = (case settle_release release result t of Inl _ \<Rightarrow> t | Inr t' \<Rightarrow> t')"
| "k_step ordr (CancelSettle pk accepted) t = settle_cancel pk accepted t"

lemma rel_find_pk: "rel_find t k = Some r \<Longrightarrow> kr_pk r = k \<and> r \<in> set (rt_rows t)"
  unfolding rel_find_def by (induction "rt_rows t" arbitrary: t) (auto simp: find_Some_iff)

lemma find_map_pk: "(\<And>r. kr_pk (f r) = kr_pk r) \<Longrightarrow>
    List.find (\<lambda>r. kr_pk r = k) (map f xs) = map_option f (List.find (\<lambda>r. kr_pk r = k) xs)"
  by (induction xs) auto

lemma rel_find_update:
  assumes "\<And>r. kr_pk (f r) = kr_pk r"
  shows "rel_find (rel_update pk p f t) k = map_option (\<lambda>r. if k = pk \<and> p (kr_status r) then f r else r) (rel_find t k)"
proof -
  have "rel_find (rel_update pk p f t) k = map_option (\<lambda>r. if kr_pk r = pk \<and> p (kr_status r) then f r else r) (rel_find t k)"
    unfolding rel_find_def rel_update_def using assms by (simp add: find_map_pk)
  then show ?thesis by (cases "rel_find t k") (auto dest: rel_find_pk)
qed

lemma rel_update_wf: "(\<And>r. kr_pk (f r) = kr_pk r) \<Longrightarrow> releases_wf t \<Longrightarrow> releases_wf (rel_update pk p f t)"
proof -
  assume f: "\<And>r. kr_pk (f r) = kr_pk r" and wf: "releases_wf t"
  have "distinct (map kr_pk (rt_rows (rel_update pk p f t))) = distinct (map kr_pk (rt_rows t))"
    by (rule arg_cong [of _ _ distinct]) (simp add: rel_update_def f)
  moreover have "\<forall>r \<in> set (rt_rows (rel_update pk p f t)). kr_pk r < rt_next t"
    using wf by (auto simp: rel_update_def releases_wf_def f)
  ultimately show "releases_wf (rel_update pk p f t)" using wf by (simp add: releases_wf_def rel_update_def)
qed

lemma rel_find_append:
  "releases_wf t \<Longrightarrow> kr_pk r = rt_next t \<Longrightarrow>
   rel_find (t\<lparr>rt_rows := rt_rows t @ [r], rt_next := n\<rparr>) k = (if k = rt_next t then Some r else rel_find t k)"
proof -
  assume wf: "releases_wf t" and r: "kr_pk r = rt_next t"
  have "List.find (\<lambda>r. kr_pk r = rt_next t) (rt_rows t) = None" using wf by (auto simp: find_None_iff releases_wf_def)
  moreover have "List.find P (xs @ [x]) = (case List.find P xs of None \<Rightarrow> if P x then Some x else None | Some y \<Rightarrow> Some y)"
    for P and xs and x :: kubernetes_release_row
    by (induction xs) auto
  ultimately show ?thesis using r unfolding rel_find_def by (auto split: option.splits)
qed

text \<open>The result's update, as one guarded update.\<close>

lemma settle_release_cases:
  obtains "k_step ordr (Settle release result) t = t"
  | f where "k_step ordr (Settle release result) t = rel_update (kr_pk release) rel_active f t"
      "\<And>r. kr_pk (f r) = kr_pk r \<and> kr_target (f r) = kr_target r \<and> kr_image (f r) = kr_image r
        \<and> kr_chart_version (f r) = kr_chart_version r \<and> kr_values_digest (f r) = kr_values_digest r
        \<and> rel_terminal (kr_status (f r)) \<and> length (kr_error_code (f r)) \<le> 48
        \<and> (length (kr_rollback_status r) \<le> 32 \<longrightarrow> length (kr_rollback_status (f r)) \<le> 32)"
proof (cases result)
  case (Inl e)
  show ?thesis
  proof (cases "is_RuntimeError e")
    case True
    show ?thesis
      by (rule that(2) [of "\<lambda>r. r\<lparr>kr_status := KFAILED, kr_error_code := ''AGENT_UNAVAILABLE''\<rparr>"])
        (use Inl True in \<open>simp_all add: settle_release_def rel_terminal_def\<close>)
  next
    case False
    show ?thesis by (rule that(1)) (use Inl False in \<open>simp add: settle_release_def\<close>)
  qed
next
  case (Inr k)
  show ?thesis
    by (rule that(2) [of "\<lambda>r. r\<lparr>
            kr_status := terminal_status (ks_status k), kr_helm_revision := ks_helm_revision k,
            kr_previous_helm_revision := (case ks_previous_revision k of
                None \<Rightarrow> kr_previous_helm_revision release
              | Some n \<Rightarrow> if n = 0 then kr_previous_helm_revision release else Some n),
            kr_rollback_status := take 32 (ks_rollback_status k), kr_error_code := take 48 (ks_error_code k)\<rparr>"])
      (use Inr in \<open>simp_all add: settle_release_def rel_terminal_def terminal_status_def\<close>)
qed

lemma first_row_mem:
  assumes "newest_releases ordr" and "first_row ordr p t = Some r"
  shows "p r \<and> r \<in> set (rt_rows t)"
proof -
  have "r \<in> set (ordr (filter p (rt_rows t)))" using assms(2) by (auto simp: first_row_def split: list.splits)
  moreover have "set (ordr (filter p (rt_rows t))) = set (filter p (rt_rows t))"
    using assms(1) by (metis mset_eq_setD newest_releases_def)
  ultimately show ?thesis by auto
qed

lemma first_row_none: "newest_releases ordr \<Longrightarrow> first_row ordr p t = None \<Longrightarrow> filter p (rt_rows t) = []"
  by (metis first_row_def list.simps(5) mset_zero_iff neq_Nil_conv newest_releases_def option.distinct(1))

text \<open>The transaction: nothing, a reactivation of a recoverable release, or a new row.\<close>

lemma open_release_cases:
  assumes "newest_releases ordr"
  obtains (active) r where "open_release ordr target user uid img chart digest values compatible now t = (t, r, False)"
      "r \<in> set (rt_rows t)" "same_release (kt_pk target) img chart digest r" "rel_active (kr_status r)"
  | (again) r where "open_release ordr target user uid img chart digest values compatible now t =
        (rel_update (kr_pk r) (\<lambda>_. True) (\<lambda>r. r\<lparr>kr_status := KVALIDATING, kr_error_code := []\<rparr>) t,
         r\<lparr>kr_status := KVALIDATING, kr_error_code := []\<rparr>, True)"
      "r \<in> set (rt_rows t)" "same_release (kt_pk target) img chart digest r" "rel_recoverable r"
  | (fresh) prev where "open_release ordr target user uid img chart digest values compatible now t =
        (t\<lparr>rt_rows := rt_rows t @ [new_release (rt_next t) target user uid img chart digest values compatible prev now],
           rt_next := Suc (rt_next t)\<rparr>,
         new_release (rt_next t) target user uid img chart digest values compatible prev now, True)"
      "filter (\<lambda>r. same_release (kt_pk target) img chart digest r \<and> rel_live r) (rt_rows t) = []"
      "prev = first_row ordr (\<lambda>r. kr_target r = kt_pk target \<and> kr_status r = KSUCCEEDED) t"
proof (cases "first_row ordr (\<lambda>r. same_release (kt_pk target) img chart digest r \<and> rel_live r) t")
  case None
  with first_row_none [OF assms None] show ?thesis by (intro fresh) (simp_all add: open_release_def Let_def)
next
  case (Some r)
  note mem = first_row_mem [OF assms Some]
  show ?thesis
  proof (cases "rel_active (kr_status r)")
    case True
    with Some mem show ?thesis by (intro active) (simp_all add: open_release_def)
  next
    case False
    with mem have "r \<in> set (rt_rows t)" "same_release (kt_pk target) img chart digest r" "rel_recoverable r"
      by (auto simp: rel_live_def)
    moreover have "open_release ordr target user uid img chart digest values compatible now t =
        (rel_update (kr_pk r) (\<lambda>_. True) (\<lambda>r. r\<lparr>kr_status := KVALIDATING, kr_error_code := []\<rparr>) t,
         r\<lparr>kr_status := KVALIDATING, kr_error_code := []\<rparr>, True)"
      using Some False by (simp add: open_release_def)
    ultimately show ?thesis by (rule again [rotated])
  qed
qed

lemma new_release_fields [simp]:
  "kr_pk (new_release pk target user uid img chart digest values compatible prev now) = pk"
  "kr_status (new_release pk target user uid img chart digest values compatible prev now) = KVALIDATING"
  "same_release tg i c d (new_release pk target user uid img chart digest values compatible prev now) \<longleftrightarrow>
     tg = kt_pk target \<and> i = img \<and> c = chart \<and> d = digest"
  "kr_error_code (new_release pk target user uid img chart digest values compatible prev now) = []"
  "kr_rollback_status (new_release pk target user uid img chart digest values compatible prev now) = []"
  by (auto simp: new_release_def same_release_def)

lemma rel_active_terminal: "rel_active s \<longleftrightarrow> \<not> rel_terminal s"
  by (cases s) (simp_all add: rel_active_def rel_terminal_def)


section \<open>A settled release stays settled\<close>

lemma open_release_wf:
  assumes "newest_releases ordr" and "releases_wf t"
  shows "releases_wf (fst (open_release ordr target user uid img chart digest vals compatible now t))"
proof (cases rule: open_release_cases [OF assms(1), of target user uid img chart digest vals compatible now t])
  case (2 r)
  then show ?thesis using rel_update_wf [OF _ assms(2)] by simp
next
  case (3 prev)
  then show ?thesis using assms(2) by (auto simp: releases_wf_def less_Suc_eq)
qed (use assms in simp)

lemma k_step_wf:
  assumes "newest_releases ordr" and "releases_wf t"
  shows "releases_wf (k_step ordr e t)"
proof (cases e)
  case (Open target user uid img chart digest vals compatible now)
  then show ?thesis using open_release_wf [OF assms] by simp
next
  case (Settle release result)
  show ?thesis unfolding Settle
    by (rule settle_release_cases [of ordr release result t]) (use assms rel_update_wf in auto)
next
  case (CancelSettle pk accepted)
  then show ?thesis using rel_update_wf [OF _ assms(2)] by (simp add: settle_cancel_def)
qed

lemma k_step_final:
  assumes "newest_releases ordr" and "releases_wf t" and "rel_find t k = Some r" and "\<not> rel_live r"
  shows "rel_find (k_step ordr e t) k = Some r"
proof -
  have inactive: "\<not> rel_active (kr_status r)" using assms(4) by (simp add: rel_live_def)
  note r = rel_find_pk [OF assms(3)]
  show ?thesis
  proof (cases e)
    case (Open target user uid img chart digest vals compatible now)
    show ?thesis
    proof (cases rule: open_release_cases [OF assms(1), of target user uid img chart digest vals compatible now t])
      case (1 r')
      then show ?thesis using Open assms(3) by simp
    next
      case (2 r')
      have "kr_pk r' \<noteq> k"
      proof
        assume "kr_pk r' = k"
        then have "r' = r" using r 2(2) assms(2) by (auto simp: releases_wf_def distinct_map inj_on_def)
        with 2(4) assms(4) show False by (simp add: rel_live_def)
      qed
      then show ?thesis using Open 2(1) assms(3) by (simp add: rel_find_update)
    next
      case (3 prev)
      moreover have "k \<noteq> rt_next t" using r assms(2) by (auto simp: releases_wf_def)
      ultimately show ?thesis using Open assms(2,3) by (simp add: rel_find_append)
    qed
  next
    case (Settle release result)
    show ?thesis unfolding Settle
      by (rule settle_release_cases [of ordr release result t]) (use assms inactive in \<open>auto simp: rel_find_update\<close>)
  next
    case (CancelSettle pk accepted)
    then show ?thesis using assms inactive by (simp add: settle_cancel_def rel_find_update)
  qed
qed

lemma k_step_next: "rt_next t \<le> rt_next (k_step ordr e t)"
proof (cases e)
  case (Open target user uid img chart digest vals compatible now)
  then show ?thesis by (simp add: open_release_def Let_def rel_update_def split: option.splits)
next
  case (Settle release result)
  show ?thesis unfolding Settle by (rule settle_release_cases [of ordr release result t]) (simp_all add: rel_update_def)
qed (simp add: settle_cancel_def rel_update_def)

lemma k_step_gone:
  assumes "newest_releases ordr" and "releases_wf t" and "k < rt_next t" and "rel_find t k = None"
  shows "rel_find (k_step ordr e t) k = None"
proof (cases e)
  case (Open target user uid img chart digest vals compatible now)
  show ?thesis
  proof (cases rule: open_release_cases [OF assms(1), of target user uid img chart digest vals compatible now t])
    case (3 prev)
    then show ?thesis using Open assms by (simp add: rel_find_append)
  qed (use Open assms in \<open>simp_all add: rel_find_update\<close>)
next
  case (Settle release result)
  show ?thesis unfolding Settle
    by (rule settle_release_cases [of ordr release result t]) (use assms in \<open>auto simp: rel_find_update\<close>)
next
  case (CancelSettle pk accepted)
  then show ?thesis using assms by (simp add: settle_cancel_def rel_find_update)
qed

text \<open>The order of the database is kept beside the table, as a part of the database.\<close>

type_synonym kdb = "(kubernetes_release_row list \<Rightarrow> kubernetes_release_row list) \<times> release_table"

definition kdb_step :: "kstep \<Rightarrow> kdb \<Rightarrow> kdb" where
  "kdb_step e db = (fst db, k_step (fst db) e (snd db))"

lemma kdb_run: "fold kdb_step es (ordr, t) = (ordr, fold (k_step ordr) es t)"
  by (induction es arbitrary: t) (simp_all add: kdb_step_def)

interpretation releases: lifecycle kdb_step "\<lambda>db. rel_find (snd db)" "\<lambda>r. \<not> rel_live r"
  "\<lambda>db. newest_releases (fst db) \<and> releases_wf (snd db)" "\<lambda>db. {..<rt_next (snd db)}"
proof
  fix db :: kdb and e k r
  let ?ok = "newest_releases (fst db) \<and> releases_wf (snd db)"
  show "?ok \<Longrightarrow> newest_releases (fst (kdb_step e db)) \<and> releases_wf (snd (kdb_step e db))"
    using k_step_wf by (simp add: kdb_step_def)
  show "?ok \<Longrightarrow> rel_find (snd db) k = Some r \<Longrightarrow> k \<in> {..<rt_next (snd db)}"
    by (auto simp: releases_wf_def dest: rel_find_pk)
  show "?ok \<Longrightarrow> {..<rt_next (snd db)} \<subseteq> {..<rt_next (snd (kdb_step e db))}"
    using k_step_next by (auto simp: kdb_step_def intro: less_le_trans)
  show "?ok \<Longrightarrow> rel_find (snd db) k = Some r \<Longrightarrow> \<not> rel_live r \<Longrightarrow>
      rel_find (snd (kdb_step e db)) k = Some r \<or> rel_find (snd (kdb_step e db)) k = None"
    using k_step_final by (simp add: kdb_step_def)
  show "?ok \<Longrightarrow> k \<in> {..<rt_next (snd db)} \<Longrightarrow> rel_find (snd db) k = None \<Longrightarrow> rel_find (snd (kdb_step e db)) k = None"
    using k_step_gone by (simp add: kdb_step_def)
qed

section \<open>One live release\<close>

definition live_unique :: "release_table \<Rightarrow> bool" where
  "live_unique t \<longleftrightarrow>
     (\<forall>target img chart digest. length (filter (\<lambda>r. same_release target img chart digest r \<and> rel_live r) (rt_rows t)) \<le> 1)"

lemma length_filter_map_le:
  assumes "\<And>x. x \<in> set xs \<Longrightarrow> P (h x) \<Longrightarrow> P x"
  shows "length (filter P (map h xs)) \<le> length (filter P xs)"
  using assms
proof (induction xs)
  case (Cons x xs)
  have "length (filter P (map h xs)) \<le> length (filter P xs)" by (rule Cons.IH) (use Cons.prems in auto)
  then show ?case using Cons.prems [of x] by auto
qed simp

lemma live_unique_update:
  assumes "live_unique t"
    and "\<And>r. r \<in> set (rt_rows t) \<Longrightarrow> kr_pk r = pk \<Longrightarrow> p (kr_status r) \<Longrightarrow> rel_live (f r) \<Longrightarrow> rel_live r"
    and "\<And>tg i c d r. same_release tg i c d (f r) \<longleftrightarrow> same_release tg i c d r"
  shows "live_unique (rel_update pk p f t)"
  unfolding live_unique_def
proof (intro allI)
  fix tg i c d
  let ?P = "\<lambda>r. same_release tg i c d r \<and> rel_live r"
  have "length (filter ?P (map (\<lambda>r. if kr_pk r = pk \<and> p (kr_status r) then f r else r) (rt_rows t)))
      \<le> length (filter ?P (rt_rows t))"
    by (rule length_filter_map_le) (use assms(2,3) in \<open>auto split: if_splits\<close>)
  also have "\<dots> \<le> 1" using assms(1) by (simp add: live_unique_def)
  finally show "length (filter ?P (rt_rows (rel_update pk p f t))) \<le> 1" by (simp add: rel_update_def)
qed

lemma active_live: "rel_active (kr_status r) \<Longrightarrow> rel_live r"
  by (simp add: rel_live_def)

lemma k_step_live_unique:
  assumes "newest_releases ordr" and "releases_wf t" and "live_unique t"
  shows "live_unique (k_step ordr e t)"
proof (cases e)
  case (Open target user uid img chart digest vals compatible now)
  show ?thesis
  proof (cases rule: open_release_cases [OF assms(1), of target user uid img chart digest vals compatible now t])
    case (1 r)
    then show ?thesis using Open assms by simp
  next
    case (2 r)
    have "live_unique (rel_update (kr_pk r) (\<lambda>_. True) (\<lambda>r. r\<lparr>kr_status := KVALIDATING, kr_error_code := []\<rparr>) t)"
    proof (rule live_unique_update [OF assms(3)])
      fix r' assume "r' \<in> set (rt_rows t)" "kr_pk r' = kr_pk r"
      then have "r' = r" using 2(2) assms(2) by (auto simp: releases_wf_def distinct_map inj_on_def)
      with 2(4) show "rel_live r'" by (simp add: rel_live_def)
    qed (simp add: same_release_def)
    with Open 2(1) show ?thesis by simp
  next
    case (3 prev)
    show ?thesis unfolding live_unique_def
    proof (intro allI)
      fix tg i c d
      have "length (filter (\<lambda>r. same_release tg i c d r \<and> rel_live r) (rt_rows t)) \<le> 1" using assms(3) by (simp add: live_unique_def)
      with 3(1,2) Open show "length (filter (\<lambda>r. same_release tg i c d r \<and> rel_live r) (rt_rows (k_step ordr e t))) \<le> 1"
        by auto
    qed
  qed
next
  case (Settle release result)
  show ?thesis
  proof (rule settle_release_cases [of ordr release result t])
    assume "k_step ordr (Settle release result) t = t"
    with assms(3) Settle show ?thesis by simp
  next
    fix f
    assume e: "k_step ordr (Settle release result) t = rel_update (kr_pk release) rel_active f t"
      and f: "\<And>r. kr_pk (f r) = kr_pk r \<and> kr_target (f r) = kr_target r \<and> kr_image (f r) = kr_image r
        \<and> kr_chart_version (f r) = kr_chart_version r \<and> kr_values_digest (f r) = kr_values_digest r
        \<and> rel_terminal (kr_status (f r)) \<and> length (kr_error_code (f r)) \<le> 48
        \<and> (length (kr_rollback_status r) \<le> 32 \<longrightarrow> length (kr_rollback_status (f r)) \<le> 32)"
    have "live_unique (rel_update (kr_pk release) rel_active f t)"
      by (rule live_unique_update [OF assms(3)]) (use f in \<open>simp_all add: active_live same_release_def\<close>)
    with e Settle show ?thesis by simp
  qed
next
  case (CancelSettle pk accepted)
  have "live_unique (settle_cancel pk accepted t)" unfolding settle_cancel_def
    by (rule live_unique_update [OF assms(3)]) (simp_all add: active_live same_release_def)
  with CancelSettle show ?thesis by simp
qed

lemma k_run_live_unique:
  "newest_releases ordr \<Longrightarrow> releases_wf t \<Longrightarrow> live_unique t \<Longrightarrow>
   releases_wf (fold (k_step ordr) es t) \<and> live_unique (fold (k_step ordr) es t)"
  by (induction es arbitrary: t) (simp_all add: k_step_wf k_step_live_unique)

lemma live_unique_first:
  assumes "newest_releases ordr" and "live_unique t" and "r \<in> set (rt_rows t)"
    and "same_release target img chart digest r" and "rel_live r"
  shows "first_row ordr (\<lambda>r. same_release target img chart digest r \<and> rel_live r) t = Some r"
proof -
  let ?l = "filter (\<lambda>r. same_release target img chart digest r \<and> rel_live r) (rt_rows t)"
  have "r \<in> set ?l" using assms(3-5) by simp
  moreover have "length ?l \<le> 1" using assms(2) by (simp add: live_unique_def)
  ultimately have "?l = [r]" by (cases ?l) auto
  moreover have "mset (ordr [r]) = {#r#}" using assms(1) by (simp add: newest_releases_def)
  then have "ordr [r] = [r]" by simp
  ultimately show ?thesis by (simp add: first_row_def)
qed

end
