(* ===== verification/Observability_Claims.thy ===== *)
theory Observability_Claims
  imports Observability Telemetry_Claims Kubernetes_Properties Json_Roundtrip
begin

text \<open>
  The theorems on what the control plane reports: a settled row is reported once, and the
  installed replacements change nothing for releases that do not ask for observability.
\<close>

section \<open>Remembered keys\<close>

interpretation reported: bounded_memory "\<lambda>k s. snd (remember_key k s)" sn_set sn_order "\<lambda>_. MAX_SEEN"
  by unfold_locales (auto simp: remember_key_def Let_def)

definition seen_ok :: "seen \<Rightarrow> bool" where
  "seen_ok s \<longleftrightarrow> distinct (sn_order s) \<and> set (sn_order s) = sn_set s \<and> length (sn_order s) \<le> MAX_SEEN"

lemma seen_ok_inv: "seen_ok s \<longleftrightarrow> reported.mem_inv s"
  unfolding seen_ok_def reported.mem_inv_def by (simp add: MAX_SEEN_def)

lemma remember_new: "fst (remember_key k s) \<longleftrightarrow> k \<notin> sn_set s"
  by (simp add: remember_key_def Let_def)

section \<open>Saves\<close>

datatype save_event =
    DiagnosticSaved string "string \<times> string" diagnostic_operation
  | ReleaseSaved string "string \<times> string" int kubernetes_release_row

fun on_save :: "save_event \<Rightarrow> observer \<Rightarrow> observer" where
  "on_save (DiagnosticSaved fresh ids r) ob = diagnostic_saved fresh ids r ob"
| "on_save (ReleaseSaved fresh ids updated r) ob = release_saved fresh ids updated r ob"

definition diagnostic_key :: "diagnostic_operation \<Rightarrow> string" where
  "diagnostic_key r = ''diagnostic:'' @ op_public_id r @ '':'' @ op_status_text (op_status r)"

definition release_key :: "kubernetes_release_row \<Rightarrow> string" where
  "release_key r = ''release:'' @ kr_operation_id r @ '':'' @ release_status_text (kr_status r)"

lemma op_status_text_terminal:
  "op_status_text s \<in> {''succeeded'', ''failed'', ''cancelled'', ''offline'', ''overloaded'', ''disconnected'', ''timeout''}
    \<longleftrightarrow> op_terminal s"
  by (cases s) (simp_all add: op_status_text_def op_terminal_def)

lemma release_status_text_terminal:
  "release_status_text s \<in> {''succeeded'', ''failed'', ''cancelled'', ''rolled_back'', ''rollback_blocked''} \<longleftrightarrow> rel_terminal s"
  by (cases s) (simp_all add: release_status_text_def rel_terminal_def)

lemma diagnostic_saved_eq:
  "diagnostic_saved fresh ids r ob =
    (if op_terminal (op_status r)
     then (snd (remember_key (diagnostic_key r) (fst ob)),
           if diagnostic_key r \<in> sn_set (fst ob) then snd ob
           else observe fresh ids ''controlplane'' ''diagnostic'' (op_status_text (op_status r))
             (max 0 (op_updated_at r - op_created_at r)) (Some (op_public_id r)) (Some (op_project_id r)) False (snd ob))
     else ob)"
  using remember_new [of "diagnostic_key r" "fst ob"]
  unfolding diagnostic_saved_def Let_def op_status_text_terminal diagnostic_key_def [symmetric]
  by (cases "remember_key (diagnostic_key r) (fst ob)") (auto split: bool.splits)

lemma release_saved_eq:
  "release_saved fresh ids updated r ob =
    (if rel_terminal (kr_status r)
     then (snd (remember_key (release_key r) (fst ob)),
           if release_key r \<in> sn_set (fst ob) then snd ob
           else observe fresh ids ''controlplane'' ''kubernetes_release'' (release_status_text (kr_status r))
             (max 0 (updated - kr_created_at r)) (Some (kr_operation_id r)) (Some (kr_project r)) False (snd ob))
     else ob)"
  using remember_new [of "release_key r" "fst ob"]
  unfolding release_saved_def Let_def release_status_text_terminal release_key_def [symmetric]
  by (cases "remember_key (release_key r) (fst ob)") (auto split: bool.splits)

lemma saves_remember: "\<exists>ks. length ks \<le> length evs \<and> fst (fold on_save evs ob) = fold (\<lambda>k s. snd (remember_key k s)) ks (fst ob)"
proof (induction evs arbitrary: ob)
  case (Cons e evs)
  have "\<exists>js. length js \<le> 1 \<and> fst (on_save e ob) = fold (\<lambda>k s. snd (remember_key k s)) js (fst ob)"
  proof (cases e)
    case (DiagnosticSaved f i r)
    then show ?thesis
      by (intro exI [of _ "if op_terminal (op_status r) then [diagnostic_key r] else []"]) (simp add: diagnostic_saved_eq)
  next
    case (ReleaseSaved f i u r)
    then show ?thesis
      by (intro exI [of _ "if rel_terminal (kr_status r) then [release_key r] else []"]) (simp add: release_saved_eq)
  qed
  then obtain js where js: "length js \<le> 1" "fst (on_save e ob) = fold (\<lambda>k s. snd (remember_key k s)) js (fst ob)" by blast
  obtain ks where "length ks \<le> length evs"
    "fst (fold on_save evs (on_save e ob)) = fold (\<lambda>k s. snd (remember_key k s)) ks (fst (on_save e ob))"
    using Cons.IH by blast
  with js show ?case by (intro exI [of _ "js @ ks"]) simp
qed simp

lemma enqueue_counts [simp]: "tl_counts (enqueue ids e t) = tl_counts t"
  by (simp add: enqueue_def)

lemma observe_counts:
  "counter_total (tl_counts (observe fresh ids c k oc ms corr pid dec t)) = counter_total (tl_counts t) + 1"
  by (simp add: observe_def Let_def)

text \<open>C22. A settled diagnostic is reported to telemetry once: the save that shows its final status first adds
  exactly one observation, and of the next 2047 saves of any rows, none makes a further save of the
  same row report it again. The memory of reported rows never holds more than 2048 keys.\<close>

theorem reported_once:
  assumes "seen_ok (fst ob)" and "op_terminal (op_status r)" and "diagnostic_key r \<notin> sn_set (fst ob)"
    and "length evs < 2048"
  shows "counter_total (tl_counts (snd (diagnostic_saved fresh ids r ob))) = counter_total (tl_counts (snd ob)) + 1
    \<and> (let later = fold on_save evs (diagnostic_saved fresh ids r ob)
       in snd (diagnostic_saved fresh' ids' r later) = snd later
        \<and> seen_ok (fst later) \<and> card (sn_set (fst later)) \<le> 2048)"
proof -
  define s where "s = snd (remember_key (diagnostic_key r) (fst ob))"
  have inv: "reported.mem_inv s"
    using assms(1) unfolding s_def seen_ok_inv by (rule reported.remember_inv)
  have first: "fst (diagnostic_saved fresh ids r ob) = s" using assms(2) by (simp add: diagnostic_saved_eq s_def)
  obtain ks where ks: "length ks \<le> length evs"
    "fst (fold on_save evs (diagnostic_saved fresh ids r ob)) = fold (\<lambda>k s. snd (remember_key k s)) ks s"
    using saves_remember [of evs "diagnostic_saved fresh ids r ob"] first by auto
  obtain xs where "sn_order s = xs @ [diagnostic_key r]"
    using assms(3) unfolding s_def by (auto simp: reported.arrival_new)
  then have "diagnostic_key r \<in> sn_set (fold (\<lambda>k s. snd (remember_key k s)) ks s)"
    using reported.remembered_window [OF inv, of xs "diagnostic_key r" "[]" ks] ks(1) assms(4) by (simp add: MAX_SEEN_def)
  moreover have "reported.mem_inv (fold (\<lambda>k s. snd (remember_key k s)) ks s)" using inv by (rule reported.fold_remember_inv)
  moreover from this have "card (sn_set (fold (\<lambda>k s. snd (remember_key k s)) ks s)) \<le> 2048"
    using reported.remember_bound by (fastforce simp: MAX_SEEN_def)
  ultimately show ?thesis
    using ks(2) assms(2,3) by (simp add: Let_def diagnostic_saved_eq observe_counts seen_ok_inv)
qed

text \<open>A release is saved through the model only when it is created, and then it is not settled: the
  handler for releases never reports. Every later change is a queryset's \<open>update\<close>, which sends no signal.\<close>

theorem created_release_unreported:
  "release_saved fresh ids updated (new_release pk target user uid img chart digest vs compatibility previous now) ob = ob"
  by (simp add: release_saved_eq new_release_def rel_terminal_def)

section \<open>Observability values\<close>

lemma dkeys_json_sort: "json_sort (JObj kvs) = JObj kvs' \<Longrightarrow> set (dkeys kvs') = set (dkeys kvs)"
  by force

lemma inject_plain:
  assumes "json_wf (JObj vs)" and "dget vs ''observability'' = None"
  shows "inject_release_correlation fresh (json_dumps (JObj vs)) oid = Inr (json_dumps (JObj vs))"
proof -
  obtain vs' where vs': "json_sort (JObj vs) = JObj vs'" by simp
  have "dget vs' ''observability'' = None"
    using assms(2) dkeys_json_sort [OF vs'] by (simp only: dget_None_iff) blast
  then have "with_correlation fresh oid vs' = vs'" by (simp add: with_correlation_def)
  moreover have "json_dumps (JObj vs') = json_dumps (JObj vs)"
    unfolding json_dumps_def vs' [symmetric] json_sort_idem ..
  ultimately show ?thesis
    using json_loads_dumps [OF assms(1)] vs' by (simp add: inject_release_correlation_def)
qed

lemma ddel_absent: "dget d k = None \<Longrightarrow> ddel k d = d"
  unfolding ddel_def by (induction d) (auto split: if_splits)

lemma observed_sanitize_plain:
  "dget vs ''observability'' = None \<Longrightarrow> observed_sanitize_values ip_ok vs = sanitize_values vs"
  by (cases "sanitize_values vs") (simp_all add: observed_sanitize_values_def ddel_absent sanitize_observability_def)

lemma observed_dispatch_plain:
  "json_wf (JObj vs) \<Longrightarrow> dget vs ''observability'' = None \<Longrightarrow>
   kb_start (observed_backend fresh be) target (dispatch_request target release img vs compatibility)
   = kb_start be target (dispatch_request target release img vs compatibility)"
  using inject_plain by (simp add: observed_backend_def dispatch_request_def)

lemma sanitized_sorted:
  assumes "json_wf (JObj vs)" and "sanitize_values vs = Inr clean"
  shows "json_sort (JObj vs) = JObj clean"
  using assms json_loads_dumps [OF assms(1)] by (auto simp: sanitize_values_def Let_def split: if_splits)

text \<open>C23. For values that do not mention observability, the replacements the app installs are the functions
  they replace: the values are sanitized to the same result or error, and starting a release is the
  same call, with the same request to the backend, the same table and the same result or error.\<close>

theorem observability_transparent:
  assumes "dget vs ''observability'' = None" and "json_wf (JObj vs)"
  shows "observed_sanitize_values ip_ok vs = sanitize_values vs
    \<and> observed_start_release ip_ok fresh be sha ordr target user uid img vs chart now t
      = start_release be sha ordr target user uid img vs chart now t"
proof -
  note same = observed_sanitize_plain [OF assms(1), of ip_ok]
  have "kb_start (observed_backend fresh be) target (dispatch_request target release img' clean compatibility)
      = kb_start be target (dispatch_request target release img' clean compatibility)"
    if "inputs_of sha img (sanitize_values vs) = Inr (clean, img', digest, compatibility)" for release img' clean digest compatibility
  proof -
    from that have "json_sort (JObj vs) = JObj clean"
      using sanitized_sorted [OF assms(2)] by (auto simp: inputs_of_def Let_def res_simps split: if_splits)
    moreover from this have "dget clean ''observability'' = None"
      using assms(1) dkeys_json_sort by (simp only: dget_None_iff) blast
    ultimately show ?thesis
      using json_sort_wf [OF assms(2)] observed_dispatch_plain by metis
  qed
  then show ?thesis
    unfolding observed_start_release_def start_release_def release_inputs_def same
    by (auto simp: run_release_def split: sum.splits prod.splits)
qed

section \<open>Witnesses\<close>

definition demo_settled :: diagnostic_operation where
  "demo_settled = (new_operation 1 ''op-1'' \<lparr>ar_agent_id = ''a1'',
     ar_project = \<lparr>pr_id = 1, pr_slug = ''shop'', pr_release_root = ''current''\<rparr>, ar_capabilities = []\<rparr> 7 ''django_health'' 10)
     \<lparr>op_status := OFFLINE, op_updated_at := 15\<rparr>"

theorem reported_once_witness:
  "let later = fold on_save [DiagnosticSaved demo_token (demo_token, demo_token) (demo_settled\<lparr>op_status := FAILED\<rparr>)]
       (diagnostic_saved demo_token (demo_token, demo_token) demo_settled (init_seen, demo_telemetry))
   in snd (diagnostic_saved demo_token (demo_token, demo_token) demo_settled later) = snd later"
proof -
  have "seen_ok (fst (init_seen, demo_telemetry))" by (simp add: seen_ok_def init_seen_def)
  moreover have "op_terminal (op_status demo_settled)" by (simp add: demo_settled_def op_terminal_def)
  moreover have "diagnostic_key demo_settled \<notin> sn_set (fst (init_seen, demo_telemetry))" by (simp add: init_seen_def)
  ultimately show ?thesis
    using reported_once [of "(init_seen, demo_telemetry)" demo_settled
        "[DiagnosticSaved demo_token (demo_token, demo_token) (demo_settled\<lparr>op_status := FAILED\<rparr>)]"
        demo_token "(demo_token, demo_token)" demo_token "(demo_token, demo_token)"]
    unfolding Let_def by simp
qed

theorem observability_transparent_witness:
  "observed_sanitize_values (\<lambda>_. False) [(''webReplicas'', JInt 2)] = Inr [(''webReplicas'', JInt 2)]"
proof -
  have "sanitize_values [(''webReplicas'', JInt 2)] = Inr [(''webReplicas'', JInt 2)]" by code_simp
  then show ?thesis
    using observability_transparent [of "[(''webReplicas'', JInt 2)]" "\<lambda>_. False"] by simp
qed

end
