(* ===== verification/Diagnostics_Properties.thy ===== *)
theory Diagnostics_Properties
  imports Diagnostics
begin

text \<open>
  Diagnostic operations: redaction, the lifecycle of a row under interleaved statements, the shape of
  what is stored, the bounded history, and the branches of starting, cancelling and consuming.
\<close>

section \<open>Redaction\<close>

lemma service_words:
  "lower ''secret'' = ''secret''" "lower ''password'' = ''password''" "lower ''token'' = ''token''"
  "lower ''access'' = ''access''" "lower ''key'' = ''key''"
  by code_simp+

lemma service_keywords_lang:
  assumes "k \<in> rx_lang service_keywords"
  shows "list_all is_kw_char (lower k)
    \<and> (\<exists>p \<in> set [''secret'', ''password'', ''token'', ''access'']. starts_with p (lower k))"
proof -
  from assms consider "lower k = ''secret''" | "lower k = ''password''" | "lower k = ''token''"
    | m where "lower k = ''access'' @ m @ ''key''" "list_all is_kw_char m"
    unfolding service_keywords_def
    by (auto simp: service_words dest!: keyword_word keyword_two_words)
  then show ?thesis by cases (simp_all add: is_kw_char_def char_class_defs)
qed

interpretation services: redactor service_keywords
  by (rule redactor_by_words [OF service_keywords_lang]) (assumption, simp add: mark_tails_eval)


section \<open>The table\<close>

definition table_wf :: "op_table \<Rightarrow> bool" where
  "table_wf t \<longleftrightarrow> distinct (map op_pk (ot_rows t)) \<and> (\<forall>r \<in> set (ot_rows t). op_pk r < ot_next t)"

lemma find_Some_mem: "List.find P xs = Some x \<Longrightarrow> P x \<and> x \<in> set xs"
  by (induction xs) (auto split: if_splits)

lemma find_map_keep: "(\<And>r. P (f r) = P r) \<Longrightarrow> List.find P (map f xs) = map_option f (List.find P xs)"
  by (induction xs) auto

lemma find_filter_other: "(\<And>r. P r \<Longrightarrow> Q r) \<Longrightarrow> List.find P (filter Q xs) = List.find P xs"
  by (induction xs) auto

lemma find_filter_none: "(\<And>r. P r \<Longrightarrow> \<not> Q r) \<Longrightarrow> List.find P (filter Q xs) = None"
  by (induction xs) auto

lemma op_find_pk: "op_find t k = Some r \<Longrightarrow> op_pk r = k \<and> r \<in> set (ot_rows t)"
  unfolding op_find_def by (auto dest: find_Some_mem)

lemma op_find_update:
  assumes "\<And>r. op_pk (f r) = op_pk r"
  shows "op_find (op_update pk p f t) k =
    map_option (\<lambda>r. if k = pk \<and> p (op_status r) then f r else r) (op_find t k)"
proof -
  have "op_find (op_update pk p f t) k = map_option (\<lambda>r. if op_pk r = pk \<and> p (op_status r) then f r else r) (op_find t k)"
    unfolding op_find_def op_update_def using assms by (simp add: find_map_keep)
  then show ?thesis by (cases "op_find t k") (auto dest: op_find_pk)
qed

lemma op_update_next [simp]: "ot_next (op_update pk p f t) = ot_next t"
  by (simp add: op_update_def)

lemma op_update_wf: "(\<And>r. op_pk (f r) = op_pk r) \<Longrightarrow> table_wf t \<Longrightarrow> table_wf (op_update pk p f t)"
proof -
  assume f: "\<And>r. op_pk (f r) = op_pk r" and wf: "table_wf t"
  have "distinct (map op_pk (ot_rows (op_update pk p f t))) = distinct (map op_pk (ot_rows t))"
    by (rule arg_cong [of _ _ distinct]) (simp add: op_update_def f)
  moreover have "\<forall>r \<in> set (ot_rows (op_update pk p f t)). op_pk r < ot_next t"
    using wf by (auto simp: op_update_def table_wf_def f)
  ultimately show "table_wf (op_update pk p f t)" using wf by (simp add: table_wf_def)
qed

lemma op_find_trim: "op_find (trim_history ordr p t) k = (if k \<in> set (stale_pks ordr p t) then None else op_find t k)"
  unfolding op_find_def trim_history_def by (auto intro: find_filter_other find_filter_none)

lemma trim_wf: "table_wf t \<Longrightarrow> table_wf (trim_history ordr p t)"
  by (auto simp: table_wf_def trim_history_def distinct_map inj_on_def)

lemma create_wf: "table_wf t \<Longrightarrow> table_wf (op_create uid agent user d now t)"
  by (auto simp: table_wf_def op_create_def new_operation_def less_Suc_eq)

lemma op_find_create:
  "table_wf t \<Longrightarrow> op_find (op_create uid agent user d now t) k =
    (if k = ot_next t then Some (new_operation k uid agent user d now) else op_find t k)"
proof -
  assume wf: "table_wf t"
  then have "List.find (\<lambda>r. op_pk r = ot_next t) (ot_rows t) = None"
    by (auto simp: find_None_iff table_wf_def)
  moreover have "List.find P (xs @ [x]) = (case List.find P xs of None \<Rightarrow> if P x then Some x else None | Some y \<Rightarrow> Some y)"
    for P and xs and x :: diagnostic_operation
    by (induction xs) auto
  ultimately show ?thesis
    unfolding op_find_def op_create_def by (auto simp: new_operation_def split: option.splits)
qed

lemmas step_defs = set_running_def save_progress_def save_result_def save_error_def

section \<open>A settled operation stays settled\<close>

lemma op_active_terminal: "op_active s \<longleftrightarrow> \<not> op_terminal s"
  by (cases s) (simp_all add: op_active_def op_terminal_def)

lemma db_step_wf: "table_wf t \<Longrightarrow> table_wf (db_step ordr e t)"
  by (cases e) (simp_all add: create_wf trim_wf op_update_wf step_defs)

lemma db_step_final:
  assumes "table_wf t" and "op_find t k = Some r" and "op_terminal (op_status r)"
  shows "op_find (db_step ordr e t) k = Some r \<or> op_find (db_step ordr e t) k = None"
proof -
  have "\<not> op_active (op_status r)" "op_status r \<noteq> PENDING" using assms(3) op_active_terminal
    by (auto simp: op_active_def)
  moreover have "k \<noteq> ot_next t" using assms(1) op_find_pk [OF assms(2)] by (auto simp: table_wf_def)
  ultimately show ?thesis
    using assms by (cases e) (simp_all add: op_find_create op_find_trim op_find_update step_defs)
qed

lemma db_step_gone:
  assumes "table_wf t" and "k < ot_next t" and "op_find t k = None"
  shows "op_find (db_step ordr e t) k = None"
  using assms by (cases e) (simp_all add: op_find_create op_find_trim op_find_update step_defs)

interpretation operations: lifecycle "db_step ordr" op_find "\<lambda>r. op_terminal (op_status r)" table_wf "\<lambda>t. {..<ot_next t}"
  for ordr
proof
  fix db :: op_table and e k r
  show "table_wf db \<Longrightarrow> table_wf (db_step ordr e db)" by (rule db_step_wf)
  show "table_wf db \<Longrightarrow> op_find db k = Some r \<Longrightarrow> k \<in> {..<ot_next db}"
    by (auto simp: table_wf_def dest: op_find_pk)
  show "table_wf db \<Longrightarrow> {..<ot_next db} \<subseteq> {..<ot_next (db_step ordr e db)}"
    by (cases e) (auto simp: step_defs op_create_def trim_history_def)
  show "table_wf db \<Longrightarrow> op_find db k = Some r \<Longrightarrow> op_terminal (op_status r) \<Longrightarrow>
      op_find (db_step ordr e db) k = Some r \<or> op_find (db_step ordr e db) k = None"
    by (rule db_step_final)
  show "table_wf db \<Longrightarrow> k \<in> {..<ot_next db} \<Longrightarrow> op_find db k = None \<Longrightarrow> op_find (db_step ordr e db) k = None"
    by (simp add: db_step_gone)
qed


section \<open>What is stored\<close>

definition check_ok :: "diagnostic_check \<Rightarrow> bool" where
  "check_ok c \<longleftrightarrow> length (dc_name c) \<le> 128 \<and> length (dc_status c) \<le> 32 \<and> length (dc_detail c) \<le> MAX_DETAIL
     \<and> \<not> search (secret_rx service_keywords) (dc_detail c)"

fun summary_ok :: "op_summary \<Rightarrow> bool" where
  "summary_ok EmptySummary = True"
| "summary_ok (ProgressSummary phase message) =
     (length phase \<le> 64 \<and> length message \<le> MAX_DETAIL \<and> \<not> search (secret_rx service_keywords) message)"
| "summary_ok (ChecksSummary checks) = (length checks \<le> MAX_CHECKS \<and> list_all check_ok checks)"

definition row_ok :: "diagnostic_operation \<Rightarrow> bool" where
  "row_ok r \<longleftrightarrow> length (op_error_code r) \<le> 32 \<and> summary_ok (op_result_summary r)"

text \<open>The statements requests and consuming coroutines issue: creations, trims, and whatever some
  coroutine issues for whatever frames it receives and however its stream ends, or a cancellation.\<close>

definition issued :: "dbstep \<Rightarrow> bool" where
  "issued e \<longleftrightarrow> (\<exists>uid agent user d now. e = Create uid agent user d now) \<or> (\<exists>p. e = Trim p)
     \<or> (\<exists>pk frames fin. e \<in> set (consume_operation pk frames fin))
     \<or> (\<exists>pk r s c. cancel_outcome r = Inr (s, c) \<and> e = SaveError pk s c)"

lemma redact_clean: "length (redact v) \<le> MAX_DETAIL \<and> \<not> search (secret_rx service_keywords) (redact v)"
  unfolding redact_def using services.redact_no_match by simp

lemma bounded_checks_ok: "length (bounded_checks cs) \<le> MAX_CHECKS \<and> list_all check_ok (bounded_checks cs)"
  unfolding bounded_checks_def check_ok_def using redact_clean by (auto simp: list_all_iff)

definition rows_ok :: "op_table \<Rightarrow> bool" where
  "rows_ok t \<longleftrightarrow> list_all row_ok (ot_rows t)"

lemma op_update_rows:
  "rows_ok t \<Longrightarrow> (\<And>r. row_ok r \<Longrightarrow> row_ok (f r)) \<Longrightarrow> rows_ok (op_update pk p f t)"
  by (auto simp: rows_ok_def op_update_def list_all_iff)

lemma consume_steps:
  assumes "e \<in> set (consume_operation pk frames fin)"
  obtains "e = SetRunning pk" | ph m where "e = SaveProgress pk ph m" | s cs where "e = SaveResult pk s (bounded_checks cs)"
    | s c where "e = SaveError pk s c" "length c \<le> 32" "op_terminal s"
proof -
  have event: "e \<in> set (consume_event pk f) \<Longrightarrow>
      (\<exists>ph m. e = SaveProgress pk ph m) \<or> (\<exists>s cs. e = SaveResult pk s (bounded_checks cs))" for f
    by (cases f) auto
  have fin: "e \<in> set (consume_end pk fin) \<Longrightarrow> \<exists>s c. e = SaveError pk s c \<and> length c \<le> 32 \<and> op_terminal s"
    by (cases fin) (auto simp: op_terminal_def split: if_splits)
  from assms consider "e = SetRunning pk" | f where "e \<in> set (consume_event pk f)" | "e \<in> set (consume_end pk fin)"
    unfolding consume_operation_def by auto
  then show ?thesis
  proof cases
    case 1
    then show ?thesis by (rule that(1))
  next
    case (2 f)
    from event [OF this] show ?thesis using that(2,3) by blast
  next
    case 3
    from fin [OF this] show ?thesis using that(4) by blast
  qed
qed

lemma cancel_outcome_ok: "cancel_outcome r = Inr (s, c) \<Longrightarrow> length c \<le> 32 \<and> op_terminal s"
proof (cases r)
  case (Inr b)
  then show "cancel_outcome r = Inr (s, c) \<Longrightarrow> ?thesis" by (cases b) (auto simp: cancel_outcome_def op_terminal_def)
qed (auto simp: cancel_outcome_def op_terminal_def split: if_splits)

lemma statement_rows:
  assumes "rows_ok t"
  shows "rows_ok (set_running pk t)" "rows_ok (save_progress pk ph m t)" "rows_ok (save_result pk s (bounded_checks cs) t)"
    "length c \<le> 32 \<Longrightarrow> rows_ok (save_error pk st c t)" "rows_ok (op_create uid agent user d now t)"
    "rows_ok (trim_history ordr p t)"
  unfolding step_defs using redact_clean [of m] bounded_checks_ok [of cs] assms
  by (auto intro!: op_update_rows simp: row_ok_def)
    (auto simp: rows_ok_def row_ok_def op_create_def new_operation_def trim_history_def list_all_iff)

lemma issued_step:
  assumes "issued e" and "rows_ok t"
  shows "rows_ok (db_step ordr e t)"
proof -
  note rows = statement_rows [OF assms(2)]
  consider uid agent user d now where "e = Create uid agent user d now" | p where "e = Trim p"
    | pk frames fin where "e \<in> set (consume_operation pk frames fin)"
    | pk x st c where "cancel_outcome x = Inr (st, c)" "e = SaveError pk st c"
    using assms(1) unfolding issued_def by blast
  then show ?thesis
  proof cases
    case (3 pk frames fin)
    then show ?thesis by (cases rule: consume_steps) (simp_all add: rows)
  next
    case (4 pk x st c)
    then show ?thesis using rows(4) cancel_outcome_ok [OF 4(1)] by simp
  qed (simp_all add: rows)
qed

lemma issued_run: "list_all issued es \<Longrightarrow> rows_ok t \<Longrightarrow> rows_ok (fold (db_step ordr) es t)"
  by (induction es arbitrary: t) (simp_all add: issued_step)


section \<open>The backend's contract\<close>

text \<open>What the service relies on when it describes an agent: a backend, in the states it can be in, knows the
  heartbeat, protocol and capabilities of exactly the agents it calls connected.\<close>

locale agent_reports =
  fixes backend :: "'s \<Rightarrow> operations_backend"
    and ok :: "'s \<Rightarrow> bool"
  assumes online: "ok s \<Longrightarrow> be_connected (backend s) a \<Longrightarrow>
      (\<exists>n \<ge> 0. be_heartbeat_age (backend s) a = Some n)
      \<and> DIAGNOSTIC_CAPABILITY \<in> set (be_capabilities (backend s) a)
      \<and> fst (be_protocol_version (backend s) a) = PROTOCOL_MAJOR"
    and silent: "\<not> be_connected (backend s) a \<Longrightarrow>
      be_heartbeat_age (backend s) a = None \<and> be_capabilities (backend s) a = [] \<and> be_protocol_version (backend s) a = (0, 0)"
begin

lemma agent_state_online:
  assumes "ok s" and "st = agent_state_of (backend s) agent"
  shows "(st_connected st \<longleftrightarrow> be_connected (backend s) (ar_agent_id agent))
    \<and> (st_connected st \<longleftrightarrow> st_heartbeat_age st \<noteq> None)
    \<and> (st_connected st \<longrightarrow> DIAGNOSTIC_CAPABILITY \<in> set (st_capabilities st) \<and> st_protocol_major st = Some PROTOCOL_MAJOR)
    \<and> (\<not> st_connected st \<longrightarrow> st_capabilities st = ar_capabilities agent \<and> st_protocol_major st = None)"
  using online [OF assms(1), of "ar_agent_id agent"] unfolding assms(2) agent_state_of_def by auto

end

definition runtime_ok :: "gateway option \<times> int \<Rightarrow> bool" where
  "runtime_ok s = (case fst s of None \<Rightarrow> True | Some g \<Rightarrow> gw_ok g)"

lemma connected_session:
  "gw_ok g \<Longrightarrow> is_connected a g \<Longrightarrow> \<exists>so ss. get_session a g = Inr (so, ss) \<and> admitted (gw_tokens g) ss"
proof -
  assume ok: "gw_ok g" and "is_connected a g"
  then obtain so where so: "dget (gw_sessions g) a = Some so"
    unfolding is_connected_def by (metis dget_None_iff not_None_eq)
  with ok have "session_agent g so = Some a" by (simp add: gw_ok_def dicts_ok_def)
  then obtain ss where "gw_session_store g so = Some ss" by (auto simp: session_agent_def)
  with ok so show ?thesis by (auto simp: get_session_def gw_ok_def stores_ok_def)
qed

lemma disconnected_session: "\<not> is_connected a g \<Longrightarrow> get_session a g = Inl (LookupError ''agent is not connected'')"
proof -
  assume "\<not> is_connected a g"
  then have "dget (gw_sessions g) a = None" by (simp add: is_connected_def map_of_eq_None_iff)
  then show ?thesis by (simp add: get_session_def)
qed

interpretation runtime: agent_reports "\<lambda>s. runtime_backend (fst s) (snd s)" runtime_ok
proof
  fix s :: "gateway option \<times> int" and a
  obtain rt now where s: "s = (rt, now)" by (cases s)
  show "runtime_ok s \<Longrightarrow> be_connected (runtime_backend (fst s) (snd s)) a \<Longrightarrow>
      (\<exists>n \<ge> 0. be_heartbeat_age (runtime_backend (fst s) (snd s)) a = Some n)
      \<and> DIAGNOSTIC_CAPABILITY \<in> set (be_capabilities (runtime_backend (fst s) (snd s)) a)
      \<and> fst (be_protocol_version (runtime_backend (fst s) (snd s)) a) = PROTOCOL_MAJOR"
    using connected_session [of "the rt" a]
    by (auto simp: s runtime_ok_def runtime_backend_def gateway_runtime_def or_default_def heartbeat_age_def
        capabilities_def protocol_version_def admitted_def split: option.splits)
  show "\<not> be_connected (runtime_backend (fst s) (snd s)) a \<Longrightarrow>
      be_heartbeat_age (runtime_backend (fst s) (snd s)) a = None \<and> be_capabilities (runtime_backend (fst s) (snd s)) a = []
      \<and> be_protocol_version (runtime_backend (fst s) (snd s)) a = (0, 0)"
    using disconnected_session [of a "the rt"]
    by (auto simp: s runtime_backend_def gateway_runtime_def or_default_def heartbeat_age_def
        capabilities_def protocol_version_def split: option.splits)
qed

end
