(* ===== verification/Gateway_System.thy ===== *)
theory Gateway_System
  imports Gateway_Invariant
begin

text \<open>
  The gateway with its coroutines: \<open>gw_step\<close> is one resumption of one coroutine (a connection's
  handler, its consumer task, a caller's event stream, a cancellation), in any order, with any
  frames from the agents. Every await is a point where another coroutine may run, also where
  asyncio would not switch, so the relation has every run of the program and some more.
  A handler that is cancelled a second time while it runs its \<open>finally\<close> (server shutdown) is not
  among the steps.

  \<open>sys_inv\<close> adds to \<open>gw_ok\<close> what ties the coroutines to the dictionaries. Its main part is
  \<open>answered\<close>: each open job has its agent connected, or a failure frame on its way to its
  queue, or a terminal frame in its queue or already handed to its caller.
\<close>

record gsys =
  sy_gw :: gateway
  sy_sess :: "nat \<Rightarrow> (sender \<times> consumer) option"
  sy_stream :: "nat \<Rightarrow> stream option"
  sy_cancel :: "(nat \<times> string) list"

definition init_sys :: "gateway \<Rightarrow> gsys" where
  "init_sys g = \<lparr>sy_gw = g, sy_sess = Map.empty, sy_stream = Map.empty, sy_cancel = []\<rparr>"

text \<open>\<open>consumer.cancel()\<close>: the consumer's await raises; its \<open>finally\<close> puts the sentinel, unless the
  await that raised was that put.\<close>

fun consumer_cancel :: "consumer \<Rightarrow> consumer" where
  "consumer_cancel CDone = CDone"
| "consumer_cancel CPutEnd = CDone"
| "consumer_cancel _ = CPutEnd"

inductive gw_step :: "gsys \<Rightarrow> gsys \<Rightarrow> bool" where
  connected: "connect first now (sy_gw s) = Registered g so \<Longrightarrow>
    gw_step s (s\<lparr>sy_gw := g, sy_sess := (sy_sess s)(so \<mapsto> (SLoop, CRead))\<rparr>)"
| receive: "sy_sess s so = Some (SLoop, CRead) \<Longrightarrow> consume_frame so f now (sy_gw s) = (g, c) \<Longrightarrow>
    gw_step s (s\<lparr>sy_gw := g, sy_sess := (sy_sess s)(so \<mapsto> (SLoop, c))\<rparr>)"
| agent_closed: "sy_sess s so = Some (SLoop, CRead) \<Longrightarrow>
    gw_step s (s\<lparr>sy_sess := (sy_sess s)(so \<mapsto> (SLoop, CPutEnd))\<rparr>)"
| consumer_put: "sy_sess s so = Some (sd, c) \<Longrightarrow> sd = SLoop \<or> sd = SFinal \<and> c = CPutEnd \<Longrightarrow>
    consumer_resume so c (sy_gw s) = Some (g, c') \<Longrightarrow>
    gw_step s (s\<lparr>sy_gw := g, sy_sess := (sy_sess s)(so \<mapsto> (sd, c'))\<rparr>)"
| send: "sy_sess s so = Some (SLoop, c) \<Longrightarrow> outgoing_get so (sy_gw s) = Some (Some f, g) \<Longrightarrow>
    gw_step s (s\<lparr>sy_gw := g\<rparr>)"
| sentinel: "sy_sess s so = Some (SLoop, c) \<Longrightarrow> outgoing_get so (sy_gw s) = Some (None, g) \<Longrightarrow>
    gw_step s (s\<lparr>sy_gw := g, sy_sess := (sy_sess s)(so \<mapsto> (SFinal, consumer_cancel c))\<rparr>)"
| call_cancelled: "sy_sess s so = Some (SLoop, c) \<Longrightarrow>
    gw_step s (s\<lparr>sy_sess := (sy_sess s)(so \<mapsto> (SFinal, consumer_cancel c))\<rparr>)"
| disconnecting: "sy_sess s so = Some (SFinal, CDone) \<Longrightarrow> disconnect so (sy_gw s) = (g, sd) \<Longrightarrow>
    gw_step s (s\<lparr>sy_gw := g, sy_sess := (sy_sess s)(so \<mapsto> (sd, CDone))\<rparr>)"
| disconnect_put: "sy_sess s so = Some (SDisc jo f rest, c) \<Longrightarrow> job_put jo f (sy_gw s) = Some g \<Longrightarrow>
    session_agent g so = Some a \<Longrightarrow>
    gw_step s (s\<lparr>sy_gw := g, sy_sess := (sy_sess s)(so \<mapsto> (disc_next a g rest, c))\<rparr>)"
| start_diagnostics: "diagnostics a j root (sy_gw s) = Inr (g, jo, st) \<Longrightarrow>
    gw_step s (s\<lparr>sy_gw := g, sy_stream := (sy_stream s)(jo \<mapsto> st)\<rparr>)"
| start_kubernetes: "kubernetes_release a rq (sy_gw s) = (g, Inr (jo, st)) \<Longrightarrow>
    gw_step s (s\<lparr>sy_gw := g, sy_stream := (sy_stream s)(jo \<mapsto> st)\<rparr>)"
| refuse_kubernetes: "kubernetes_release a rq (sy_gw s) = (g, Inl e) \<Longrightarrow> gw_step s (s\<lparr>sy_gw := g\<rparr>)"
| stream_step: "sy_stream s jo = Some st \<Longrightarrow> stream_resume jo st (sy_gw s) = Some (g, f, st') \<Longrightarrow>
    gw_step s (s\<lparr>sy_gw := g, sy_stream := (sy_stream s)(jo \<mapsto> st')\<rparr>)"
| stream_abandoned: "sy_stream s jo = Some st \<Longrightarrow>
    gw_step s (s\<lparr>sy_gw := stream_close st (sy_gw s), sy_stream := (sy_stream s)(jo \<mapsto> StDone)\<rparr>)"
| cancel_call: "cancel j (sy_gw s) = (g, r) \<Longrightarrow>
    gw_step s (s\<lparr>sy_gw := g, sy_cancel := sy_cancel s @ (case r of Inl _ \<Rightarrow> [] | Inr so \<Rightarrow> [(so, j)])\<rparr>)"
| cancel_put: "(so, j) \<in> set (sy_cancel s) \<Longrightarrow> outgoing_put so (Some (Cancel j)) (sy_gw s) = Some g \<Longrightarrow>
    gw_step s (s\<lparr>sy_gw := g, sy_cancel := remove1 (so, j) (sy_cancel s)\<rparr>)"
| cancel_abandoned: "(so, j) \<in> set (sy_cancel s) \<Longrightarrow>
    gw_step s (s\<lparr>sy_cancel := remove1 (so, j) (sy_cancel s)\<rparr>)"

inductive gw_reach :: "gateway \<Rightarrow> gsys \<Rightarrow> bool" for g0 where
  start: "gw_reach g0 (init_sys g0)"
| step: "gw_reach g0 s \<Longrightarrow> gw_step s t \<Longrightarrow> gw_reach g0 t"

section \<open>The system invariant\<close>

fun pending :: "sender \<Rightarrow> nat set" where
  "pending (SDisc jo f rest) = insert jo (snd ` set rest)"
| "pending _ = {}"

fun stream_job :: "stream \<Rightarrow> string option" where
  "stream_job (StPut j so f) = Some j"
| "stream_job (StGet j) = Some j"
| "stream_job (StYield j fin) = Some j"
| "stream_job StDone = None"

definition job_agent :: "gateway \<Rightarrow> nat \<Rightarrow> string option" where
  "job_agent g jo = map_option js_agent_id (gw_job_store g jo)"

definition has_terminal :: "gateway \<Rightarrow> nat \<Rightarrow> bool" where
  "has_terminal g jo \<longleftrightarrow> (case gw_job_store g jo of None \<Rightarrow> False
     | Some st \<Rightarrow> list_ex is_terminal_frame (js_queue st))"

text \<open>A disconnecting handler of agent \<open>a\<close> still has to put a failure frame in that job's queue.\<close>

definition owed :: "gsys \<Rightarrow> string \<Rightarrow> nat \<Rightarrow> bool" where
  "owed s a jo \<longleftrightarrow> (\<exists>so sd c. sy_sess s so = Some (sd, c) \<and> session_agent (sy_gw s) so = Some a \<and> jo \<in> pending sd)"

definition answered :: "gsys \<Rightarrow> string \<Rightarrow> nat \<Rightarrow> bool" where
  "answered s j jo \<longleftrightarrow>
     (\<exists>a. job_agent (sy_gw s) jo = Some a \<and>
       (a \<in> set (dkeys (gw_sessions (sy_gw s)))
        \<or> owed s a jo
        \<or> has_terminal (sy_gw s) jo
        \<or> sy_stream s jo = Some (StYield j True)))"

definition sess_ok :: "gsys \<Rightarrow> bool" where
  "sess_ok s \<longleftrightarrow>
     (\<forall>a so. dget (gw_sessions (sy_gw s)) a = Some so \<longrightarrow>
        (\<exists>sd c. sy_sess s so = Some (sd, c) \<and> (sd = SLoop \<or> sd = SFinal)))
   \<and> (\<forall>so p. sy_sess s so = Some p \<longrightarrow> gw_session_store (sy_gw s) so \<noteq> None)
   \<and> (\<forall>so jo f rest c. sy_sess s so = Some (SDisc jo f rest, c) \<longrightarrow> is_terminal_frame f)"

definition streams_ok :: "gsys \<Rightarrow> bool" where
  "streams_ok s \<longleftrightarrow>
     (\<forall>jo st. sy_stream s jo = Some st \<longrightarrow> jo < gw_fresh (sy_gw s) \<and>
        (\<forall>j. stream_job st = Some j \<longrightarrow> dget (gw_jobs (sy_gw s)) j = Some jo))"

definition jobs_answered :: "gsys \<Rightarrow> bool" where
  "jobs_answered s \<longleftrightarrow> (\<forall>j jo. dget (gw_jobs (sy_gw s)) j = Some jo \<longrightarrow> answered s j jo)"

definition sys_inv :: "gsys \<Rightarrow> bool" where
  "sys_inv s \<longleftrightarrow> gw_ok (sy_gw s) \<and> sess_ok s \<and> streams_ok s \<and> jobs_answered s"

lemmas sys_inv_defs = sys_inv_def sess_ok_def streams_ok_def jobs_answered_def

lemma sys_inv_ok: "sys_inv s \<Longrightarrow> gw_ok (sy_gw s)"
  by (simp add: sys_inv_def)

lemma init_sys_inv: "gw_ok g \<Longrightarrow> gw_sessions g = [] \<Longrightarrow> gw_jobs g = [] \<Longrightarrow> sys_inv (init_sys g)"
  by (simp add: sys_inv_defs init_sys_def)

section \<open>Quiet changes\<close>

text \<open>A change of the gateway that keeps the dictionaries and only lets queues grow keeps the
  invariant; so does a coroutine that moves on without consequence for a job.\<close>

definition gw_quiet :: "gateway \<Rightarrow> gateway \<Rightarrow> bool" where
  "gw_quiet g g' \<longleftrightarrow> gw_jobs g' = gw_jobs g \<and> gw_sessions g' = gw_sessions g \<and> gw_fresh g' = gw_fresh g
   \<and> session_agent g' = session_agent g \<and> job_agent g' = job_agent g
   \<and> (\<forall>jo. has_terminal g jo \<longrightarrow> has_terminal g' jo)"

lemma gw_quiet_refl [simp]: "gw_quiet g g"
  by (simp add: gw_quiet_def)

lemma session_store_ne: "gw_session_store g so \<noteq> None \<longleftrightarrow> session_agent g so \<noteq> None"
  by (simp add: session_agent_def)

lemma sys_inv_quiet:
  assumes "sys_inv s" and "gw_quiet (sy_gw s) g" and "gw_ok g"
  shows "sys_inv (s\<lparr>sy_gw := g, sy_cancel := cs\<rparr>)"
proof -
  have "answered s j jo \<Longrightarrow> answered (s\<lparr>sy_gw := g, sy_cancel := cs\<rparr>) j jo" for j jo
    using assms(2) unfolding answered_def owed_def gw_quiet_def by auto
  with assms show ?thesis unfolding sys_inv_defs session_store_ne by (simp add: gw_quiet_def)
qed

lemma sys_inv_quiet_gw: "sys_inv s \<Longrightarrow> gw_quiet (sy_gw s) g \<Longrightarrow> gw_ok g \<Longrightarrow> sys_inv (s\<lparr>sy_gw := g\<rparr>)"
  using sys_inv_quiet [of s g "sy_cancel s"] by simp

lemma sys_inv_pc:
  assumes "sys_inv s" and "sy_sess s so = Some (sd, c)" and "sd' = sd \<or> sd = SLoop \<and> sd' = SFinal"
  shows "sys_inv (s\<lparr>sy_sess := (sy_sess s)(so \<mapsto> (sd', c'))\<rparr>)"
proof -
  have owed: "owed s a jo \<Longrightarrow> owed (s\<lparr>sy_sess := (sy_sess s)(so \<mapsto> (sd', c'))\<rparr>) a jo" for a jo
  proof -
    assume "owed s a jo"
    then obtain so2 sd2 c2 where o: "sy_sess s so2 = Some (sd2, c2)" "session_agent (sy_gw s) so2 = Some a"
      "jo \<in> pending sd2" unfolding owed_def by blast
    show ?thesis
    proof (cases "so2 = so")
      case True
      then have "jo \<in> pending sd'" using o assms(2,3) by auto
      with o True show ?thesis unfolding owed_def by (intro exI [of _ so]) simp
    next
      case False
      with o show ?thesis unfolding owed_def by (intro exI [of _ so2]) simp
    qed
  qed
  have "answered s j jo \<Longrightarrow> answered (s\<lparr>sy_sess := (sy_sess s)(so \<mapsto> (sd', c'))\<rparr>) j jo" for j jo
    unfolding answered_def using owed by auto
  moreover have "sess_ok (s\<lparr>sy_sess := (sy_sess s)(so \<mapsto> (sd', c'))\<rparr>)"
    using assms unfolding sys_inv_def sess_ok_def by (auto split: if_splits) fastforce+
  ultimately show ?thesis using assms(1) unfolding sys_inv_def streams_ok_def jobs_answered_def by simp
qed

lemma has_terminal_upd:
  "has_terminal (g\<lparr>gw_job_store := (gw_job_store g)(jo \<mapsto> st)\<rparr>) jo' \<longleftrightarrow>
    (if jo' = jo then list_ex is_terminal_frame (js_queue st) else has_terminal g jo')"
  by (simp add: has_terminal_def)

lemma job_agent_upd:
  "job_agent (g\<lparr>gw_job_store := (gw_job_store g)(jo \<mapsto> st)\<rparr>) =
    (job_agent g)(jo \<mapsto> js_agent_id st)"
  by (auto simp: job_agent_def)

lemma quiet_job_upd:
  "gw_job_store g jo = Some st \<Longrightarrow> js_agent_id st' = js_agent_id st \<Longrightarrow>
   (list_ex is_terminal_frame (js_queue st) \<longrightarrow> list_ex is_terminal_frame (js_queue st')) \<Longrightarrow>
   gw_quiet g (g\<lparr>gw_job_store := (gw_job_store g)(jo \<mapsto> st')\<rparr>)"
  unfolding gw_quiet_def has_terminal_upd job_agent_upd
  by (auto simp: job_agent_def session_agent_def has_terminal_def)

lemma quiet_session_upd:
  "gw_session_store g so = Some s \<Longrightarrow> as_agent_id s' = as_agent_id s \<Longrightarrow>
   gw_quiet g (g\<lparr>gw_session_store := (gw_session_store g)(so \<mapsto> s')\<rparr>)"
  by (auto simp: gw_quiet_def job_agent_def session_agent_def has_terminal_def)

lemma job_put_quiet: "job_put jo f g = Some g' \<Longrightarrow> gw_quiet g g'"
  by (auto simp: job_put_def quiet_job_upd split: option.splits if_splits)

lemma outgoing_put_quiet: "outgoing_put so f g = Some g' \<Longrightarrow> gw_quiet g g'"
  by (auto simp: outgoing_put_def quiet_session_upd split: option.splits if_splits)

lemma outgoing_get_quiet: "outgoing_get so g = Some (f, g') \<Longrightarrow> gw_quiet g g'"
  by (auto simp: outgoing_get_def quiet_session_upd split: option.splits list.splits)

lemma accept_event_quiet: "accept_event so j n f g = (g', c) \<Longrightarrow> gw_quiet g g'"
  by (auto simp: accept_event_def quiet_job_upd split: option.splits if_splits bind_splits)

lemma consume_frame_quiet: "consume_frame so f now g = (g', c) \<Longrightarrow> gw_quiet g g'"
proof -
  have "gw_quiet g (g\<lparr>gw_session_store := (gw_session_store g)(so :=
      map_option (\<lambda>s. s\<lparr>as_last_heartbeat := now\<rparr>) (gw_session_store g so))\<rparr>)"
    by (auto simp: gw_quiet_def job_agent_def session_agent_def has_terminal_def option.map_comp comp_def)
  then show "consume_frame so f now g = (g', c) \<Longrightarrow> gw_quiet g g'"
    by (auto simp: consume_frame_def accept_event_quiet split: agent_frame.splits)
qed

lemma consumer_resume_quiet: "consumer_resume so c g = Some (g', c') \<Longrightarrow> gw_quiet g g'"
  by (cases "(so, c, g)" rule: consumer_resume.cases) (auto dest: job_put_quiet outgoing_put_quiet)

lemma cancel_quiet: "cancel j g = (g', r) \<Longrightarrow> gw_quiet g g'"
  by (auto simp: cancel_def quiet_job_upd split: option.splits if_splits bind_splits)

section \<open>Connecting\<close>

lemma sys_inv_sess_store: "sys_inv s \<Longrightarrow> sy_sess s so = Some p \<Longrightarrow> so < gw_fresh (sy_gw s)"
proof -
  assume i: "sys_inv s" and "sy_sess s so = Some p"
  then obtain ss where "gw_session_store (sy_gw s) so = Some ss" unfolding sys_inv_def sess_ok_def by blast
  with sys_inv_ok [OF i] show ?thesis by (simp add: gw_ok_def stores_ok_def)
qed

lemma connected_inv:
  assumes i: "sys_inv s" and c: "connect first now (sy_gw s) = Registered g so"
  shows "sys_inv (s\<lparr>sy_gw := g, sy_sess := (sy_sess s)(so \<mapsto> (SLoop, CRead))\<rparr>)" (is "sys_inv ?t")
proof -
  from c obtain hello where so: "so = gw_fresh (sy_gw s)"
    and new: "h_agent_id hello \<notin> set (dkeys (gw_sessions (sy_gw s)))"
    and g: "g = (sy_gw s)\<lparr>gw_sessions := dput (h_agent_id hello) (gw_fresh (sy_gw s)) (gw_sessions (sy_gw s)),
            gw_session_store := (gw_session_store (sy_gw s))(gw_fresh (sy_gw s) \<mapsto> new_session hello now),
            gw_fresh := Suc (gw_fresh (sy_gw s))\<rparr>"
    by (rule connect_cases)
  have old: "sy_sess s so' = Some p \<Longrightarrow> so' \<noteq> so" for so' p
    using sys_inv_sess_store [OF i] so by blast
  have owed: "owed s a jo \<Longrightarrow> owed ?t a jo" for a jo
    unfolding owed_def using old by (auto simp: g so session_agent_def)
  have ans: "answered s j jo \<Longrightarrow> answered ?t j jo" for j jo
    using owed unfolding answered_def by (auto simp: g job_agent_def has_terminal_def)
  have oldsess: "dget (gw_sessions (sy_gw s)) a \<noteq> Some so" for a
    using gw_ok_session [OF sys_inv_ok [OF i]] so by (metis less_irrefl)
  have "sess_ok ?t" using i old oldsess unfolding sys_inv_def sess_ok_def
    by (auto simp: g so split: if_splits)
  moreover have "streams_ok ?t" using i unfolding sys_inv_def streams_ok_def
    by (auto simp: g less_Suc_eq)
  moreover have "jobs_answered ?t" using i ans unfolding sys_inv_def jobs_answered_def by (simp add: g)
  ultimately show ?thesis using connect_ok [OF sys_inv_ok [OF i] c] by (simp add: sys_inv_def)
qed

section \<open>Disconnecting\<close>

lemma failure_frame_terminal [simp]: "is_terminal_frame (failure_frame st j n code)"
  by (simp add: failure_frame_def)

lemma disc_next_terminal: "disc_next a g js = SDisc jo f rest \<Longrightarrow> is_terminal_frame f"
  by (induction a g js rule: disc_next.induct) (auto split: option.splits if_splits)

lemma disc_next_pending: "(j, jo) \<in> set js \<Longrightarrow> job_agent g jo = Some a \<Longrightarrow> jo \<in> pending (disc_next a g js)"
  by (induction a g js rule: disc_next.induct)
    (force simp: job_agent_def split: option.splits if_splits)+

lemma sys_inv_disc: "sys_inv s \<Longrightarrow> sy_sess s so = Some (SDisc jo f rest, c) \<Longrightarrow> is_terminal_frame f"
  unfolding sys_inv_def sess_ok_def by blast

lemma disconnect_inv:
  assumes i: "sys_inv s" and p: "sy_sess s so = Some (SFinal, CDone)" and d: "disconnect so (sy_gw s) = (g, sd)"
  shows "sys_inv (s\<lparr>sy_gw := g, sy_sess := (sy_sess s)(so \<mapsto> (sd, CDone))\<rparr>)" (is "sys_inv ?t")
proof -
  let ?g = "sy_gw s"
  from i p obtain ss where ss: "gw_session_store ?g so = Some ss" unfolding sys_inv_def sess_ok_def by blast
  let ?a = "as_agent_id ss"
  have g: "g = (if dget (gw_sessions ?g) ?a = Some so
                then ?g\<lparr>gw_sessions := ddel ?a (gw_sessions ?g)\<rparr> else ?g)"
    and sd: "sd = disc_next ?a g (gw_jobs g)"
    using d ss by (auto simp: disconnect_def Let_def split: if_splits)
  have fields: "gw_jobs g = gw_jobs ?g" "gw_fresh g = gw_fresh ?g" "session_agent g = session_agent ?g"
    "job_agent g = job_agent ?g" "has_terminal g = has_terminal ?g" "gw_session_store g = gw_session_store ?g"
    by (auto simp: g session_agent_def job_agent_def has_terminal_def fun_eq_iff)
  have keys: "b \<noteq> ?a \<Longrightarrow> dget (gw_sessions g) b = dget (gw_sessions ?g) b" for b by (simp add: g)
  have wf: "dict_wf (gw_jobs ?g)" using sys_inv_ok [OF i] by (simp add: gw_ok_def dicts_ok_def)
  have mine: "owed ?t ?a jo" if "dget (gw_jobs ?g) j = Some jo" "job_agent ?g jo = Some ?a" for j jo
  proof -
    have "(j, jo) \<in> set (gw_jobs ?g)" using that(1) wf by (simp add: dict_wf_mem)
    then have "jo \<in> pending sd" using disc_next_pending [of j jo "gw_jobs g" g ?a] that(2) sd fields by simp
    then show ?thesis using ss unfolding owed_def
      by (intro exI [of _ so]) (simp add: fields session_agent_def)
  qed
  have other: "owed s b jo \<Longrightarrow> owed ?t b jo" for b jo
    unfolding owed_def using p by (auto simp: fields)
  have "answered ?t j jo" if j: "dget (gw_jobs ?g) j = Some jo" for j jo
  proof -
    from i j have "answered s j jo" by (simp add: sys_inv_def jobs_answered_def)
    then obtain b where b: "job_agent ?g jo = Some b"
      and h: "b \<in> set (dkeys (gw_sessions ?g)) \<or> owed s b jo \<or> has_terminal ?g jo \<or> sy_stream s jo = Some (StYield j True)"
      by (auto simp: answered_def)
    have "b \<noteq> ?a \<Longrightarrow> b \<in> set (dkeys (gw_sessions ?g)) \<Longrightarrow> b \<in> set (dkeys (gw_sessions g))"
      using keys [of b] by (metis dget_None_iff)
    then show ?thesis using b h other mine [OF j] unfolding answered_def
      by (cases "b = ?a") (auto simp: fields)
  qed
  then have "jobs_answered ?t" by (simp add: jobs_answered_def fields)
  moreover have "streams_ok ?t" using i by (simp add: sys_inv_def streams_ok_def fields)
  moreover have "sess_ok ?t"
  proof -
    have "\<exists>sd c. sy_sess ?t so' = Some (sd, c) \<and> (sd = SLoop \<or> sd = SFinal)"
      if "dget (gw_sessions g) b = Some so'" for b so'
    proof -
      have old: "dget (gw_sessions ?g) b = Some so'" using that by (auto simp: g split: if_splits)
      have "so' \<noteq> so"
      proof
        assume "so' = so"
        with gw_ok_session [OF sys_inv_ok [OF i] old] ss have "b = ?a" by (metis option.inject)
        with that old \<open>so' = so\<close> show False by (simp add: g)
      qed
      with old i show ?thesis by (auto simp: sys_inv_def sess_ok_def)
    qed
    moreover have "is_terminal_frame f" if "sy_sess ?t so' = Some (SDisc jo f rest, c)" for so' jo f rest c
      using that sd disc_next_terminal [of ?a g "gw_jobs g" jo f rest] sys_inv_disc [OF i, of so' jo f rest c]
      by (auto split: if_splits)
    moreover have "gw_session_store g so' \<noteq> None" if "sy_sess ?t so' = Some q" for so' q
      using that i ss by (auto simp: fields sys_inv_def sess_ok_def split: if_splits)
    ultimately show ?thesis unfolding sess_ok_def by auto
  qed
  ultimately show ?thesis using disconnect_ok [OF sys_inv_ok [OF i] d] by (simp add: sys_inv_def)
qed

lemma disconnect_put_inv:
  assumes i: "sys_inv s" and p: "sy_sess s so = Some (SDisc jo f rest, c)"
    and put: "job_put jo f (sy_gw s) = Some g" and a: "session_agent g so = Some a"
  shows "sys_inv (s\<lparr>sy_gw := g, sy_sess := (sy_sess s)(so \<mapsto> (disc_next a g rest, c))\<rparr>)" (is "sys_inv ?t")
proof -
  let ?g = "sy_gw s"
  note q = job_put_quiet [OF put, unfolded gw_quiet_def]
  have fin: "has_terminal g jo" using put sys_inv_disc [OF i p]
    by (auto simp: job_put_def has_terminal_def split: option.splits if_splits)
  have ans: "answered ?t j jo'" if j: "dget (gw_jobs ?g) j = Some jo'" for j jo'
  proof -
    from i j have "answered s j jo'" by (simp add: sys_inv_def jobs_answered_def)
    then obtain b where b: "job_agent ?g jo' = Some b"
      and h: "b \<in> set (dkeys (gw_sessions ?g)) \<or> owed s b jo' \<or> has_terminal ?g jo' \<or> sy_stream s jo' = Some (StYield j True)"
      by (auto simp: answered_def)
    have "owed s b jo' \<Longrightarrow> jo' = jo \<or> owed ?t b jo'"
    proof -
      assume "owed s b jo'"
      then obtain so2 sd2 c2 where o: "sy_sess s so2 = Some (sd2, c2)" "session_agent ?g so2 = Some b" "jo' \<in> pending sd2"
        by (auto simp: owed_def)
      show ?thesis
      proof (cases "so2 = so")
        case True
        then have "b = a" "jo' = jo \<or> jo' \<in> snd ` set rest" using o p a q by auto
        then have "jo' = jo \<or> jo' \<in> pending (disc_next a g rest)"
          using disc_next_pending [of _ jo' rest g a] b q by auto
        with a \<open>b = a\<close> show ?thesis unfolding owed_def by (auto intro!: exI [of _ so])
      next
        case False
        with o q show ?thesis unfolding owed_def by (auto intro!: exI [of _ so2])
      qed
    qed
    then show ?thesis using b h fin q unfolding answered_def by auto
  qed
  have "sess_ok ?t" using i p q disc_next_terminal unfolding sys_inv_def sess_ok_def session_store_ne
    by (auto split: if_splits) fastforce+
  moreover have "jobs_answered ?t" using ans q by (simp add: jobs_answered_def)
  moreover have "streams_ok ?t" using i q by (simp add: sys_inv_def streams_ok_def)
  ultimately show ?thesis using job_put_ok [OF sys_inv_ok [OF i] put] by (simp add: sys_inv_def)
qed

section \<open>Opening jobs\<close>

lemma open_job_inv:
  assumes i: "sys_inv s" and o: "open_job a j k r (sy_gw s) = Inr (g, so, jo)" and st: "stream_job st = Some j"
  shows "sys_inv (s\<lparr>sy_gw := g, sy_stream := (sy_stream s)(jo \<mapsto> st)\<rparr>)" (is "sys_inv ?t")
proof -
  let ?g = "sy_gw s"
  from o obtain ss where j: "j \<notin> set (dkeys (gw_jobs ?g))" and so: "dget (gw_sessions ?g) a = Some so"
    and jo: "jo = gw_fresh ?g"
    and g: "g = ?g\<lparr>gw_jobs := dput j (gw_fresh ?g) (gw_jobs ?g),
            gw_job_store := (gw_job_store ?g)(gw_fresh ?g \<mapsto> new_job_state a k), gw_fresh := Suc (gw_fresh ?g)\<rparr>"
    by (rule open_job_cases)
  have "a \<in> set (dkeys (gw_sessions ?g))" by (rule dget_in_dkeys [OF so])
  then have mine: "answered ?t j jo" unfolding answered_def
    by (simp add: g jo job_agent_def new_job_state_def)
  have fresh: "dget (gw_jobs ?g) j' = Some jo' \<Longrightarrow> jo' \<noteq> jo" for j' jo'
    using gw_ok_job [OF sys_inv_ok [OF i]] jo by (metis less_irrefl)
  have owed: "owed s b jo' \<Longrightarrow> owed ?t b jo'" for b jo'
    unfolding owed_def by (simp add: g session_agent_def)
  have "answered s j' jo' \<Longrightarrow> jo' \<noteq> jo \<Longrightarrow> answered ?t j' jo'" for j' jo'
    using owed unfolding answered_def by (auto simp: g jo job_agent_def has_terminal_def)
  then have "jobs_answered ?t"
    using i mine fresh unfolding sys_inv_def jobs_answered_def by (auto simp: g jo split: if_splits)
  moreover have "streams_ok ?t"
    using i st j unfolding sys_inv_def streams_ok_def
    by (auto simp: g jo less_Suc_eq split: if_splits) (metis dget_in_dkeys list.set_map)+
  moreover have "sess_ok ?t" using i unfolding sys_inv_def sess_ok_def by (simp add: g)
  ultimately show ?thesis using open_job_ok [OF sys_inv_ok [OF i] o] by (simp add: sys_inv_def)
qed

lemma diagnostics_inv:
  assumes "sys_inv s" and "diagnostics a j root (sy_gw s) = Inr (g, jo, st)"
  shows "sys_inv (s\<lparr>sy_gw := g, sy_stream := (sy_stream s)(jo \<mapsto> st)\<rparr>)"
proof -
  from assms(2) obtain so where "open_job a j ''diagnostic'' False (sy_gw s) = Inr (g, so, jo)" "stream_job st = Some j"
    by (auto simp: diagnostics_def res_simps)
  with assms(1) show ?thesis by (rule open_job_inv)
qed

lemma kubernetes_release_inv:
  assumes "sys_inv s" and "kubernetes_release a rq (sy_gw s) = (g, Inr (jo, st))"
  shows "sys_inv (s\<lparr>sy_gw := g, sy_stream := (sy_stream s)(jo \<mapsto> st)\<rparr>)"
proof -
  from assms(2) obtain so where "open_job a (rq_job_id rq) ''kubernetes'' True (sy_gw s) = Inr (g, so, jo)"
    "stream_job st = Some (rq_job_id rq)"
    by (auto simp: kubernetes_release_def split: sum.splits if_splits)
  with assms(1) show ?thesis by (rule open_job_inv)
qed

text \<open>Taking a job off the dictionary, whether its stream ends or it was just opened.\<close>

lemma drop_job_inv:
  assumes i: "sys_inv s" and g: "gw_jobs g = ddel j (gw_jobs (sy_gw s))" "gw_sessions g = gw_sessions (sy_gw s)"
      "gw_session_store g = gw_session_store (sy_gw s)" "gw_job_store g = gw_job_store (sy_gw s)"
      "gw_fresh g = gw_fresh (sy_gw s)" and ok: "gw_ok g"
    and jo: "dget (gw_jobs (sy_gw s)) j = Some jo"
  shows "sys_inv (s\<lparr>sy_gw := g, sy_stream := (sy_stream s)(jo \<mapsto> StDone)\<rparr>)" (is "sys_inv ?t")
proof -
  let ?g = "sy_gw s"
  have agents: "session_agent g = session_agent ?g" "job_agent g = job_agent ?g" "has_terminal g = has_terminal ?g"
    by (auto simp: session_agent_def job_agent_def has_terminal_def fun_eq_iff g)
  have uniq: "dget (gw_jobs ?g) j' = Some jo \<Longrightarrow> j' = j" for j'
    using sys_inv_ok [OF i] jo unfolding gw_ok_def dicts_ok_def by blast
  have "answered s j' jo' \<Longrightarrow> jo' \<noteq> jo \<Longrightarrow> answered ?t j' jo'" for j' jo'
    unfolding answered_def owed_def by (simp add: agents g)
  then have "jobs_answered ?t" using i uniq unfolding sys_inv_def jobs_answered_def
    by (auto simp: g split: if_splits) metis
  moreover have "streams_ok ?t" unfolding streams_ok_def
  proof (intro allI impI)
    fix jo' st'
    assume st': "sy_stream ?t jo' = Some st'"
    show "jo' < gw_fresh (sy_gw ?t) \<and> (\<forall>j'. stream_job st' = Some j' \<longrightarrow> dget (gw_jobs (sy_gw ?t)) j' = Some jo')"
    proof (cases "jo' = jo")
      case True
      with st' gw_ok_job [OF sys_inv_ok [OF i] jo] show ?thesis by (auto simp: g)
    next
      case False
      with st' have "sy_stream s jo' = Some st'" by simp
      with i have "jo' < gw_fresh ?g" "\<And>j'. stream_job st' = Some j' \<Longrightarrow> dget (gw_jobs ?g) j' = Some jo'"
        unfolding sys_inv_def streams_ok_def by blast+
      with False jo show ?thesis by (auto simp: g)
    qed
  qed
  moreover have "sess_ok ?t" using i unfolding sys_inv_def sess_ok_def by (simp add: g)
  ultimately show ?thesis using ok by (simp add: sys_inv_def)
qed

lemma finish_job_fields:
  "gw_jobs (finish_job j g) = ddel j (gw_jobs g)" "gw_sessions (finish_job j g) = gw_sessions g"
  "gw_session_store (finish_job j g) = gw_session_store g" "gw_job_store (finish_job j g) = gw_job_store g"
  "gw_fresh (finish_job j g) = gw_fresh g"
  by (simp_all add: finish_job_def)

lemma finish_job_inv:
  assumes i: "sys_inv s" and st: "sy_stream s jo = Some st" and j: "stream_job st = Some j"
  shows "sys_inv (s\<lparr>sy_gw := finish_job j (sy_gw s), sy_stream := (sy_stream s)(jo \<mapsto> StDone)\<rparr>)"
proof -
  have "dget (gw_jobs (sy_gw s)) j = Some jo" using i st j by (simp add: sys_inv_def streams_ok_def)
  from drop_job_inv [OF i finish_job_fields finish_job_ok [OF sys_inv_ok [OF i]] this] show ?thesis .
qed

lemma stream_pc_inv:
  assumes i: "sys_inv s" and st: "sy_stream s jo = Some st"
    and j: "stream_job st' = stream_job st \<or> st' = StDone" and y: "\<And>j. st \<noteq> StYield j True"
  shows "sys_inv (s\<lparr>sy_stream := (sy_stream s)(jo \<mapsto> st')\<rparr>)" (is "sys_inv ?t")
proof -
  have "answered s j' jo' \<Longrightarrow> answered ?t j' jo'" for j' jo'
    using st y [of j'] unfolding answered_def owed_def by auto
  then have "jobs_answered ?t" using i unfolding sys_inv_def jobs_answered_def by simp
  moreover have "streams_ok ?t" using i st j unfolding sys_inv_def streams_ok_def by auto
  moreover have "sess_ok ?t" using i unfolding sys_inv_def sess_ok_def by simp
  ultimately show ?thesis using i by (simp add: sys_inv_def)
qed

lemma stream_get_inv:
  assumes i: "sys_inv s" and st: "sy_stream s jo = Some (StGet j)" and get: "job_get jo (sy_gw s) = Some (f, g)"
  shows "sys_inv (s\<lparr>sy_gw := g, sy_stream := (sy_stream s)(jo \<mapsto> StYield j (is_terminal_frame f))\<rparr>)" (is "sys_inv ?t")
proof -
  let ?g = "sy_gw s"
  from get obtain js fs where js: "gw_job_store ?g jo = Some js" "js_queue js = f # fs"
    and g: "g = ?g\<lparr>gw_job_store := (gw_job_store ?g)(jo \<mapsto> js\<lparr>js_queue := fs\<rparr>)\<rparr>"
    by (auto simp: job_get_def split: option.splits list.splits)
  have agents: "session_agent g = session_agent ?g" "job_agent g = job_agent ?g"
    by (auto simp: g session_agent_def job_agent_def js fun_eq_iff)
  have queue: "has_terminal ?g jo' \<Longrightarrow> has_terminal g jo' \<or> jo' = jo \<and> is_terminal_frame f" for jo'
    using js by (auto simp: g has_terminal_def)
  have j: "dget (gw_jobs ?g) j = Some jo" using i st by (simp add: sys_inv_def streams_ok_def)
  have uniq: "dget (gw_jobs ?g) j' = Some jo \<Longrightarrow> j' = j" for j'
    using sys_inv_ok [OF i] j unfolding gw_ok_def dicts_ok_def by blast
  have "answered ?t j' jo'" if jj: "dget (gw_jobs ?g) j' = Some jo'" for j' jo'
  proof -
    from i jj have "answered s j' jo'" by (simp add: sys_inv_def jobs_answered_def)
    then obtain b where b: "job_agent ?g jo' = Some b"
      and h: "b \<in> set (dkeys (gw_sessions ?g)) \<or> owed s b jo' \<or> has_terminal ?g jo' \<or> sy_stream s jo' = Some (StYield j' True)"
      by (auto simp: answered_def)
    have owed: "owed s b jo' \<Longrightarrow> owed ?t b jo'" by (simp add: owed_def agents)
    have "has_terminal ?g jo' \<Longrightarrow> has_terminal g jo' \<or> sy_stream ?t jo' = Some (StYield j' True)"
      using queue [of jo'] uniq jj by auto
    moreover have "sy_stream s jo' = Some (StYield j' True) \<Longrightarrow> sy_stream ?t jo' = Some (StYield j' True)"
      using st by auto
    moreover have "gw_sessions g = gw_sessions ?g" by (simp add: g)
    ultimately have "b \<in> set (dkeys (gw_sessions g)) \<or> owed ?t b jo' \<or> has_terminal g jo'
        \<or> sy_stream ?t jo' = Some (StYield j' True)"
      using h owed by metis
    then show ?thesis using b unfolding answered_def by (intro exI [of _ b]) (simp add: agents)
  qed
  then have "jobs_answered ?t" by (simp add: jobs_answered_def g)
  moreover have "streams_ok ?t" using i j unfolding sys_inv_def streams_ok_def
    by (auto simp: g) (metis st)
  moreover have "sess_ok ?t" using i unfolding sys_inv_def sess_ok_def by (simp add: g)
  ultimately show ?thesis using job_get_ok [OF sys_inv_ok [OF i] get] by (simp add: sys_inv_def)
qed

text \<open>A refused Kubernetes call leaves an unreachable job object behind and nothing else.\<close>

lemma kubernetes_refused:
  assumes "kubernetes_release a rq g = (g', Inl e)"
  shows "g' = g \<or> (\<exists>st. g' = g\<lparr>gw_job_store := (gw_job_store g)(gw_fresh g \<mapsto> st), gw_fresh := Suc (gw_fresh g)\<rparr>)"
proof (cases "open_job a (rq_job_id rq) ''kubernetes'' True g")
  case (Inl x)
  with assms show ?thesis by (simp add: kubernetes_release_def)
next
  case (Inr y)
  then obtain g1 so jo where o: "open_job a (rq_job_id rq) ''kubernetes'' True g = Inr (g1, so, jo)" by (cases y) auto
  from o obtain s where j: "rq_job_id rq \<notin> set (dkeys (gw_jobs g))"
    and g1: "g1 = g\<lparr>gw_jobs := dput (rq_job_id rq) (gw_fresh g) (gw_jobs g),
      gw_job_store := (gw_job_store g)(gw_fresh g \<mapsto> new_job_state a ''kubernetes''), gw_fresh := Suc (gw_fresh g)\<rparr>"
    by (rule open_job_cases)
  have "ddel (rq_job_id rq) (dput (rq_job_id rq) (gw_fresh g) (gw_jobs g)) = gw_jobs g"
    using j by (auto simp: dput_fresh ddel_def filter_id_conv) force
  with assms o show ?thesis
    by (auto simp: kubernetes_release_def g1 split: if_splits)
qed

lemma kubernetes_refused_inv:
  assumes i: "sys_inv s" and k: "kubernetes_release a rq (sy_gw s) = (g, Inl e)"
  shows "sys_inv (s\<lparr>sy_gw := g\<rparr>)"
proof -
  let ?g = "sy_gw s"
  have ok: "gw_ok g" by (rule kubernetes_release_ok [OF sys_inv_ok [OF i] k])
  show ?thesis using kubernetes_refused [OF k]
  proof
    assume "g = ?g"
    with i show ?thesis by simp
  next
    assume "\<exists>st. g = ?g\<lparr>gw_job_store := (gw_job_store ?g)(gw_fresh ?g \<mapsto> st), gw_fresh := Suc (gw_fresh ?g)\<rparr>"
    then obtain st where g: "g = ?g\<lparr>gw_job_store := (gw_job_store ?g)(gw_fresh ?g \<mapsto> st), gw_fresh := Suc (gw_fresh ?g)\<rparr>" by blast
    have fresh: "dget (gw_jobs ?g) j = Some jo \<Longrightarrow> jo \<noteq> gw_fresh ?g" for j jo
      using gw_ok_job [OF sys_inv_ok [OF i]] by (metis less_irrefl)
    have "answered s j jo \<Longrightarrow> jo \<noteq> gw_fresh ?g \<Longrightarrow> answered (s\<lparr>sy_gw := g\<rparr>) j jo" for j jo
      unfolding answered_def owed_def by (auto simp: g job_agent_def session_agent_def has_terminal_def)
    then have "jobs_answered (s\<lparr>sy_gw := g\<rparr>)" using i fresh unfolding sys_inv_def jobs_answered_def
      by (simp add: g)
    moreover have "streams_ok (s\<lparr>sy_gw := g\<rparr>)" "sess_ok (s\<lparr>sy_gw := g\<rparr>)"
      using i unfolding sys_inv_def streams_ok_def sess_ok_def by (simp_all add: g less_Suc_eq)
    ultimately show ?thesis using ok by (simp add: sys_inv_def)
  qed
qed

section \<open>Every step keeps the invariant\<close>

lemma stream_step_inv:
  assumes i: "sys_inv s" and st: "sy_stream s jo = Some st" and r: "stream_resume jo st (sy_gw s) = Some (g, f, st')"
  shows "sys_inv (s\<lparr>sy_gw := g, sy_stream := (sy_stream s)(jo \<mapsto> st')\<rparr>)"
proof (cases st)
  case (StPut j so cf)
  with r have put: "outgoing_put so (Some cf) (sy_gw s) = Some g" and st': "st' = StGet j" by auto
  have "sys_inv (s\<lparr>sy_gw := g\<rparr>)"
    by (rule sys_inv_quiet_gw [OF i outgoing_put_quiet [OF put] outgoing_put_ok [OF sys_inv_ok [OF i] put]])
  from stream_pc_inv [OF this, of jo st st'] st StPut st' show ?thesis by simp
next
  case (StGet j)
  with r obtain fr where "job_get jo (sy_gw s) = Some (fr, g)" "st' = StYield j (is_terminal_frame fr)" by auto
  with stream_get_inv [OF i st [unfolded StGet]] show ?thesis by simp
next
  case (StYield j fin)
  show ?thesis
  proof (cases fin)
    case True
    with r StYield finish_job_inv [OF i st] show ?thesis by auto
  next
    case False
    with r StYield stream_pc_inv [OF i st, of "StGet j"] show ?thesis by auto
  qed
next
  case StDone
  with r show ?thesis by simp
qed

lemma stream_close_inv:
  assumes i: "sys_inv s" and st: "sy_stream s jo = Some st"
  shows "sys_inv (s\<lparr>sy_gw := stream_close st (sy_gw s), sy_stream := (sy_stream s)(jo \<mapsto> StDone)\<rparr>)"
  using finish_job_inv [OF i st] stream_pc_inv [OF i st, of StDone] by (cases st) simp_all

theorem gw_step_inv: "gw_step s t \<Longrightarrow> sys_inv s \<Longrightarrow> sys_inv t"
proof (induction rule: gw_step.induct)
  case (connected first now s g so)
  then show ?case by (intro connected_inv)
next
  case (receive s so f now g c)
  from sys_inv_quiet_gw [OF receive.prems consume_frame_quiet [OF receive(2)] consume_frame_ok [OF sys_inv_ok [OF receive.prems] receive(2)]]
  have "sys_inv (s\<lparr>sy_gw := g\<rparr>)" .
  from sys_inv_pc [OF this, of so SLoop CRead SLoop c] receive(1) show ?case by simp
next
  case (agent_closed s so)
  then show ?case by (intro sys_inv_pc) auto
next
  case (consumer_put s so sd c g c')
  from sys_inv_quiet_gw [OF consumer_put.prems consumer_resume_quiet [OF consumer_put(3)]
      consumer_resume_ok [OF sys_inv_ok [OF consumer_put.prems] consumer_put(3)]]
  have "sys_inv (s\<lparr>sy_gw := g\<rparr>)" .
  from sys_inv_pc [OF this, of so sd c sd c'] consumer_put(1) show ?case by simp
next
  case (send s so c f g)
  then show ?case using sys_inv_quiet_gw outgoing_get_quiet outgoing_get_ok sys_inv_ok by metis
next
  case (sentinel s so c g)
  from sys_inv_quiet_gw [OF sentinel.prems outgoing_get_quiet [OF sentinel(2)] outgoing_get_ok [OF sys_inv_ok [OF sentinel.prems] sentinel(2)]]
  have "sys_inv (s\<lparr>sy_gw := g\<rparr>)" .
  from sys_inv_pc [OF this, of so SLoop c SFinal "consumer_cancel c"] sentinel(1) show ?case by simp
next
  case (call_cancelled s so c)
  then show ?case by (intro sys_inv_pc) auto
next
  case (disconnecting s so g sd)
  then show ?case by (intro disconnect_inv)
next
  case (disconnect_put s so jo f rest c g a)
  then show ?case by (intro disconnect_put_inv)
next
  case (start_diagnostics a j root s g jo st)
  then show ?case by (intro diagnostics_inv)
next
  case (start_kubernetes a rq s g jo st)
  then show ?case by (intro kubernetes_release_inv)
next
  case (refuse_kubernetes a rq s g e)
  then show ?case by (intro kubernetes_refused_inv)
next
  case (stream_step s jo st g f st')
  then show ?case by (intro stream_step_inv)
next
  case (stream_abandoned s jo st)
  then show ?case by (intro stream_close_inv)
next
  case (cancel_call j s g r)
  then show ?case using sys_inv_quiet cancel_quiet cancel_ok sys_inv_ok by metis
next
  case (cancel_put so j s g)
  then show ?case using sys_inv_quiet outgoing_put_quiet outgoing_put_ok sys_inv_ok by metis
next
  case (cancel_abandoned so j s)
  then show ?case using sys_inv_quiet [of s "sy_gw s"] sys_inv_ok by simp
qed

lemma gw_reach_inv:
  assumes "gw_reach g0 s" and "init_gateway tokens n m = Inr g0"
  shows "sys_inv s"
  using assms(1)
proof (induction rule: gw_reach.induct)
  case start
  have "gw_sessions g0 = []" "gw_jobs g0 = []" using assms(2) by (auto simp: init_gateway_def split: if_splits)
  then show ?case using init_sys_inv init_gateway_ok [OF assms(2)] by blast
next
  case (step s t)
  then show ?case by (blast intro: gw_step_inv)
qed

end
