(* ===== verification/Gateway_Properties.thy ===== *)
theory Gateway_Properties
  imports Gateway_System
begin

text \<open>
  What the gateway promises, as theorems over its operations and over every reachable state of its
  coroutines: admission of agents, resource bounds, isolation between agents, ordered delivery,
  no lost job, single use of job ids; and two situations it never leaves once entered.
\<close>

section \<open>Identifiers\<close>

lemma ID_RE_iff:
  "fullmatch ID_RE s \<longleftrightarrow> s \<noteq> [] \<and> is_alnum_az (hd s) \<and> list_all is_id_char (tl s) \<and> length s \<le> 64"
  unfolding ID_RE_def fullmatch_head_tail by (cases s) auto

lemmas eval_id = ID_RE_iff is_id_char_def char_class_defs

section \<open>Sequences of events\<close>

text \<open>The events of a burst that one job accepts: the consumer hears of them one after the other;
  an event is accepted when \<open>accept_event\<close> hands the event itself on to the job's queue.\<close>

fun accepted_sequences :: "nat \<Rightarrow> string \<Rightarrow> (int \<times> agent_frame) list \<Rightarrow> gateway \<Rightarrow> int list" where
  "accepted_sequences so j [] g = []"
| "accepted_sequences so j ((n, f) # evs) g =
     (case accept_event so j n f g of
        (g', CPutEvent jo f' None) \<Rightarrow> n # accepted_sequences so j evs g'
      | (g', _) \<Rightarrow> accepted_sequences so j evs g')"

lemma accept_event_own:
  assumes "dget (gw_jobs g) j = Some jo" and "gw_job_store g jo = Some st"
    and "session_agent g so = Some (js_agent_id st)"
  shows "accept_event so j n f g =
    (if n \<noteq> js_next_sequence st
     then (g, CPutEvent jo (failure_frame st j (js_next_sequence st) ''STREAM_ORDER'') (Some j))
     else (g\<lparr>gw_job_store := (gw_job_store g)(jo \<mapsto> st\<lparr>js_next_sequence := js_next_sequence st + 1\<rparr>)\<rparr>,
           CPutEvent jo f None))"
  using assms by (simp add: accept_event_def)

lemma accepted_sequences_upto:
  assumes "dget (gw_jobs g) j = Some jo" and "gw_job_store g jo = Some st"
    and "session_agent g so = Some (js_agent_id st)"
  shows "\<exists>k. accepted_sequences so j evs g = [js_next_sequence st .. js_next_sequence st + int k - 1]"
  using assms
proof (induction evs arbitrary: g st)
  case Nil
  show ?case by (intro exI [of _ 0]) simp
next
  case (Cons e evs)
  obtain n f where e: "e = (n, f)" by (cases e)
  show ?case
  proof (cases "n = js_next_sequence st")
    case False
    with Cons e show ?thesis by (simp add: accept_event_own)
  next
    case True
    let ?st = "st\<lparr>js_next_sequence := js_next_sequence st + 1\<rparr>"
    let ?g = "g\<lparr>gw_job_store := (gw_job_store g)(jo \<mapsto> ?st)\<rparr>"
    have "session_agent ?g so = Some (js_agent_id ?st)" using Cons.prems(3) by (simp add: session_agent_def)
    with Cons.IH [of ?g ?st] Cons.prems(1) obtain k where
      "accepted_sequences so j evs ?g = [js_next_sequence st + 1 .. js_next_sequence st + 1 + int k - 1]" by auto
    with True e Cons.prems show ?thesis
      by (intro exI [of _ "Suc k"]) (simp add: accept_event_own upto.simps [of "js_next_sequence st"])
  qed
qed

section \<open>Isolation\<close>

lemma accept_event_isolated:
  assumes "accept_event so j n f g = (g', c)"
  shows "gw_jobs g' = gw_jobs g \<and> gw_sessions g' = gw_sessions g \<and> gw_session_store g' = gw_session_store g
    \<and> gw_completed_jobs g' = gw_completed_jobs g
    \<and> (\<forall>jo. job_agent g jo \<noteq> session_agent g so \<longrightarrow>
         gw_job_store g' jo = gw_job_store g jo \<and> (\<forall>f' x. c \<noteq> CPutEvent jo f' x))"
  using assms by (auto simp: accept_event_def job_agent_def split: option.splits if_splits bind_splits)

section \<open>Single use of job ids\<close>

lemma finish_job_remember: "gw_completed_jobs (finish_job j g) = gw_completed_jobs (remember_completed j g)"
  "gw_completed_order (finish_job j g) = gw_completed_order (remember_completed j g)"
  by (simp_all add: finish_job_def remember_completed_def Let_def)

lemma fold_finish_remember:
  "gw_completed_jobs g = gw_completed_jobs h \<Longrightarrow> gw_completed_order g = gw_completed_order h \<Longrightarrow>
   gw_max_completed_jobs g = gw_max_completed_jobs h \<Longrightarrow>
   gw_completed_jobs (fold finish_job js g) = gw_completed_jobs (fold remember_completed js h)"
proof (induction js arbitrary: g h)
  case (Cons j js)
  have "gw_completed_jobs (finish_job j g) = gw_completed_jobs (remember_completed j h)"
    "gw_completed_order (finish_job j g) = gw_completed_order (remember_completed j h)"
    "gw_max_completed_jobs (finish_job j g) = gw_max_completed_jobs (remember_completed j h)"
    using Cons.prems by (simp_all add: finish_job_def remember_completed_def Let_def)
  from Cons.IH [OF this] show ?case by simp
qed simp

lemma recent_job_remembered:
  assumes "gw_ok g" and "j \<notin> gw_completed_jobs g" and "int (length js) < gw_max_completed_jobs g"
  shows "j \<in> gw_completed_jobs (fold finish_job js (finish_job j g))"
proof -
  have inv: "completed.mem_inv (remember_completed j g)"
    using assms(1) completed.remember_inv by (simp add: gw_ok_def limits_ok_def)
  have "gw_completed_order (remember_completed j g) = butlast (gw_completed_order (remember_completed j g)) @ j # []"
    using completed.arrival_new [OF assms(2)] by simp
  from completed.remembered_window [OF inv this, of js] assms(3)
  have "j \<in> gw_completed_jobs (fold remember_completed js (remember_completed j g))" by simp
  moreover have "gw_completed_jobs (fold finish_job js (finish_job j g)) =
      gw_completed_jobs (fold remember_completed js (remember_completed j g))"
    by (rule fold_finish_remember) (simp_all add: finish_job_remember, simp add: finish_job_def)
  ultimately show ?thesis by simp
qed

section \<open>Situations that last\<close>

lemma finish_job_other: "j' \<noteq> j \<Longrightarrow> dget (gw_jobs (finish_job j' g)) j = dget (gw_jobs g) j"
  by (simp add: finish_job_def)

lemma kubernetes_jobs_mono:
  assumes "kubernetes_release a rq g = (g', r)" and "dget (gw_jobs g) j = Some jo" and "gw_ok g"
  shows "dget (gw_jobs g') j = Some jo \<and> (\<forall>jo' st. r = Inr (jo', st) \<longrightarrow> jo' \<noteq> jo)"
proof (cases "open_job a (rq_job_id rq) ''kubernetes'' True g")
  case (Inl e)
  with assms show ?thesis by (auto simp: kubernetes_release_def)
next
  case (Inr y)
  then obtain g1 so jo1 where o: "open_job a (rq_job_id rq) ''kubernetes'' True g = Inr (g1, so, jo1)" by (cases y) auto
  then obtain s where "rq_job_id rq \<notin> set (dkeys (gw_jobs g))" "jo1 = gw_fresh g"
    "gw_jobs g1 = dput (rq_job_id rq) (gw_fresh g) (gw_jobs g)"
    by (rule open_job_cases) simp
  moreover have "rq_job_id rq \<noteq> j" using dget_in_dkeys [OF assms(2)] calculation(1) by metis
  moreover have "jo < gw_fresh g" using gw_ok_job [OF assms(3,2)] by blast
  ultimately show ?thesis using assms(1) o assms(2)
    by (auto simp: kubernetes_release_def split: if_splits)
qed

lemma diagnostics_jobs_mono:
  assumes "diagnostics a j' root g = Inr (g', jo', st)" and "dget (gw_jobs g) j = Some jo" and "gw_ok g"
  shows "dget (gw_jobs g') j = Some jo \<and> jo' \<noteq> jo"
proof -
  from assms(1) obtain so where o: "open_job a j' ''diagnostic'' False g = Inr (g', so, jo')"
    by (auto simp: diagnostics_def res_simps)
  then obtain s where "j' \<notin> set (dkeys (gw_jobs g))" "jo' = gw_fresh g"
    "gw_jobs g' = dput j' (gw_fresh g) (gw_jobs g)"
    by (rule open_job_cases) simp
  moreover have "j' \<noteq> j" using dget_in_dkeys [OF assms(2)] calculation(1) by metis
  moreover have "jo < gw_fresh g" using gw_ok_job [OF assms(3,2)] by blast
  ultimately show ?thesis using assms(2) by auto
qed

text \<open>An open job whose stream is gone: no step closes it.\<close>

definition orphaned :: "string \<Rightarrow> nat \<Rightarrow> gsys \<Rightarrow> bool" where
  "orphaned j jo s \<longleftrightarrow> sys_inv s \<and> dget (gw_jobs (sy_gw s)) j = Some jo \<and> sy_stream s jo = Some StDone"

lemma stream_resume_jobs:
  assumes "stream_resume jo' st g = Some (g', f, st')" and "stream_job st \<noteq> Some j"
  shows "dget (gw_jobs g') j = dget (gw_jobs g) j"
proof (cases st)
  case (StPut x so cf)
  with assms show ?thesis by (auto dest!: outgoing_put_quiet simp: gw_quiet_def)
next
  case (StGet x)
  with assms show ?thesis by (auto simp: job_get_def split: option.splits list.splits)
next
  case (StYield x fin)
  with assms show ?thesis by (auto simp: finish_job_other split: if_splits)
qed (use assms in simp)

lemma stream_close_jobs: "stream_job st \<noteq> Some j \<Longrightarrow> dget (gw_jobs (stream_close st g)) j = dget (gw_jobs g) j"
  by (cases st) (simp_all add: finish_job_other)

lemma orphaned_step:
  assumes "gw_step s t" and o: "orphaned j jo s"
  shows "orphaned j jo t"
proof -
  have i: "sys_inv s" and d: "dget (gw_jobs (sy_gw s)) j = Some jo" and st: "sy_stream s jo = Some StDone"
    using o by (auto simp: orphaned_def)
  have other: "stream_job st' \<noteq> Some j" if "sy_stream s jo' = Some st'" for jo' st'
    using i that d st unfolding sys_inv_def streams_ok_def by (metis option.inject option.distinct(1) stream_job.simps(4))
  have "dget (gw_jobs (sy_gw t)) j = Some jo \<and> sy_stream t jo = Some StDone"
    using assms(1)
  proof cases
    case (connected first now g so)
    from connected(2) obtain hello where "gw_jobs g = gw_jobs (sy_gw s)" by (rule connect_cases) simp
    with d st connected(1) show ?thesis by simp
  next
    case (receive so f now g c)
    with d st consume_frame_quiet [OF receive(3)] show ?thesis by (simp add: gw_quiet_def)
  next
    case (consumer_put so sd c g c')
    with d st consumer_resume_quiet [OF consumer_put(4)] show ?thesis by (simp add: gw_quiet_def)
  next
    case (send so c f g)
    with d st outgoing_get_quiet [OF send(3)] show ?thesis by (simp add: gw_quiet_def)
  next
    case (sentinel so c g)
    with d st outgoing_get_quiet [OF sentinel(3)] show ?thesis by (simp add: gw_quiet_def)
  next
    case (disconnecting so g sd)
    then have "gw_jobs g = gw_jobs (sy_gw s)" by (auto simp: disconnect_def Let_def split: option.splits if_splits)
    with d st disconnecting(1) show ?thesis by simp
  next
    case (disconnect_put so jo f rest c g a)
    with d st job_put_quiet [OF disconnect_put(3)] show ?thesis by (simp add: gw_quiet_def)
  next
    case (start_diagnostics a j' root g jo' st')
    with d st diagnostics_jobs_mono [OF start_diagnostics(2) d sys_inv_ok [OF i]] show ?thesis by simp
  next
    case (start_kubernetes a rq g jo' st')
    with d st kubernetes_jobs_mono [OF start_kubernetes(2) d sys_inv_ok [OF i]] show ?thesis by simp
  next
    case (refuse_kubernetes a rq g e)
    with d st kubernetes_jobs_mono [OF refuse_kubernetes(2) d sys_inv_ok [OF i]] show ?thesis by simp
  next
    case (stream_step jo' st' g f st'')
    moreover have "jo' \<noteq> jo" using stream_step(2,3) st by auto
    ultimately show ?thesis using d st stream_resume_jobs [OF stream_step(3) other] by simp
  next
    case (stream_abandoned jo' st')
    with d st stream_close_jobs [OF other [OF stream_abandoned(2)]] show ?thesis by auto
  next
    case (cancel_call j' g r)
    with d st cancel_quiet [OF cancel_call(2)] show ?thesis by (simp add: gw_quiet_def)
  next
    case (cancel_put so j' g)
    with d st outgoing_put_quiet [OF cancel_put(3)] show ?thesis by (simp add: gw_quiet_def)
  qed (use d st in simp_all)
  with gw_step_inv [OF assms(1) i] show ?thesis by (simp add: orphaned_def)
qed

lemma orphaned_run: "gw_step\<^sup>*\<^sup>* s t \<Longrightarrow> orphaned j jo s \<Longrightarrow> orphaned j jo t"
  by (induction rule: rtranclp_induct) (simp_all add: orphaned_step)


section \<open>A connection that cannot end\<close>

text \<open>A handler whose consumer was cancelled waits for the consumer's last put into the outgoing queue. Nobody
  reads that queue any more, so with a full queue the wait lasts.\<close>

definition out_full :: "nat \<Rightarrow> gateway \<Rightarrow> bool" where
  "out_full so g \<longleftrightarrow> (\<exists>ss. gw_session_store g so = Some ss \<and> MAX_OUTGOING_FRAMES \<le> length (as_outgoing ss))"

definition stuck :: "string \<Rightarrow> nat \<Rightarrow> gsys \<Rightarrow> bool" where
  "stuck a so s \<longleftrightarrow> sys_inv s \<and> dget (gw_sessions (sy_gw s)) a = Some so
     \<and> sy_sess s so = Some (SFinal, CPutEnd) \<and> out_full so (sy_gw s)"

text \<open>What a full queue of a session \<open>so\<close> nobody reads gets from the operations: nothing.\<close>

lemma outgoing_put_full: "outgoing_put so' f g = Some g' \<Longrightarrow> out_full so g \<Longrightarrow> so' \<noteq> so \<and> out_full so g'"
  by (auto simp: out_full_def outgoing_put_def split: option.splits if_splits)

lemma outgoing_get_full: "outgoing_get so' g = Some (f, g') \<Longrightarrow> so' \<noteq> so \<Longrightarrow> out_full so g \<Longrightarrow> out_full so g'"
  by (auto simp: out_full_def outgoing_get_def split: option.splits list.splits)

lemma out_full_cong: "gw_session_store g' = gw_session_store g \<Longrightarrow> out_full so g' = out_full so g"
  by (simp add: out_full_def)

lemma job_put_store: "job_put jo f g = Some g' \<Longrightarrow> gw_session_store g' = gw_session_store g"
  by (auto simp: job_put_def split: option.splits if_splits)

lemma consumer_resume_full:
  "consumer_resume so' c g = Some (g', c') \<Longrightarrow> out_full so g \<Longrightarrow> out_full so g' \<and> (c = CPutEnd \<longrightarrow> so' \<noteq> so)"
  by (cases "(so', c, g)" rule: consumer_resume.cases)
    (auto dest: outgoing_put_full simp: job_put_store [THEN out_full_cong])

lemma consume_frame_full: "consume_frame so' f now g = (g', c) \<Longrightarrow> out_full so g \<Longrightarrow> out_full so g'"
proof -
  assume c: "consume_frame so' f now g = (g', c)" and "out_full so g"
  then obtain ss where ss: "gw_session_store g so = Some ss" "MAX_OUTGOING_FRAMES \<le> length (as_outgoing ss)"
    by (auto simp: out_full_def)
  have "accept_event so' j n f g = (g', c) \<Longrightarrow> out_full so g'" for j n f
    using accept_event_isolated [of so' j n f g g' c] \<open>out_full so g\<close> by (simp add: out_full_def)
  with c ss show ?thesis by (auto simp: consume_frame_def out_full_def split: agent_frame.splits)
qed

lemma stream_resume_full:
  assumes "stream_resume jo st g = Some (g', f, st')" and "out_full so g"
  shows "out_full so g'"
proof (cases st)
  case (StPut x so2 cf)
  with assms show ?thesis by (auto dest: outgoing_put_full)
next
  case (StGet x)
  with assms show ?thesis by (auto simp: job_get_def out_full_def split: option.splits list.splits)
next
  case (StYield x fin)
  with assms show ?thesis by (auto simp: finish_job_fields out_full_def split: if_splits)
qed (use assms in simp)

lemma stream_resume_sessions: "stream_resume jo st g = Some (g', f, st') \<Longrightarrow> gw_sessions g' = gw_sessions g"
  by (cases st)
    (auto simp: outgoing_put_def job_get_def finish_job_fields split: option.splits list.splits if_splits)

lemma stuck_step:
  assumes "gw_step s t" and stuck: "stuck a so s"
  shows "stuck a so t"
proof -
  have i: "sys_inv s" and d: "dget (gw_sessions (sy_gw s)) a = Some so" and pc: "sy_sess s so = Some (SFinal, CPutEnd)"
    and full: "out_full so (sy_gw s)"
    using stuck by (auto simp: stuck_def)
  note old = d pc full
  have "dget (gw_sessions (sy_gw t)) a = Some so \<and> sy_sess t so = Some (SFinal, CPutEnd) \<and> out_full so (sy_gw t)"
    using assms(1)
  proof cases
    case (connected first now g so')
    then obtain hello where "so' = gw_fresh (sy_gw s)" "h_agent_id hello \<notin> set (dkeys (gw_sessions (sy_gw s)))"
      "g = (sy_gw s)\<lparr>gw_sessions := dput (h_agent_id hello) (gw_fresh (sy_gw s)) (gw_sessions (sy_gw s)),
            gw_session_store := (gw_session_store (sy_gw s))(gw_fresh (sy_gw s) \<mapsto> new_session hello now),
            gw_fresh := Suc (gw_fresh (sy_gw s))\<rparr>" by (rule_tac connect_cases)
    moreover have "a \<noteq> h_agent_id hello" using dget_in_dkeys [OF d] calculation(2) by metis
    moreover have "so < gw_fresh (sy_gw s)" by (rule sys_inv_sess_store [OF i pc])
    ultimately show ?thesis using old connected(1) by (simp add: out_full_def)
  next
    case (receive so' f now g c)
    with old consume_frame_full [OF receive(3)] consume_frame_quiet [OF receive(3)] show ?thesis by (auto simp: gw_quiet_def)
  next
    case (consumer_put so' sd c g c')
    have "so' \<noteq> so" using consumer_put(2) pc consumer_resume_full [OF consumer_put(4) full] by auto
    with consumer_put(1) old consumer_resume_full [OF consumer_put(4) full] consumer_resume_quiet [OF consumer_put(4)]
    show ?thesis by (simp add: gw_quiet_def)
  next
    case (send so' c f g)
    moreover have "so' \<noteq> so" using send(2) pc by auto
    ultimately show ?thesis using old outgoing_get_full [OF send(3)] outgoing_get_quiet [OF send(3)] by (simp add: gw_quiet_def)
  next
    case (sentinel so' c g)
    moreover have "so' \<noteq> so" using sentinel(2) pc by auto
    ultimately show ?thesis using old outgoing_get_full [OF sentinel(3)] outgoing_get_quiet [OF sentinel(3)] by (simp add: gw_quiet_def)
  next
    case (disconnecting so' g sd)
    moreover have "so' \<noteq> so" using disconnecting(2) pc by auto
    ultimately show ?thesis using old
      by (auto simp: disconnect_def out_full_def Let_def split: option.splits if_splits)
  next
    case (disconnect_put so' jo f rest c g a')
    moreover have "so' \<noteq> so" using disconnect_put(2) pc by auto
    ultimately show ?thesis using old job_put_quiet [OF disconnect_put(3)]
      by (simp add: gw_quiet_def job_put_store [OF disconnect_put(3), THEN out_full_cong])
  next
    case (start_diagnostics a' j root g jo st)
    then show ?thesis using old
      by (auto simp: diagnostics_def open_job_def out_full_def res_simps split: if_splits)
  next
    case (start_kubernetes a' rq g jo st)
    then show ?thesis using old
      by (auto simp: kubernetes_release_def open_job_def out_full_def res_simps split: if_splits sum.splits)
  next
    case (refuse_kubernetes a' rq g e)
    with old kubernetes_refused [OF refuse_kubernetes(2)] show ?thesis by (auto simp: out_full_def)
  next
    case (stream_step jo st g f st')
    moreover have "gw_sessions g = gw_sessions (sy_gw s)"
      by (rule stream_resume_sessions [OF stream_step(3)])
    ultimately show ?thesis using old stream_resume_full [OF stream_step(3) full] by simp
  next
    case (stream_abandoned jo st)
    with old show ?thesis by (cases st) (simp_all add: finish_job_fields out_full_def)
  next
    case (cancel_call j g r)
    then have "gw_session_store g = gw_session_store (sy_gw s)" "gw_sessions g = gw_sessions (sy_gw s)"
      by (auto simp: cancel_def split: option.splits if_splits bind_splits)
    with old cancel_call(1) show ?thesis by (simp add: out_full_def)
  next
    case (cancel_put so' j g)
    with old outgoing_put_quiet [OF cancel_put(3)] outgoing_put_full [OF cancel_put(3) full] show ?thesis by (simp add: gw_quiet_def)
  qed (use old in auto)
  with gw_step_inv [OF assms(1) i] show ?thesis by (simp add: stuck_def)
qed

lemma stuck_run: "gw_step\<^sup>*\<^sup>* s t \<Longrightarrow> stuck a so s \<Longrightarrow> stuck a so t"
  by (induction rule: rtranclp_induct) (simp_all add: stuck_step)

end
