(* ===== verification/Gateway_Claims.thy ===== *)
theory Gateway_Claims
  imports Gateway_Properties
begin

text \<open>
  The gateway's theorems over all of its runs, and a small concrete gateway (one agent, one diagnostic
  job) on which they are applied.
\<close>

section \<open>A concrete run\<close>

definition demo_hello :: agent_hello where
  "demo_hello = \<lparr>h_agent_id = ''agent-1'', h_major = 1, h_minor = 0,
     h_capabilities = [DIAGNOSTIC_CAPABILITY, KUBERNETES_CAPABILITY], h_auth_token = ''t0ken''\<rparr>"

definition demo_gw :: gateway where
  "demo_gw = \<lparr>gw_tokens = [(''agent-1'', ''t0ken'')], gw_sessions = [], gw_jobs = [], gw_completed_jobs = {},
     gw_completed_order = [], gw_max_completed_jobs = 256, gw_max_inflight = 4, gw_session_store = Map.empty,
     gw_job_store = Map.empty, gw_fresh = 0\<rparr>"

definition demo_gw1 :: gateway where
  "demo_gw1 = demo_gw\<lparr>gw_sessions := [(''agent-1'', 0)], gw_session_store := [0 \<mapsto> new_session demo_hello 7],
     gw_fresh := 1\<rparr>"

definition demo_gw2 :: gateway where
  "demo_gw2 = demo_gw1\<lparr>gw_jobs := [(''job-1'', 1)], gw_job_store := [1 \<mapsto> new_job_state ''agent-1'' ''diagnostic''],
     gw_fresh := 2\<rparr>"

definition demo_req :: release_request where
  "demo_req = \<lparr>rq_job_id = ''job-k'', rq_namespace = ''web'', rq_release_name = ''shop'', rq_chart_path = ''charts/django'',
     rq_image = ''shop'', rq_values_json = '''', rq_credential_ref = ''ref'', rq_migration_timeout_seconds = 60,
     rq_rollout_timeout_seconds = 60, rq_rollback_policy = ''never'', rq_mode = ''upgrade'', rq_previous_revision = 0\<rparr>"

definition demo_sys1 :: gsys where
  "demo_sys1 = \<lparr>sy_gw = demo_gw1, sy_sess = [0 \<mapsto> (SLoop, CRead)], sy_stream = Map.empty, sy_cancel = []\<rparr>"

definition demo_sys2 :: gsys where
  "demo_sys2 = demo_sys1\<lparr>sy_gw := demo_gw2,
     sy_stream := [1 \<mapsto> StPut ''job-1'' 0 (Diagnostics ''job-1'' ''app'')]\<rparr>"

definition demo_sys3 :: gsys where
  "demo_sys3 = demo_sys2\<lparr>sy_stream := [1 \<mapsto> StDone]\<rparr>"

text \<open>The connection is cancelled and its handler has taken the session off.\<close>

definition demo_sys4 :: gsys where
  "demo_sys4 = demo_sys2\<lparr>sy_sess := [0 \<mapsto> (SFinal, CPutEnd)]\<rparr>"

definition demo_sys4b :: gsys where
  "demo_sys4b = demo_sys4\<lparr>
     sy_gw := demo_gw2\<lparr>gw_session_store := [0 \<mapsto> (new_session demo_hello 7)\<lparr>as_outgoing := [None]\<rparr>]\<rparr>,
     sy_sess := [0 \<mapsto> (SFinal, CDone)]\<rparr>"

definition demo_sys5 :: gsys where
  "demo_sys5 = demo_sys2\<lparr>
     sy_gw := demo_gw2\<lparr>gw_sessions := [],
       gw_session_store := [0 \<mapsto> (new_session demo_hello 7)\<lparr>as_outgoing := [None]\<rparr>]\<rparr>,
     sy_sess := [0 \<mapsto> (SDisc 1 (failure_frame (new_job_state ''agent-1'' ''diagnostic'') ''job-1'' 1 ''AGENT_DISCONNECTED'') [], CDone)]\<rparr>"

lemmas demo_defs = demo_hello_def demo_gw_def demo_gw1_def demo_gw2_def demo_sys1_def demo_sys2_def demo_sys3_def
  demo_sys4_def demo_sys4b_def demo_sys5_def
  init_sys_def new_session_def new_job_state_def

lemma demo_init: "init_gateway [(''agent-1'', ''t0ken'')] 256 4 = Inr demo_gw"
  by (simp add: init_gateway_def demo_gw_def)

lemma demo_connect: "connect (Some (Hello demo_hello)) 7 demo_gw = Registered demo_gw1 0"
  by (simp add: connect_def connect_hello_def demo_defs eval_id compare_digest_def PROTOCOL_MAJOR_def)

lemma demo_root: "validate_release_root ''app'' = Inr ()"
  by (simp add: validate_release_root_def path_is_absolute_def path_root_def path_parts_def path_tail_def)

lemma demo_diagnostics: "diagnostics ''agent-1'' ''job-1'' ''app'' demo_gw1 =
    Inr (demo_gw2, 1, StPut ''job-1'' 0 (Diagnostics ''job-1'' ''app''))"
  by (simp add: diagnostics_def demo_root open_job_def validate_job_id_def demo_defs eval_id get_session_def inflight_def)

lemma demo_reach1: "gw_reach demo_gw demo_sys1"
proof -
  have "gw_step (init_sys demo_gw) demo_sys1"
    using gw_step.connected [of "Some (Hello demo_hello)" 7 "init_sys demo_gw" demo_gw1 0] demo_connect
    by (simp add: demo_sys1_def init_sys_def)
  then show ?thesis by (rule gw_reach.step [OF gw_reach.start])
qed

lemma demo_reach2: "gw_reach demo_gw demo_sys2"
proof -
  have "gw_step demo_sys1 demo_sys2"
    using gw_step.start_diagnostics [of "''agent-1''" "''job-1''" "''app''" demo_sys1] demo_diagnostics
    by (simp add: demo_sys2_def demo_sys1_def)
  then show ?thesis by (rule gw_reach.step [OF demo_reach1])
qed


lemma demo_reach3: "gw_reach demo_gw demo_sys3"
proof -
  have "gw_step demo_sys2 demo_sys3"
    using gw_step.stream_abandoned [of demo_sys2 1] by (simp add: demo_sys3_def demo_sys2_def)
  then show ?thesis by (rule gw_reach.step [OF demo_reach2])
qed

lemma demo_reach5: "gw_reach demo_gw demo_sys5"
proof -
  have "gw_step demo_sys2 demo_sys4"
    using gw_step.call_cancelled [of demo_sys2 0 CRead] by (simp add: demo_defs)
  moreover have "gw_step demo_sys4 demo_sys4b"
  proof -
    have "consumer_resume 0 CPutEnd (sy_gw demo_sys4) = Some (sy_gw demo_sys4b, CDone)"
      by (simp add: demo_defs outgoing_put_def MAX_OUTGOING_FRAMES_def)
    from gw_step.consumer_put [of demo_sys4 0 SFinal CPutEnd, OF _ _ this] show ?thesis by (simp add: demo_defs)
  qed
  moreover have "gw_step demo_sys4b demo_sys5"
  proof -
    have "disconnect 0 (sy_gw demo_sys4b) = (sy_gw demo_sys5, SDisc 1
        (failure_frame (new_job_state ''agent-1'' ''diagnostic'') ''job-1'' 1 ''AGENT_DISCONNECTED'') [])"
      by (simp add: demo_defs disconnect_def ddel_def)
    from gw_step.disconnecting [of demo_sys4b 0, OF _ this] show ?thesis by (simp add: demo_defs)
  qed
  ultimately show ?thesis using demo_reach2 gw_reach.step by metis
qed

section \<open>Resource bounds\<close>

lemma gw_limits_same:
  assumes "gw_step s t"
  shows "gw_max_inflight (sy_gw t) = gw_max_inflight (sy_gw s)
    \<and> gw_max_completed_jobs (sy_gw t) = gw_max_completed_jobs (sy_gw s) \<and> gw_tokens (sy_gw t) = gw_tokens (sy_gw s)"
  using assms
proof (induction rule: gw_step.induct)
  case (connected first now s g so)
  then show ?case by (auto elim!: connect_cases)
next
  case (receive s so f now g c)
  then show ?case by (auto simp: consume_frame_def accept_event_def split: agent_frame.splits option.splits if_splits bind_splits)
next
  case (consumer_put s so sd c g c')
  from consumer_put(3) show ?case
    by (cases "(so, c, sy_gw s)" rule: consumer_resume.cases)
      (auto simp: job_put_def outgoing_put_def split: option.splits if_splits)
next
  case (disconnecting s so g sd)
  then show ?case by (auto simp: disconnect_def Let_def split: option.splits)
next
  case (start_diagnostics a j root s g jo st)
  then show ?case by (auto simp: diagnostics_def open_job_def res_simps split: if_splits)
next
  case (start_kubernetes a rq s g jo st)
  then show ?case by (auto simp: kubernetes_release_def open_job_def res_simps split: if_splits sum.splits)
next
  case (refuse_kubernetes a rq s g e)
  then show ?case by (auto dest!: kubernetes_refused)
next
  case (stream_step s jo st g f st')
  from stream_step(2) show ?case
    by (cases st) (auto simp: outgoing_put_def job_get_def finish_job_def split: option.splits list.splits if_splits)
next
  case (stream_abandoned s jo st)
  then show ?case by (cases st) (simp_all add: finish_job_def)
next
  case (cancel_call j s g r)
  then show ?case by (auto simp: cancel_def split: option.splits if_splits bind_splits)
qed (auto simp: outgoing_get_def outgoing_put_def job_put_def split: option.splits list.splits if_splits)

lemma gw_reach_limits:
  assumes "gw_reach g0 s"
  shows "gw_max_inflight (sy_gw s) = gw_max_inflight g0 \<and> gw_max_completed_jobs (sy_gw s) = gw_max_completed_jobs g0
    \<and> gw_tokens (sy_gw s) = gw_tokens g0"
  using assms by (induction rule: gw_reach.induct) (auto simp: init_sys_def dest: gw_limits_same)


text \<open>C1. Whatever the agents send and however the coroutines interleave, the gateway stays inside the limits
  it was created with: no agent ever has more than \<open>max_inflight_per_agent\<close> open jobs, at most
  \<open>max_completed_jobs\<close> finished ids are remembered, no job's queue and no session's queue exceeds
  its 32 places, and every connected agent has a configured token.\<close>

theorem gateway_bounds:
  assumes "init_gateway tokens n m = Inr g0" and "gw_reach g0 s"
  shows "(\<forall>a. int (inflight a (sy_gw s)) \<le> m)
    \<and> int (card (gw_completed_jobs (sy_gw s))) \<le> n
    \<and> (\<forall>jo st. gw_job_store (sy_gw s) jo = Some st \<longrightarrow> length (js_queue st) \<le> MAX_JOB_EVENTS)
    \<and> (\<forall>so ss. gw_session_store (sy_gw s) so = Some ss \<longrightarrow> length (as_outgoing ss) \<le> MAX_OUTGOING_FRAMES)
    \<and> (\<forall>a. is_connected a (sy_gw s) \<longrightarrow> a \<in> set (dkeys tokens))"
proof -
  have ok: "gw_ok (sy_gw s)" by (rule sys_inv_ok [OF gw_reach_inv [OF assms(2,1)]])
  have lim: "gw_max_inflight (sy_gw s) = m" "gw_max_completed_jobs (sy_gw s) = n" "gw_tokens (sy_gw s) = tokens"
    using gw_reach_limits [OF assms(2)] assms(1) by (auto simp: init_gateway_def split: if_splits)
  have "completed.mem_inv (sy_gw s)" using ok by (simp add: gw_ok_def limits_ok_def)
  then have "int (card (gw_completed_jobs (sy_gw s))) \<le> n"
    using completed.remember_bound [of "sy_gw s"] lim by (auto simp: completed.mem_inv_def)
  moreover have "a \<in> set (dkeys tokens)" if "is_connected a (sy_gw s)" for a
  proof -
    from that obtain so where so: "dget (gw_sessions (sy_gw s)) a = Some so"
      unfolding is_connected_def using dget_None_iff by (metis option.exhaust)
    then have "session_agent (sy_gw s) so = Some a" using ok unfolding gw_ok_def dicts_ok_def by blast
    then show ?thesis using ok lim by (auto simp: gw_ok_def stores_ok_def admitted_def session_agent_def)
  qed
  ultimately show ?thesis using ok lim by (simp add: gw_ok_def limits_ok_def stores_ok_def)
qed

theorem gateway_bounds_witness: "int (inflight ''agent-1'' demo_gw2) \<le> 4 \<and> is_connected ''agent-1'' demo_gw2"
  using gateway_bounds [OF demo_init demo_reach2] by (simp add: demo_defs is_connected_def)

section \<open>No lost job\<close>

text \<open>C2. No job is left without an answer when its agent disconnects: in every reachable state, a job that is
  open while its agent is not connected has a terminal frame in its queue, or has already handed a
  terminal frame to its caller, or the handler of the agent's old connection still has to put a
  failure frame into exactly this job's queue.\<close>

theorem no_lost_job:
  assumes "init_gateway tokens n m = Inr g0" and "gw_reach g0 s"
    and "dget (gw_jobs (sy_gw s)) j = Some jo"
    and "gw_job_store (sy_gw s) jo = Some st" and "\<not> is_connected (js_agent_id st) (sy_gw s)"
  shows "list_ex is_terminal_frame (js_queue st)
    \<or> sy_stream s jo = Some (StYield j True)
    \<or> owed s (js_agent_id st) jo"
proof -
  have "answered s j jo" using gw_reach_inv [OF assms(2,1)] assms(3) by (simp add: sys_inv_def jobs_answered_def)
  with assms(4,5) show ?thesis
    by (auto simp: answered_def job_agent_def has_terminal_def is_connected_def)
qed

theorem no_lost_job_witness:
  "\<not> is_connected ''agent-1'' (sy_gw demo_sys5) \<and> owed demo_sys5 ''agent-1'' 1"
  using no_lost_job [OF demo_init demo_reach5, of "''job-1''" 1 "new_job_state ''agent-1'' ''diagnostic''"]
  by (simp add: demo_defs is_connected_def)

section \<open>Admission\<close>

text \<open>C3. An agent is admitted exactly when its first frame is a hello with a safe identity, the supported protocol
  version, the diagnostics capability and the (ASCII) token configured for that identity, and no
  session of that identity is registered; admission registers a new session and changes nothing else.\<close>

theorem connect_admits_iff:
  "connect first now g = Registered g' so \<longleftrightarrow>
    (\<exists>hello. first = Some (Hello hello)
      \<and> fullmatch ID_RE (h_agent_id hello) \<and> h_major hello = PROTOCOL_MAJOR
      \<and> DIAGNOSTIC_CAPABILITY \<in> set (h_capabilities hello)
      \<and> dget (gw_tokens g) (h_agent_id hello) = Some (h_auth_token hello)
      \<and> list_all (\<lambda>c. ord c < 128) (h_auth_token hello)
      \<and> \<not> is_connected (h_agent_id hello) g
      \<and> so = gw_fresh g
      \<and> g' = g\<lparr>gw_sessions := gw_sessions g @ [(h_agent_id hello, so)],
               gw_session_store := (gw_session_store g)(so \<mapsto> new_session hello now), gw_fresh := Suc so\<rparr>)"
  by (cases first)
    (auto simp: connect_def connect_hello_def compare_digest_def is_connected_def dput_fresh
      split: agent_frame.splits option.splits bool.splits if_splits)


section \<open>Ordered delivery\<close>

text \<open>C4. Whatever sequence numbers an agent puts on the events it sends for one of its jobs (gaps, repetitions, any
  order), the events the gateway passes on to the job's caller carry consecutive numbers, starting with the
  one it expects next.\<close>

theorem ordered_delivery:
  assumes "dget (gw_jobs g) j = Some jo" and "gw_job_store g jo = Some st"
    and "session_agent g so = Some (js_agent_id st)"
  shows "\<exists>k. accepted_sequences so j evs g = [js_next_sequence st .. js_next_sequence st + int k - 1]"
  using accepted_sequences_upto [OF assms] .

theorem ordered_delivery_witness:
  "\<exists>k. accepted_sequences 0 ''job-1'' [(1, Progress ''job-1'' 1 ''p'' ''m''), (3, Progress ''job-1'' 3 ''p'' ''m''),
      (2, Progress ''job-1'' 2 ''p'' ''m'')] demo_gw2 = [1 .. 1 + int k - 1]"
proof -
  have n: "js_next_sequence (new_job_state ''agent-1'' ''diagnostic'') = 1" by (simp add: new_job_state_def)
  show ?thesis
    by (rule ordered_delivery [of demo_gw2 "''job-1''" 1 "new_job_state ''agent-1'' ''diagnostic''", unfolded n])
      (simp_all add: demo_defs session_agent_def)
qed

section \<open>Isolation\<close>

text \<open>C5. A frame an agent sends cannot reach another agent's job: handling it leaves the state of every job
  of every other agent as it was, puts nothing into such a job's queue, and changes neither
  which jobs are open nor which agents are connected nor the memory of finished jobs.\<close>

theorem frame_isolation:
  assumes "consume_frame so f now g = (g', c)"
  shows "gw_jobs g' = gw_jobs g \<and> gw_sessions g' = gw_sessions g \<and> gw_completed_jobs g' = gw_completed_jobs g
    \<and> (\<forall>jo. job_agent g jo \<noteq> session_agent g so \<longrightarrow>
         gw_job_store g' jo = gw_job_store g jo \<and> (\<forall>f' x. c \<noteq> CPutEvent jo f' x))"
proof (cases f)
  case (Progress j n p m)
  with assms accept_event_isolated [of so j n f g g' c] show ?thesis by (simp add: consume_frame_def)
next
  case (Result j n p m)
  with assms accept_event_isolated [of so j n f g g' c] show ?thesis by (simp add: consume_frame_def)
next
  case (KProgress j n p m)
  with assms accept_event_isolated [of so j n f g g' c] show ?thesis by (simp add: consume_frame_def)
next
  case (KResult j n r)
  with assms accept_event_isolated [of so j n f g g' c] show ?thesis by (simp add: consume_frame_def)
qed (use assms in \<open>auto simp: consume_frame_def\<close>)

text \<open>The witness: an agent named \<open>agent-2\<close> reports a result for \<open>agent-1\<close>'s job.\<close>

theorem frame_isolation_witness:
  "fst (consume_frame 5 (Result ''job-1'' 1 ''passed'' []) 0
     (demo_gw2\<lparr>gw_session_store := [5 \<mapsto> (new_session demo_hello 7)\<lparr>as_agent_id := ''agent-2''\<rparr>]\<rparr>)) = 
     demo_gw2\<lparr>gw_session_store := [5 \<mapsto> (new_session demo_hello 7)\<lparr>as_agent_id := ''agent-2''\<rparr>]\<rparr>
   \<and> gw_job_store (fst (consume_frame 5 (Result ''job-1'' 1 ''passed'' []) 0
     (demo_gw2\<lparr>gw_session_store := [5 \<mapsto> (new_session demo_hello 7)\<lparr>as_agent_id := ''agent-2''\<rparr>]\<rparr>))) 1 =
     Some (new_job_state ''agent-1'' ''diagnostic'')"
  using frame_isolation [OF surjective_pairing,
      of 5 "Result ''job-1'' 1 ''passed'' []" 0 "demo_gw2\<lparr>gw_session_store := [5 \<mapsto> (new_session demo_hello 7)\<lparr>as_agent_id := ''agent-2''\<rparr>]\<rparr>"]
  by (simp add: demo_defs consume_frame_def accept_event_def session_agent_def job_agent_def)

section \<open>Single use of job ids\<close>

text \<open>C6. A finished diagnostic job's id cannot be used again while fewer than \<open>max_completed_jobs\<close> other jobs
  finish after it: opening a diagnostic job with it is refused, whatever the agent.\<close>

theorem job_id_single_use:
  assumes "gw_ok g" and "j \<notin> gw_completed_jobs g" and "fullmatch ID_RE j"
    and "int (length js) < gw_max_completed_jobs g"
    and "g' = fold finish_job js (finish_job j g)"
  shows "\<exists>msg. open_job a j ''diagnostic'' False g' = Inl (ValueError msg)"
  using recent_job_remembered [OF assms(1,2,4)] assms(3)
  by (simp add: open_job_def validate_job_id_def assms(5))

theorem job_id_single_use_witness:
  "\<exists>msg. open_job ''agent-1'' ''job-1'' ''diagnostic'' False (fold finish_job [''a'', ''b''] (finish_job ''job-1'' demo_gw2)) =
     Inl (ValueError msg)"
proof (rule job_id_single_use [OF _ _ _ _ refl])
  show "gw_ok demo_gw2" using sys_inv_ok [OF gw_reach_inv [OF demo_reach2 demo_init]] by (simp add: demo_defs)
qed (simp_all add: demo_defs eval_id)


section \<open>Two situations that last\<close>

text \<open>C7. A caller that gives up (a timeout, a cancelled task) while its request is still waiting for room in
  the session's queue leaves its job open for good: no later step, not even the agent's disconnection,
  closes it, so it occupies one of the agent's places and its id can never be used again.\<close>

theorem abandoned_request_leaks:
  assumes "init_gateway tokens n m = Inr g0" and "gw_reach g0 s"
    and "sy_stream s jo = Some (StPut j so f)"
    and "t = s\<lparr>sy_gw := stream_close (StPut j so f) (sy_gw s), sy_stream := (sy_stream s)(jo \<mapsto> StDone)\<rparr>"
    and "gw_step\<^sup>*\<^sup>* t u"
  shows "dget (gw_jobs (sy_gw u)) j = Some jo \<and> (\<exists>e. open_job a j k r (sy_gw u) = Inl e)"
proof -
  have i: "sys_inv s" by (rule gw_reach_inv [OF assms(2,1)])
  have "gw_step s t" unfolding assms(4) by (rule gw_step.stream_abandoned [OF assms(3)])
  then have "sys_inv t" using i by (rule gw_step_inv)
  moreover have "dget (gw_jobs (sy_gw s)) j = Some jo" using i assms(3) by (simp add: sys_inv_def streams_ok_def)
  ultimately have "orphaned j jo t" by (simp add: orphaned_def assms(4))
  from orphaned_run [OF assms(5) this] have d: "dget (gw_jobs (sy_gw u)) j = Some jo" by (simp add: orphaned_def)
  from dget_in_dkeys [OF this] have "\<exists>e. open_job a j k r (sy_gw u) = Inl e"
    by (auto simp: open_job_def validate_job_id_def guardR_def)
  with d show ?thesis by blast
qed

theorem abandoned_request_leaks_witness:
  "dget (gw_jobs (sy_gw demo_sys3)) ''job-1'' = Some 1
   \<and> (\<exists>e. open_job ''agent-1'' ''job-1'' ''kubernetes'' True (sy_gw demo_sys3) = Inl e)"
  by (rule abandoned_request_leaks [OF demo_init demo_reach2,
        of 1 "''job-1''" 0 "Diagnostics ''job-1'' ''app''" demo_sys3])
    (simp_all add: demo_defs)

text \<open>C8. A connection whose call ends while its outgoing queue is full (32 frames) never finishes
  disconnecting: its handler waits for the consumer's last put, into a queue nobody reads any more. The agent
  counts as connected for ever after, and its reconnection is refused.\<close>

theorem stuck_disconnect:
  assumes "stuck a so s" and "gw_step\<^sup>*\<^sup>* s t"
  shows "is_connected a (sy_gw t) \<and> (\<forall>hello now g so'. h_agent_id hello = a \<longrightarrow>
    connect (Some (Hello hello)) now (sy_gw t) \<noteq> Registered g so')"
proof -
  have "dget (gw_sessions (sy_gw t)) a = Some so" using stuck_run [OF assms(2,1)] by (simp add: stuck_def)
  then have c: "is_connected a (sy_gw t)" using dget_in_dkeys by (fastforce simp: is_connected_def)
  then show ?thesis
    by (auto simp: connect_def connect_hello_def is_connected_def split: option.splits sum.splits bool.splits if_splits)
qed

text \<open>The situation is reachable: the agent stops reading while release requests are made and
  given up one after the other, and its connection is then cancelled.\<close>

definition piled :: "nat \<Rightarrow> gsys \<Rightarrow> bool" where
  "piled n s \<longleftrightarrow> gw_reach demo_gw s \<and> gw_sessions (sy_gw s) = [(''agent-1'', 0)] \<and> gw_jobs (sy_gw s) = []
     \<and> gw_max_inflight (sy_gw s) = 4 \<and> sy_sess s 0 = Some (SLoop, CRead)
     \<and> (\<exists>ss. gw_session_store (sy_gw s) 0 = Some ss \<and> length (as_outgoing ss) = n
          \<and> KUBERNETES_CAPABILITY \<in> set (as_capabilities ss))"

lemma piled_more:
  assumes "piled n s" and "n < MAX_OUTGOING_FRAMES"
  shows "\<exists>t. piled (Suc n) t"
proof -
  let ?g = "sy_gw s" and ?jo = "gw_fresh (sy_gw s)"
  obtain ss where ss: "gw_session_store ?g 0 = Some ss" "length (as_outgoing ss) = n"
    "KUBERNETES_CAPABILITY \<in> set (as_capabilities ss)"
    using assms(1) by (auto simp: piled_def)
  let ?g1 = "?g\<lparr>gw_jobs := [(''job-k'', ?jo)],
      gw_job_store := (gw_job_store ?g)(?jo \<mapsto> new_job_state ''agent-1'' ''kubernetes''), gw_fresh := Suc ?jo\<rparr>"
  let ?f = "KubernetesRelease demo_req"
  let ?g2 = "?g1\<lparr>gw_session_store := (gw_session_store ?g)(0 \<mapsto> ss\<lparr>as_outgoing := as_outgoing ss @ [Some ?f]\<rparr>)\<rparr>"
  let ?s1 = "s\<lparr>sy_gw := ?g1, sy_stream := (sy_stream s)(?jo \<mapsto> StPut ''job-k'' 0 ?f)\<rparr>"
  let ?s2 = "?s1\<lparr>sy_gw := ?g2, sy_stream := (sy_stream ?s1)(?jo \<mapsto> StGet ''job-k'')\<rparr>"
  let ?s3 = "?s2\<lparr>sy_gw := stream_close (StGet ''job-k'') ?g2, sy_stream := (sy_stream ?s2)(?jo \<mapsto> StDone)\<rparr>"
  have "kubernetes_release ''agent-1'' demo_req ?g = (?g1, Inr (?jo, StPut ''job-k'' 0 ?f))"
    using assms(1) ss
    by (simp add: piled_def kubernetes_release_def open_job_def validate_job_id_def eval_id get_session_def
        inflight_def demo_req_def)
  then have 1: "gw_step s ?s1" by (rule gw_step.start_kubernetes)
  have 2: "gw_step ?s1 ?s2"
    using ss assms(2) by (intro gw_step.stream_step) (auto simp: outgoing_put_def)
  have 3: "gw_step ?s2 ?s3"
    using gw_step.stream_abandoned [of ?s2 ?jo "StGet ''job-k''"] by simp
  have "gw_reach demo_gw s" using assms(1) by (simp add: piled_def)
  from gw_reach.step [OF gw_reach.step [OF gw_reach.step [OF this 1] 2] 3] have "gw_reach demo_gw ?s3" .
  with assms(1) ss have "piled (Suc n) ?s3"
    by (simp add: piled_def finish_job_fields ddel_def finish_job_def)
  then show ?thesis by blast
qed

lemma piled_all: "n \<le> MAX_OUTGOING_FRAMES \<Longrightarrow> \<exists>s. piled n s"
proof (induction n)
  case 0
  have "piled 0 demo_sys1" using demo_reach1 by (simp add: piled_def demo_defs)
  then show ?case by blast
next
  case (Suc n)
  then show ?case using piled_more by (meson Suc_le_lessD less_imp_le)
qed

theorem stuck_disconnect_witness:
  "\<exists>s. gw_reach demo_gw s \<and> stuck ''agent-1'' 0 s \<and> is_connected ''agent-1'' (sy_gw s)"
proof -
  obtain s where p: "piled MAX_OUTGOING_FRAMES s" using piled_all by blast
  let ?t = "s\<lparr>sy_sess := (sy_sess s)(0 \<mapsto> (SFinal, CPutEnd))\<rparr>"
  have "gw_step s ?t" using gw_step.call_cancelled [of s 0 CRead] p by (simp add: piled_def)
  moreover have "gw_reach demo_gw s" using p by (simp add: piled_def)
  ultimately have r: "gw_reach demo_gw ?t" by (rule gw_reach.step [rotated])
  have "stuck ''agent-1'' 0 ?t"
    using gw_reach_inv [OF r demo_init] p by (auto simp: stuck_def piled_def out_full_def)
  from r this stuck_disconnect [OF this rtranclp.rtrancl_refl] show ?thesis by blast
qed

end
