(* ===== verification/Diagnostics_Claims.thy ===== *)
theory Diagnostics_Claims
  imports Diagnostics_Properties Gateway_Claims
begin

text \<open>
  The theorems on diagnostic operations, with the reference description of how an operation ends, the
  contract between the service and its backend, and concrete rows on which the theorems are applied.
\<close>

section \<open>How an operation ends\<close>

text \<open>The reference: the first result decides, otherwise the way the stream ended; a stream that is
  exhausted without a result leaves the operation running.\<close>

fun first_result :: "agent_frame list \<Rightarrow> string option" where
  "first_result [] = None"
| "first_result (Result _ _ status _ # fs) = Some status"
| "first_result (_ # fs) = first_result fs"

fun end_status :: "stream_end \<Rightarrow> op_status" where
  "end_status (Failed_with e) =
     (if is_TimeoutError e then TIMEOUT else if is_LookupError e then OFFLINE
      else if is_RuntimeError e then OVERLOADED else FAILED)"
| "end_status _ = RUNNING"

definition settled_status :: "agent_frame list \<Rightarrow> stream_end \<Rightarrow> op_status" where
  "settled_status frames fin =
     (case first_result frames of Some status \<Rightarrow> mapped_status status | None \<Rightarrow> end_status fin)"

definition row_status :: "op_table \<Rightarrow> nat \<Rightarrow> op_status option" where
  "row_status t k = map_option op_status (op_find t k)"

lemma row_status_update:
  assumes "\<And>r. op_pk (f r) = op_pk r" and "\<And>r. op_status (f r) = h (op_status r)"
  shows "row_status (op_update pk p f t) pk = map_option (\<lambda>s. if p s then h s else s) (row_status t pk)"
  using assms by (cases "op_find t pk") (simp_all add: row_status_def op_find_update)

lemma row_status_steps:
  "row_status (set_running pk t) pk = map_option (\<lambda>s. if s = PENDING then RUNNING else s) (row_status t pk)"
  "row_status (save_progress pk ph m t) pk = row_status t pk"
  "row_status (save_result pk st cs t) pk = map_option (\<lambda>s. if op_active s then mapped_status st else s) (row_status t pk)"
  "row_status (save_error pk s' c t) pk = map_option (\<lambda>s. if op_active s then s' else s) (row_status t pk)"
proof -
  show "row_status (set_running pk t) pk = map_option (\<lambda>s. if s = PENDING then RUNNING else s) (row_status t pk)"
    unfolding set_running_def by (rule row_status_update) simp_all
  show "row_status (save_result pk st cs t) pk = map_option (\<lambda>s. if op_active s then mapped_status st else s) (row_status t pk)"
    unfolding save_result_def by (rule row_status_update) simp_all
  show "row_status (save_error pk s' c t) pk = map_option (\<lambda>s. if op_active s then s' else s) (row_status t pk)"
    unfolding save_error_def by (rule row_status_update) simp_all
  have "row_status (save_progress pk ph m t) pk = map_option (\<lambda>s. if op_active s then s else s) (row_status t pk)"
    unfolding save_progress_def by (rule row_status_update) simp_all
  then show "row_status (save_progress pk ph m t) pk = row_status t pk" by (simp add: option.map_ident)
qed

lemma mapped_status_terminal: "\<not> op_active (mapped_status st)"
  by (simp add: mapped_status_def op_active_def)

lemma consume_end_status:
  "row_status t pk = Some s \<Longrightarrow> row_status (fold (db_step ordr) (consume_end pk fin) t) pk =
    Some (if op_active s \<and> (\<exists>e. fin = Failed_with e) then end_status fin else s)"
  by (cases fin) (simp_all add: row_status_steps)

lemma consume_settled:
  "row_status t pk = Some s \<Longrightarrow> \<not> op_active s \<Longrightarrow>
   row_status (fold (db_step ordr) (concat (map (consume_event pk) frames) @ consume_end pk fin) t) pk = Some s"
proof (induction frames arbitrary: t)
  case Nil
  then show ?case by (simp add: consume_end_status)
next
  case (Cons f frames)
  then show ?case by (cases f) (simp_all add: row_status_steps)
qed

lemma consume_running:
  "row_status t pk = Some RUNNING \<Longrightarrow>
   row_status (fold (db_step ordr) (concat (map (consume_event pk) frames) @ consume_end pk fin) t) pk =
     Some (settled_status frames fin)"
proof (induction frames arbitrary: t)
  case Nil
  from consume_end_status [OF this, of ordr fin] show ?case by (cases fin) (simp_all add: settled_status_def op_active_def)
next
  case (Cons f frames)
  show ?case
  proof (cases f)
    case (Result j n st cs)
    have "row_status (save_result pk st (bounded_checks cs) t) pk = Some (mapped_status st)"
      using Cons.prems by (simp add: row_status_steps op_active_def)
    from consume_settled [OF this mapped_status_terminal] Result show ?thesis by (simp add: settled_status_def)
  qed (use Cons in \<open>simp_all add: row_status_steps settled_status_def\<close>)
qed

lemma consume_from_active:
  assumes "row_status t pk = Some s" and "op_active s"
  shows "row_status (fold (db_step ordr) (consume_operation pk frames fin) t) pk = Some (settled_status frames fin)"
proof -
  have "row_status (set_running pk t) pk = Some RUNNING"
    using assms by (auto simp: row_status_steps op_active_def)
  from consume_running [OF this] show ?thesis by (simp add: consume_operation_def)
qed

section \<open>The history\<close>

lemma stale_rows:
  assumes "newest_first ordr" and "table_wf t"
  shows "distinct (map op_pk (ordr (filter P (ot_rows t))))" and "set (ordr (filter P (ot_rows t))) = set (filter P (ot_rows t))"
proof -
  have m: "mset (ordr (filter P (ot_rows t))) = mset (filter P (ot_rows t))" using assms(1) by (simp add: newest_first_def)
  then have "mset (map op_pk (ordr (filter P (ot_rows t)))) = mset (map op_pk (filter P (ot_rows t)))" by simp
  moreover have "distinct (map op_pk (filter P (ot_rows t)))" using assms(2) by (simp add: table_wf_def distinct_map_filter)
  ultimately show "distinct (map op_pk (ordr (filter P (ot_rows t))))" by (metis mset_eq_imp_distinct_iff)
  show "set (ordr (filter P (ot_rows t))) = set (filter P (ot_rows t))" using m by (rule mset_eq_setD)
qed

definition settled_rows :: "nat \<Rightarrow> op_table \<Rightarrow> diagnostic_operation list" where
  "settled_rows p t = filter (\<lambda>r. op_project_id r = p \<and> \<not> op_active (op_status r)) (ot_rows t)"

lemma stale_pks_settled: "stale_pks ordr p t = map op_pk (drop MAX_HISTORY_PER_PROJECT (ordr (settled_rows p t)))"
  by (simp add: stale_pks_def settled_rows_def op_active_def)

text \<open>The rows that stay are, up to their order, the first 200 of the ordered history.\<close>

lemma trim_kept:
  assumes "newest_first ordr" and "table_wf t"
  shows "set (settled_rows p (trim_history ordr p t)) = set (take MAX_HISTORY_PER_PROJECT (ordr (settled_rows p t)))"
proof -
  let ?o = "ordr (settled_rows p t)" and ?n = MAX_HISTORY_PER_PROJECT
  have d: "distinct (map op_pk ?o)" and s: "set ?o = set (settled_rows p t)"
    using stale_rows [OF assms] by (simp_all add: settled_rows_def)
  have inj: "inj_on op_pk (set ?o)" using d by (simp add: distinct_map)
  have "set (settled_rows p (trim_history ordr p t)) = {r \<in> set ?o. op_pk r \<notin> op_pk ` set (drop ?n ?o)}"
  proof -
    have "set (settled_rows p (trim_history ordr p t)) = {r \<in> set (settled_rows p t). op_pk r \<notin> set (stale_pks ordr p t)}"
      by (auto simp: trim_history_def settled_rows_def)
    then show ?thesis by (simp add: s stale_pks_settled)
  qed
  also have "\<dots> = set ?o - set (drop ?n ?o)"
    using inj set_drop_subset [of ?n ?o] by (auto simp: inj_on_def)
  also have "\<dots> = set (take ?n ?o)"
  proof -
    have "set (take ?n ?o) \<inter> set (drop ?n ?o) = {}" using d by (simp add: distinct_map set_take_disj_set_drop_if_distinct)
    moreover have "set (take ?n ?o) \<union> set (drop ?n ?o) = set ?o" by (metis append_take_drop_id set_append)
    ultimately show ?thesis by blast
  qed
  finally show ?thesis .
qed

lemma trim_count:
  assumes "newest_first ordr" and "table_wf t"
  shows "length (settled_rows p (trim_history ordr p t)) = min MAX_HISTORY_PER_PROJECT (length (settled_rows p t))"
proof -
  let ?o = "ordr (settled_rows p t)"
  have "distinct (settled_rows p (trim_history ordr p t))"
    using trim_wf [OF assms(2)] unfolding table_wf_def settled_rows_def by (simp add: distinct_map)
  then have "length (settled_rows p (trim_history ordr p t)) = card (set (take MAX_HISTORY_PER_PROJECT ?o))"
    by (simp add: trim_kept [OF assms, symmetric] distinct_card)
  also have "\<dots> = length (take MAX_HISTORY_PER_PROJECT ?o)"
    using stale_rows(1) [OF assms] by (simp add: settled_rows_def distinct_map distinct_card)
  also have "length ?o = length (settled_rows p t)" using assms(1) by (metis newest_first_def size_mset)
  ultimately show ?thesis by simp
qed

lemma trim_short:
  assumes "newest_first ordr" and "length (settled_rows p t) \<le> MAX_HISTORY_PER_PROJECT"
  shows "trim_history ordr p t = t"
proof -
  have "length (ordr (settled_rows p t)) = length (settled_rows p t)" using assms(1) by (metis newest_first_def size_mset)
  then show ?thesis using assms(2) by (simp add: trim_history_def stale_pks_settled)
qed

lemma trim_others:
  assumes "newest_first ordr" and "table_wf t"
  shows "filter (\<lambda>r. op_project_id r \<noteq> p \<or> \<not> op_terminal (op_status r)) (ot_rows (trim_history ordr p t)) =
    filter (\<lambda>r. op_project_id r \<noteq> p \<or> \<not> op_terminal (op_status r)) (ot_rows t)"
proof -
  have "op_pk r \<notin> set (stale_pks ordr p t)" if "r \<in> set (ot_rows t)" and "op_project_id r \<noteq> p \<or> \<not> op_terminal (op_status r)" for r
  proof
    assume "op_pk r \<in> set (stale_pks ordr p t)"
    then obtain r' where r': "r' \<in> set (ordr (settled_rows p t))" "op_pk r' = op_pk r"
      by (auto simp: stale_pks_settled dest: in_set_dropD)
    then have m: "r' \<in> set (settled_rows p t)" using stale_rows [OF assms] by (simp add: settled_rows_def)
    then have "r' = r" using assms(2) that(1) r'(2) by (auto simp: table_wf_def settled_rows_def distinct_map inj_on_def)
    with m that(2) show False by (auto simp: settled_rows_def op_active_terminal)
  qed
  then show ?thesis by (auto simp: trim_history_def intro: filter_cong)
qed

lemma trim_newest:
  assumes "newest_first ordr" and "table_wf t"
    and "r \<in> set (ot_rows t)" and "r \<notin> set (ot_rows (trim_history ordr p t))"
  shows "r \<in> set (settled_rows p t) \<and>
    (\<forall>k \<in> set (settled_rows p (trim_history ordr p t)). op_created_at r \<le> op_created_at k)"
proof -
  let ?o = "ordr (settled_rows p t)" and ?n = MAX_HISTORY_PER_PROJECT
  have s: "set ?o = set (settled_rows p t)" using stale_rows [OF assms(1,2)] by (simp add: settled_rows_def)
  from assms(3,4) have "op_pk r \<in> op_pk ` set (drop ?n ?o)" by (simp add: trim_history_def stale_pks_settled)
  then obtain r' where r': "r' \<in> set (drop ?n ?o)" "op_pk r' = op_pk r" by auto
  then have m: "r' \<in> set (settled_rows p t)" using set_drop_subset [of ?n ?o] s by auto
  then have "r' = r" using assms(2,3) r'(2) by (auto simp: table_wf_def settled_rows_def distinct_map inj_on_def)
  have "sorted_wrt (\<lambda>a b. op_created_at b \<le> op_created_at a) (take ?n ?o @ drop ?n ?o)"
    using assms(1) by (simp add: newest_first_def)
  then have "\<forall>k \<in> set (take ?n ?o). op_created_at r' \<le> op_created_at k"
    using r'(1) unfolding sorted_wrt_append by blast
  then show ?thesis using m \<open>r' = r\<close> trim_kept [OF assms(1,2)] by simp
qed


text \<open>What a single result frame leaves in an active row: the checks, cut and their details redacted.\<close>

lemma consumed_result:
  assumes "op_find t pk = Some r" and "op_active (op_status r)"
  shows "\<exists>r' cs'. op_find (fold (db_step ordr) (consume_operation pk [Result j n st cs] fin) t) pk = Some r'
    \<and> op_result_summary r' = ChecksSummary cs'
    \<and> map dc_name cs' = map (\<lambda>c. take 128 (dc_name c)) (take MAX_CHECKS cs)
    \<and> map dc_status cs' = map (\<lambda>c. take 32 (dc_status c)) (take MAX_CHECKS cs)"
proof -
  have "\<exists>r'. op_find (fold (db_step ordr) (consume_operation pk [Result j n st cs] fin) t) pk = Some r'
    \<and> op_result_summary r' = ChecksSummary (bounded_checks cs)"
    using assms mapped_status_terminal [of st]
    by (cases fin) (auto simp: consume_operation_def step_defs op_find_update op_active_terminal op_terminal_def)
  then show ?thesis by (auto simp: bounded_checks_def comp_def)
qed

section \<open>Concrete rows\<close>

definition shop_project :: project where
  "shop_project = \<lparr>pr_id = 3, pr_slug = ''shop'', pr_release_root = ''current''\<rparr>"

definition shop_agent :: agent_registration where
  "shop_agent = \<lparr>ar_agent_id = ''agent-1'', ar_project = shop_project, ar_capabilities = []\<rparr>"

definition shop_table :: op_table where
  "shop_table = op_create ''u-0'' shop_agent 9 ''django_health'' 100 empty_table"

lemmas shop_defs = shop_table_def shop_agent_def shop_project_def empty_table_def

definition newest :: "diagnostic_operation list \<Rightarrow> diagnostic_operation list" where
  "newest rs = rev (sort_key op_created_at rs)"

lemma newest_newest_first: "newest_first newest"
proof -
  have "sorted_wrt (\<lambda>a b. op_created_at b \<le> op_created_at a) (rev (sort_key op_created_at rs))" for rs :: "diagnostic_operation list"
    using sorted_sort_key [of op_created_at rs] by (simp add: sorted_wrt_rev sorted_map)
  then show ?thesis by (simp add: newest_first_def newest_def)
qed

lemma shop_table_wf: "table_wf shop_table"
  unfolding shop_table_def by (rule create_wf) (simp add: table_wf_def empty_table_def)

lemma shop_row: "op_find shop_table 0 = Some (new_operation 0 ''u-0'' shop_agent 9 ''django_health'' 100)"
  by (simp add: op_find_def shop_defs op_create_def new_operation_def)

section \<open>Theorems\<close>

text \<open>C9. A diagnostic operation that has reached a terminal status keeps it: whatever guarded statements of
  whatever requests and coroutines follow, in any order, the row is unchanged or has been trimmed
  from the history, and a trimmed row never comes back.\<close>

theorem settled_operation_final:
  assumes "table_wf t" and "op_find t k = Some r" and "op_terminal (op_status r)"
  shows "op_find (fold (db_step ordr) es t) k = Some r \<or> op_find (fold (db_step ordr) es t) k = None"
  using operations.final_run [OF assms] .

theorem settled_operation_final_witness:
  "\<exists>r. op_status r = CANCELLED \<and>
    op_find (save_error 0 CANCELLED '''' shop_table) 0 = Some r \<and>
    op_find (fold (db_step newest) [SaveResult 0 ''succeeded'' [], SaveError 0 TIMEOUT ''DIAGNOSTIC_TIMEOUT''] (save_error 0 CANCELLED '''' shop_table)) 0
      \<in> {Some r, None}"
proof -
  let ?t = "save_error 0 CANCELLED '''' shop_table"
  obtain r where r: "op_find ?t 0 = Some r" "op_status r = CANCELLED"
    by (simp add: save_error_def op_find_update shop_row op_active_def new_operation_def)
  have "table_wf ?t" unfolding save_error_def by (rule op_update_wf [OF _ shop_table_wf]) simp
  from settled_operation_final [OF this r(1), of newest "[SaveResult 0 ''succeeded'' [], SaveError 0 TIMEOUT ''DIAGNOSTIC_TIMEOUT'']"] r
  show ?thesis by (intro exI [of _ r]) (simp add: op_terminal_def)
qed

text \<open>C10. How the consuming coroutine settles an operation: after all its statements the status is the one the
  reference gives, that is, the first result's status mapped to the four recorded outcomes, else by
  the exception that ended the stream (timeout, agent gone, no capacity, anything else); later results
  do not change it.\<close>

theorem consume_operation_status:
  assumes "op_find t pk = Some r" and "op_active (op_status r)"
  shows "map_option op_status (op_find (fold (db_step ordr) (consume_operation pk frames fin) t) pk) =
    Some (settled_status frames fin)"
  using consume_from_active [of t pk "op_status r" ordr frames fin] assms by (simp add: row_status_def)

theorem consume_operation_status_witness:
  "map_option op_status (op_find (fold (db_step newest) (consume_operation 0
     [Progress ''j'' 1 ''checks'' ''started'', Result ''j'' 2 ''succeeded'' []] Exhausted) shop_table) 0) = Some SUCCEEDED"
  using consume_operation_status [OF shop_row, of newest "[Progress ''j'' 1 ''checks'' ''started'', Result ''j'' 2 ''succeeded'' []]" Exhausted]
  by (simp add: new_operation_def op_active_def settled_status_def mapped_status_def)

text \<open>C11. Everything an agent reports is bounded before it is stored, and its free text carries no secret: under
  any interleaving of the statements the service issues, for any frames, every stored error code has at most
  32 characters, a progress phase at most 64, a progress message and the detail of a check at most 2048 and
  no match of the secret pattern, and a result at most 32 checks with names of at most 128 and statuses of at
  most 32 characters. The names and statuses of the checks are only cut, never redacted: whatever an agent
  sends as a check's name, a text the pattern would redact included, is what the row then holds.\<close>

theorem stored_rows_bounded:
  assumes "list_all issued es" and "list_all row_ok (ot_rows t)"
  shows "list_all row_ok (ot_rows (fold (db_step ordr) es t))
    \<and> (\<forall>pk r j n st cs fin. op_find t pk = Some r \<and> op_active (op_status r) \<longrightarrow>
        (\<exists>r' cs'. op_find (fold (db_step ordr) (consume_operation pk [Result j n st cs] fin) t) pk = Some r'
          \<and> op_result_summary r' = ChecksSummary cs'
          \<and> map dc_name cs' = map (\<lambda>c. take 128 (dc_name c)) (take MAX_CHECKS cs)
          \<and> map dc_status cs' = map (\<lambda>c. take 32 (dc_status c)) (take MAX_CHECKS cs)))"
  using issued_run [OF assms(1), of t ordr] assms(2) consumed_result by (fastforce simp: rows_ok_def)

theorem stored_rows_bounded_witness:
  "list_all row_ok (ot_rows (fold (db_step newest) (consume_operation 0
     [Result ''j'' 1 ''failed'' [\<lparr>dc_name = ''db'', dc_status = ''fail'', dc_detail = ''password=x1''\<rparr>]] Exhausted) shop_table))
   \<and> (\<exists>r' cs'. op_find (fold (db_step newest) (consume_operation 0
        [Result ''j'' 1 ''failed'' [\<lparr>dc_name = ''password=x1'', dc_status = ''fail'', dc_detail = ''''\<rparr>]] Exhausted) shop_table) 0 = Some r'
      \<and> op_result_summary r' = ChecksSummary cs' \<and> map dc_name cs' = [''password=x1''])
   \<and> search (secret_rx service_keywords) ''password=x1''"
proof -
  let ?es = "consume_operation 0 [Result ''j'' 1 ''failed'' [\<lparr>dc_name = ''db'', dc_status = ''fail'', dc_detail = ''password=x1''\<rparr>]] Exhausted"
  have "list_all issued ?es" unfolding list_all_iff issued_def by blast
  moreover have "list_all row_ok (ot_rows shop_table)"
    by (simp add: shop_defs op_create_def new_operation_def row_ok_def)
  ultimately have b: "list_all issued ?es" "list_all row_ok (ot_rows shop_table)" by blast+
  note s = stored_rows_bounded [OF b, of newest]
  have "\<exists>r' cs'. op_find (fold (db_step newest) (consume_operation 0
        [Result ''j'' 1 ''failed'' [\<lparr>dc_name = ''password=x1'', dc_status = ''fail'', dc_detail = ''''\<rparr>]] Exhausted) shop_table) 0 = Some r'
      \<and> op_result_summary r' = ChecksSummary cs' \<and> map dc_name cs' = [''password=x1'']"
    using s [THEN conjunct2, rule_format, of 0 _ "''j''" 1 "''failed''" "[\<lparr>dc_name = ''password=x1'', dc_status = ''fail'', dc_detail = ''''\<rparr>]" Exhausted,
      OF conjI, OF shop_row]
    by (force simp: new_operation_def op_active_def MAX_CHECKS_def)
  moreover have "search (secret_rx service_keywords) ''password=x1''" by code_simp
  ultimately show ?thesis using s by blast
qed

text \<open>C12. Trimming keeps exactly the newest part of a project's settled history, however the database orders rows
  of the same time: afterwards the project has as many settled operations as before, or 200 of them when it
  had more; those are operations it had; only settled operations of that project are removed, and none of
  them is newer than one that stays; a history of at most 200 is left as it is; and all other rows, of other
  projects or still pending or running, stay in their places.\<close>

theorem trim_history_spec:
  assumes "newest_first ordr" and "table_wf t"
  shows "length (settled_rows p (trim_history ordr p t)) = min MAX_HISTORY_PER_PROJECT (length (settled_rows p t))
    \<and> set (settled_rows p (trim_history ordr p t)) \<subseteq> set (settled_rows p t)
    \<and> (length (settled_rows p t) \<le> MAX_HISTORY_PER_PROJECT \<longrightarrow> trim_history ordr p t = t)
    \<and> (\<forall>r \<in> set (ot_rows t). r \<notin> set (ot_rows (trim_history ordr p t)) \<longrightarrow>
        op_project_id r = p \<and> op_terminal (op_status r)
        \<and> (\<forall>k \<in> set (settled_rows p (trim_history ordr p t)). op_created_at r \<le> op_created_at k))
    \<and> filter (\<lambda>r. op_project_id r \<noteq> p \<or> \<not> op_terminal (op_status r)) (ot_rows (trim_history ordr p t)) =
        filter (\<lambda>r. op_project_id r \<noteq> p \<or> \<not> op_terminal (op_status r)) (ot_rows t)"
  using trim_count [OF assms] trim_newest [OF assms] op_active_terminal trim_short [OF assms(1)] trim_others [OF assms]
  by (auto simp: settled_rows_def trim_history_def)

theorem trim_history_spec_witness:
  "length (settled_rows 3 (trim_history newest 3 shop_table)) = min 200 (length (settled_rows 3 shop_table))"
  using trim_history_spec [OF newest_newest_first shop_table_wf, of 3] by (simp add: MAX_HISTORY_PER_PROJECT_def)


text \<open>Through the runtime's backend a cancellation never raises: it returns the operation in a terminal status,
  untouched when it was settled before; otherwise cancelled when the gateway accepted the cancellation,
  and disconnected or failed (no gateway, no room in the agent's queue) when it did not. No other row changes.\<close>

theorem cancel_settles:
  assumes "op_find t k = Some r"
  shows "\<exists>t' r'. cancel_diagnostic (runtime_backend rt now) k t = (t', Inr r')
    \<and> op_find t' k = Some r' \<and> op_terminal (op_status r')
    \<and> (op_terminal (op_status r) \<longrightarrow> t' = t \<and> r' = r)
    \<and> (\<not> op_terminal (op_status r) \<longrightarrow> op_status r' =
        (case runtime_cancel rt (op_public_id r) of Inl _ \<Rightarrow> FAILED | Inr True \<Rightarrow> CANCELLED | Inr False \<Rightarrow> DISCONNECTED))
    \<and> (\<forall>j. j \<noteq> k \<longrightarrow> op_find t' j = op_find t j)"
proof (cases "op_terminal (op_status r)")
  case True
  with assms show ?thesis by (simp add: cancel_diagnostic_def)
next
  case False
  let ?x = "runtime_cancel rt (op_public_id r)"
  have exn: "is_TimeoutError e \<or> is_RuntimeError e" if "?x = Inl e" for e
    using that by (auto simp: runtime_cancel_def gateway_runtime_def res_simps split: option.splits prod.splits sum.splits)
  obtain s c where o: "cancel_outcome ?x = Inr (s, c)"
    and s: "s = (case ?x of Inl _ \<Rightarrow> FAILED | Inr True \<Rightarrow> CANCELLED | Inr False \<Rightarrow> DISCONNECTED)"
  proof (cases ?x)
    case (Inl e)
    with exn [OF this] that show ?thesis by (cases "is_TimeoutError e") (auto simp: cancel_outcome_def)
  next
    case (Inr b)
    with that show ?thesis by (cases b) (auto simp: cancel_outcome_def)
  qed
  have "op_terminal s" using cancel_outcome_ok [OF o] by blast
  moreover have "op_find (save_error k s c t) j =
      (if j = k then Some (r\<lparr>op_status := s, op_error_code := c\<rparr>) else op_find t j)" for j
    using assms False by (cases "op_find t j") (auto simp: save_error_def op_find_update op_active_terminal)
  ultimately show ?thesis using assms False o s
    by (simp add: cancel_diagnostic_def runtime_backend_def)
qed

theorem cancel_settles_witness:
  "\<exists>t' r'. cancel_diagnostic (runtime_backend None 0) 0 shop_table = (t', Inr r') \<and> op_status r' = FAILED"
  using cancel_settles [OF shop_row, of None 0]
  by (auto simp: new_operation_def op_terminal_def runtime_cancel_def gateway_runtime_def)

text \<open>A diagnostic job is not protected against a result of the other kind: the gateway accepts a
  Kubernetes result for it, hands it to the caller and closes the job; the consuming coroutine
  records nothing for such a frame, so the operation stays running although its job is over.\<close>

theorem foreign_result_strands:
  assumes "dget (gw_jobs g) j = Some jo" and "gw_job_store g jo = Some st" and "js_kind st = ''diagnostic''"
    and "session_agent g so = Some (js_agent_id st)"
    and "op_find t pk = Some r" and "op_active (op_status r)"
  shows "snd (consume_frame so (KResult j (js_next_sequence st) rr) now g) = CPutEvent jo (KResult j (js_next_sequence st) rr) None
    \<and> (job_get jo g' = Some (KResult j n rr, g'') \<longrightarrow>
        stream_resume jo (StGet j) g' = Some (g'', Some (KResult j n rr), StYield j True)
        \<and> stream_resume jo (StYield j True) g'' = Some (finish_job j g'', None, StDone))
    \<and> map_option op_status (op_find (fold (db_step ordr) (consume_operation pk [KResult j n rr] Exhausted) t) pk) = Some RUNNING"
  using assms(1,2,4) consume_from_active [of t pk "op_status r" ordr "[KResult j n rr]" Exhausted] assms(5,6)
  by (simp add: row_status_def settled_status_def consume_frame_def accept_event_own)

theorem foreign_result_strands_witness:
  "snd (consume_frame 0 (KResult ''job-1'' 1 \<lparr>rr_status = '''', rr_helm_revision = 0, rr_previous_revision = 0,
      rr_rollback_status = '''', rr_error_code = ''''\<rparr>) 0 demo_gw2) =
    CPutEvent 1 (KResult ''job-1'' 1 \<lparr>rr_status = '''', rr_helm_revision = 0, rr_previous_revision = 0,
      rr_rollback_status = '''', rr_error_code = ''''\<rparr>) None"
  using foreign_result_strands [of demo_gw2 "''job-1''" 1 "new_job_state ''agent-1'' ''diagnostic''" 0, OF _ _ _ _ shop_row]
  by (simp add: demo_defs session_agent_def op_active_def new_operation_def)


section \<open>Starting an operation\<close>

lemma trim_keeps_newest:
  assumes "newest_first ordr" and "table_wf t" and "r \<in> set (ot_rows t)"
    and "\<forall>k \<in> set (ot_rows t). op_created_at r \<le> op_created_at k \<longrightarrow> k = r"
  shows "op_find (trim_history ordr p t) (op_pk r) = op_find t (op_pk r)"
proof (cases "op_pk r \<in> set (stale_pks ordr p t)")
  case True
  then have gone: "r \<notin> set (ot_rows (trim_history ordr p t))" by (simp add: trim_history_def)
  note old = trim_newest [OF assms(1-3) gone]
  have sub: "k \<in> set (ot_rows t) \<and> k \<noteq> r" if "k \<in> set (settled_rows p (trim_history ordr p t))" for k
    using that gone by (auto simp: settled_rows_def trim_history_def)
  have "settled_rows p (trim_history ordr p t) = []"
    using old assms(4) sub by (metis list.set_intros(1) neq_Nil_conv)
  then have "take MAX_HISTORY_PER_PROJECT (ordr (settled_rows p t)) = []"
    using trim_kept [OF assms(1,2), of p] by simp
  then have "ordr (settled_rows p t) = []" by (simp add: MAX_HISTORY_PER_PROJECT_def)
  with True show ?thesis by (simp add: stale_pks_settled)
qed (simp add: op_find_trim)

text \<open>Starting the supported diagnostic creates one new row, the newest, and returns it: pending when
  the agent is connected and the gateway took the operation; offline when the agent is not connected;
  overloaded or failed when the gateway refused. The row is in the history after it has been trimmed.\<close>

theorem start_diagnostic_spec:
  assumes "newest_first ordr" and "table_wf t" and "\<forall>r \<in> set (ot_rows t). op_created_at r < now"
    and "start_diagnostic be ordr uid agent user ''django_health'' now now' t = (t', Inr pk)"
  shows "pk = ot_next t \<and> op_find t pk = None
    \<and> map_option op_status (op_find t' pk) =
       Some (if \<not> be_connected be (ar_agent_id agent) then OFFLINE
             else (case be_start be (new_operation pk uid agent user ''django_health'' now) of
                Inr _ \<Rightarrow> PENDING
              | Inl e \<Rightarrow> if substring_in ''capacity'' (lower (exn_text e)) then OVERLOADED else FAILED))"
proof -
  let ?op = "new_operation (ot_next t) uid agent user ''django_health'' now"
  let ?t1 = "op_create uid agent user ''django_health'' now t" and ?p = "pr_id (ar_project agent)"
  have wf1: "table_wf ?t1" by (rule create_wf [OF assms(2)])
  have pk: "pk = ot_next t" using assms(4)
    by (auto simp: start_diagnostic_def Let_def split: sum.splits option.splits prod.splits)
  have fresh: "op_find t pk = None" using assms(2) unfolding pk table_wf_def op_find_def by (auto simp: find_None_iff)
  have found: "op_find ?t1 pk = Some ?op" using op_find_create [OF assms(2)] pk by simp
  have keep: "op_find (trim_history ordr ?p u) pk = Some r" if "table_wf u" "op_find u pk = Some r" "op_created_at r = now"
    "\<forall>k \<in> set (ot_rows u). k = r \<or> op_created_at k < now" for u r
  proof -
    have "\<forall>k \<in> set (ot_rows u). op_created_at r \<le> op_created_at k \<longrightarrow> k = r" using that(3,4) by fastforce
    with trim_keeps_newest [OF assms(1) that(1), of r ?p] that(2) op_find_pk [OF that(2)] show ?thesis by simp
  qed
  have created: "op_created_at ?op = now" "op_pk ?op = ot_next t" by (simp_all add: new_operation_def)
  have t1: "\<forall>k \<in> set (ot_rows ?t1). k = ?op \<or> op_created_at k < now" using assms(3) by (auto simp: op_create_def)
  have saved: "op_find (op_save pk s c now' ?t1) pk = Some (?op\<lparr>op_status := s, op_error_code := c, op_updated_at := now'\<rparr>)"
    "table_wf (op_save pk s c now' ?t1)"
    "\<forall>k \<in> set (ot_rows (op_save pk s c now' ?t1)). k = ?op\<lparr>op_status := s, op_error_code := c, op_updated_at := now'\<rparr> \<or> op_created_at k < now"
    for s c
  proof -
    show "op_find (op_save pk s c now' ?t1) pk = Some (?op\<lparr>op_status := s, op_error_code := c, op_updated_at := now'\<rparr>)"
      unfolding op_save_def using found by (simp add: op_find_update)
    show "table_wf (op_save pk s c now' ?t1)" unfolding op_save_def by (rule op_update_wf [OF _ wf1]) simp
    show "\<forall>k \<in> set (ot_rows (op_save pk s c now' ?t1)). k = ?op\<lparr>op_status := s, op_error_code := c, op_updated_at := now'\<rparr> \<or> op_created_at k < now"
      using t1 created pk by (auto simp: op_save_def op_update_def)
  qed
  have kept: "op_find (trim_history ordr ?p (op_save pk s c now' ?t1)) pk = Some (?op\<lparr>op_status := s, op_error_code := c, op_updated_at := now'\<rparr>)" for s c
    by (rule keep [OF saved(2,1) _ saved(3)]) (simp add: created)
  have plain: "op_find (trim_history ordr ?p ?t1) pk = Some ?op" by (rule keep [OF wf1 found created(1) t1])
  show ?thesis
    using assms(4) fresh kept plain pk
    by (auto simp: start_diagnostic_def start_outcome_def Let_def new_operation_def split: sum.splits if_splits)
qed

theorem start_diagnostic_spec_witness:
  "\<exists>t' pk. start_diagnostic (runtime_backend None 0) newest ''u-1'' shop_agent 9 ''django_health'' 101 102 shop_table = (t', Inr pk)
     \<and> map_option op_status (op_find t' pk) = Some OFFLINE"
proof -
  have off: "\<not> be_connected (runtime_backend None 0) (ar_agent_id shop_agent)"
    by (simp add: runtime_backend_def gateway_runtime_def or_default_def)
  then obtain t' pk where s: "start_diagnostic (runtime_backend None 0) newest ''u-1'' shop_agent 9 ''django_health'' 101 102 shop_table = (t', Inr pk)"
    by (simp add: start_diagnostic_def start_outcome_def Let_def new_operation_def)
  have "\<forall>r \<in> set (ot_rows shop_table). op_created_at r < 101" by (simp add: shop_defs op_create_def new_operation_def)
  from start_diagnostic_spec [OF newest_newest_first shop_table_wf this s] s off show ?thesis by auto
qed

text \<open>The save of \<open>start\<close> is not guarded by the row's status: an operation another request has settled
  between the creation and the save is settled again.\<close>

lemma start_save_unguarded:
  "map_option op_status (op_find (op_save 0 OFFLINE ''AGENT_OFFLINE'' 102
     (save_error 0 DISCONNECTED ''CANCEL_UNAVAILABLE'' shop_table)) 0) = Some OFFLINE"
  by (simp add: op_save_def save_error_def op_find_update shop_row)


section \<open>Describing an agent\<close>

text \<open>In every reachable state of the gateway, an agent is described as connected exactly when the gateway has a
  session for it, and then with a heartbeat age, the supported protocol version and (at least) the
  diagnostics capability; a disconnected agent is described by its registered capabilities, with
  no heartbeat and no version.\<close>

theorem agent_state_consistent:
  assumes "init_gateway tokens n m = Inr g0" and "gw_reach g0 s"
    and "st = agent_state_of (runtime_backend (Some (sy_gw s)) now) agent"
  shows "(st_connected st \<longleftrightarrow> is_connected (ar_agent_id agent) (sy_gw s))
    \<and> (st_connected st \<longleftrightarrow> st_heartbeat_age st \<noteq> None)
    \<and> (st_connected st \<longrightarrow> DIAGNOSTIC_CAPABILITY \<in> set (st_capabilities st) \<and> st_protocol_major st = Some PROTOCOL_MAJOR)
    \<and> (\<not> st_connected st \<longrightarrow> st_capabilities st = ar_capabilities agent \<and> st_protocol_major st = None)"
proof -
  have "runtime_ok (Some (sy_gw s), now)"
    using sys_inv_ok [OF gw_reach_inv [OF assms(2,1)]] by (simp add: runtime_ok_def)
  moreover have "be_connected (runtime_backend (Some g) now) a \<longleftrightarrow> is_connected a g" for g a
    by (simp add: runtime_backend_def gateway_runtime_def or_default_def)
  ultimately show ?thesis using runtime.agent_state_online [of "(Some (sy_gw s), now)" st agent] assms(3) by auto
qed

theorem agent_state_consistent_witness:
  "st_protocol_major (agent_state_of (runtime_backend (Some demo_gw2) 9) shop_agent) = Some PROTOCOL_MAJOR"
  using agent_state_consistent [OF demo_init demo_reach2 refl, of 9 shop_agent]
  by (simp add: demo_defs is_connected_def shop_defs)

end
