(* ===== verification/Kubernetes_Claims.thy ===== *)
theory Kubernetes_Claims
  imports Kubernetes_Properties Diagnostics_Claims
begin

text \<open>
  The theorems on Kubernetes targets and releases, with a concrete target, image and values on which
  they are applied.
\<close>

section \<open>Concrete inputs\<close>

definition shop_target :: kubernetes_target where
  "shop_target = \<lparr>kt_pk = 4, kt_project = 3, kt_agent = shop_agent, kt_name = ''prod'', kt_api_server = ''https://k8s.example'',
     kt_namespace = ''web'', kt_release_name = ''shop'', kt_credential_ref = ''vault:k8s/prod'', kt_ingress_class = [],
     kt_tls_secret_name = [], kt_validated_at = Some 50, kt_validation_summary = None\<rparr>"

definition shop_image :: string where
  "shop_image = ''r/shop@sha256:'' @ replicate 64 CHR ''a''"

definition shop_values :: "(string \<times> json) list" where
  "shop_values = [(''webReplicas'', JInt 2), (''migrationCompatibility'', JStr ''safe'')]"

definition shop_clean :: "(string \<times> json) list" where
  "shop_clean = [(''migrationCompatibility'', JStr ''safe''), (''webReplicas'', JInt 2)]"

definition empty_releases :: release_table where
  "empty_releases = \<lparr>rt_rows = [], rt_next = 7\<rparr>"

definition down_backend :: kubernetes_backend where
  "down_backend = runtime_kubernetes None (\<lambda>_ _. ([], Exhausted)) ''v1''"

definition newest_rel :: "kubernetes_release_row list \<Rightarrow> kubernetes_release_row list" where
  "newest_rel rs = rev (sort_key kr_created_at rs)"

lemma newest_rel_law: "newest_releases newest_rel"
proof -
  have "sorted_wrt (\<lambda>a b. kr_created_at b \<le> kr_created_at a) (rev (sort_key kr_created_at rs))" for rs :: "kubernetes_release_row list"
    using sorted_sort_key [of kr_created_at rs] by (simp add: sorted_wrt_rev sorted_map)
  then show ?thesis by (simp add: newest_releases_def newest_rel_def)
qed

lemma empty_releases_ok: "releases_wf empty_releases \<and> live_unique empty_releases"
  by (simp add: releases_wf_def live_unique_def empty_releases_def)

lemma shop_values_wf: "json_wf (JObj shop_values)"
  by (simp add: shop_values_def)

lemma key_order: "''migrationCompatibility'' \<le> (''webReplicas'' :: string)" "\<not> ''webReplicas'' \<le> (''migrationCompatibility'' :: string)"
  by code_simp+

lemma shop_sorted: "json_sort (JObj shop_values) = JObj shop_clean"
  by (simp add: shop_values_def shop_clean_def sort_key_def insort_key_def key_order)

lemma shop_no_secret: "\<not> list_ex (\<lambda>tok. substring_in tok (lower (json_encode (JObj shop_clean)))) secret_tokens"
  by (simp add: shop_clean_def secret_tokens_def) code_simp

lemma shop_sanitized: "sanitize_values shop_values = Inr shop_clean"
proof -
  have "json_dumps (JObj shop_values) = json_encode (JObj shop_clean)" by (simp add: json_dumps_def shop_sorted del: json_sort.simps)
  moreover have "json_loads (json_dumps (JObj shop_values)) = Some (JObj shop_clean)"
    using json_loads_dumps [OF shop_values_wf] shop_sorted by simp
  moreover have "filter (\<lambda>k. k \<notin> set allowed_values) (map fst shop_values) = []"
    by (simp add: shop_values_def allowed_values_def)
  ultimately show ?thesis using shop_no_secret by (simp add: sanitize_values_def Let_def)
qed


lemma shop_image_ok: "validate_image shop_image = Inr shop_image"
  unfolding validate_image_iff shop_image_def
  by (intro conjI refl exI [of _ "''r/shop''"] exI [of _ "replicate 64 CHR ''a''"])
    (simp_all add: list_all_iff is_hex_lower_def in_range_def)

lemma shop_inputs: "release_inputs sha shop_image shop_values = Inr (shop_clean, shop_image, values_digest sha shop_clean, ''safe'')"
  by (simp add: release_inputs_def inputs_of_def shop_sanitized shop_image_ok compatibility_of_def) (simp add: shop_clean_def Let_def)

definition busy_release :: "(string \<Rightarrow> string) \<Rightarrow> kubernetes_release_row" where
  "busy_release sha = new_release 7 shop_target 9 ''a1'' shop_image ''0.1.0'' (values_digest sha shop_clean) shop_clean ''safe'' None 5"

section \<open>Theorems\<close>

text \<open>Values that differ in the order of their keys only, at any depth, are treated alike.\<close>

lemma sanitize_values_cong:
  assumes "json_wf (JObj vs)" and "json_wf (JObj ws)" and "json_sort (JObj vs) = json_sort (JObj ws)"
    and "sanitize_values ws = Inr clean"
  shows "sanitize_values vs = Inr clean"
proof -
  have d: "json_dumps (JObj vs) = json_dumps (JObj ws)" by (rule json_dumps_cong [OF assms(3)])
  have "fst ` set kvs' = fst ` set kvs" if "json_sort (JObj kvs) = JObj kvs'" for kvs kvs'
    using that by force
  then have "set (map fst vs) = set (map fst ws)" using assms(3) by (metis json_sort.simps(2) list.set_map)
  then have "filter (\<lambda>k. k \<notin> set allowed_values) (map fst vs) = []"
    using sanitize_values_accepts(1) [OF assms(2,4)] by (auto simp: filter_empty_conv)
  with assms(4) d show ?thesis unfolding sanitize_values_def Let_def by (auto split: if_splits)
qed

text \<open>C13. The values of an accepted release reach the agent as they are stored: the text the dispatched request
  carries parses back to exactly the snapshot kept in the row, escapes and nesting included; the digest that
  identifies the release is the digest of that very text; starting the release again with the stored snapshot, or
  with the same values in any other order of keys at any depth, gives the same inputs, digest included; and
  accepted values whose texts are equal have the same snapshot.\<close>

theorem values_roundtrip:
  assumes "json_wf (JObj vals)" and "release_inputs sha img vals = Inr (clean, img', digest, compatibility)"
  shows "json_loads (kq_values_json (dispatch_request target release img' clean compatibility)) = Some (JObj clean)
    \<and> digest = sha (kq_values_json (dispatch_request target release img' clean compatibility))
    \<and> release_inputs sha img clean = Inr (clean, img', digest, compatibility)
    \<and> (\<forall>vs. json_wf (JObj vs) \<and> json_sort (JObj vs) = json_sort (JObj vals) \<longrightarrow>
        release_inputs sha img vs = Inr (clean, img', digest, compatibility))
    \<and> (\<forall>vs sent. json_wf (JObj vs) \<and> sanitize_values vs = Inr sent
        \<and> kq_values_json (dispatch_request target release img' sent compatibility)
          = kq_values_json (dispatch_request target release img' clean compatibility) \<longrightarrow> sent = clean)"
proof -
  have s: "sanitize_values vals = Inr clean" and digest: "digest = sha (json_dumps (JObj clean))"
    using assms(2) by (auto simp: release_inputs_def inputs_of_def values_digest_def Let_def res_simps split: if_splits)
  note clean = sanitize_values_accepts(2) [OF assms(1) s]
  have wf: "json_wf (JObj clean)" using json_sort_wf [OF assms(1)] clean by simp
  have sorted: "json_sort (JObj clean) = JObj clean" using clean json_sort_idem by metis
  have same: "release_inputs sha img vs = Inr (clean, img', digest, compatibility)"
    if "json_wf (JObj vs)" "json_sort (JObj vs) = json_sort (JObj vals)" for vs
    using sanitize_values_cong [OF that(1) assms(1) that(2) s] s assms(2) by (simp add: release_inputs_def)
  have inj: "sent = clean" if v: "json_wf (JObj vs)" "sanitize_values vs = Inr sent"
    and e: "json_dumps (JObj sent) = json_dumps (JObj clean)" for vs sent
  proof -
    note sent = sanitize_values_accepts(2) [OF v]
    have "json_wf (JObj sent)" using json_sort_wf [OF v(1)] sent by simp
    from json_dumps_inj [OF this wf e] sorted sent json_sort_idem have "JObj sent = JObj clean" by metis
    then show ?thesis by simp
  qed
  have "json_loads (json_dumps (JObj clean)) = Some (JObj clean)" using json_loads_dumps [OF wf] sorted by simp
  moreover have "release_inputs sha img clean = Inr (clean, img', digest, compatibility)"
    using same [OF wf] sorted clean by simp
  ultimately show ?thesis using digest same inj by (auto simp: dispatch_request_def)
qed

theorem values_roundtrip_witness:
  "json_loads (kq_values_json (dispatch_request shop_target (busy_release (\<lambda>s. s)) shop_image shop_clean ''safe'')) = Some (JObj shop_clean)
   \<and> release_inputs (\<lambda>s. s) shop_image shop_clean = Inr (shop_clean, shop_image, values_digest (\<lambda>s. s) shop_clean, ''safe'')"
  using values_roundtrip [OF shop_values_wf shop_inputs [of "\<lambda>s. s"], of shop_target "busy_release (\<lambda>s. s)"] by blast

text \<open>C14. Helm values are accepted only with the eight known keys, and only when no key and no string value at
  any depth is, in any letter case, \<open>password\<close>, \<open>token\<close>, \<open>secretkey\<close> or \<open>access_key\<close>; what is stored and
  sent are the same values with their keys in order.\<close>

theorem sanitize_values_sound:
  assumes "json_wf (JObj values)" and "sanitize_values values = Inr clean"
  shows "set (map fst values) \<subseteq> set allowed_values \<and> JObj clean = json_sort (JObj values)
    \<and> (\<forall>s \<in> json_strings (JObj values). lower s \<notin> {''password'', ''token'', ''secretkey'', ''access_key''})"
  using sanitize_values_accepts [OF assms] by (simp add: secret_names_def)

theorem sanitize_values_sound_witness: "JObj shop_clean = json_sort (JObj shop_values)"
  using sanitize_values_sound [OF shop_values_wf shop_sanitized] by blast

text \<open>C15. Whatever requests interleave (starts, results, cancellations), a target never has two live releases
  (active, or failed in a way that is to be recovered) of the same image, chart and values.\<close>

theorem one_live_release:
  assumes "newest_releases ordr" and "releases_wf t" and "live_unique t"
    and "r \<in> set (rt_rows (fold (k_step ordr) es t))" and "r' \<in> set (rt_rows (fold (k_step ordr) es t))"
    and "rel_live r" and "rel_live r'"
    and "same_release (kr_target r) (kr_image r) (kr_chart_version r) (kr_values_digest r) r'"
  shows "r = r'"
proof -
  have u: "live_unique (fold (k_step ordr) es t)" using k_run_live_unique [OF assms(1-3)] by blast
  have s: "same_release (kr_target r) (kr_image r) (kr_chart_version r) (kr_values_digest r) r" by (simp add: same_release_def)
  from live_unique_first [OF assms(1) u assms(4) s assms(6)] live_unique_first [OF assms(1) u assms(5,8,7)]
  show ?thesis by simp
qed

theorem one_live_release_witness:
  "hd (rt_rows (fold (k_step newest_rel) [Open shop_target 9 ''a1'' ''i'' ''c'' ''d'' [] ''unknown'' 5,
       Open shop_target 8 ''a2'' ''i'' ''c'' ''d'' [] ''unknown'' 6] empty_releases))
   = last (rt_rows (fold (k_step newest_rel) [Open shop_target 9 ''a1'' ''i'' ''c'' ''d'' [] ''unknown'' 5,
       Open shop_target 8 ''a2'' ''i'' ''c'' ''d'' [] ''unknown'' 6] empty_releases))" (is "hd (rt_rows ?t) = _")
proof (rule one_live_release [OF newest_rel_law conjunct1 [OF empty_releases_ok] conjunct2 [OF empty_releases_ok]])
  have nil: "newest_rel [] = []" and one: "newest_rel [r] = [r]" for r by (simp_all add: newest_rel_def)
  have rows: "rt_rows ?t = [new_release 7 shop_target 9 ''a1'' ''i'' ''c'' ''d'' [] ''unknown'' None 5]"
    by (simp add: open_release_def first_row_def empty_releases_def nil one rel_live_def rel_active_def Let_def)
  show "hd (rt_rows ?t) \<in> set (rt_rows ?t)" "last (rt_rows ?t) \<in> set (rt_rows ?t)" "rel_live (hd (rt_rows ?t))"
    "rel_live (last (rt_rows ?t))"
    "same_release (kr_target (hd (rt_rows ?t))) (kr_image (hd (rt_rows ?t))) (kr_chart_version (hd (rt_rows ?t)))
       (kr_values_digest (hd (rt_rows ?t))) (last (rt_rows ?t))"
    unfolding rows by (simp_all add: rel_live_def rel_active_def) (simp_all add: new_release_def)
qed

text \<open>C16. A release that has settled for good (it is neither active nor to be recovered) keeps its row unchanged
  whatever requests follow.\<close>

theorem settled_release_final:
  assumes "newest_releases ordr" and "releases_wf t" and "rel_find t k = Some r" and "\<not> rel_live r"
  shows "rel_find (fold (k_step ordr) es t) k = Some r"
proof -
  have "rel_find (fold (k_step ordr) es t) k = Some r \<or> rel_find (fold (k_step ordr) es t) k = None"
    using releases.final_run [of "(ordr, t)" k r es] assms by (simp add: kdb_run)
  moreover have "rel_find (fold (k_step ordr) es t) k \<noteq> None"
    using assms
  proof (induction es arbitrary: t)
    case (Cons e es)
    from k_step_final [OF Cons.prems] Cons.IH [OF Cons.prems(1) k_step_wf [OF Cons.prems(1,2)] _ Cons.prems(4)]
    show ?case by simp
  qed simp
  ultimately show ?thesis by auto
qed

definition done_release :: kubernetes_release_row where
  "done_release = (new_release 7 shop_target 9 ''a1'' ''i'' ''c'' ''d'' [] ''unknown'' None 5)\<lparr>kr_status := KSUCCEEDED\<rparr>"

definition done_table :: release_table where
  "done_table = \<lparr>rt_rows = [done_release], rt_next = 8\<rparr>"

lemma done_table_facts: "releases_wf done_table" "rel_find done_table 7 = Some done_release" "\<not> rel_live done_release"
  by (simp_all add: releases_wf_def done_table_def done_release_def rel_find_def rel_live_def rel_active_def rel_recoverable_def)

theorem settled_release_final_witness:
  "rel_find (fold (k_step newest_rel) [CancelSettle 7 True, Open shop_target 9 ''a2'' ''i'' ''c'' ''d'' [] ''unknown'' 6] done_table) 7
     = Some done_release"
  by (rule settled_release_final [OF newest_rel_law done_table_facts])


text \<open>C17. Asking for a release that is already under way starts nothing: no row is created or changed, the backend is
  not asked, and the answer is the release under way.\<close>

theorem start_release_dedup:
  assumes "newest_releases ordr" and "live_unique t" and "release_inputs sha img vals = Inr (clean, img', digest, compatibility)"
    and "r \<in> set (rt_rows t)" and "same_release (kt_pk target) img' chart digest r" and "rel_active (kr_status r)"
  shows "start_release be sha ordr target user uid img vals chart now t = (t, Inr (kr_pk r))"
proof -
  have "first_row ordr (\<lambda>r. same_release (kt_pk target) img' chart digest r \<and> rel_live r) t = Some r"
    by (rule live_unique_first [OF assms(1,2,4,5) active_live [OF assms(6)]])
  with assms(3,6) show ?thesis by (simp add: start_release_def run_release_def open_release_def)
qed

definition busy_table :: "(string \<Rightarrow> string) \<Rightarrow> release_table" where
  "busy_table sha = \<lparr>rt_rows = [busy_release sha], rt_next = 8\<rparr>"

theorem start_release_dedup_witness:
  "start_release down_backend (\<lambda>s. s) newest_rel shop_target 9 ''a2'' shop_image shop_values ''0.1.0'' 6 (busy_table (\<lambda>s. s)) =
     (busy_table (\<lambda>s. s), Inr 7)"
proof -
  have "live_unique (busy_table (\<lambda>s. s))" by (simp add: live_unique_def busy_table_def)
  from start_release_dedup [OF newest_rel_law this shop_inputs, of "busy_release (\<lambda>s. s)" shop_target "''0.1.0''"]
  show ?thesis by (simp add: busy_table_def busy_release_def rel_active_def)
qed

text \<open>C18. Starting a release that is not under way: one row is created and dispatched; it ends with the status the agent's
  answer names (any other status is a failure), or, when the agent could not be asked
  (\<open>RuntimeError\<close>), as a recoverable failure, and then asking again dispatches the same row under the
  same operation id.\<close>

theorem start_release_outcome:
  assumes "newest_releases ordr" and "releases_wf t" and "live_unique t"
    and "release_inputs sha img vals = Inr (clean, img', digest, compatibility)"
    and "filter (\<lambda>r. same_release (kt_pk target) img' chart digest r \<and> rel_live r) (rt_rows t) = []"
    and "start_release be sha ordr target user uid img vals chart now t = (t', Inr pk)"
  shows "pk = rt_next t \<and> (\<exists>release r. rel_find t' pk = Some r
    \<and> kr_operation_id release = ''k8s-'' @ uid
    \<and> (case kb_start be target (dispatch_request target release img' clean compatibility) of
         Inr k \<Rightarrow> kr_status r = terminal_status (ks_status k) \<and> kr_helm_revision r = ks_helm_revision k
       | Inl e \<Rightarrow> kr_status r = KFAILED \<and> kr_error_code r = ''AGENT_UNAVAILABLE''
           \<and> (\<exists>t'' again. open_release ordr target user' uid' img' chart digest clean compatibility now' t' = (t'', again, True)
                \<and> kr_pk again = pk \<and> kr_operation_id again = ''k8s-'' @ uid)))"
proof -
  obtain prev where o: "open_release ordr target user uid img' chart digest clean compatibility now t =
      (t\<lparr>rt_rows := rt_rows t @ [new_release (rt_next t) target user uid img' chart digest clean compatibility prev now],
         rt_next := Suc (rt_next t)\<rparr>,
       new_release (rt_next t) target user uid img' chart digest clean compatibility prev now, True)" (is "_ = (?t1, ?rel, True)")
  proof (cases rule: open_release_cases [OF assms(1), of target user uid img' chart digest clean compatibility now t])
    case (3 prev)
    then show ?thesis using that by blast
  qed (use assms(5) in \<open>auto simp: filter_empty_conv rel_live_def\<close>)
  have op: "kr_operation_id ?rel = ''k8s-'' @ uid" by (simp add: new_release_def)
  have found: "rel_find ?t1 (rt_next t) = Some ?rel" using assms(2) by (simp add: rel_find_append)
  have ok1: "releases_wf ?t1" "live_unique ?t1"
    using k_step_wf [OF assms(1,2), of "Open target user uid img' chart digest clean compatibility now"]
      k_step_live_unique [OF assms(1-3), of "Open target user uid img' chart digest clean compatibility now"] o by simp_all
  show ?thesis
  proof (cases "kb_start be target (dispatch_request target ?rel img' clean compatibility)")
    case (Inr k)
    let ?done = "\<lambda>r. r\<lparr>kr_status := terminal_status (ks_status k), kr_helm_revision := ks_helm_revision k,
        kr_previous_helm_revision := (case ks_previous_revision k of None \<Rightarrow> kr_previous_helm_revision ?rel
            | Some n \<Rightarrow> if n = 0 then kr_previous_helm_revision ?rel else Some n),
        kr_rollback_status := take 32 (ks_rollback_status k), kr_error_code := take 48 (ks_error_code k)\<rparr>"
    from Inr assms(4,6) o have pk: "pk = rt_next t" and t': "t' = rel_update (rt_next t) rel_active ?done ?t1"
      by (auto simp: start_release_def run_release_def settle_release_def)
    have "rel_find t' pk = Some (?done ?rel)" using found unfolding t' pk by (simp add: rel_find_update rel_active_def)
    with Inr pk op show ?thesis by (intro conjI exI [of _ ?rel] exI [of _ "?done ?rel"]) simp_all
  next
    case (Inl e)
    let ?fail = "\<lambda>r. r\<lparr>kr_status := KFAILED, kr_error_code := ''AGENT_UNAVAILABLE''\<rparr>"
    from Inl assms(4,6) o have e: "is_RuntimeError e" and pk: "pk = rt_next t"
      and t': "t' = rel_update (rt_next t) rel_active ?fail ?t1"
      by (auto simp: start_release_def run_release_def settle_release_def split: if_splits)
    have f: "rel_find t' pk = Some (?fail ?rel)" using found unfolding t' pk by (simp add: rel_find_update rel_active_def)
    have "live_unique t'" unfolding t' by (rule live_unique_update [OF ok1(2)]) (simp_all add: active_live same_release_def)
    moreover have "?fail ?rel \<in> set (rt_rows t')" using rel_find_pk [OF f] by blast
    moreover have "same_release (kt_pk target) img' chart digest (?fail ?rel)" by (simp add: same_release_def new_release_def)
    moreover have "rel_live (?fail ?rel)" by (simp add: rel_live_def rel_recoverable_def recoverable_errors_def)
    ultimately have "first_row ordr (\<lambda>r. same_release (kt_pk target) img' chart digest r \<and> rel_live r) t' = Some (?fail ?rel)"
      by (rule live_unique_first [OF assms(1)])
    then have again: "\<exists>t'' again. open_release ordr target user' uid' img' chart digest clean compatibility now' t' = (t'', again, True)
        \<and> kr_pk again = pk \<and> kr_operation_id again = ''k8s-'' @ uid"
      by (simp add: open_release_def rel_active_def pk new_release_def)
    show ?thesis using Inl f pk op again by (intro conjI exI [of _ ?rel] exI [of _ "?fail ?rel"]) simp_all
  qed
qed

theorem start_release_outcome_witness:
  "\<exists>t' r. start_release down_backend (\<lambda>s. s) newest_rel shop_target 9 ''a1'' shop_image shop_values ''0.1.0'' 5 empty_releases = (t', Inr 7)
     \<and> rel_find t' 7 = Some r \<and> kr_status r = KFAILED"
proof -
  have none: "filter (\<lambda>r. same_release (kt_pk shop_target) shop_image ''0.1.0'' (values_digest (\<lambda>s. s) shop_clean) r \<and> rel_live r)
      (rt_rows empty_releases) = []" by (simp add: empty_releases_def)
  have nil: "newest_rel [] = []" by (simp add: newest_rel_def)
  have down: "kb_start down_backend tg q = Inl (RuntimeError ''kubernetes agent backend unavailable'')" for tg q
    by (simp add: down_backend_def runtime_kubernetes_def runtime_run_def)
  obtain t' where s: "start_release down_backend (\<lambda>s. s) newest_rel shop_target 9 ''a1'' shop_image shop_values ''0.1.0'' 5 empty_releases = (t', Inr 7)"
    by (simp add: start_release_def run_release_def shop_inputs open_release_def first_row_def settle_release_def down empty_releases_def nil Let_def)
  from start_release_outcome [OF newest_rel_law conjunct1 [OF empty_releases_ok] conjunct2 [OF empty_releases_ok] shop_inputs none s, where user' = 0 and uid' = "[]" and now' = 0] s down
  show ?thesis by (auto split: sum.splits)
qed


text \<open>The agent may roll a failed release back only when the values say \<open>migrationCompatibility: "safe"\<close>: for every
  accepted input the dispatched rollback policy is \<open>allow\<close> exactly then, and \<open>block-after-migration\<close> otherwise.\<close>

theorem rollback_allowed_iff_safe:
  assumes "json_wf (JObj vals)" and "release_inputs sha img vals = Inr (clean, img', digest, compatibility)"
  shows "kq_rollback_policy (dispatch_request target release img' clean compatibility) =
    (if dget clean ''migrationCompatibility'' = Some (JStr ''safe'') then ''allow'' else ''block-after-migration'')"
proof -
  have s: "sanitize_values vals = Inr clean" and c: "compatibility = compatibility_of clean"
    using assms(2) by (auto simp: release_inputs_def inputs_of_def Let_def res_simps split: if_splits)
  have "json_wf (JObj clean)" using sanitize_values_accepts(2) [OF assms(1) s] json_sort_wf [OF assms(1)] by simp
  then have member: "json_wf v" if "dget clean k = Some v" for k v using map_of_SomeD [OF that] by auto
  have "py_str v = ''safe'' \<longleftrightarrow> v = JStr ''safe''" if "json_wf v" for v
  proof (cases v)
    case (JInt n)
    then show ?thesis using int_str_start [of n] by (auto simp: is_digit_def in_range_def)
  next
    case (JFloat t)
    with that show ?thesis by (auto simp: number_text_def is_digit_def in_range_def)
  qed simp_all
  then have "compatibility = ''safe'' \<longleftrightarrow> dget clean ''migrationCompatibility'' = Some (JStr ''safe'')"
    using member unfolding c compatibility_of_def by (auto split: option.splits)
  then show ?thesis by (simp add: dispatch_request_def)
qed

theorem rollback_allowed_iff_safe_witness:
  "kq_rollback_policy (dispatch_request shop_target (busy_release (\<lambda>s. s)) shop_image shop_clean ''safe'') = ''allow''"
  using rollback_allowed_iff_safe [OF shop_values_wf shop_inputs, where target = shop_target and release = "busy_release (\<lambda>s. s)"] by (simp add: shop_clean_def)

text \<open>When the target's agent is not connected, starting a release raises \<open>LookupError\<close> out of the service, which no
  handler of it expects, and leaves the new row active: asking again, through whatever backend and even when
  the agent is back, only returns that row and dispatches nothing.\<close>

theorem offline_agent_strands_release:
  assumes "newest_releases ordr" and "releases_wf t" and "live_unique t"
    and "release_inputs sha img vals = Inr (clean, img', digest, compatibility)"
    and "filter (\<lambda>r. same_release (kt_pk target) img' chart digest r \<and> rel_live r) (rt_rows t) = []"
    and "\<not> is_connected (ar_agent_id (kt_agent target)) g"
    and "fullmatch ID_RE (''k8s-'' @ uid)" and "''k8s-'' @ uid \<notin> set (dkeys (gw_jobs g))"
  shows "\<exists>t1. start_release (runtime_kubernetes (Some g) events u) sha ordr target user uid img vals chart now t =
      (t1, Inl (LookupError ''agent is not connected''))
    \<and> map_option kr_status (rel_find t1 (rt_next t)) = Some KVALIDATING
    \<and> start_release be sha ordr target user' uid' img vals chart now' t1 = (t1, Inr (rt_next t))"
proof -
  let ?rel = "\<lambda>prev. new_release (rt_next t) target user uid img' chart digest clean compatibility prev now"
  let ?t1 = "\<lambda>prev. t\<lparr>rt_rows := rt_rows t @ [?rel prev], rt_next := Suc (rt_next t)\<rparr>"
  obtain prev where o: "open_release ordr target user uid img' chart digest clean compatibility now t = (?t1 prev, ?rel prev, True)"
  proof (cases rule: open_release_cases [OF assms(1), of target user uid img' chart digest clean compatibility now t])
    case (3 prev)
    then show ?thesis using that by blast
  qed (use assms(5) in \<open>auto simp: filter_empty_conv rel_live_def\<close>)
  have "open_job (ar_agent_id (kt_agent target)) (''k8s-'' @ uid) ''kubernetes'' True g = Inl (LookupError ''agent is not connected'')"
    using assms(7,8) disconnected_session [OF assms(6)] by (simp add: open_job_def validate_job_id_def)
  then have "kb_start (runtime_kubernetes (Some g) events u) target (dispatch_request target (?rel prev) img' clean compatibility)
      = Inl (LookupError ''agent is not connected'')"
    by (simp add: runtime_kubernetes_def runtime_run_def gateway_stream_def kubernetes_release_def gateway_request_def
        dispatch_request_def new_release_def collect_def)
  then have "start_release (runtime_kubernetes (Some g) events u) sha ordr target user uid img vals chart now t =
      (?t1 prev, Inl (LookupError ''agent is not connected''))"
    using assms(4) o by (simp add: start_release_def run_release_def settle_release_def)
  moreover have "map_option kr_status (rel_find (?t1 prev) (rt_next t)) = Some KVALIDATING"
    using assms(2) by (simp add: rel_find_append)
  moreover have "start_release be sha ordr target user' uid' img vals chart now' (?t1 prev) = (?t1 prev, Inr (rt_next t))"
  proof -
    have "live_unique (?t1 prev)"
      using k_step_live_unique [OF assms(1-3), of "Open target user uid img' chart digest clean compatibility now"] o by simp
    from live_unique_first [OF assms(1) this, of "?rel prev" "kt_pk target" img' chart digest]
    have "first_row ordr (\<lambda>r. same_release (kt_pk target) img' chart digest r \<and> rel_live r) (?t1 prev) = Some (?rel prev)"
      by (simp add: active_live rel_active_def)
    with assms(4) show ?thesis by (simp add: start_release_def run_release_def open_release_def rel_active_def)
  qed
  ultimately show ?thesis by blast
qed

theorem offline_agent_strands_release_witness:
  "\<exists>t1. start_release (runtime_kubernetes (Some demo_gw) (\<lambda>_ _. ([], Exhausted)) ''v'') (\<lambda>s. s) newest_rel shop_target 9 ''a1'' shop_image shop_values ''0.1.0'' 5 empty_releases =
      (t1, Inl (LookupError ''agent is not connected''))
    \<and> start_release (runtime_kubernetes (Some demo_gw1) (\<lambda>_ _. ([], Exhausted)) ''v'') (\<lambda>s. s) newest_rel shop_target 9 ''a2'' shop_image shop_values ''0.1.0'' 6 t1 = (t1, Inr 7)"
proof -
  have none: "filter (\<lambda>r. same_release (kt_pk shop_target) shop_image ''0.1.0'' (values_digest (\<lambda>s. s) shop_clean) r \<and> rel_live r)
      (rt_rows empty_releases) = []" by (simp add: empty_releases_def)
  from offline_agent_strands_release [OF newest_rel_law conjunct1 [OF empty_releases_ok] conjunct2 [OF empty_releases_ok] shop_inputs none,
      of demo_gw "''a1''" "\<lambda>_ _. ([], Exhausted)" "''v''"]
  show ?thesis by (fastforce simp: demo_defs is_connected_def eval_id empty_releases_def)
qed


section \<open>Targets\<close>

definition target_identity :: "kubernetes_target \<Rightarrow> string \<times> string \<times> string" where
  "target_identity r = (kt_api_server r, kt_namespace r, kt_release_name r)"

definition target_ok :: "kubernetes_target \<Rightarrow> bool" where
  "target_ok r \<longleftrightarrow> pr_id (ar_project (kt_agent r)) = kt_project r
     \<and> length (kt_name r) \<le> 80
     \<and> validate_name False (kt_namespace r) = Inr (kt_namespace r)
     \<and> validate_name True (kt_release_name r) = Inr (kt_release_name r)
     \<and> fullmatch CREDENTIAL_REF (kt_credential_ref r)"

definition targets_ok :: "target_table \<Rightarrow> bool" where
  "targets_ok t \<longleftrightarrow> distinct (map target_identity (tt_rows t)) \<and> distinct (map kt_pk (tt_rows t))
     \<and> (\<forall>r \<in> set (tt_rows t). kt_pk r < tt_next t \<and> target_ok r)"

lemma validate_name_idem: "validate_name b s = Inr v \<Longrightarrow> validate_name b v = Inr v"
proof -
  assume v: "validate_name b s = Inr v"
  then have "v \<noteq> []" "is_label_end (hd v)" "is_label_end (last v)" unfolding validate_name_iff by blast+
  moreover have "is_label_end c \<Longrightarrow> \<not> is_space c" for c by (auto simp: is_label_end_def char_class_defs)
  ultimately have "\<not> is_space (hd v)" "\<not> is_space (last v)" by blast+
  with \<open>v \<noteq> []\<close> have "strip v = v" by (cases v) (simp_all add: strip_def lstrip_by_def rstrip_by_id)
  with v show ?thesis unfolding validate_name_iff by metis
qed

lemma create_target_ok:
  assumes "create_target ip_ok project agent name api namespace release cred ing tls t = Inr r"
  shows "target_ok r \<and> kt_pk r = tt_next t \<and> kt_project r = pr_id project \<and> kt_validated_at r = None
    \<and> target_identity r \<notin> target_identity ` set (tt_rows t)
    \<and> validate_api_server ip_ok api = Inr (kt_api_server r)"
proof -
  from assms obtain api' ns rel where a: "validate_api_server ip_ok api = Inr api'"
    and n: "validate_name False namespace = Inr ns" and l: "validate_name True release = Inr rel"
    and fresh: "\<not> list_ex (same_identity api' ns rel) (tt_rows t)"
    and r: "kt_api_server r = api'" "kt_namespace r = ns" "kt_release_name r = rel" "kt_pk r = tt_next t"
      "kt_project r = pr_id project" "kt_validated_at r = None" "length (kt_name r) \<le> 80"
      "pr_id (ar_project (kt_agent r)) = pr_id project" "fullmatch CREDENTIAL_REF (kt_credential_ref r)"
    by (auto simp: create_target_def res_simps validate_credential_ref_def split: if_splits)
  have "target_identity r \<notin> target_identity ` set (tt_rows t)"
    using fresh r(1-3) by (auto simp: target_identity_def list_ex_iff same_identity_def)
  with a r validate_name_idem [OF n] validate_name_idem [OF l] show ?thesis by (simp add: target_ok_def)
qed

lemma insert_target_ok:
  "targets_ok t \<Longrightarrow> target_ok r \<Longrightarrow> kt_pk r = tt_next t \<Longrightarrow> target_identity r \<notin> target_identity ` set (tt_rows t) \<Longrightarrow>
   targets_ok (insert_target r t)"
  by (auto simp: targets_ok_def insert_target_def less_Suc_eq)

lemma save_validation_rows:
  "map target_identity (tt_rows (save_validation pk v now t)) = map target_identity (tt_rows t)"
  "map kt_pk (tt_rows (save_validation pk v now t)) = map kt_pk (tt_rows t)"
  by (simp_all add: save_validation_def target_identity_def)

lemma save_validation_ok: "targets_ok t \<Longrightarrow> targets_ok (save_validation pk v now t)"
  unfolding targets_ok_def save_validation_rows by (auto simp: save_validation_def target_ok_def)

lemma delete_target_ok: "targets_ok t \<Longrightarrow> targets_ok (delete_target pk t)"
  by (auto simp: targets_ok_def delete_target_def distinct_map inj_on_def)

lemma delete_inserted: "targets_ok t \<Longrightarrow> kt_pk r = tt_next t \<Longrightarrow> tt_rows (delete_target (tt_next t) (insert_target r t)) = tt_rows t"
  by (auto simp: targets_ok_def delete_target_def insert_target_def filter_id_conv)

text \<open>C19. Registering a target keeps the table of targets in order, whatever its inputs and the cluster's answer: no
  two targets share API server, namespace and release name, every target's agent belongs to its project,
  and names are valid. A registered target was validated; a failed validation leaves no row behind.\<close>

theorem register_target_sound:
  assumes "targets_ok t"
    and "register_target be ip_ok now project agent name api namespace release cred ing tls t = (t', res)"
  shows "targets_ok t'
    \<and> (\<forall>pk. res = Inr pk \<longrightarrow> (\<exists>r \<in> set (tt_rows t'). kt_pk r = pk \<and> kt_project r = pr_id project \<and> kt_validated_at r = Some now))
    \<and> (\<forall>r v. create_target ip_ok project agent name api namespace release cred ing tls t = Inr r \<longrightarrow>
         kb_validate be r = Inr v \<longrightarrow> \<not> tv_valid v \<longrightarrow>
         tt_rows t' = tt_rows t \<and> res = Inl (ValueError ''cluster validation failed''))"
proof (cases "create_target ip_ok project agent name api namespace release cred ing tls t")
  case (Inl e)
  with assms show ?thesis by (auto simp: register_target_def)
next
  case (Inr r)
  note created = Inr and r = create_target_ok [OF Inr]
  then have ins: "targets_ok (insert_target r t)" using insert_target_ok [OF assms(1)] by blast
  show ?thesis
  proof (cases "kb_validate be r")
    case (Inl e)
    with assms(2) Inr ins show ?thesis by (auto simp: register_target_def)
  next
    case (Inr v')
    show ?thesis
    proof (cases "tv_valid v'")
      case False
      with assms Inr created r delete_target_ok [OF ins] delete_inserted [OF assms(1)] show ?thesis
        by (auto simp: register_target_def)
    next
      case True
      with assms(2) Inr created have
        "t' = save_validation (kt_pk r) v' now (insert_target r t)" "res = Inr (kt_pk r)" by (auto simp: register_target_def)
      moreover have "\<exists>q \<in> set (tt_rows (save_validation (kt_pk r) v' now (insert_target r t))).
          kt_pk q = kt_pk r \<and> kt_project q = pr_id project \<and> kt_validated_at q = Some now"
        using r by (simp add: save_validation_def insert_target_def)
      ultimately show ?thesis using save_validation_ok [OF ins] created Inr True by auto
    qed
  qed
qed

definition no_targets :: target_table where
  "no_targets = \<lparr>tt_rows = [], tt_next = 0\<rparr>"

theorem register_target_sound_witness:
  "targets_ok (fst (register_target down_backend (\<lambda>_. False) 60 shop_project shop_agent ''prod'' ''https://k8s.example'' ''web'' ''shop''
     ''vault:k8s/prod'' [] [] no_targets))"
  by (rule conjunct1 [OF register_target_sound [OF _ surjective_pairing]]) (simp add: targets_ok_def no_targets_def)


text \<open>When the cluster check of a new target raises (the agent cannot be asked), the unvalidated row stays: every
  later registration of that identity, by whatever project, is refused although no target was ever registered.\<close>

theorem failed_check_leaves_target:
  assumes "targets_ok t"
    and "create_target ip_ok project agent name api namespace release cred ing tls t = Inr r"
    and "kb_validate be r = Inl e"
    and "register_target be ip_ok now project agent name api namespace release cred ing tls t = (t', res)"
  shows "res = Inl e \<and> r \<in> set (tt_rows t') \<and> kt_validated_at r = None
    \<and> (\<exists>e'. register_target be' ip_ok now' project' agent' name' api namespace release cred' ing' tls' t' = (t', Inl e'))"
proof -
  have t': "t' = insert_target r t" "res = Inl e" using assms(2-4) by (simp_all add: register_target_def)
  have "\<exists>e'. create_target ip_ok project' agent' name' api namespace release cred' ing' tls' t' = Inl e'"
  proof (cases "create_target ip_ok project' agent' name' api namespace release cred' ing' tls' t'")
    case (Inr r')
    have "target_identity r' = target_identity r"
      using Inr assms(2) by (auto simp: create_target_def res_simps target_identity_def)
    moreover have "r \<in> set (tt_rows t')" by (simp add: t' insert_target_def)
    ultimately show ?thesis using create_target_ok [OF Inr] by blast
  qed blast
  then show ?thesis using t' create_target_ok [OF assms(2)] by (auto simp: register_target_def insert_target_def)
qed

lemma api_example: "validate_api_server (\<lambda>_. False) ''https://k8s.example'' = Inr ''https://k8s.example''"
  by code_simp

lemma shop_labels: "validate_name False ''web'' = Inr ''web''" "validate_name True ''shop'' = Inr ''shop''"
  unfolding validate_name_iff
  by (simp_all add: strip_def lstrip_by_def rstrip_by_def is_label_char_def is_label_end_def char_class_defs)

lemma shop_credential: "fullmatch CREDENTIAL_REF ''vault:k8s/prod''"
  by code_simp

theorem failed_check_leaves_target_witness:
  "\<exists>t' e'. register_target down_backend (\<lambda>_. False) 60 shop_project shop_agent ''prod'' ''https://k8s.example'' ''web'' ''shop''
       ''vault:k8s/prod'' [] [] no_targets = (t', Inl (RuntimeError ''kubernetes agent backend unavailable''))
     \<and> register_target down_backend (\<lambda>_. False) 61 shop_project shop_agent ''prod'' ''https://k8s.example'' ''web'' ''shop''
       ''vault:k8s/prod'' [] [] t' = (t', Inl e')"
proof -
  obtain r where c: "create_target (\<lambda>_. False) shop_project shop_agent ''prod'' ''https://k8s.example'' ''web'' ''shop''
      ''vault:k8s/prod'' [] [] no_targets = Inr r"
    by (simp add: create_target_def api_example shop_labels shop_credential validate_credential_ref_def optional_name_def
        no_targets_def shop_agent_def)
  have down: "kb_validate down_backend r = Inl (RuntimeError ''kubernetes agent backend unavailable'')"
    by (simp add: down_backend_def runtime_kubernetes_def runtime_validate_def runtime_run_def)
  obtain t' where t': "register_target down_backend (\<lambda>_. False) 60 shop_project shop_agent ''prod'' ''https://k8s.example'' ''web'' ''shop''
      ''vault:k8s/prod'' [] [] no_targets = (t', Inl (RuntimeError ''kubernetes agent backend unavailable''))"
    using c down by (simp add: register_target_def)
  have "targets_ok no_targets" by (simp add: targets_ok_def no_targets_def)
  from failed_check_leaves_target [OF this c down t', of down_backend 61 shop_project shop_agent "''prod''" "''vault:k8s/prod''" "[]" "[]"] t'
  show ?thesis by blast
qed

text \<open>The API server is stored as it was typed, so one cluster has many identities: a second project can register the same
  host, namespace and release in another spelling, past the check that the identity belongs to another project.\<close>

theorem api_server_spellings:
  "\<exists>u v. urlsplit (\<lambda>_. False) ''https://k8s.example'' = Inr u \<and> urlsplit (\<lambda>_. False) ''HTTPS://K8S.example'' = Inr v
     \<and> u_hostname u = u_hostname v \<and> u_scheme u = u_scheme v
     \<and> (\<exists>r r'. create_target (\<lambda>_. False) shop_project shop_agent ''prod'' ''https://k8s.example'' ''web'' ''shop'' ''vault:k8s/prod'' [] [] no_targets = Inr r
        \<and> create_target (\<lambda>_. False) (shop_project\<lparr>pr_id := 5\<rparr>) (shop_agent\<lparr>ar_project := shop_project\<lparr>pr_id := 5\<rparr>\<rparr>) ''x'' ''HTTPS://K8S.example''
            ''web'' ''shop'' ''vault:k8s/prod'' [] [] (insert_target r no_targets) = Inr r')"
proof -
  have other: "validate_api_server (\<lambda>_. False) ''HTTPS://K8S.example'' = Inr ''HTTPS://K8S.example''" by code_simp
  have same: "\<exists>u v. urlsplit (\<lambda>_. False) ''https://k8s.example'' = Inr u \<and> urlsplit (\<lambda>_. False) ''HTTPS://K8S.example'' = Inr v
     \<and> u_hostname u = u_hostname v \<and> u_scheme u = u_scheme v"
  proof (intro exI conjI)
    show "urlsplit (\<lambda>_. False) ''https://k8s.example'' = Inr \<lparr>u_scheme = ''https'', u_netloc = ''k8s.example'', u_path = [], u_query = [], u_fragment = []\<rparr>"
      by code_simp
    show "urlsplit (\<lambda>_. False) ''HTTPS://K8S.example'' = Inr \<lparr>u_scheme = ''https'', u_netloc = ''K8S.example'', u_path = [], u_query = [], u_fragment = []\<rparr>"
      by code_simp
  qed code_simp+
  show ?thesis using same
    by (simp add: create_target_def api_example other shop_labels shop_credential validate_credential_ref_def optional_name_def
        no_targets_def shop_agent_def insert_target_def same_identity_def)
qed

end
