(* ===== verification/GraphQL_Claims.thy ===== *)
theory GraphQL_Claims
  imports GraphQL Observability_Claims Kubernetes_Claims Diagnostics_Claims
begin

text \<open>
  The theorems on the GraphQL surface: a user's requests show and change rows of the user's own projects
  only, and the bounds on a query are those of the query with its fragments written out.
\<close>

section \<open>Scope of the mutations\<close>

datatype mutation =
    StartDiagnostic string string string
  | CancelDiagnostic string
  | RegisterTarget target_args
  | StartRelease string string "(string \<times> json) list"
  | CancelRelease string

record environment =
  ev_operations :: operations_backend
  ev_kubernetes :: kubernetes_backend
  ev_ip_ok :: "string \<Rightarrow> bool"
  ev_sha :: "string \<Rightarrow> string"
  ev_uid :: string
  ev_fresh :: string
  ev_now :: int
  ev_later :: int
  ev_ordr :: "diagnostic_operation list \<Rightarrow> diagnostic_operation list"
  ev_kordr :: "kubernetes_release_row list \<Rightarrow> kubernetes_release_row list"

fun mutate :: "environment \<Rightarrow> nat \<Rightarrow> mutation \<Rightarrow> control_db \<Rightarrow> control_db" where
  "mutate ev user (StartDiagnostic p a d) db =
     fst (resolve_start (ev_operations ev) (ev_ordr ev) (ev_uid ev) (ev_now ev) (ev_later ev) user p a d db)"
| "mutate ev user (CancelDiagnostic i) db = fst (resolve_cancel (ev_operations ev) user i db)"
| "mutate ev user (RegisterTarget a) db = fst (resolve_register (ev_kubernetes ev) (ev_ip_ok ev) (ev_now ev) user a db)"
| "mutate ev user (StartRelease tgt img raw) db =
     fst (resolve_start_release (ev_ip_ok ev) (ev_fresh ev) (ev_kubernetes ev) (ev_sha ev) (ev_kordr ev) (ev_uid ev) (ev_now ev) user tgt img raw db)"
| "mutate ev user (CancelRelease i) db = fst (resolve_cancel_release (ev_kubernetes ev) user i db)"

definition db_wf :: "control_db \<Rightarrow> bool" where
  "db_wf db \<longleftrightarrow> table_wf (db_operations db)
     \<and> distinct (map kt_pk (tt_rows (db_targets db))) \<and> (\<forall>r \<in> set (tt_rows (db_targets db)). kt_pk r < tt_next (db_targets db))
     \<and> distinct (map kr_pk (rt_rows (db_releases db))) \<and> (\<forall>r \<in> set (rt_rows (db_releases db)). kr_pk r < rt_next (db_releases db))
     \<and> (\<forall>r \<in> set (rt_rows (db_releases db)). \<forall>g \<in> set (tt_rows (db_targets db)). kr_target r = kt_pk g \<longrightarrow> kr_project r = kt_project g)"

text \<open>The rows of projects \<open>user\<close> is not a member of.\<close>

definition foreign_rows :: "control_db \<Rightarrow> nat \<Rightarrow> diagnostic_operation list \<times> kubernetes_target list \<times> kubernetes_release_row list" where
  "foreign_rows db user =
     (filter (\<lambda>r. \<not> is_member db user (op_project_id r)) (ot_rows (db_operations db)),
      filter (\<lambda>r. \<not> is_member db user (kt_project r)) (tt_rows (db_targets db)),
      filter (\<lambda>r. \<not> is_member db user (kr_project r)) (rt_rows (db_releases db)))"

lemma filter_map_other:
  "(\<And>r. r \<in> set rs \<Longrightarrow> P r \<Longrightarrow> \<not> Q r) \<Longrightarrow> (\<And>r. Q (f r) = Q r) \<Longrightarrow> filter Q (map (\<lambda>r. if P r then f r else r) rs) = filter Q rs"
  by (induction rs) auto

lemma unique_pk: "distinct (map k rs) \<Longrightarrow> r \<in> set rs \<Longrightarrow> s \<in> set rs \<Longrightarrow> k r = k s \<Longrightarrow> r = s"
  by (auto simp: distinct_map dest: inj_onD)

lemma op_update_other:
  assumes "\<And>r. r \<in> set (ot_rows t) \<Longrightarrow> op_pk r = pk \<Longrightarrow> \<not> Q (op_project_id r)" and "\<And>r. op_project_id (f r) = op_project_id r"
  shows "filter (\<lambda>r. Q (op_project_id r)) (ot_rows (op_update pk p f t)) = filter (\<lambda>r. Q (op_project_id r)) (ot_rows t)"
  unfolding op_update_def using assms
  by (simp, intro filter_map_other [where P = "\<lambda>r. op_pk r = pk \<and> p (op_status r)"]) auto

lemma trim_other:
  assumes "newest_first ordr" and "\<not> Q project_id" and "distinct (map op_pk (ot_rows t))"
  shows "filter (\<lambda>r. Q (op_project_id r)) (ot_rows (trim_history ordr project_id t)) = filter (\<lambda>r. Q (op_project_id r)) (ot_rows t)"
proof -
  let ?f = "filter (\<lambda>r. op_project_id r = project_id \<and> op_status r \<noteq> PENDING \<and> op_status r \<noteq> RUNNING) (ot_rows t)"
  have "mset (ordr ?f) = mset ?f" using assms(1) unfolding newest_first_def by blast
  then have "set (ordr ?f) = set ?f" by (rule mset_eq_setD)
  have "op_project_id r = project_id" if r: "r \<in> set (ot_rows t)" and stale: "op_pk r \<in> set (stale_pks ordr project_id t)" for r
  proof -
    from stale obtain q where "q \<in> set (ordr ?f)" "op_pk q = op_pk r"
      unfolding stale_pks_def by (auto dest!: in_set_dropD)
    with \<open>set (ordr ?f) = set ?f\<close> have q: "q \<in> set (ot_rows t)" "op_project_id q = project_id" by auto
    from unique_pk [OF assms(3) q(1) r] q(2) \<open>op_pk q = op_pk r\<close> show ?thesis by simp
  qed
  with assms(2) have "filter (\<lambda>r. op_pk r \<notin> set (stale_pks ordr project_id t) \<and> Q (op_project_id r)) (ot_rows t)
      = filter (\<lambda>r. Q (op_project_id r)) (ot_rows t)"
    by (intro filter_cong) blast+
  then show ?thesis by (simp add: trim_history_def conj_commute)
qed

lemma op_create_other:
  "\<not> Q (pr_id (ar_project agent)) \<Longrightarrow>
   filter (\<lambda>r. Q (op_project_id r)) (ot_rows (op_create uid agent user d now t)) = filter (\<lambda>r. Q (op_project_id r)) (ot_rows t)"
  by (simp add: op_create_def new_operation_def)

lemma start_other:
  assumes "newest_first ordr" and "table_wf t" and "\<not> Q (pr_id (ar_project agent))"
  shows "filter (\<lambda>r. Q (op_project_id r)) (ot_rows (fst (start_diagnostic be ordr uid agent user d now now' t)))
    = filter (\<lambda>r. Q (op_project_id r)) (ot_rows t)"
proof -
  let ?t1 = "op_create uid agent user d now t"
  have d: "distinct (map op_pk (ot_rows ?t1))" and pk: "\<And>r. r \<in> set (ot_rows ?t1) \<Longrightarrow> op_pk r = ot_next t \<Longrightarrow> \<not> Q (op_project_id r)"
    using assms(2,3) by (auto simp: table_wf_def op_create_def new_operation_def)
  have same: "map op_pk (ot_rows (op_save pk s c now' ?t1)) = map op_pk (ot_rows ?t1)" for pk s c
    by (simp add: op_save_def op_update_def)
  have "filter (\<lambda>r. Q (op_project_id r)) (ot_rows (op_save (ot_next t) s c now' ?t1)) = filter (\<lambda>r. Q (op_project_id r)) (ot_rows ?t1)" for s c
    unfolding op_save_def by (rule op_update_other) (use pk in auto)
  moreover have "distinct (map op_pk (ot_rows (op_save (ot_next t) s c now' ?t1)))" for s c
    unfolding same by (rule d)
  note trim_other [where Q = Q, OF assms(1,3) d] trim_other [where Q = Q, OF assms(1,3) this]
  ultimately show ?thesis
    using op_create_other [where Q = Q, OF assms(3)]
    by (auto simp: start_diagnostic_def Let_def split: sum.splits option.splits)
qed

lemma cancel_other:
  assumes "table_wf t" and "r \<in> set (ot_rows t)" and "\<not> Q (op_project_id r)"
  shows "filter (\<lambda>r. Q (op_project_id r)) (ot_rows (fst (cancel_diagnostic be (op_pk r) t))) = filter (\<lambda>r. Q (op_project_id r)) (ot_rows t)"
proof -
  have "filter (\<lambda>r. Q (op_project_id r)) (ot_rows (save_error (op_pk r) s c t)) = filter (\<lambda>r. Q (op_project_id r)) (ot_rows t)" for s c
    unfolding save_error_def
  proof (rule op_update_other)
    fix q assume q: "q \<in> set (ot_rows t)" "op_pk q = op_pk r"
    have "distinct (map op_pk (ot_rows t))" using assms(1) by (simp add: table_wf_def)
    from unique_pk [OF this q(1) assms(2) q(2)] have "q = r" .
    with assms(3) show "\<not> Q (op_project_id q)" by simp
  qed simp
  then show ?thesis
    by (auto simp: cancel_diagnostic_def Let_def split: option.splits sum.splits)
qed

lemma register_other:
  assumes "\<forall>r \<in> set (tt_rows t). kt_pk r < tt_next t" and "\<not> Q (pr_id p)"
  shows "filter (\<lambda>r. Q (kt_project r)) (tt_rows (fst (register_target be ip_ok now p agent n api ns rel cred ing tls t)))
    = filter (\<lambda>r. Q (kt_project r)) (tt_rows t)"
proof (cases "create_target ip_ok p agent n api ns rel cred ing tls t")
  case (Inl e)
  then show ?thesis by (simp add: register_target_def)
next
  case (Inr r)
  note r = create_target_ok [OF Inr]
  have ins: "filter (\<lambda>r. Q (kt_project r)) (tt_rows (insert_target r t)) = filter (\<lambda>r. Q (kt_project r)) (tt_rows t)"
    using r assms(2) by (simp add: insert_target_def)
  moreover have "filter (\<lambda>r. Q (kt_project r)) (tt_rows (delete_target (kt_pk r) (insert_target r t))) = filter (\<lambda>r. Q (kt_project r)) (tt_rows t)"
    using r assms by (auto simp: insert_target_def delete_target_def intro!: filter_cong)
  moreover have "filter (\<lambda>r. Q (kt_project r)) (tt_rows (save_validation (kt_pk r) v now (insert_target r t))) = filter (\<lambda>r. Q (kt_project r)) (tt_rows t)" for v
    unfolding ins [symmetric] save_validation_def
    by (simp, intro filter_map_other [where P = "\<lambda>q. kt_pk q = kt_pk r"])
      (use r assms in \<open>auto simp: insert_target_def\<close>)
  ultimately show ?thesis
    using Inr by (auto simp: register_target_def Let_def split: sum.splits)
qed

lemma rel_update_other:
  assumes "\<And>r. r \<in> set (rt_rows t) \<Longrightarrow> kr_pk r = pk \<Longrightarrow> \<not> Q (kr_project r)" and "\<And>r. kr_project (f r) = kr_project r"
  shows "filter (\<lambda>r. Q (kr_project r)) (rt_rows (rel_update pk p f t)) = filter (\<lambda>r. Q (kr_project r)) (rt_rows t)"
  unfolding rel_update_def using assms
  by (simp, intro filter_map_other [where P = "\<lambda>r. kr_pk r = pk \<and> p (kr_status r)"]) auto

lemma open_other:
  assumes "newest_releases ordr" and wf: "distinct (map kr_pk (rt_rows t))" "\<forall>r \<in> set (rt_rows t). kr_pk r < rt_next t"
    and own: "\<forall>r \<in> set (rt_rows t). kr_target r = kt_pk target \<longrightarrow> kr_project r = kt_project target"
    and "\<not> Q (kt_project target)"
    and "open_release ordr target user uid img chart digest vs compatibility now t = (t1, release, d)"
  shows "filter (\<lambda>r. Q (kr_project r)) (rt_rows t1) = filter (\<lambda>r. Q (kr_project r)) (rt_rows t)
    \<and> (\<forall>r \<in> set (rt_rows t1). kr_pk r = kr_pk release \<longrightarrow> \<not> Q (kr_project r))"
proof (cases "first_row ordr (\<lambda>r. same_release (kt_pk target) img chart digest r \<and> rel_live r) t")
  case None
  with assms(6) have "rt_rows t1 = rt_rows t @ [release]" "kr_pk release = rt_next t" "kr_project release = kt_project target"
    by (auto simp: open_release_def new_release_def Let_def)
  with wf(2) assms(5) show ?thesis by auto
next
  case (Some q)
  from first_row_mem [OF assms(1) Some] have q: "q \<in> set (rt_rows t)" "kr_target q = kt_pk target"
    by (auto simp: same_release_def)
  then have "\<not> Q (kr_project q)" using own assms(5) by simp
  then have pk: "\<not> Q (kr_project r)" if "r \<in> set (rt_rows t)" "kr_pk r = kr_pk q" for r
    using unique_pk [OF wf(1) that(1) q(1) that(2)] by simp
  have "filter (\<lambda>r. Q (kr_project r)) (rt_rows (rel_update (kr_pk q) (\<lambda>_. True) (\<lambda>r. r\<lparr>kr_status := KVALIDATING, kr_error_code := []\<rparr>) t))
      = filter (\<lambda>r. Q (kr_project r)) (rt_rows t)"
    by (rule rel_update_other) (use pk in auto)
  with Some assms(6) pk show ?thesis
    by (auto simp: open_release_def rel_update_def split: if_splits)
qed

lemma settle_other:
  assumes "\<forall>r \<in> set (rt_rows t). kr_pk r = kr_pk release \<longrightarrow> \<not> Q (kr_project r)" and "settle_release release result t = Inr t'"
  shows "filter (\<lambda>r. Q (kr_project r)) (rt_rows t') = filter (\<lambda>r. Q (kr_project r)) (rt_rows t)"
proof -
  from assms(2) obtain p f where "t' = rel_update (kr_pk release) p f t" "\<And>r. kr_project (f r) = kr_project r"
    by (auto simp: settle_release_def split: sum.splits if_splits)
  with assms(1) show ?thesis using rel_update_other by simp
qed

lemma release_other:
  assumes "newest_releases ordr" and "distinct (map kr_pk (rt_rows t))" "\<forall>r \<in> set (rt_rows t). kr_pk r < rt_next t"
    and "\<forall>r \<in> set (rt_rows t). kr_target r = kt_pk target \<longrightarrow> kr_project r = kt_project target"
    and "\<not> Q (kt_project target)"
  shows "filter (\<lambda>r. Q (kr_project r)) (rt_rows (fst (run_release be ordr target user uid inputs chart now t)))
    = filter (\<lambda>r. Q (kr_project r)) (rt_rows t)"
proof (cases inputs)
  case (Inr i)
  obtain clean img digest compatibility where i: "i = (clean, img, digest, compatibility)" by (cases i)
  obtain t1 release d where o: "open_release ordr target user uid img chart digest clean compatibility now t = (t1, release, d)"
    using prod_cases3 by blast
  note other = open_other [where Q = Q, OF assms o]
  show ?thesis
    using other settle_other [where Q = Q, of t1 release] by (auto simp: run_release_def Inr i o split: sum.splits)
qed (simp add: run_release_def)

lemma cancel_release_other:
  assumes "distinct (map kr_pk (rt_rows t))" and "r \<in> set (rt_rows t)" and "\<not> Q (kr_project r)"
  shows "filter (\<lambda>r. Q (kr_project r)) (rt_rows (fst (cancel_release be (kr_pk r) t))) = filter (\<lambda>r. Q (kr_project r)) (rt_rows t)"
proof -
  have "filter (\<lambda>r. Q (kr_project r)) (rt_rows (settle_cancel (kr_pk r) accepted t)) = filter (\<lambda>r. Q (kr_project r)) (rt_rows t)" for accepted
    unfolding settle_cancel_def
  proof (rule rel_update_other)
    fix q assume q: "q \<in> set (rt_rows t)" "kr_pk q = kr_pk r"
    from unique_pk [OF assms(1) q(1) assms(2) q(2)] have "q = r" .
    with assms(3) show "\<not> Q (kr_project q)" by simp
  qed simp
  then show ?thesis
    by (auto simp: cancel_release_def Let_def split: option.splits sum.splits)
qed

lemmas foreign_simps = foreign_rows_def is_member_def

lemma foreign_start:
  assumes "db_wf db" and "newest_first ordr"
  shows "foreign_rows (fst (resolve_start be ordr uid now now' user p a d db)) user = foreign_rows db user"
proof (cases "bindR (scoped_project db user p) (\<lambda>p. scoped_agent db p a)")
  case (Inr agent)
  then have "is_member db user (pr_id (ar_project agent))"
    by (auto simp: res_simps dest!: scoped_project_member scoped_agent_project)
  with Inr assms show ?thesis
    using start_other [where Q = "\<lambda>p. (user, p) \<notin> set (db_members db)", OF assms(2)]
    by (simp add: resolve_start_def foreign_simps split_beta db_wf_def)
qed (simp add: resolve_start_def)

lemma foreign_cancel:
  assumes "db_wf db"
  shows "foreign_rows (fst (resolve_cancel be user i db)) user = foreign_rows db user"
proof (cases "scoped_operation db user i")
  case (Inr r)
  with assms scoped_operation_member [OF Inr] show ?thesis
    using cancel_other [where Q = "\<lambda>p. (user, p) \<notin> set (db_members db)"]
    by (simp add: resolve_cancel_def foreign_simps split_beta db_wf_def)
qed (simp add: resolve_cancel_def)

lemma foreign_register:
  assumes "db_wf db"
  shows "foreign_rows (fst (resolve_register be ip_ok now user a db)) user = foreign_rows db user"
proof (cases "bindR (scoped_project db user (ta_project_id a)) (\<lambda>p. bindR (scoped_agent db p (ta_agent_id a)) (\<lambda>agent. Inr (p, agent)))")
  case (Inr pa)
  then obtain p agent where pa: "pa = (p, agent)" and "scoped_project db user (ta_project_id a) = Inr p"
    by (auto simp: res_simps)
  with Inr assms scoped_project_member [OF this(2)] show ?thesis
    using register_other [where Q = "\<lambda>p. (user, p) \<notin> set (db_members db)"]
    by (simp add: resolve_register_def foreign_simps split_beta db_wf_def)
qed (simp add: resolve_register_def)

lemma foreign_start_release:
  assumes "db_wf db" and "newest_releases kordr"
  shows "foreign_rows (fst (resolve_start_release ip_ok fresh be sha kordr uid now user tgt img raw db)) user = foreign_rows db user"
proof (cases "bindR (scoped_target db user tgt) (\<lambda>target.
      bindR (observed_release_values ip_ok raw (release_values raw)) (\<lambda>vs. Inr (target, vs)))")
  case (Inr tv)
  then obtain target vs where tv: "tv = (target, vs)" and t: "scoped_target db user tgt = Inr target"
    by (auto simp: res_simps)
  note m = scoped_target_member [OF t]
  then have "\<forall>r \<in> set (rt_rows (db_releases db)). kr_target r = kt_pk target \<longrightarrow> kr_project r = kt_project target"
    using assms(1) by (simp add: db_wf_def)
  with m Inr tv assms(1) show ?thesis
    using release_other [where Q = "\<lambda>p. (user, p) \<notin> set (db_members db)", OF assms(2)]
    by (simp add: resolve_start_release_def observed_start_release_def foreign_simps split_beta db_wf_def)
qed (simp add: resolve_start_release_def)

lemma foreign_cancel_release:
  assumes "db_wf db"
  shows "foreign_rows (fst (resolve_cancel_release be user i db)) user = foreign_rows db user"
proof (cases "scoped_release db user i")
  case (Inr r)
  with assms scoped_release_member [OF Inr] show ?thesis
    using cancel_release_other [where Q = "\<lambda>p. (user, p) \<notin> set (db_members db)"]
    by (simp add: resolve_cancel_release_def foreign_simps split_beta db_wf_def)
qed (simp add: resolve_cancel_release_def)

lemma queries_scoped:
  assumes "newest_first ordr" and "newest_releases kordr"
  shows "query_operations ordr db user i n = Inr ops \<Longrightarrow> length ops \<le> 50 \<and> list_all (\<lambda>r. is_member db user (op_project_id r)) ops"
    and "query_releases kordr db user i n = Inr rels \<Longrightarrow> length rels \<le> 50 \<and> list_all (\<lambda>r. is_member db user (kr_project r)) rels"
    and "query_targets db user i = Inr tgts \<Longrightarrow> list_all (\<lambda>r. is_member db user (kt_project r)) tgts"
    and "query_agents db user i = Inr agents \<Longrightarrow> list_all (\<lambda>a. is_member db user (pr_id (ar_project (snd a)))) agents"
proof -
  have "set (ordr rs) = set rs" for rs using assms(1) unfolding newest_first_def by (intro mset_eq_setD) blast
  moreover have "set (kordr rs) = set rs" for rs using assms(2) unfolding newest_releases_def by (intro mset_eq_setD) blast
  moreover have "page_size n \<le> 50" by (simp add: page_size_def)
  moreover note page = calculation
  show "query_operations ordr db user i n = Inr ops \<Longrightarrow> length ops \<le> 50 \<and> list_all (\<lambda>r. is_member db user (op_project_id r)) ops"
    "query_releases kordr db user i n = Inr rels \<Longrightarrow> length rels \<le> 50 \<and> list_all (\<lambda>r. is_member db user (kr_project r)) rels"
    using page by (auto simp: query_operations_def query_releases_def res_simps list_all_iff min_le_iff_disj
        dest!: scoped_project_member in_set_takeD)
  show "query_targets db user i = Inr tgts \<Longrightarrow> list_all (\<lambda>r. is_member db user (kt_project r)) tgts"
    "query_agents db user i = Inr agents \<Longrightarrow> list_all (\<lambda>a. is_member db user (pr_id (ar_project (snd a)))) agents"
    by (auto simp: query_targets_def query_agents_def project_agents_def res_simps list_all_iff dest!: scoped_project_member)
qed

text \<open>C24. A user's mutation, whatever its arguments and the answers of agents and clusters, leaves every row
  of the projects the user is not a member of as it is; and what the queries show are rows of projects
  the user is a member of, at most 50 of a list that is paged.\<close>

theorem requests_stay_in_projects:
  assumes "db_wf db" and "newest_first (ev_ordr ev)" and "newest_releases (ev_kordr ev)"
  shows "foreign_rows (mutate ev user m db) user = foreign_rows db user
    \<and> (\<forall>i n ops rels agents tgts.
        (query_operations (ev_ordr ev) db user i n = Inr ops \<longrightarrow> length ops \<le> 50 \<and> list_all (\<lambda>r. is_member db user (op_project_id r)) ops)
      \<and> (query_releases (ev_kordr ev) db user i n = Inr rels \<longrightarrow> length rels \<le> 50 \<and> list_all (\<lambda>r. is_member db user (kr_project r)) rels)
      \<and> (query_targets db user i = Inr tgts \<longrightarrow> list_all (\<lambda>r. is_member db user (kt_project r)) tgts)
      \<and> (query_agents db user i = Inr agents \<longrightarrow> list_all (\<lambda>a. is_member db user (pr_id (ar_project (snd a)))) agents))"
proof
  show "foreign_rows (mutate ev user m db) user = foreign_rows db user"
    using assms
    by (cases m) (simp_all add: foreign_start foreign_cancel foreign_register foreign_start_release foreign_cancel_release)
qed (use queries_scoped [OF assms(2,3)] in blast)

section \<open>Bounds on a query\<close>

text \<open>The reference: the query with its fragments written out (a spread inside its own fragment, or of a
  name without a definition, is left out), its depth and its number of fields.\<close>

function expand :: "(string, selection list) dict \<Rightarrow> string list \<Rightarrow> selection list \<Rightarrow> selection list" where
  "expand frs active [] = []"
| "expand frs active (FieldSel None # ss) = FieldSel None # expand frs active ss"
| "expand frs active (FieldSel (Some xs) # ss) = FieldSel (Some (expand frs active xs)) # expand frs active ss"
| "expand frs active (Spread n # ss) =
     (if n \<in> set active then []
      else case dget frs n of None \<Rightarrow> [] | Some xs \<Rightarrow> [InlineSel (expand frs (n # active) xs)]) @ expand frs active ss"
| "expand frs active (InlineSel xs # ss) = InlineSel (expand frs active xs) # expand frs active ss"
  by pat_completeness auto

termination
  by (relation "(\<lambda>(frs, active, _). names_left frs active) <*mlex*> measure (\<lambda>(_, _, sels). size_list size sels)")
    (auto intro: mlex_less mlex_leq simp: wf_mlex names_left_Cons)

fun tree_depth :: "nat \<Rightarrow> selection list \<Rightarrow> nat" where
  "tree_depth d [] = d"
| "tree_depth d (FieldSel None # ss) = tree_depth d ss"
| "tree_depth d (FieldSel (Some xs) # ss) = max (tree_depth (Suc d) xs) (tree_depth d ss)"
| "tree_depth d (Spread n # ss) = tree_depth d ss"
| "tree_depth d (InlineSel xs # ss) = max (tree_depth d xs) (tree_depth d ss)"

fun tree_fields :: "selection list \<Rightarrow> nat" where
  "tree_fields [] = 0"
| "tree_fields (FieldSel None # ss) = Suc (tree_fields ss)"
| "tree_fields (FieldSel (Some xs) # ss) = Suc (tree_fields xs + tree_fields ss)"
| "tree_fields (Spread n # ss) = tree_fields ss"
| "tree_fields (InlineSel xs # ss) = tree_fields xs + tree_fields ss"

lemma tree_depth_ge: "d \<le> tree_depth d sels"
  by (induction d sels rule: tree_depth.induct) auto

lemma enter_depth [simp]: "max d (tree_depth d sels) = tree_depth d sels" "max d (max (tree_depth d sels) n) = max (tree_depth d sels) n"
  using tree_depth_ge [of d sels] by (simp_all add: max.absorb2 max.assoc [symmetric])

lemma walk_items_eq:
  "depth \<le> fst st \<Longrightarrow> walk_items frs depth active sels st =
     (max (fst st) (tree_depth depth (expand frs active sels)), snd st + tree_fields (expand frs active sels))"
proof (induction frs depth active sels st rule: walk_items.induct)
  case (4 frs depth active n ss st)
  then show ?case
    by (cases "n \<in> set active"; cases "dget frs n") (auto simp: enter_def max_def dest: order_trans)
qed (auto simp: enter_def max.assoc)

lemma walk_eq:
  "walk frs depth active sels st =
     (max (fst st) (tree_depth depth (expand frs active sels)), snd st + tree_fields (expand frs active sels))"
  using tree_depth_ge [of depth] by (simp add: walk_def walk_items_eq enter_def max.assoc max_absorb2)

fun operations_of :: "doc_def list \<Rightarrow> selection list list" where
  "operations_of [] = []"
| "operations_of (OperationDef sels # ds) = sels # operations_of ds"
| "operations_of (_ # ds) = operations_of ds"

lemma walk_operations_eq:
  "walk_operations frs ds st =
     (foldl max (fst st) (map (\<lambda>sels. tree_depth 1 (expand frs [] sels)) (operations_of ds)),
      snd st + sum_list (map (\<lambda>sels. tree_fields (expand frs [] sels)) (operations_of ds)))"
  by (induction frs ds st rule: walk_operations.induct) (simp_all add: walk_eq)

lemma foldl_max_le: "foldl max (m::nat) xs \<le> n \<longleftrightarrow> m \<le> n \<and> (\<forall>x \<in> set xs. x \<le> n)"
  by (induction xs arbitrary: m) auto

text \<open>C25. The bounds on a query are those of the query with all its fragments written out: a document
  passes exactly when the expanded selections of every operation are at most the configured depth
  deep, hold together at most the configured number of fields, and, with introspection off, the text
  names neither \<open>__schema\<close> nor \<open>__type\<close>. Fragments that spread themselves do not keep the check from
  returning.\<close>

theorem query_bounds:
  "resource_error cfg document query = None \<longleftrightarrow>
     (let expanded = map (expand (fragments_of document []) []) (operations_of document)
      in list_all (\<lambda>sels. tree_depth 1 sels \<le> gs_max_depth cfg) expanded
       \<and> sum_list (map tree_fields expanded) \<le> gs_max_fields cfg
       \<and> (gs_introspection cfg \<or> \<not> substring_in ''__schema'' query \<and> \<not> substring_in ''__type'' query))"
proof -
  have "list_all (\<lambda>sels. tree_depth 1 sels \<le> n) (map f xs) \<longleftrightarrow> foldl max 0 (map (\<lambda>sels. tree_depth 1 (f sels)) xs) \<le> n" for f xs n
    unfolding foldl_max_le by (simp add: list_all_iff)
  then show ?thesis
    by (auto simp: resource_error_def walk_operations_eq Let_def o_def not_less split: if_splits)
qed

text \<open>Fragments, each of which spreads the one before it twice.\<close>

definition bomb_name :: "nat \<Rightarrow> string" where
  "bomb_name k = CHR ''f'' # replicate k CHR ''x''"

definition bomb_fragment :: "nat \<Rightarrow> doc_def" where
  "bomb_fragment k = FragmentDef (bomb_name k)
     (case k of 0 \<Rightarrow> [FieldSel None] | Suc j \<Rightarrow> [Spread (bomb_name j), Spread (bomb_name j)])"

definition bomb :: "nat \<Rightarrow> doc_def list" where
  "bomb n = OperationDef [Spread (bomb_name n)] # map bomb_fragment [0..<Suc n]"

fun doc_size :: "doc_def list \<Rightarrow> nat" where
  "doc_size [] = 0"
| "doc_size (OperationDef sels # ds) = Suc (length sels) + doc_size ds"
| "doc_size (FragmentDef _ sels # ds) = Suc (length sels) + doc_size ds"
| "doc_size (OtherDef # ds) = Suc (doc_size ds)"

lemma bomb_name_inj: "bomb_name i = bomb_name j \<longleftrightarrow> i = j"
  by (auto simp: bomb_name_def dest: arg_cong [of _ _ length])

lemma fragments_of_append: "fragments_of (xs @ ys) acc = fragments_of ys (fragments_of xs acc)"
  by (induction xs acc rule: fragments_of.induct) auto

lemma bomb_lookup:
  "dget (fragments_of (map bomb_fragment [0..<n]) []) (bomb_name k) =
     (if k < n then Some (case k of 0 \<Rightarrow> [FieldSel None] | Suc j \<Rightarrow> [Spread (bomb_name j), Spread (bomb_name j)]) else None)"
proof (induction n)
  case (Suc n)
  then show ?case by (auto simp: fragments_of_append bomb_fragment_def bomb_name_inj split: nat.splits)
qed simp

lemma bomb_fields:
  "k < n \<Longrightarrow> \<forall>j \<le> k. bomb_name j \<notin> set active \<Longrightarrow>
   tree_fields (expand (fragments_of (map bomb_fragment [0..<n]) []) active [Spread (bomb_name k)]) = 2 ^ k"
proof (induction k arbitrary: active)
  case 0
  then show ?case by (simp add: bomb_lookup)
next
  case (Suc k)
  have "\<forall>j \<le> k. bomb_name j \<notin> set (bomb_name (Suc k) # active)"
    using Suc.prems(2) by (simp add: bomb_name_inj)
  from Suc.IH [OF _ this] Suc.prems have IH:
    "tree_fields (expand (fragments_of (map bomb_fragment [0..<n]) []) (bomb_name (Suc k) # active) [Spread (bomb_name k)]) = 2 ^ k"
    by simp
  have append: "tree_fields (xs @ ys) = tree_fields xs + tree_fields ys" for xs ys
    by (induction xs rule: tree_fields.induct) auto
  from IH Suc.prems show ?case by (simp add: bomb_lookup bomb_name_inj append)
qed

lemma doc_size_append: "doc_size (xs @ ys) = doc_size xs + doc_size ys"
  by (induction xs rule: doc_size.induct) auto

text \<open>C26. The check of a query is not itself bounded by the size of the query: there are documents of size
  linear in \<open>n\<close>, whose fragments nest without any cycle, on which the walk visits \<open>2 ^ n\<close> fields before
  the number of fields is compared with its limit.\<close>

theorem fragment_bomb:
  "doc_size (bomb n) = 3 * n + 4 \<and> snd (walk_operations (fragments_of (bomb n) []) (bomb n) (0, 0)) = 2 ^ n"
proof -
  have "doc_size (map bomb_fragment [0..<Suc n]) = 3 * n + 2"
    by (induction n) (simp_all add: doc_size_append bomb_fragment_def)
  moreover have "operations_of (map bomb_fragment ks) = []" for ks
    by (induction ks) (simp_all add: bomb_fragment_def)
  moreover have "fragments_of (bomb n) [] = fragments_of (map bomb_fragment [0..<Suc n]) []"
    by (simp add: bomb_def)
  ultimately show ?thesis
    using bomb_fields [of n "Suc n" "[]"] by (simp add: walk_operations_eq bomb_def del: upt_Suc)
qed

section \<open>Witnesses\<close>

definition demo_db :: control_db where
  "demo_db = \<lparr>db_projects = [\<lparr>pr_id = 1, pr_slug = ''shop'', pr_release_root = ''current''\<rparr>],
     db_members = [(7, 1)], db_agents = [(3, shop_agent)], db_operations = empty_table,
     db_targets = \<lparr>tt_rows = [], tt_next = 0\<rparr>, db_target_ids = (\<lambda>_. None),
     db_releases = empty_releases, db_release_ids = (\<lambda>_. None)\<rparr>"

definition demo_environment :: environment where
  "demo_environment = \<lparr>ev_operations = runtime_backend None 0, ev_kubernetes = runtime_kubernetes None (\<lambda>_ _. ([], Exhausted)) ''u'',
     ev_ip_ok = (\<lambda>_. False), ev_sha = id, ev_uid = ''u1'', ev_fresh = demo_token, ev_now = 5, ev_later = 6,
     ev_ordr = newest, ev_kordr = newest_rel\<rparr>"

theorem requests_stay_in_projects_witness:
  "foreign_rows (mutate demo_environment 7 (StartDiagnostic ''1'' ''3'' ''django_health'') demo_db) 7 = foreign_rows demo_db 7"
proof -
  have "db_wf demo_db"
    by (simp add: db_wf_def demo_db_def table_wf_def empty_table_def empty_releases_def)
  moreover have "newest_first (ev_ordr demo_environment)" "newest_releases (ev_kordr demo_environment)"
    using newest_newest_first newest_rel_law by (simp_all add: demo_environment_def)
  ultimately show ?thesis by (rule requests_stay_in_projects [THEN conjunct1])
qed

end
