(* ===== verification/Config.thy ===== *)
theory Config
  imports Json PyUrl Regex
begin

text \<open>
  The project configuration of the command line tool: \<open>cli/djangoops/config.py\<close>. Its validators, building a
  configuration from arguments or from a loaded YAML document, writing it back, the upgrade of schema
  version 2, and the exclusive creation of a file. YAML itself is a library: loading and dumping are
  arguments. A loaded value is a \<open>json\<close> value whose mappings have string keys (a mapping with another key
  is \<open>JArr []\<close> here, which is refused in the same places); a float is the text of its \<open>repr\<close>.
\<close>

section \<open>Validators\<close>

definition PROJECT_RE :: rx where
  "PROJECT_RE = Seq (Cls is_alpha_az) (Rep 0 62 (Cls (\<lambda>c. is_alnum_az c \<or> c \<in> set ''_-'')))"

definition is_ident_start :: "char \<Rightarrow> bool" where
  "is_ident_start c \<longleftrightarrow> is_alpha_az c \<or> c = CHR ''_''"

definition MODULE_RE :: rx where
  "MODULE_RE =
     (let ident = Seq (Cls is_ident_start) (Star (Cls is_word))
      in Seq ident (Star (Seq (Cls (\<lambda>c. c = CHR ''.'')) ident)))"

definition HOST_LABEL_RE :: rx where
  "HOST_LABEL_RE = Seq (Cls is_alnum_az) (Opt (Seq (Rep 0 61 (Cls (\<lambda>c. is_alnum_az c \<or> c = CHR ''-''))) (Cls is_alnum_az)))"

definition is_email_char :: "char \<Rightarrow> bool" where
  "is_email_char c \<longleftrightarrow> c \<noteq> CHR ''@'' \<and> \<not> is_space c"

definition EMAIL_RE :: rx where
  "EMAIL_RE = Seq (Plus (Cls is_email_char)) (Seq (Cls (\<lambda>c. c = CHR ''@''))
     (Seq (Plus (Cls is_email_char)) (Seq (Cls (\<lambda>c. c = CHR ''.'')) (Plus (Cls is_email_char)))))"

definition is_bucket_end :: "char \<Rightarrow> bool" where
  "is_bucket_end c \<longleftrightarrow> is_lower_az c \<or> is_digit c"

definition BUCKET_RE :: rx where
  "BUCKET_RE = Seq (Cls is_bucket_end) (Seq (Rep 1 60 (Cls (\<lambda>c. is_bucket_end c \<or> c \<in> set ''.-''))) (Cls is_bucket_end))"

definition is_cron_char :: "char \<Rightarrow> bool" where
  "is_cron_char c \<longleftrightarrow> is_digit c \<or> c \<in> set ''*/?, -''"

definition CRON_RE :: rx where
  "CRON_RE = Plus (Cls is_cron_char)"

definition REGION_RE :: rx where
  "REGION_RE = Plus (Cls (\<lambda>c. is_alnum_az c \<or> c = CHR ''-''))"

definition PREFIX_RE :: rx where
  "PREFIX_RE = Seq (Cls is_alnum_az) (Star (Cls (\<lambda>c. is_alnum_az c \<or> c \<in> set ''/_-'')))"

definition validate_project_name :: "string \<Rightarrow> string res" where
  "validate_project_name value =
     (if fullmatch PROJECT_RE value then Inr value
      else Inl (ValueError (''project name must start with a letter and contain only letters, numbers, ''
        @ quoted ''-'' @ '' or '' @ quoted ''_'')))"

definition validate_django_module :: "string \<Rightarrow> string res" where
  "validate_django_module value =
     (if fullmatch MODULE_RE value then Inr value
      else Inl (ValueError (''Django module must be a dotted Python identifier, for example '' @ quoted ''config'')))"

definition validate_hostname :: "string \<Rightarrow> string res" where
  "validate_hostname value =
     (let candidate = rstrip_by (\<lambda>c. c = CHR ''.'') value;
          labels_valid = list_all (fullmatch HOST_LABEL_RE) (split_on CHR ''.'' candidate)
      in if 253 < length candidate \<or> CHR ''.'' \<notin> set candidate \<or> \<not> labels_valid
         then Inl (ValueError ''hostname must be a valid public DNS hostname'')
         else Inr (lower candidate))"

definition validate_email :: "string \<Rightarrow> string res" where
  "validate_email value =
     (if 254 < length value \<or> \<not> fullmatch EMAIL_RE value
      then Inl (ValueError ''ACME email must be a valid email address'') else Inr value)"

text \<open>\<open>any((parsed.username, parsed.password, parsed.query, parsed.fragment))\<close>\<close>

definition has_forbidden_part :: "url \<Rightarrow> bool" where
  "has_forbidden_part u \<longleftrightarrow> u_username u \<notin> {None, Some []} \<or> u_password u \<notin> {None, Some []} \<or> u_query u \<noteq> [] \<or> u_fragment u \<noteq> []"

definition validate_storage_endpoint :: "(string \<Rightarrow> bool) \<Rightarrow> string \<Rightarrow> string res" where
  "validate_storage_endpoint ip_ok value =
     bindR (urlsplit ip_ok value) (\<lambda>parsed.
       if u_scheme parsed \<notin> {''http'', ''https''} \<or> u_hostname parsed = None \<or> has_forbidden_part parsed
       then Inl (ValueError ''storage endpoint must be an http(s) URL without credentials, query, or fragment'')
       else if u_path parsed \<notin> {'''', ''/''} then Inl (ValueError ''storage endpoint must not contain a path'')
       else Inr (rstrip_by (\<lambda>c. c = CHR ''/'') value))"

definition validate_region :: "string option \<Rightarrow> string option res" where
  "validate_region value =
     (case value of None \<Rightarrow> Inr None
      | Some v \<Rightarrow>
          if v = [] \<or> 63 < length v \<or> \<not> fullmatch REGION_RE v
          then Inl (ValueError (''storage region must contain only letters, numbers, and '' @ quoted ''-'' @ '' or be null''))
          else Inr (Some v))"

definition validate_bucket :: "string \<Rightarrow> string \<Rightarrow> string res" where
  "validate_bucket field value =
     (let separators_valid = \<not> substring_in ''..'' value \<and> \<not> substring_in ''.-'' value \<and> \<not> substring_in ''-.'' value
      in if \<not> fullmatch BUCKET_RE value \<or> \<not> separators_valid
         then Inl (ValueError (field @ '' must be a valid S3-compatible bucket name'')) else Inr value)"

definition validate_backup_schedule :: "string \<Rightarrow> string res" where
  "validate_backup_schedule value =
     (let fs = split_ws value
      in if length fs \<noteq> 5 \<or> \<not> fullmatch CRON_RE value \<or> \<not> list_all (\<lambda>f. length f \<le> 32) fs
         then Inl (ValueError ''backup schedule must be a five-field cron expression'')
         else Inr (join '' '' fs))"

definition validate_backup_prefix :: "string \<Rightarrow> string res" where
  "validate_backup_prefix value =
     (if value = [] \<or> 128 < length value \<or> starts_with ''/'' value \<or> ends_with ''/'' value \<or> substring_in ''..'' value
         \<or> \<not> fullmatch PREFIX_RE value
      then Inl (ValueError ''backup prefix must be a safe relative object prefix'') else Inr value)"

section \<open>Configurations\<close>

record service_config =
  sc_postgres :: bool
  sc_redis :: bool
  sc_celery :: bool
  sc_celery_beat :: bool

record tls_config =
  tc_hostname :: string
  tc_acme_email :: string

record storage_config =
  so_endpoint_url :: string
  so_region :: "string option"
  so_static_bucket :: string
  so_media_bucket :: string

record backup_config =
  bc_schedule :: string
  bc_bucket :: string
  bc_prefix :: string

definition SCHEMA_VERSION :: int where
  "SCHEMA_VERSION = 3"

record djangoops_config =
  dc_schema_version :: int
  dc_project_name :: string
  dc_django_module :: string
  dc_services :: service_config
  dc_tls :: tls_config
  dc_storage :: storage_config
  dc_backup :: backup_config

text \<open>The checks both constructors share, in the order the source evaluates them.\<close>

definition checked_tls :: "string \<Rightarrow> string \<Rightarrow> tls_config res" where
  "checked_tls hostname acme_email =
     bindR (validate_hostname hostname) (\<lambda>h. bindR (validate_email acme_email) (\<lambda>e.
       Inr \<lparr>tc_hostname = h, tc_acme_email = e\<rparr>))"

definition checked_storage :: "(string \<Rightarrow> bool) \<Rightarrow> string \<Rightarrow> string option \<Rightarrow> string \<Rightarrow> string \<Rightarrow> storage_config res" where
  "checked_storage ip_ok endpoint_url region static_bucket media_bucket =
     bindR (validate_storage_endpoint ip_ok endpoint_url) (\<lambda>u. bindR (validate_region region) (\<lambda>r.
     bindR (validate_bucket ''static bucket'' static_bucket) (\<lambda>s. bindR (validate_bucket ''media bucket'' media_bucket) (\<lambda>m.
       Inr \<lparr>so_endpoint_url = u, so_region = r, so_static_bucket = s, so_media_bucket = m\<rparr>))))"

definition checked_backup :: "string \<Rightarrow> string \<Rightarrow> string \<Rightarrow> backup_config res" where
  "checked_backup schedule bucket prefix =
     bindR (validate_backup_schedule schedule) (\<lambda>c. bindR (validate_bucket ''backup bucket'' bucket) (\<lambda>b.
     bindR (validate_backup_prefix prefix) (\<lambda>p. Inr \<lparr>bc_schedule = c, bc_bucket = b, bc_prefix = p\<rparr>)))"

definition checked_config :: "(string \<Rightarrow> bool) \<Rightarrow> string \<Rightarrow> string \<Rightarrow> service_config \<Rightarrow> tls_config \<Rightarrow> storage_config \<Rightarrow> backup_config
    \<Rightarrow> djangoops_config res" where
  "checked_config ip_ok name module services tls storage backup =
     bindR (validate_project_name name) (\<lambda>n. bindR (validate_django_module module) (\<lambda>m.
     bindR (checked_tls (tc_hostname tls) (tc_acme_email tls)) (\<lambda>t.
     bindR (checked_storage ip_ok (so_endpoint_url storage) (so_region storage) (so_static_bucket storage) (so_media_bucket storage)) (\<lambda>s.
     bindR (checked_backup (bc_schedule backup) (bc_bucket backup) (bc_prefix backup)) (\<lambda>b.
       Inr \<lparr>dc_schema_version = SCHEMA_VERSION, dc_project_name = n, dc_django_module = m, dc_services = services,
            dc_tls = t, dc_storage = s, dc_backup = b\<rparr>)))))"

definition all_services :: service_config where
  "all_services = \<lparr>sc_postgres = True, sc_redis = True, sc_celery = True, sc_celery_beat = True\<rparr>"

definition create_config :: "(string \<Rightarrow> bool) \<Rightarrow> string \<Rightarrow> string \<Rightarrow> tls_config \<Rightarrow> storage_config \<Rightarrow> backup_config \<Rightarrow> djangoops_config res" where
  "create_config ip_ok project_name django_module tls storage backup =
     checked_config ip_ok project_name django_module all_services tls storage backup"

section \<open>Mappings\<close>

definition LEGACY_KEYS :: "string list" where
  "LEGACY_KEYS = [''schema_version'', ''project'', ''django'', ''services'', ''tls'', ''storage'']"

definition SCHEMA_3_KEYS :: "string list" where
  "SCHEMA_3_KEYS = LEGACY_KEYS @ [''backup'']"

definition keys_are :: "(string \<times> json) list \<Rightarrow> string list \<Rightarrow> bool" where
  "keys_are kvs ks \<longleftrightarrow> set (dkeys kvs) = set ks"

text \<open>\<open>v == n\<close> for a small integer \<open>n\<close>: booleans and floats compare equal to integers.\<close>

definition equals_int :: "json \<Rightarrow> int \<Rightarrow> bool" where
  "equals_int v n \<longleftrightarrow> v = JInt n \<or> v = JFloat (int_str n @ ''.0'') \<or> n = 1 \<and> v = JBool True \<or> n = 0 \<and> v = JBool False"

definition require_mapping :: "json option \<Rightarrow> string \<Rightarrow> (string \<times> json) list res" where
  "require_mapping v field = (case v of Some (JObj kvs) \<Rightarrow> Inr kvs | _ \<Rightarrow> Inl (ValueError (field @ '' must be a mapping'')))"

definition require_string :: "json option \<Rightarrow> string \<Rightarrow> string res" where
  "require_string v field = (case v of Some (JStr s) \<Rightarrow> Inr s | _ \<Rightarrow> Inl (ValueError (field @ '' must be a string'')))"

definition require_bool :: "json option \<Rightarrow> string \<Rightarrow> bool res" where
  "require_bool v field = (case v of Some (JBool b) \<Rightarrow> Inr b | _ \<Rightarrow> Inl (ValueError (field @ '' must be a boolean'')))"

definition require_region :: "json option \<Rightarrow> string option res" where
  "require_region v =
     (case v of Some JNull \<Rightarrow> Inr None | Some (JStr s) \<Rightarrow> Inr (Some s)
      | _ \<Rightarrow> Inl (ValueError ''storage.region must be a string or null''))"

definition legacy_backup :: json where
  "legacy_backup = JObj [(''schedule'', JStr ''17 2 * * *''), (''bucket'', JStr ''djangoops-backups''), (''prefix'', JStr ''djangoops-backups'')]"

text \<open>The document as schema version 3 (an error's text is given without the \<open>repr\<close> of an unsupported version).\<close>

definition normalized :: "json \<Rightarrow> (string \<times> json) list res" where
  "normalized value =
     (case value of
        JObj kvs \<Rightarrow>
          (case dget kvs ''schema_version'' of
             None \<Rightarrow> Inl (ValueError ''configuration is missing schema_version'')
           | Some v \<Rightarrow>
               if equals_int v 1
               then if \<not> keys_are kvs LEGACY_KEYS then Inl (ValueError (''djangoops.yaml uses schema_version 1; recreate or upgrade it ''
                      @ ''with the required TLS and S3 storage settings before using this release''))
                    else Inr (dput ''backup'' legacy_backup (dput ''schema_version'' (JInt SCHEMA_VERSION) kvs))
               else if equals_int v 2 then Inl (ValueError (''djangoops.yaml uses schema_version 2; run ''
                      @ quoted ''djangoops config-upgrade'' @ '' and review the generated backup settings before continuing''))
               else if \<not> equals_int v SCHEMA_VERSION then Inl (ValueError ''unsupported schema_version'')
               else if \<not> keys_are kvs SCHEMA_3_KEYS then Inl (ValueError ''configuration keys do not match schema_version 3'')
               else Inr kvs)
      | _ \<Rightarrow> Inl (ValueError ''configuration root must be a mapping''))"

definition parse_services :: "(string \<times> json) list \<Rightarrow> service_config res" where
  "parse_services m =
     bindR (require_bool (dget m ''postgres'') ''services.postgres'') (\<lambda>p.
     bindR (require_bool (dget m ''redis'') ''services.redis'') (\<lambda>r.
     bindR (require_bool (dget m ''celery'') ''services.celery'') (\<lambda>c.
     bindR (require_bool (dget m ''celery_beat'') ''services.celery_beat'') (\<lambda>b.
       Inr \<lparr>sc_postgres = p, sc_redis = r, sc_celery = c, sc_celery_beat = b\<rparr>))))"

definition parse_sections :: "(string \<times> json) list \<Rightarrow> (string \<times> json) list \<Rightarrow> (string \<times> json) list \<Rightarrow> (string \<times> json) list
    \<Rightarrow> (string \<times> json) list \<Rightarrow> (string \<times> json) list \<Rightarrow> (string \<times> string \<times> service_config \<times> tls_config \<times> storage_config \<times> backup_config) res" where
  "parse_sections project django services tls storage backup =
     bindR (guardR (keys_are project [''name''] \<and> keys_are django [''module'']) (ValueError ''project or django configuration keys are invalid'')) (\<lambda>_.
     bindR (guardR (keys_are services [''postgres'', ''redis'', ''celery'', ''celery_beat'']) (ValueError ''service configuration keys are invalid'')) (\<lambda>_.
     bindR (guardR (keys_are tls [''hostname'', ''acme_email'']) (ValueError ''TLS configuration keys are invalid'')) (\<lambda>_.
     bindR (guardR (keys_are storage [''endpoint_url'', ''region'', ''static_bucket'', ''media_bucket'']) (ValueError ''storage configuration keys are invalid'')) (\<lambda>_.
     bindR (guardR (keys_are backup [''schedule'', ''bucket'', ''prefix'']) (ValueError ''backup configuration keys are invalid'')) (\<lambda>_.
     bindR (parse_services services) (\<lambda>sv.
     bindR (require_region (dget storage ''region'')) (\<lambda>region.
     bindR (require_string (dget project ''name'') ''project.name'') (\<lambda>name.
     bindR (require_string (dget django ''module'') ''django.module'') (\<lambda>module.
     bindR (require_string (dget tls ''hostname'') ''tls.hostname'') (\<lambda>hostname.
     bindR (require_string (dget tls ''acme_email'') ''tls.acme_email'') (\<lambda>email.
     bindR (require_string (dget storage ''endpoint_url'') ''storage.endpoint_url'') (\<lambda>url.
     bindR (require_string (dget storage ''static_bucket'') ''storage.static_bucket'') (\<lambda>static.
     bindR (require_string (dget storage ''media_bucket'') ''storage.media_bucket'') (\<lambda>media.
     bindR (require_string (dget backup ''schedule'') ''backup.schedule'') (\<lambda>schedule.
     bindR (require_string (dget backup ''bucket'') ''backup.bucket'') (\<lambda>bucket.
     bindR (require_string (dget backup ''prefix'') ''backup.prefix'') (\<lambda>prefix.
       Inr (name, module, sv, \<lparr>tc_hostname = hostname, tc_acme_email = email\<rparr>,
            \<lparr>so_endpoint_url = url, so_region = region, so_static_bucket = static, so_media_bucket = media\<rparr>,
            \<lparr>bc_schedule = schedule, bc_bucket = bucket, bc_prefix = prefix\<rparr>))))))))))))))))))"

definition from_mapping :: "(string \<Rightarrow> bool) \<Rightarrow> json \<Rightarrow> djangoops_config res" where
  "from_mapping ip_ok value =
     bindR (normalized value) (\<lambda>kvs.
     bindR (require_mapping (dget kvs ''project'') ''project'') (\<lambda>project.
     bindR (require_mapping (dget kvs ''django'') ''django'') (\<lambda>django.
     bindR (require_mapping (dget kvs ''services'') ''services'') (\<lambda>services.
     bindR (require_mapping (dget kvs ''tls'') ''tls'') (\<lambda>tls.
     bindR (require_mapping (dget kvs ''storage'') ''storage'') (\<lambda>storage.
     bindR (require_mapping (dget kvs ''backup'') ''backup'') (\<lambda>backup.
     bindR (parse_sections project django services tls storage backup) (\<lambda>(name, module, sv, t, s, b).
       checked_config ip_ok name module sv t s b))))))))"

definition to_mapping :: "djangoops_config \<Rightarrow> json" where
  "to_mapping c = JObj
     [(''schema_version'', JInt (dc_schema_version c)),
      (''project'', JObj [(''name'', JStr (dc_project_name c))]),
      (''django'', JObj [(''module'', JStr (dc_django_module c))]),
      (''services'', JObj [(''postgres'', JBool (sc_postgres (dc_services c))), (''redis'', JBool (sc_redis (dc_services c))),
         (''celery'', JBool (sc_celery (dc_services c))), (''celery_beat'', JBool (sc_celery_beat (dc_services c)))]),
      (''tls'', JObj [(''hostname'', JStr (tc_hostname (dc_tls c))), (''acme_email'', JStr (tc_acme_email (dc_tls c)))]),
      (''storage'', JObj [(''endpoint_url'', JStr (so_endpoint_url (dc_storage c))),
         (''region'', (case so_region (dc_storage c) of None \<Rightarrow> JNull | Some r \<Rightarrow> JStr r)),
         (''static_bucket'', JStr (so_static_bucket (dc_storage c))), (''media_bucket'', JStr (so_media_bucket (dc_storage c)))]),
      (''backup'', JObj [(''schedule'', JStr (bc_schedule (dc_backup c))), (''bucket'', JStr (bc_bucket (dc_backup c))),
         (''prefix'', JStr (bc_prefix (dc_backup c)))])]"

section \<open>Texts and files\<close>

text \<open>\<open>yaml.safe_load\<close> and \<open>yaml.safe_dump\<close>. Loading gives a value, a \<open>YAMLError\<close> (\<open>Inr None\<close>), which is caught, or
  raises something else, which is not: the library converts tagged scalars with functions that raise \<open>KeyError\<close>,
  \<open>AttributeError\<close> or \<open>ValueError\<close>, and recurses on nested documents.\<close>

definition load_yaml :: "(string \<Rightarrow> json option res) \<Rightarrow> string \<Rightarrow> json res" where
  "load_yaml load text =
     bindR (load text) (\<lambda>loaded.
       case loaded of None \<Rightarrow> Inl (ValueError ''invalid YAML configuration'') | Some v \<Rightarrow> Inr v)"

definition render_config :: "(json \<Rightarrow> string) \<Rightarrow> djangoops_config \<Rightarrow> string" where
  "render_config dump c = dump (to_mapping c)"

definition parse_config :: "(string \<Rightarrow> json option res) \<Rightarrow> (string \<Rightarrow> bool) \<Rightarrow> string \<Rightarrow> djangoops_config res" where
  "parse_config load ip_ok text = bindR (load_yaml load text) (from_mapping ip_ok)"

definition upgrade_config :: "(string \<Rightarrow> json option res) \<Rightarrow> (json \<Rightarrow> string) \<Rightarrow> (string \<Rightarrow> bool) \<Rightarrow> string \<Rightarrow> string \<Rightarrow> string \<Rightarrow> string res" where
  "upgrade_config load dump ip_ok text backup_bucket backup_schedule =
     bindR (load_yaml load text) (\<lambda>loaded.
       case loaded of
         JObj kvs \<Rightarrow>
           if \<not> (case dget kvs ''schema_version'' of None \<Rightarrow> False | Some v \<Rightarrow> equals_int v 2)
           then Inl (ValueError ''config-upgrade currently requires an exact schema_version 2 document'')
           else if \<not> keys_are kvs LEGACY_KEYS
           then Inl (ValueError ''schema_version 2 configuration contains unknown or missing keys'')
           else
             bindR (validate_backup_schedule backup_schedule) (\<lambda>schedule.
             bindR (validate_bucket ''backup bucket'' backup_bucket) (\<lambda>bucket.
             bindR (from_mapping ip_ok (JObj (dput ''backup''
                 (JObj [(''schedule'', JStr schedule), (''bucket'', JStr bucket), (''prefix'', JStr ''djangoops-backups'')])
                 (dput ''schema_version'' (JInt SCHEMA_VERSION) kvs)))) (\<lambda>c.
               Inr (render_config dump c))))
       | _ \<Rightarrow> Inl (ValueError ''config-upgrade currently requires an exact schema_version 2 document''))"

text \<open>\<open>write_new_text\<close>: the files before and after; \<open>failure\<close> is what writing raises, if it does.\<close>

definition write_new_text :: "pyexn option \<Rightarrow> string \<Rightarrow> string \<Rightarrow> (string, string) dict \<Rightarrow> (string, string) dict \<times> unit res" where
  "write_new_text failure path rendered fs =
     (if dget fs path \<noteq> None then (fs, Inl (OSError ''File exists''))
      else (case failure of
          None \<Rightarrow> (dput path rendered fs, Inr ())
        | Some e \<Rightarrow> (ddel path (dput path [] fs), Inl e)))"

definition write_new_config :: "(json \<Rightarrow> string) \<Rightarrow> pyexn option \<Rightarrow> string \<Rightarrow> djangoops_config \<Rightarrow> (string, string) dict \<Rightarrow> (string, string) dict \<times> unit res" where
  "write_new_config dump failure path c = write_new_text failure path (render_config dump c)"

end
