(* ===== verification/Config_Claims.thy ===== *)
theory Config_Claims
  imports Config Json_Roundtrip
begin

text \<open>
  The round trip of a project configuration: a validator accepts what it returned and returns it again, so
  a configuration that was accepted once is read back unchanged from the document it is written as.
\<close>

section \<open>Host names\<close>

text \<open>A pattern whose classes are closed under lower case matches the lower case of what it matches.\<close>

primrec lower_closed :: "rx \<Rightarrow> bool" where
  "lower_closed Eps \<longleftrightarrow> True"
| "lower_closed (Cls p) \<longleftrightarrow> (\<forall>c. p c \<longrightarrow> p (lower_char c))"
| "lower_closed (Seq r s) \<longleftrightarrow> lower_closed r \<and> lower_closed s"
| "lower_closed (Alt r s) \<longleftrightarrow> lower_closed r \<and> lower_closed s"
| "lower_closed (Star r) \<longleftrightarrow> lower_closed r"
| "lower_closed (Rep m k r) \<longleftrightarrow> lower_closed r"

lemma lower_concat: "lower (concat us) = concat (map lower us)"
  by (induction us) (simp_all add: lower_def)

lemma lower_closed_lang: "lower_closed r \<Longrightarrow> u \<in> rx_lang r \<Longrightarrow> lower u \<in> rx_lang r"
proof (induction r arbitrary: u)
  case (Star r)
  then obtain us where us: "u = concat us" "set us \<subseteq> rx_lang r" by auto
  with Star have "set (map lower us) \<subseteq> rx_lang r" by auto
  then show ?case unfolding us(1) lower_concat rx_lang.simps by (intro CollectI exI [of _ "map lower us"] conjI) simp_all
next
  case (Rep m k r)
  then obtain us where us: "u = concat us" "set us \<subseteq> rx_lang r" "m \<le> length us" "length us \<le> m + k" by auto
  with Rep have "set (map lower us) \<subseteq> rx_lang r" by auto
  with us show ?case unfolding us(1) lower_concat rx_lang.simps by (intro CollectI exI [of _ "map lower us"] conjI) simp_all
next
  case (Seq r s)
  then show ?case by auto (metis lower_append)
qed (auto simp: lower_def)

lemma is_alnum_lower: "is_alnum_az c \<Longrightarrow> is_alnum_az (lower_char c)"
  by (auto simp: is_alnum_az_def is_alpha_az_def is_lower_az_def is_upper_az_def is_digit_def lower_char_def in_range_def)

lemma lower_char_plain: "lower_char CHR ''-'' = CHR ''-''" "lower_char c = CHR ''.'' \<longleftrightarrow> c = CHR ''.''"
proof -
  show "lower_char CHR ''-'' = CHR ''-''" by (simp add: lower_char_def in_range_def)
  show "lower_char c = CHR ''.'' \<longleftrightarrow> c = CHR ''.''"
    by (auto simp: lower_char_def in_range_def char_of_range split: if_splits)
qed

lemma label_lower: "fullmatch HOST_LABEL_RE s \<Longrightarrow> fullmatch HOST_LABEL_RE (lower s)"
  unfolding fullmatch_iff
  by (rule lower_closed_lang) (auto simp: HOST_LABEL_RE_def is_alnum_lower lower_char_plain)

lemma split_on_lower: "split_on CHR ''.'' (lower s) = map lower (split_on CHR ''.'' s)"
  by (induction s) (auto simp: lower_def lower_char_plain split: list.splits)

lemma rstrip_lower_id: "s = [] \<or> last s \<noteq> CHR ''.'' \<Longrightarrow> rstrip_by (\<lambda>c. c = CHR ''.'') (lower s) = lower s"
  by (rule rstrip_by_id) (auto simp: lower_def last_map lower_char_plain)

lemma hostname_again: "validate_hostname v = Inr h \<Longrightarrow> validate_hostname h = Inr h"
proof -
  assume v: "validate_hostname v = Inr h"
  define s where "s = rstrip_by (\<lambda>c. c = CHR ''.'') v"
  from v have ok: "length s \<le> 253" "CHR ''.'' \<in> set s" "list_all (fullmatch HOST_LABEL_RE) (split_on CHR ''.'' s)" and h: "h = lower s"
    by (auto simp: validate_hostname_def s_def Let_def split: if_splits)
  have "s = [] \<or> last s \<noteq> CHR ''.''" using rstrip_by_last [of "\<lambda>c. c = CHR ''.''" v] by (auto simp: s_def)
  then have "rstrip_by (\<lambda>c. c = CHR ''.'') h = h" unfolding h by (rule rstrip_lower_id)
  moreover have "CHR ''.'' \<in> set h"
    using imageI [OF ok(2), of lower_char] lower_char_plain(2) [of "CHR ''.''"] by (simp add: h lower_def)
  moreover have "list_all (fullmatch HOST_LABEL_RE) (split_on CHR ''.'' h)"
    using ok(3) by (auto simp: h split_on_lower list_all_iff label_lower)
  ultimately show ?thesis using ok(1) h by (simp add: validate_hostname_def Let_def)
qed

section \<open>Schedules\<close>

lemma set_split_ws_acc: "w' \<in> set (split_ws_acc w s) \<Longrightarrow> set w' \<subseteq> set w \<union> set s"
  by (induction w s arbitrary: w' rule: split_ws_acc.induct) (fastforce split: if_splits)+

lemma set_join: "set (join sep ws) \<subseteq> \<Union> (set ` set ws) \<union> set sep"
  by (induction sep ws rule: join.induct) auto

lemma schedule_again: "validate_backup_schedule v = Inr s \<Longrightarrow> validate_backup_schedule s = Inr s"
proof -
  assume v: "validate_backup_schedule v = Inr s"
  then have fs: "length (split_ws v) = 5" "list_all (\<lambda>f. length f \<le> 32) (split_ws v)" "list_all is_cron_char v"
    and s: "s = join '' '' (split_ws v)"
    by (auto simp: validate_backup_schedule_def CRON_RE_def fullmatch_Plus_Cls Let_def split: if_splits)
  have same: "split_ws s = split_ws v"
    unfolding s by (rule split_ws_join) (use split_ws_props in \<open>auto simp: is_space_def in_range_def\<close>)
  have "set s \<subseteq> set v \<union> {CHR '' ''}"
    unfolding s using set_join [of "'' ''" "split_ws v"] set_split_ws_acc [of _ "[]" v] by (fastforce simp: split_ws_def)
  then have "list_all is_cron_char s" using fs(3) by (auto simp: list_all_iff is_cron_char_def)
  moreover have "s \<noteq> []" using fs(1) same by (auto simp: split_ws_def)
  ultimately have "fullmatch CRON_RE s" by (simp add: CRON_RE_def fullmatch_Plus_Cls)
  then show ?thesis using fs s same by (simp add: validate_backup_schedule_def)
qed

section \<open>Endpoints\<close>

text \<open>A cleaned URL that ends with a slash and has a network location but no path other than that slash: without
  the slash it has the same parts and no path.\<close>

lemma url_clean_slash: "url_clean v \<noteq> [] \<Longrightarrow> url_clean (v @ ''/'') = url_clean v @ ''/''"
proof -
  assume v: "url_clean v \<noteq> []"
  then have "dropWhile (\<lambda>c. ord c \<le> 32) v \<noteq> []" by (intro notI) (simp add: url_clean_def lstrip_by_def)
  then have "\<exists>x \<in> set v. \<not> ord x \<le> 32" unfolding dropWhile_eq_Nil_conv by blast
  then show ?thesis by (auto simp: url_clean_def lstrip_by_def dropWhile_append1)
qed

lemma url_clean_blank: "url_clean v = [] \<Longrightarrow> url_clean (v @ ''/'') = ''/'' \<or> url_clean (v @ ''/'') = []"
  by (auto simp: url_clean_def lstrip_by_def dropWhile_append)

lemma split_netloc_nonempty:
  assumes "split_netloc r = (n, p)" and "n \<noteq> []"
  shows "r = ''//'' @ n @ p \<and> (\<forall>c \<in> set n. \<not> is_netloc_end c) \<and> (p = [] \<or> is_netloc_end (hd p))"
proof -
  have r: "starts_with ''//'' r" "n = takeWhile (\<lambda>c. \<not> is_netloc_end c) (drop 2 r)" "p = dropWhile (\<lambda>c. \<not> is_netloc_end c) (drop 2 r)"
    using assms by (auto simp: split_netloc_def split: if_splits)
  then obtain t where "r = ''//'' @ t" by (auto simp: starts_with_iff)
  with r(2,3) have "r = ''//'' @ n @ p" by simp
  moreover have "\<forall>c \<in> set n. \<not> is_netloc_end c" unfolding r(2) by (auto dest: set_takeWhileD)
  moreover have "p \<noteq> [] \<longrightarrow> is_netloc_end (hd p)" using hd_dropWhile [of "\<lambda>c. \<not> is_netloc_end c"] unfolding r(3) by blast
  ultimately show ?thesis by blast
qed

lemma split_netloc_plain:
  "\<forall>c \<in> set n. \<not> is_netloc_end c \<Longrightarrow> split_netloc (''//'' @ n) = (n, []) \<and> split_netloc (''//'' @ n @ ''/'') = (n, ''/'')"
  by (simp add: split_netloc_def takeWhile_append dropWhile_append is_netloc_end_def)

lemma partition_on_end:
  assumes "snd (snd (partition_on d s)) = []" and "s \<noteq> []" and "last s \<noteq> d"
  shows "d \<notin> set s"
proof
  assume "d \<in> set s"
  then obtain u t where s: "s = u @ d # t" "d \<notin> set u" by (meson split_list_first)
  then have "dropWhile (\<lambda>c. c \<noteq> d) s = d # t" by (simp add: dropWhile_append)
  with assms(1) have "t = []" by (simp add: partition_on_def)
  with s assms(3) show False by simp
qed

lemma split_scheme_found:
  assumes "split_scheme c = (sch, r)" and "sch \<noteq> []"
  shows "\<exists>h. c = h @ CHR '':'' # r \<and> CHR '':'' \<notin> set h \<and> sch = lower h \<and> h \<noteq> [] \<and> is_alpha_az (hd h) \<and> list_all is_scheme_char h"
proof -
  let ?h = "takeWhile (\<lambda>x. x \<noteq> CHR '':'') c"
  from assms have f: "CHR '':'' \<in> set c" "r = tl (dropWhile (\<lambda>x. x \<noteq> CHR '':'') c)" "sch = lower ?h"
    "?h \<noteq> []" "is_alpha_az (hd ?h)" "list_all is_scheme_char ?h"
    by (auto simp: split_scheme_def partition_on_def split: if_splits)
  obtain a b where c: "c = a @ CHR '':'' # b" "CHR '':'' \<notin> set a" using split_list_first [OF f(1)] by blast
  then have "?h = a" "tl (dropWhile (\<lambda>x. x \<noteq> CHR '':'') c) = b" by (auto simp: takeWhile_append dropWhile_append)
  with f c show ?thesis by auto
qed

lemma split_scheme_intro:
  "CHR '':'' \<notin> set h \<Longrightarrow> h \<noteq> [] \<Longrightarrow> is_alpha_az (hd h) \<Longrightarrow> list_all is_scheme_char h \<Longrightarrow> split_scheme (h @ CHR '':'' # r) = (lower h, r)"
  by (auto simp: split_scheme_def partition_on_def takeWhile_append dropWhile_append)

lemma no_netloc_no_host: "u_netloc u = [] \<Longrightarrow> u_hostname u = None"
  by (simp add: u_hostname_def u_hostinfo_def rpartition_on_def partition_on_def)

lemma urlsplit_parts:
  assumes "urlsplit ip_ok v = Inr u" and "split_scheme (url_clean v) = (sch, r)" and "split_netloc r = (n, p)"
  shows "u_scheme u = sch" "u_netloc u = n" "u_fragment u = snd (snd (partition_on CHR ''#'' p))"
    "u_path u = fst (partition_on CHR ''?'' (fst (partition_on CHR ''#'' p)))"
    "u_query u = snd (snd (partition_on CHR ''?'' (fst (partition_on CHR ''#'' p))))"
    "(CHR ''['' \<in> set n) = (CHR '']'' \<in> set n)" "CHR ''['' \<in> set n \<longrightarrow> ip_ok (bracketed_host n)"
proof -
  obtain r2 x frag where f: "partition_on CHR ''#'' p = (r2, x, frag)" by (rule prod_cases3)
  obtain path y query where q: "partition_on CHR ''?'' r2 = (path, y, query)" by (rule prod_cases3)
  have "(CHR ''['' \<in> set n) = (CHR '']'' \<in> set n) \<and> (CHR ''['' \<in> set n \<longrightarrow> ip_ok (bracketed_host n))
    \<and> u = \<lparr>u_scheme = sch, u_netloc = n, u_path = path, u_query = query, u_fragment = frag\<rparr>"
    using assms(1) by (simp add: urlsplit_def Let_def assms(2,3) f q split: if_split_asm)
  then show "u_scheme u = sch" "u_netloc u = n" "u_fragment u = snd (snd (partition_on CHR ''#'' p))"
    "u_path u = fst (partition_on CHR ''?'' (fst (partition_on CHR ''#'' p)))"
    "u_query u = snd (snd (partition_on CHR ''?'' (fst (partition_on CHR ''#'' p))))"
    "(CHR ''['' \<in> set n) = (CHR '']'' \<in> set n)" "CHR ''['' \<in> set n \<longrightarrow> ip_ok (bracketed_host n)"
    by (simp_all add: f q)
qed

lemma urlsplit_brackets:
  "urlsplit ip_ok v = Inr u \<Longrightarrow> (CHR ''['' \<in> set (u_netloc u)) = (CHR '']'' \<in> set (u_netloc u))
    \<and> (CHR ''['' \<in> set (u_netloc u) \<longrightarrow> ip_ok (bracketed_host (u_netloc u)))"
  using urlsplit_parts(2,6,7) by (metis prod.exhaust)

definition endpoint_ok :: "url \<Rightarrow> bool" where
  "endpoint_ok u \<longleftrightarrow> u_scheme u \<in> {''http'', ''https''} \<and> u_hostname u \<noteq> None \<and> \<not> has_forbidden_part u \<and> u_path u \<in> {'''', ''/''}"

lemma two_checks:
  "(if \<not> a \<or> b \<or> c then Inl x else if \<not> d then Inl y else Inr w) = Inr e \<longleftrightarrow> (a \<and> \<not> b \<and> \<not> c \<and> d) \<and> e = w"
  by auto

lemma endpoint_iff:
  "validate_storage_endpoint ip_ok v = Inr e \<longleftrightarrow> (\<exists>u. urlsplit ip_ok v = Inr u \<and> endpoint_ok u \<and> e = rstrip_by (\<lambda>c. c = CHR ''/'') v)"
  unfolding validate_storage_endpoint_def bindR_Inr_iff two_checks endpoint_ok_def ..

text \<open>The parts of such a URL.\<close>

lemma endpoint_parts:
  assumes "urlsplit ip_ok v = Inr u" and "u_scheme u \<noteq> []" and "u_netloc u \<noteq> []" and "u_query u = []" and "u_fragment u = []"
    and "u_path u \<in> {'''', ''/''}" and "url_clean v \<noteq> []" and "last (url_clean v) = CHR ''/''"
  shows "\<exists>h n. url_clean v = h @ CHR '':'' # ''//'' @ n @ ''/'' \<and> CHR '':'' \<notin> set h \<and> h \<noteq> [] \<and> is_alpha_az (hd h) \<and> list_all is_scheme_char h
    \<and> n \<noteq> [] \<and> (\<forall>c \<in> set n. \<not> is_netloc_end c) \<and> u_scheme u = lower h \<and> u_netloc u = n"
proof -
  obtain sch r where sr: "split_scheme (url_clean v) = (sch, r)" by (cases "split_scheme (url_clean v)")
  obtain n p where np: "split_netloc r = (n, p)" by (cases "split_netloc r")
  note u = urlsplit_parts [OF assms(1) sr np]
  obtain h where h: "url_clean v = h @ CHR '':'' # r" "CHR '':'' \<notin> set h" "sch = lower h" "h \<noteq> []" "is_alpha_az (hd h)" "list_all is_scheme_char h"
    using split_scheme_found [OF sr] assms(2) u(1) by auto
  have r: "r = ''//'' @ n @ p" "\<forall>c \<in> set n. \<not> is_netloc_end c" "n \<noteq> []"
    using split_netloc_nonempty [OF np] assms(3) u(2) by auto
  have "p \<noteq> []"
  proof
    assume "p = []"
    with h(1) r have "last (url_clean v) = last n" by simp
    moreover have "\<not> is_netloc_end (last n)" using r(2,3) by simp
    ultimately show False using assms(8) by (simp add: is_netloc_end_def)
  qed
  moreover from this h(1) r(1) assms(8) have "last p = CHR ''/''" by simp
  ultimately have frag: "CHR ''#'' \<notin> set p" using partition_on_end [of "CHR ''#''" p] assms(5) u(3) by simp
  then have p: "fst (partition_on CHR ''#'' p) = p" by (auto simp: partition_on_def takeWhile_eq_all_conv)
  have "CHR ''?'' \<notin> set p"
    using partition_on_end [of "CHR ''?''" p] assms(4) u(5) p \<open>p \<noteq> []\<close> \<open>last p = CHR ''/''\<close> by simp
  then have "fst (partition_on CHR ''?'' p) = p" by (auto simp: partition_on_def takeWhile_eq_all_conv)
  then have "u_path u = p" unfolding u(4) p .
  with assms(6) \<open>p \<noteq> []\<close> have "p = ''/''" by simp
  with h r u show ?thesis by auto
qed

lemma urlsplit_plain:
  assumes "url_clean v = h @ CHR '':'' # ''//'' @ n" and "CHR '':'' \<notin> set h" "h \<noteq> []" "is_alpha_az (hd h)" "list_all is_scheme_char h"
    and "\<forall>c \<in> set n. \<not> is_netloc_end c" and "(CHR ''['' \<in> set n) = (CHR '']'' \<in> set n)" and "CHR ''['' \<in> set n \<longrightarrow> ip_ok (bracketed_host n)"
  shows "urlsplit ip_ok v = Inr \<lparr>u_scheme = lower h, u_netloc = n, u_path = [], u_query = [], u_fragment = []\<rparr>"
proof -
  have "split_scheme (url_clean v) = (lower h, ''//'' @ n)" unfolding assms(1) by (rule split_scheme_intro) (use assms in auto)
  then show ?thesis
    using split_netloc_plain [OF assms(6)] assms(7,8) by (simp add: urlsplit_def partition_on_def Let_def)
qed

lemma endpoint_again:
  assumes "validate_storage_endpoint ip_ok v = Inr e"
  shows "validate_storage_endpoint ip_ok e = Inr e"
proof (cases "v = [] \<or> last v \<noteq> CHR ''/''")
  case True
  then have "rstrip_by (\<lambda>c. c = CHR ''/'') v = v" by (rule rstrip_by_id)
  with assms have "e = v" unfolding endpoint_iff by metis
  with assms show ?thesis by simp
next
  case False
  then obtain w where w: "v = w @ ''/''" by (metis append_butlast_last_id)
  from assms obtain u where "urlsplit ip_ok v = Inr u" "endpoint_ok u" and e: "e = rstrip_by (\<lambda>c. c = CHR ''/'') v"
    unfolding endpoint_iff by blast
  then have u: "urlsplit ip_ok v = Inr u" "u_scheme u \<in> {''http'', ''https''}" "u_hostname u \<noteq> None"
    "\<not> has_forbidden_part u" "u_path u \<in> {'''', ''/''}" by (simp_all only: endpoint_ok_def simp_thms)
  have net: "u_netloc u \<noteq> []" using u(3) by (rule contrapos_nn) (rule no_netloc_no_host)
  have sch: "u_scheme u \<noteq> []" using u(2) by auto
  have clean: "url_clean v \<noteq> []"
  proof
    assume "url_clean v = []"
    then have "split_scheme (url_clean v) = ([], [])" by (simp add: split_scheme_def partition_on_def)
    with urlsplit_parts(1) [OF u(1) this] sch show False by (cases "split_netloc []") auto
  qed
  have cw: "url_clean v = url_clean w @ ''/''" if "url_clean w \<noteq> []"
    using url_clean_slash [OF that] w by simp
  have last: "last (url_clean v) = CHR ''/''"
    using cw url_clean_blank [of w] clean w by (cases "url_clean w = []") auto
  obtain h n where v: "url_clean v = h @ CHR '':'' # ''//'' @ n @ ''/''" and h: "CHR '':'' \<notin> set h" "h \<noteq> []" "is_alpha_az (hd h)" "list_all is_scheme_char h"
    and n: "n \<noteq> []" "\<forall>c \<in> set n. \<not> is_netloc_end c" "u_scheme u = lower h" "u_netloc u = n"
    using endpoint_parts [OF u(1) sch net _ _ u(5) clean last] u(4) by (auto simp: has_forbidden_part_def)
  have "url_clean w \<noteq> []" using url_clean_blank [of w] v w h(2) by auto
  from cw [OF this] v have cw: "url_clean w = h @ CHR '':'' # ''//'' @ n" by simp
  have brackets: "(CHR ''['' \<in> set n) = (CHR '']'' \<in> set n)" "CHR ''['' \<in> set n \<longrightarrow> ip_ok (bracketed_host n)"
    using urlsplit_brackets [OF u(1)] n(4) by simp_all
  have split: "urlsplit ip_ok w = Inr \<lparr>u_scheme = lower h, u_netloc = n, u_path = [], u_query = [], u_fragment = []\<rparr>"
    by (rule urlsplit_plain) (use cw h n(2) brackets in simp_all)
  have "last w \<noteq> CHR ''/''"
  proof
    assume "last w = CHR ''/''"
    moreover have "w \<noteq> []" using \<open>url_clean w \<noteq> []\<close> by (auto simp: url_clean_def lstrip_by_def)
    ultimately obtain w' where "w = w' @ ''/''" by (metis append_butlast_last_id)
    then have "last (url_clean w) = CHR ''/''"
      using url_clean_slash [of w'] url_clean_blank [of w'] \<open>url_clean w \<noteq> []\<close> by (cases "url_clean w' = []") auto
    moreover have "\<not> is_netloc_end (last n)" using n(1,2) by simp
    ultimately show False using cw n(1) by (simp add: is_netloc_end_def)
  qed
  then have "rstrip_by (\<lambda>c. c = CHR ''/'') w = w" by (intro rstrip_by_id) simp
  moreover have "e = w" using calculation by (simp add: e w rstrip_by_def)
  moreover have "has_forbidden_part \<lparr>u_scheme = lower h, u_netloc = n, u_path = [], u_query = [], u_fragment = []\<rparr> = False"
    "u_hostname \<lparr>u_scheme = lower h, u_netloc = n, u_path = [], u_query = [], u_fragment = []\<rparr> \<noteq> None"
    using u(3,4) n(4) by (simp_all add: has_forbidden_part_def u_username_def u_password_def u_hostname_def u_hostinfo_def)
  ultimately show ?thesis
    using split u(2) n(3) unfolding endpoint_iff endpoint_ok_def by simp
qed

section \<open>Configurations\<close>

lemma region_again: "validate_region v = Inr r \<Longrightarrow> validate_region r = Inr r"
  by (cases v) (auto simp: validate_region_def split: if_splits)

lemma plain_again:
  "validate_project_name v = Inr x \<Longrightarrow> validate_project_name x = Inr x"
  "validate_django_module v = Inr x \<Longrightarrow> validate_django_module x = Inr x"
  "validate_email v = Inr x \<Longrightarrow> validate_email x = Inr x" "validate_bucket f v = Inr x \<Longrightarrow> validate_bucket f x = Inr x"
  "validate_backup_prefix v = Inr x \<Longrightarrow> validate_backup_prefix x = Inr x"
  by (auto simp: validate_project_name_def validate_django_module_def validate_email_def validate_bucket_def
      validate_backup_prefix_def Let_def split: if_splits)

definition config_ok :: "(string \<Rightarrow> bool) \<Rightarrow> djangoops_config \<Rightarrow> bool" where
  "config_ok ip_ok c \<longleftrightarrow> checked_config ip_ok (dc_project_name c) (dc_django_module c) (dc_services c) (dc_tls c) (dc_storage c) (dc_backup c) = Inr c"

lemma tls_again: "checked_tls h e = Inr t \<Longrightarrow> checked_tls (tc_hostname t) (tc_acme_email t) = Inr t"
  by (auto simp: checked_tls_def res_simps) (blast dest: hostname_again plain_again)+

lemma storage_again:
  "checked_storage ip_ok u r s m = Inr x \<Longrightarrow>
   checked_storage ip_ok (so_endpoint_url x) (so_region x) (so_static_bucket x) (so_media_bucket x) = Inr x"
  by (auto simp: checked_storage_def res_simps) (blast dest: endpoint_again region_again plain_again)+

lemma backup_again: "checked_backup s b p = Inr x \<Longrightarrow> checked_backup (bc_schedule x) (bc_bucket x) (bc_prefix x) = Inr x"
  by (auto simp: checked_backup_def res_simps) (blast dest: schedule_again plain_again)+

lemma checked_config_ok: "checked_config ip_ok n m sv t s b = Inr c \<Longrightarrow> config_ok ip_ok c"
  unfolding config_ok_def
  by (auto simp: checked_config_def res_simps) (blast dest: tls_again storage_again backup_again plain_again)+

lemma config_eta:
  "\<lparr>sc_postgres = sc_postgres s, sc_redis = sc_redis s, sc_celery = sc_celery s, sc_celery_beat = sc_celery_beat s\<rparr> = s"
  "\<lparr>tc_hostname = tc_hostname t, tc_acme_email = tc_acme_email t\<rparr> = t"
  "\<lparr>so_endpoint_url = so_endpoint_url o', so_region = so_region o', so_static_bucket = so_static_bucket o', so_media_bucket = so_media_bucket o'\<rparr> = o'"
  "\<lparr>bc_schedule = bc_schedule b, bc_bucket = bc_bucket b, bc_prefix = bc_prefix b\<rparr> = b"
  by simp_all

lemma require_region_eval: "require_region (Some (case r of None \<Rightarrow> JNull | Some x \<Rightarrow> JStr x)) = Inr r"
  by (cases r) (simp_all add: require_region_def)

lemma from_mapping_to_mapping:
  "dc_schema_version c = SCHEMA_VERSION \<Longrightarrow> from_mapping ip_ok (to_mapping c)
    = checked_config ip_ok (dc_project_name c) (dc_django_module c) (dc_services c) (dc_tls c) (dc_storage c) (dc_backup c)"
  by (simp add: from_mapping_def to_mapping_def normalized_def equals_int_def SCHEMA_VERSION_def keys_are_def SCHEMA_3_KEYS_def
      LEGACY_KEYS_def require_mapping_def parse_sections_def parse_services_def require_bool_def require_region_eval
      require_string_def config_eta)

lemma config_ok_roundtrip: "config_ok ip_ok c \<Longrightarrow> from_mapping ip_ok (to_mapping c) = Inr c"
proof -
  assume ok: "config_ok ip_ok c"
  then have "dc_schema_version c = SCHEMA_VERSION"
    by (auto simp: config_ok_def checked_config_def res_simps dest!: arg_cong [of _ _ dc_schema_version])
  with ok show ?thesis by (simp add: from_mapping_to_mapping config_ok_def)
qed

lemma from_mapping_ok: "from_mapping ip_ok v = Inr c \<Longrightarrow> config_ok ip_ok c"
  by (auto simp: from_mapping_def res_simps dest: checked_config_ok)

definition upgraded :: "string \<Rightarrow> string \<Rightarrow> (string \<times> json) list \<Rightarrow> json" where
  "upgraded schedule bucket kvs = JObj (dput ''backup''
     (JObj [(''schedule'', JStr schedule), (''bucket'', JStr bucket), (''prefix'', JStr ''djangoops-backups'')])
     (dput ''schema_version'' (JInt SCHEMA_VERSION) kvs))"

lemma upgrade_result:
  assumes "upgrade_config load dump ip_ok text bucket schedule = Inr text'"
  obtains kvs sch c where "text' = render_config dump c" "from_mapping ip_ok (upgraded sch bucket kvs) = Inr c"
proof (cases "load_yaml load text")
  case (Inr v)
  have b: "validate_bucket f x = Inr y \<Longrightarrow> y = x" for f x y by (simp add: validate_bucket_def Let_def split: if_splits)
  show thesis
  proof (cases v)
    case (JObj kvs)
    from assms that b show thesis
      unfolding upgrade_config_def Inr JObj bindR_simps json.simps upgraded_def [symmetric]
      by (fastforce simp: res_simps split: if_split_asm)
  qed (use assms Inr in \<open>simp_all add: upgrade_config_def\<close>)
qed (use assms in \<open>simp add: upgrade_config_def\<close>)

lemma upgraded_config:
  assumes "from_mapping ip_ok (upgraded sch bucket kvs) = Inr c"
  shows "dc_schema_version c = SCHEMA_VERSION \<and> bc_bucket (dc_backup c) = bucket \<and> bc_prefix (dc_backup c) = ''djangoops-backups''"
proof -
  have b: "validate_bucket f x = Inr y \<Longrightarrow> y = x" for f x y by (simp add: validate_bucket_def Let_def split: if_splits)
  have p: "validate_backup_prefix x = Inr y \<Longrightarrow> y = x" for x y by (simp add: validate_backup_prefix_def split: if_splits)
  let ?bk = "[(''schedule'', JStr sch), (''bucket'', JStr bucket), (''prefix'', JStr ''djangoops-backups'')]"
  obtain kvs' where kvs': "normalized (upgraded sch bucket kvs) = Inr kvs'" "dget kvs' ''backup'' = Some (JObj ?bk)"
    using assms by (auto simp: from_mapping_def upgraded_def normalized_def equals_int_def SCHEMA_VERSION_def split: if_splits)
  from assms obtain pr dj se tl so nm md sv tls st bk where sections: "parse_sections pr dj se tl so ?bk = Inr (nm, md, sv, tls, st, bk)"
    and c: "checked_config ip_ok nm md sv tls st bk = Inr c"
    unfolding from_mapping_def kvs'(1) bindR_simps kvs'(2) by (auto simp: res_simps require_mapping_def [of "Some (JObj ?bk)"])
  from sections have "bk = \<lparr>bc_schedule = sch, bc_bucket = bucket, bc_prefix = ''djangoops-backups''\<rparr>"
    by (auto simp: parse_sections_def res_simps require_string_def)
  with c show ?thesis by (auto simp: checked_config_def checked_backup_def res_simps dest: b p)
qed

text \<open>C27. Given that loading a dumped configuration gives its mapping back, a configuration once accepted,
  whether read from a document or created from arguments, is written as a document that is read as the
  same configuration; and an upgraded document of schema version 2 is read as a configuration of the
  current version with the chosen bucket and the given prefix.\<close>

theorem config_roundtrip:
  assumes "\<And>c. load (dump (to_mapping c)) = Inr (Some (to_mapping c))"
  shows "(parse_config load ip_ok text = Inr c \<longrightarrow> parse_config load ip_ok (render_config dump c) = Inr c)
    \<and> (create_config ip_ok name module tls storage backup = Inr c \<longrightarrow> parse_config load ip_ok (render_config dump c) = Inr c)
    \<and> (upgrade_config load dump ip_ok text bucket schedule = Inr text' \<longrightarrow>
        (\<exists>c. parse_config load ip_ok text' = Inr c \<and> dc_schema_version c = SCHEMA_VERSION \<and> bc_bucket (dc_backup c) = bucket
           \<and> bc_prefix (dc_backup c) = ''djangoops-backups''))"
proof -
  have again: "parse_config load ip_ok (render_config dump c) = Inr c" if "config_ok ip_ok c" for c
    using config_ok_roundtrip [OF that] assms by (simp add: parse_config_def load_yaml_def render_config_def)
  have "\<exists>c. parse_config load ip_ok text' = Inr c \<and> dc_schema_version c = SCHEMA_VERSION \<and> bc_bucket (dc_backup c) = bucket
      \<and> bc_prefix (dc_backup c) = ''djangoops-backups''" if up: "upgrade_config load dump ip_ok text bucket schedule = Inr text'"
  proof -
    obtain kvs sch c where "text' = render_config dump c" and c: "from_mapping ip_ok (upgraded sch bucket kvs) = Inr c"
      by (rule upgrade_result [OF up])
    with again [OF from_mapping_ok [OF c]] upgraded_config [OF c] show ?thesis by blast
  qed
  moreover have "parse_config load ip_ok (render_config dump c) = Inr c" if "parse_config load ip_ok text = Inr c"
    using that again from_mapping_ok by (auto simp: parse_config_def res_simps)
  moreover have "parse_config load ip_ok (render_config dump c) = Inr c" if "create_config ip_ok name module tls storage backup = Inr c"
    using that again checked_config_ok by (auto simp: create_config_def)
  ultimately show ?thesis by blast
qed

text \<open>JSON is a part of YAML: its writer and reader are such a pair.\<close>

lemma json_pair: "json_loads (json_encode (to_mapping c)) = Some (to_mapping c)"
proof -
  have "json_wf (to_mapping c)" by (auto simp: to_mapping_def split: option.splits)
  then have "reads (to_mapping c)" by (rule json_reads)
  from readsD [OF this, of "2 * length (json_encode (to_mapping c)) + 2" "[]"]
  show ?thesis by (simp add: json_loads_def skip_ws_def ends_token_def)
qed

definition demo_config :: djangoops_config where
  "demo_config = \<lparr>dc_schema_version = 3, dc_project_name = ''shop'', dc_django_module = ''config.settings'',
     dc_services = all_services, dc_tls = \<lparr>tc_hostname = ''shop.example.com'', tc_acme_email = ''ops@example.com''\<rparr>,
     dc_storage = \<lparr>so_endpoint_url = ''https://s3.example.com'', so_region = None, so_static_bucket = ''shop-static'', so_media_bucket = ''shop-media''\<rparr>,
     dc_backup = \<lparr>bc_schedule = ''17 2 * * *'', bc_bucket = ''shop-backups'', bc_prefix = ''shop''\<rparr>\<rparr>"

lemma demo_create:
  "create_config (\<lambda>_. False) ''shop'' ''config.settings''
     \<lparr>tc_hostname = ''Shop.Example.com.'', tc_acme_email = ''ops@example.com''\<rparr>
     \<lparr>so_endpoint_url = ''https://s3.example.com/'', so_region = None, so_static_bucket = ''shop-static'', so_media_bucket = ''shop-media''\<rparr>
     \<lparr>bc_schedule = ''17  2 * * *'', bc_bucket = ''shop-backups'', bc_prefix = ''shop''\<rparr> = Inr demo_config"
  by code_simp

theorem config_roundtrip_witness:
  "parse_config (\<lambda>t. Inr (json_loads t)) (\<lambda>_. False) (render_config json_encode demo_config) = Inr demo_config"
proof -
  have "Inr (json_loads (json_encode (to_mapping c))) = (Inr (Some (to_mapping c)) :: json option res)" for c
    by (simp add: json_pair)
  from config_roundtrip [of "\<lambda>t. Inr (json_loads t)" json_encode, OF this, of "\<lambda>_. False"] demo_create show ?thesis by blast
qed

text \<open>The endpoint is checked as the library parses it, which drops tabs and line ends, but returned as written.\<close>

lemma endpoint_with_newline:
  "validate_storage_endpoint (\<lambda>_. False) (''http://a.example'' @ [CHR 0x0A] @ ''X=1'') = Inr (''http://a.example'' @ [CHR 0x0A] @ ''X=1'')"
  by code_simp

end
