(* ===== verification/Integrations.thy ===== *)
theory Integrations
  imports Config
begin

text \<open>
  The ecosystem integrations: \<open>cli/djangoops/integrations.py\<close> (the registry of built-in definitions, parsing and
  evaluating a project's integrations within bounds) and \<open>cli/djangoops/ecosystem_config.py\<close> (the configuration
  file with an optional section of integrations). Loaded values are \<open>json\<close> values as in the theory \<open>Config\<close>.
  The clock readings of an evaluation are an argument, in nanoseconds.
\<close>

section \<open>Bounds and patterns\<close>

definition MAX_INTEGRATIONS :: nat where "MAX_INTEGRATIONS = 8"
definition MAX_CONFIG_FIELDS :: nat where "MAX_CONFIG_FIELDS = 16"
definition MAX_CONFIG_VALUE_CHARS :: nat where "MAX_CONFIG_VALUE_CHARS = 256"
definition MAX_RESULT_FIELDS :: nat where "MAX_RESULT_FIELDS = 16"
definition MAX_RESULT_VALUE_CHARS :: nat where "MAX_RESULT_VALUE_CHARS = 256"
definition DEFAULT_BUDGET_MS :: int where "DEFAULT_BUDGET_MS = 100"
definition MAX_BUDGET_MS :: int where "MAX_BUDGET_MS = 1000"

definition SECRET_KEY_RE :: rx where
  "SECRET_KEY_RE =
     (let two = (\<lambda>a b. Seq (LitI a) (Seq (Opt (Cls (\<lambda>c. c \<in> set ''_-''))) (LitI b)))
      in Alts [LitI ''secret'', LitI ''token'', LitI ''password'', LitI ''authorization'', two ''api'' ''key'', two ''access'' ''key'',
               LitI ''credential''])"

definition SAFE_NAME_RE :: rx where
  "SAFE_NAME_RE = Seq (Cls is_lower_az) (Rep 0 47 (Cls (\<lambda>c. is_lower_az c \<or> is_digit c \<or> c = CHR ''-'')))"

definition SAFE_NAMESPACE_RE :: rx where
  "SAFE_NAMESPACE_RE = Seq (Cls is_alnum_az) (Rep 0 62 (Cls (\<lambda>c. is_alnum_az c \<or> c \<in> set ''_.-'')))"

definition SAFE_HEALTH_PATH_RE :: rx where
  "SAFE_HEALTH_PATH_RE = Seq (Cls (\<lambda>c. c = CHR ''/'')) (Rep 0 127 (Cls (\<lambda>c. is_alnum_az c \<or> c \<in> set ''/_-'')))"

section \<open>Definitions and the registry\<close>

record integration_definition =
  id_name :: string
  id_versions :: "string list"
  id_capabilities :: "string list"
  id_config_keys :: "string list"

record integration_config =
  ic_name :: string
  ic_version :: string
  ic_enabled :: bool
  ic_capabilities :: "string list"
  ic_config :: "(string, string) dict"

record integration_result =
  ir_name :: string
  ir_version :: string
  ir_status :: string
  ir_capabilities :: "string list"
  ir_summary :: "(string, string) dict"

definition integration_mapping :: "integration_config \<Rightarrow> json" where
  "integration_mapping c = JObj
     [(''name'', JStr (ic_name c)), (''version'', JStr (ic_version c)), (''enabled'', JBool (ic_enabled c)),
      (''capabilities'', JArr (map JStr (ic_capabilities c))), (''config'', JObj (map (\<lambda>(k, v). (k, JStr v)) (ic_config c)))]"

type_synonym registry = "(string, integration_definition) dict"

fun register_all :: "integration_definition list \<Rightarrow> registry \<Rightarrow> registry res" where
  "register_all [] registered = Inr registered"
| "register_all (d # ds) registered =
     (if dget registered (id_name d) \<noteq> None
      then Inl (IntegrationError ''DUPLICATE_REGISTRATION'' (''duplicate integration registration: '' @ id_name d))
      else if \<not> fullmatch SAFE_NAME_RE (id_name d) then Inl (IntegrationError ''INVALID_REGISTRATION'' ''integration name is invalid'')
      else register_all ds (dput (id_name d) d registered))"

definition registry_definitions :: "registry \<Rightarrow> integration_definition list" where
  "registry_definitions r = map snd (sort_key fst r)"

definition resolve_definition :: "registry \<Rightarrow> string \<Rightarrow> string \<Rightarrow> integration_definition res" where
  "resolve_definition r name version =
     (case dget r name of
        None \<Rightarrow> Inl (IntegrationError ''UNKNOWN_INTEGRATION'' (''unknown integration: '' @ name))
      | Some d \<Rightarrow>
          if version \<notin> set (id_versions d)
          then Inl (IntegrationError ''UNSUPPORTED_VERSION'' (''unsupported '' @ name @ '' integration version: '' @ version))
          else Inr d)"

definition django_runtime :: integration_definition where
  "django_runtime = \<lparr>id_name = ''django-runtime'', id_versions = [''v1''], id_capabilities = [''metadata'', ''health''],
     id_config_keys = [''health_path'', ''metadata_label'']\<rparr>"

definition otlp_export :: integration_definition where
  "otlp_export = \<lparr>id_name = ''otlp-export'', id_versions = [''v1''], id_capabilities = [''telemetry'', ''deployment_config''],
     id_config_keys = [''endpoint'', ''service_namespace'']\<rparr>"

definition BUILTIN_REGISTRY :: registry where
  "BUILTIN_REGISTRY = (case register_all [django_runtime, otlp_export] [] of Inl _ \<Rightarrow> [] | Inr r \<Rightarrow> r)"

section \<open>Validating a configuration\<close>

definition as_string :: "json \<Rightarrow> string \<Rightarrow> string res" where
  "as_string v field = (case v of JStr s \<Rightarrow> Inr s | _ \<Rightarrow> Inl (IntegrationError ''INVALID_CONFIG'' (field @ '' must be a string'')))"

definition validate_otlp_origin :: "(string \<Rightarrow> bool) \<Rightarrow> string \<Rightarrow> string res" where
  "validate_otlp_origin ip_ok value =
     bindR (urlsplit ip_ok value) (\<lambda>parsed.
       if u_scheme parsed \<notin> {''http'', ''https''} \<or> u_hostname parsed = None \<or> u_username parsed \<noteq> None \<or> u_password parsed \<noteq> None
          \<or> u_query parsed \<noteq> [] \<or> u_fragment parsed \<noteq> [] \<or> u_path parsed \<notin> {'''', ''/''}
       then Inl (IntegrationError ''SECRET_REJECTED'' ''OTLP endpoint must be a credential-free http(s) origin without query or fragment'')
       else Inr (rstrip_by (\<lambda>c. c = CHR ''/'') value))"

fun validate_fields :: "(string \<times> json) list \<Rightarrow> (string, string) dict \<Rightarrow> (string, string) dict res" where
  "validate_fields [] validated = Inr validated"
| "validate_fields ((key, raw) # kvs) validated =
     (if search SECRET_KEY_RE key then Inl (IntegrationError ''SECRET_REJECTED'' (''secret-bearing config key is forbidden: '' @ key))
      else bindR (as_string raw (''integration config '' @ key)) (\<lambda>s.
        if MAX_CONFIG_VALUE_CHARS < length s then Inl (IntegrationError ''LIMIT_EXCEEDED'' (''integration config '' @ key @ '' is too long''))
        else validate_fields kvs (dput key s validated)))"

definition or_else :: "'a \<Rightarrow> 'a option \<Rightarrow> 'a" where
  "or_else d v = (case v of None \<Rightarrow> d | Some x \<Rightarrow> x)"

definition complete_config :: "(string \<Rightarrow> bool) \<Rightarrow> string \<Rightarrow> (string, string) dict \<Rightarrow> (string, string) dict res" where
  "complete_config ip_ok name validated =
     (if name = ''django-runtime'' then
        let health_path = or_else ''/healthz'' (dget validated ''health_path'')
        in if \<not> fullmatch SAFE_HEALTH_PATH_RE health_path \<or> substring_in ''..'' health_path
           then Inl (IntegrationError ''INVALID_CONFIG'' ''django-runtime health_path is invalid'')
           else let validated = dput ''health_path'' health_path validated;
                    metadata_label = or_else ''django'' (dget validated ''metadata_label'')
                in if \<not> fullmatch SAFE_NAMESPACE_RE metadata_label
                   then Inl (IntegrationError ''INVALID_CONFIG'' ''django-runtime metadata_label is invalid'')
                   else Inr (dput ''metadata_label'' metadata_label validated)
      else if name = ''otlp-export'' then
        (case dget validated ''endpoint'' of
           None \<Rightarrow> Inl (IntegrationError ''INVALID_CONFIG'' ''otlp-export requires endpoint'')
         | Some endpoint \<Rightarrow>
             bindR (validate_otlp_origin ip_ok endpoint) (\<lambda>e.
               let validated = dput ''endpoint'' e validated;
                   namespace = or_else ''djangoops'' (dget validated ''service_namespace'')
               in if \<not> fullmatch SAFE_NAMESPACE_RE namespace
                  then Inl (IntegrationError ''INVALID_CONFIG'' ''otlp-export service_namespace is invalid'')
                  else Inr (dput ''service_namespace'' namespace validated)))
      else Inr validated)"

definition validate_integration_config :: "(string \<Rightarrow> bool) \<Rightarrow> integration_definition \<Rightarrow> json \<Rightarrow> string \<Rightarrow> (string, string) dict res" where
  "validate_integration_config ip_ok d value field =
     (case value of
        JObj kvs \<Rightarrow>
          let unknown = filter (\<lambda>k. k \<notin> set (id_config_keys d)) (dkeys kvs)
          in if MAX_CONFIG_FIELDS < length kvs then Inl (IntegrationError ''LIMIT_EXCEEDED'' ''integration config has too many fields'')
             else if unknown \<noteq> []
             then Inl (IntegrationError ''SCHEMA_DRIFT'' (''unknown '' @ id_name d @ '' config keys: '' @ join '', '' (sort unknown)))
             else bindR (validate_fields kvs []) (complete_config ip_ok (id_name d))
      | _ \<Rightarrow> Inl (IntegrationError ''INVALID_CONFIG'' (field @ '' must be a mapping'')))"

section \<open>Parsing the list of integrations\<close>

definition parse_capabilities :: "string \<Rightarrow> string \<Rightarrow> integration_definition \<Rightarrow> json \<Rightarrow> string list res" where
  "parse_capabilities field name d value =
     bindR (case value of
         JArr vs \<Rightarrow> if list_all (\<lambda>v. case v of JStr _ \<Rightarrow> True | _ \<Rightarrow> False) vs then mapR (\<lambda>v. as_string v field) vs
                   else Inl (IntegrationError ''INVALID_CONFIG'' (field @ '' must be a list of strings''))
       | _ \<Rightarrow> Inl (IntegrationError ''INVALID_CONFIG'' (field @ '' must be a list of strings''))) (\<lambda>requested.
     let unsupported = sort (filter (\<lambda>c. c \<notin> set (id_capabilities d)) (remdups requested))
     in if \<not> distinct requested then Inl (IntegrationError ''INVALID_CONFIG'' (name @ '' capabilities must not contain duplicates''))
        else if unsupported \<noteq> []
        then Inl (IntegrationError ''UNSUPPORTED_CAPABILITY'' (name @ '' does not support: '' @ join '', '' unsupported))
        else Inr requested)"

definition integration_keys :: "string list" where
  "integration_keys = [''name'', ''version'', ''enabled'', ''capabilities'', ''config'']"

definition item :: "nat \<Rightarrow> string" where
  "item i = ''integrations['' @ int_str (int i) @ '']''"

definition parse_integration :: "(string \<Rightarrow> bool) \<Rightarrow> nat \<Rightarrow> string set \<Rightarrow> json \<Rightarrow> integration_config res" where
  "parse_integration ip_ok i seen raw =
     (case raw of
        JObj kvs \<Rightarrow>
          if \<not> keys_are kvs integration_keys
          then Inl (IntegrationError ''SCHEMA_DRIFT'' (item i @ '' keys do not match ecosystem contract v1''))
          else
            bindR (as_string (or_else JNull (dget kvs ''name'')) (item i @ ''.name'')) (\<lambda>name.
            bindR (as_string (or_else JNull (dget kvs ''version'')) (item i @ ''.version'')) (\<lambda>version.
            bindR (case dget kvs ''enabled'' of Some (JBool b) \<Rightarrow> Inr b
                   | _ \<Rightarrow> Inl (IntegrationError ''INVALID_CONFIG'' (item i @ ''.enabled must be boolean''))) (\<lambda>enabled.
            bindR (guardR (name \<notin> seen) (IntegrationError ''DUPLICATE_INTEGRATION'' (''integration configured more than once: '' @ name))) (\<lambda>_.
            bindR (resolve_definition BUILTIN_REGISTRY name version) (\<lambda>d.
            bindR (parse_capabilities (item i @ ''.capabilities'') name d (or_else JNull (dget kvs ''capabilities''))) (\<lambda>requested.
            bindR (validate_integration_config ip_ok d (or_else JNull (dget kvs ''config'')) (item i @ ''.config'')) (\<lambda>config.
              Inr \<lparr>ic_name = name, ic_version = version, ic_enabled = enabled, ic_capabilities = requested, ic_config = config\<rparr>)))))))
      | _ \<Rightarrow> Inl (IntegrationError ''INVALID_CONFIG'' (item i @ '' must be a mapping'')))"

fun parse_items :: "(string \<Rightarrow> bool) \<Rightarrow> nat \<Rightarrow> string set \<Rightarrow> json list \<Rightarrow> integration_config list res" where
  "parse_items ip_ok i seen [] = Inr []"
| "parse_items ip_ok i seen (raw # rs) =
     bindR (parse_integration ip_ok i seen raw) (\<lambda>c.
     bindR (parse_items ip_ok (Suc i) (insert (ic_name c) seen) rs) (\<lambda>cs. Inr (c # cs)))"

definition parse_integrations :: "(string \<Rightarrow> bool) \<Rightarrow> json option \<Rightarrow> integration_config list res" where
  "parse_integrations ip_ok value =
     (case value of
        None \<Rightarrow> Inr [] | Some JNull \<Rightarrow> Inr []
      | Some (JArr vs) \<Rightarrow>
          if MAX_INTEGRATIONS < length vs then Inl (IntegrationError ''LIMIT_EXCEEDED'' ''at most 8 integrations are allowed'')
          else parse_items ip_ok 0 {} vs
      | Some _ \<Rightarrow> Inl (IntegrationError ''INVALID_CONFIG'' ''integrations must be a list''))"

section \<open>Evaluating\<close>

definition validate_context :: "(string, string) dict \<Rightarrow> (string, string) dict res" where
  "validate_context context =
     (if MAX_CONFIG_FIELDS < length context then Inl (IntegrationError ''LIMIT_EXCEEDED'' ''integration context has too many fields'')
      else bindR (mapR (\<lambda>(key, value).
          if search SECRET_KEY_RE key then Inl (IntegrationError ''SECRET_REJECTED'' ''secret-bearing integration context is forbidden'')
          else if 64 < length key \<or> MAX_CONFIG_VALUE_CHARS < length value
          then Inl (IntegrationError ''LIMIT_EXCEEDED'' ''integration context field exceeds bounds'')
          else Inr (key, value)) context) Inr)"

text \<open>\<open>d[key]\<close>\<close>

definition dict_at :: "(string, string) dict \<Rightarrow> string \<Rightarrow> string res" where
  "dict_at d key = (case dget d key of None \<Rightarrow> Inl (KeyError key) | Some v \<Rightarrow> Inr v)"

definition django_runtime_summary :: "(string, string) dict \<Rightarrow> (string, string) dict \<Rightarrow> (string, string) dict res" where
  "django_runtime_summary config context =
     bindR (dict_at config ''health_path'') (\<lambda>p. bindR (dict_at config ''metadata_label'') (\<lambda>l. Inr
       [(''kind'', ''django-runtime''), (''health_path'', p), (''metadata_label'', l),
        (''project'', or_else ''unknown'' (dget context ''project''))]))"

definition otlp_export_summary :: "(string, string) dict \<Rightarrow> (string, string) dict \<Rightarrow> (string, string) dict res" where
  "otlp_export_summary config context =
     bindR (dict_at config ''endpoint'') (\<lambda>e. bindR (dict_at config ''service_namespace'') (\<lambda>n. Inr
       [(''kind'', ''otlp-export''), (''endpoint'', e), (''service_namespace'', n),
        (''project'', or_else ''unknown'' (dget context ''project''))]))"

definition bounded_result :: "(string, string) dict \<Rightarrow> (string, string) dict res" where
  "bounded_result value =
     (if MAX_RESULT_FIELDS < length value then Inl (IntegrationError ''LIMIT_EXCEEDED'' ''integration result has too many fields'')
      else bindR (mapR (\<lambda>(key, item).
          if search SECRET_KEY_RE key \<or> 64 < length key \<or> MAX_RESULT_VALUE_CHARS < length item
          then Inl (IntegrationError ''RESULT_REJECTED'' ''integration result violates safety bounds'')
          else Inr (key, item)) value) Inr)"

text \<open>\<open>started\<close> and \<open>ended\<close> are \<open>time.monotonic_ns()\<close>.\<close>

definition evaluate_integration :: "int \<times> int \<Rightarrow> (string, string) dict \<Rightarrow> int \<Rightarrow> integration_config \<Rightarrow> integration_result res" where
  "evaluate_integration clock context budget_ms c =
     bindR (guardR (1 \<le> budget_ms \<and> budget_ms \<le> MAX_BUDGET_MS) (IntegrationError ''INVALID_BUDGET'' ''budget_ms must be between 1 and 1000'')) (\<lambda>_.
     if \<not> ic_enabled c
     then Inr \<lparr>ir_name = ic_name c, ir_version = ic_version c, ir_status = ''disabled'', ir_capabilities = ic_capabilities c, ir_summary = []\<rparr>
     else
       bindR (resolve_definition BUILTIN_REGISTRY (ic_name c) (ic_version c)) (\<lambda>d.
       bindR (guardR (set (ic_capabilities c) \<subseteq> set (id_capabilities d))
         (IntegrationError ''UNSUPPORTED_CAPABILITY'' ''configured capabilities no longer match registry'')) (\<lambda>_.
       bindR (validate_context context) (\<lambda>safe_context.
       bindR (if ic_name c = ''django-runtime'' then django_runtime_summary (ic_config c) safe_context
              else if ic_name c = ''otlp-export'' then otlp_export_summary (ic_config c) safe_context
              else Inl (IntegrationError ''UNKNOWN_INTEGRATION'' (''unknown integration: '' @ ic_name c))) (\<lambda>summary.
       bindR (guardR (snd clock - fst clock \<le> budget_ms * 1000000)
         (IntegrationError ''TIMEOUT'' (ic_name c @ '' integration exceeded its execution budget''))) (\<lambda>_.
       bindR (bounded_result summary) (\<lambda>bounded.
         Inr \<lparr>ir_name = ic_name c, ir_version = ic_version c, ir_status = ''ready'', ir_capabilities = ic_capabilities c,
              ir_summary = bounded\<rparr>)))))))"

section \<open>Configuration file with integrations\<close>

definition parse_project_config :: "(string \<Rightarrow> json option res) \<Rightarrow> (json \<Rightarrow> string) \<Rightarrow> (string \<Rightarrow> bool) \<Rightarrow> string
    \<Rightarrow> (djangoops_config \<times> integration_config list) res" where
  "parse_project_config load dump ip_ok text =
     bindR (load_yaml load text) (\<lambda>loaded.
       case loaded of
         JObj kvs \<Rightarrow>
           bindR (parse_integrations ip_ok (dget kvs ''integrations'')) (\<lambda>integrations.
           bindR (parse_config load ip_ok (dump (JObj (ddel ''integrations'' kvs)))) (\<lambda>c. Inr (c, integrations)))
       | _ \<Rightarrow> Inl (ValueError ''configuration root must be a mapping''))"

definition render_project_config :: "(json \<Rightarrow> string) \<Rightarrow> djangoops_config \<Rightarrow> integration_config list \<Rightarrow> string" where
  "render_project_config dump c integrations =
     dump (case to_mapping c of
         JObj kvs \<Rightarrow> JObj (if integrations = [] then kvs else dput ''integrations'' (JArr (map integration_mapping integrations)) kvs)
       | v \<Rightarrow> v)"

end
