(* ===== verification/Integrations_Claims.thy ===== *)
theory Integrations_Claims
  imports Integrations
begin

text \<open>
  What parsing a project's integrations guarantees, and that an integration that was parsed is always
  evaluated within its bounds.
\<close>

section \<open>The registry\<close>

lemma builtin: "BUILTIN_REGISTRY = [(''django-runtime'', django_runtime), (''otlp-export'', otlp_export)]"
  by code_simp

lemma resolve_iff:
  "resolve_definition BUILTIN_REGISTRY name version = Inr d \<longleftrightarrow>
     version = ''v1'' \<and> (name = ''django-runtime'' \<and> d = django_runtime \<or> name = ''otlp-export'' \<and> d = otlp_export)"
  by (auto simp: resolve_definition_def builtin django_runtime_def otlp_export_def)

section \<open>What parsing guarantees\<close>

definition required_keys :: "string \<Rightarrow> string list" where
  "required_keys name = (if name = ''django-runtime'' then [''health_path'', ''metadata_label''] else [''endpoint'', ''service_namespace''])"

definition integration_ok :: "integration_config \<Rightarrow> bool" where
  "integration_ok c \<longleftrightarrow> ic_version c = ''v1'' \<and> ic_name c \<in> {''django-runtime'', ''otlp-export''}
     \<and> distinct (ic_capabilities c)
     \<and> set (ic_capabilities c) \<subseteq> set (if ic_name c = ''django-runtime'' then [''metadata'', ''health''] else [''telemetry'', ''deployment_config''])
     \<and> dict_wf (ic_config c) \<and> set (dkeys (ic_config c)) = set (required_keys (ic_name c))
     \<and> (\<forall>(k, v) \<in> set (ic_config c). length v \<le> 256)"

definition short_values :: "(string, string) dict \<Rightarrow> bool" where
  "short_values d \<longleftrightarrow> dict_wf d \<and> (\<forall>(k, v) \<in> set d. length v \<le> 256)"

lemma short_dput: "short_values d \<Longrightarrow> length v \<le> 256 \<Longrightarrow> short_values (dput k v d)"
  unfolding short_values_def
proof (elim conjE, intro conjI)
  assume "\<forall>(k, v) \<in> set d. length v \<le> 256" and "length v \<le> 256"
  then show "\<forall>(k, v) \<in> set (dput k v d). length v \<le> 256"
    by (induction d) (auto split: if_splits)
qed simp

lemma short_dget: "short_values d \<Longrightarrow> dget d k = Some v \<Longrightarrow> length v \<le> 256"
  by (auto simp: short_values_def dest: map_of_SomeD)

lemma validate_fields_ok:
  "validate_fields kvs acc = Inr r \<Longrightarrow> short_values acc \<Longrightarrow>
   short_values r \<and> fst ` set r = fst ` set acc \<union> fst ` set kvs"
proof (induction kvs acc rule: validate_fields.induct)
  case (2 key raw kvs validated)
  have nosec: "\<not> search SECRET_KEY_RE key" using "2.prems"(1) by (auto split: if_splits)
  show ?case
  proof (cases "as_string raw (''integration config '' @ key)")
    case (Inl e)
    then show ?thesis using "2.prems"(1) nosec by simp
  next
    case (Inr s)
    note r = "2.prems"(1) [unfolded validate_fields.simps Inr bindR_simps]
    have s: "\<not> MAX_CONFIG_VALUE_CHARS < length s" using r nosec by (auto split: if_splits)
    then have "length s \<le> 256" by (simp add: MAX_CONFIG_VALUE_CHARS_def)
    with "2.IH" [OF nosec s _ short_dput [OF "2.prems"(2)]] r nosec s show ?thesis by auto
  qed
qed simp

lemma complete_config_ok:
  assumes "complete_config ip_ok name v = Inr r" and "short_values v" and "name \<in> {''django-runtime'', ''otlp-export''}"
    and "fst ` set v \<subseteq> set (required_keys name)"
  shows "short_values r \<and> fst ` set r = set (required_keys name)"
proof (cases "name = ''django-runtime''")
  case True
  define p where "p = or_else ''/healthz'' (dget v ''health_path'')"
  define l where "l = or_else ''django'' (dget v ''metadata_label'')"
  have r: "r = dput ''metadata_label'' l (dput ''health_path'' p v)"
    using assms(1) True by (simp add: complete_config_def Let_def p_def [symmetric] l_def [symmetric] split: if_splits)
  have "length p \<le> 256" using short_dget [OF assms(2)] by (cases "dget v ''health_path''") (auto simp: p_def or_else_def)
  moreover have "length l \<le> 256"
    using short_dget [OF assms(2)] by (cases "dget v ''metadata_label''") (auto simp: l_def or_else_def)
  ultimately show ?thesis
    using assms(2,4) True by (auto simp: r required_keys_def intro!: short_dput)
next
  case False
  with assms(3) have n: "name = ''otlp-export''" by simp
  with assms(1) obtain e0 e where e: "dget v ''endpoint'' = Some e0" "validate_otlp_origin ip_ok e0 = Inr e"
    and r: "r = dput ''service_namespace'' (or_else ''djangoops'' (dget (dput ''endpoint'' e v) ''service_namespace'')) (dput ''endpoint'' e v)"
    by (auto simp: complete_config_def Let_def res_simps split: option.splits if_splits)
  have "e = rstrip_by (\<lambda>c. c = CHR ''/'') e0"
    using e(2) by (auto simp: validate_otlp_origin_def res_simps split: if_splits)
  then have "length e \<le> 256" using short_dget [OF assms(2) e(1)] length_rstrip_by [of _ e0] by (metis le_trans)
  moreover have "length (or_else ''djangoops'' (dget (dput ''endpoint'' e v) ''service_namespace'')) \<le> 256"
    using short_dget [OF assms(2)] by (cases "dget v ''service_namespace''") (auto simp: or_else_def)
  ultimately show ?thesis
    using assms(2,4) n by (auto simp: r required_keys_def intro!: short_dput)
qed

lemma mapR_strings: "mapR (\<lambda>v. as_string v f) vs = Inr ss \<Longrightarrow> vs = map JStr ss"
  by (induction vs arbitrary: ss) (auto simp: res_simps as_string_def split: json.splits)

lemma parse_capabilities_ok:
  assumes "parse_capabilities f name d v = Inr cs"
  shows "distinct cs \<and> set cs \<subseteq> set (id_capabilities d) \<and> v = JArr (map JStr cs)"
proof -
  have "\<exists>x. x \<in> set cs \<and> x \<notin> set (id_capabilities d) \<Longrightarrow> sort (filter (\<lambda>c. c \<notin> set (id_capabilities d)) (remdups cs)) \<noteq> []"
    by (metis (mono_tags, lifting) filter_empty_conv set_remdups set_sort set_empty)
  with assms show ?thesis
    by (cases v) (auto simp: parse_capabilities_def Let_def res_simps split: if_splits dest!: mapR_strings)
qed

lemma validate_config_ok:
  assumes "validate_integration_config ip_ok d v f = Inr r" and "d = django_runtime \<or> d = otlp_export"
  shows "short_values r \<and> fst ` set r = set (required_keys (id_name d))"
proof (cases v)
  case (JObj kvs)
  have keys: "set (id_config_keys d) = set (required_keys (id_name d))" and n: "id_name d \<in> {''django-runtime'', ''otlp-export''}"
    using assms(2) by (auto simp: django_runtime_def otlp_export_def required_keys_def)
  from assms(1) obtain w where w: "validate_fields kvs [] = Inr w" "complete_config ip_ok (id_name d) w = Inr r"
    and "filter (\<lambda>k. k \<notin> set (id_config_keys d)) (dkeys kvs) = []"
    by (auto simp: JObj validate_integration_config_def Let_def res_simps split: if_splits)
  then have "fst ` set kvs \<subseteq> set (required_keys (id_name d))" unfolding keys [symmetric] by (auto simp: filter_empty_conv)
  moreover have "short_values w \<and> fst ` set w = fst ` set kvs"
    using validate_fields_ok [OF w(1)] by (simp add: short_values_def)
  ultimately show ?thesis using complete_config_ok [OF w(2) _ n] by simp
qed (use assms(1) in \<open>simp_all add: validate_integration_config_def\<close>)

lemma parse_integration_ok:
  assumes "parse_integration ip_ok i seen raw = Inr c"
  shows "integration_ok c \<and> ic_name c \<notin> seen"
proof (cases raw)
  case (JObj kvs)
  from assms obtain d f f' v v' where d: "resolve_definition BUILTIN_REGISTRY (ic_name c) (ic_version c) = Inr d"
    and caps: "parse_capabilities f (ic_name c) d v = Inr (ic_capabilities c)"
    and conf: "validate_integration_config ip_ok d v' f' = Inr (ic_config c)" and "ic_name c \<notin> seen"
    unfolding parse_integration_def JObj by (auto simp: res_simps split: if_splits)
  moreover from d have "ic_version c = ''v1''" "ic_name c = id_name d" "d = django_runtime \<or> d = otlp_export"
    by (auto simp: resolve_iff django_runtime_def otlp_export_def)
  moreover note parse_capabilities_ok [OF caps] validate_config_ok [OF conf]
  ultimately show ?thesis
    by (auto simp: integration_ok_def short_values_def django_runtime_def otlp_export_def)
qed (use assms in \<open>simp_all add: parse_integration_def\<close>)

lemma parse_items_ok:
  "parse_items ip_ok i seen raws = Inr cs \<Longrightarrow>
   length cs = length raws \<and> list_all integration_ok cs \<and> distinct (map ic_name cs) \<and> set (map ic_name cs) \<inter> seen = {}"
proof (induction raws arbitrary: i seen cs)
  case (Cons raw raws)
  from Cons.prems obtain c cs' where c: "parse_integration ip_ok i seen raw = Inr c"
    and cs: "parse_items ip_ok (Suc i) (insert (ic_name c) seen) raws = Inr cs'" "cs = c # cs'"
    unfolding parse_items.simps bindR_Inr_iff sum.inject by metis
  from Cons.IH [OF cs(1)] parse_integration_ok [OF c] cs(2) show ?case by auto
qed simp

section \<open>Evaluation\<close>

text \<open>A key with a match holds one of seven words.\<close>

definition secret_words :: "string list" where
  "secret_words = [''secret'', ''token'', ''password'', ''authorization'', ''api'', ''access'', ''credential'']"

lemma secret_words_lower: "w \<in> set secret_words \<Longrightarrow> lower w = w"
  by (auto simp: secret_words_def lower_def lower_char_def in_range_def)

definition begins :: "rx \<Rightarrow> string \<Rightarrow> bool" where
  "begins r w \<longleftrightarrow> (\<forall>u \<in> rx_lang r. \<exists>t. lower u = lower w @ t)"

lemma begins_intros: "begins (LitI w) w" "begins r w \<Longrightarrow> begins (Seq r x) w"
  "begins r w \<Longrightarrow> list_all2 begins rs ws \<Longrightarrow> list_all2 begins (r # rs) (w # ws)" "list_all2 begins [] []"
  by (fastforce simp: begins_def rx_lang_LitI)+

lemma begins_Alts: "list_all2 begins rs ws \<Longrightarrow> u \<in> rx_lang (Alts rs) \<Longrightarrow> \<exists>w \<in> set ws. \<exists>t. lower u = lower w @ t"
proof (induction rs arbitrary: ws rule: Alts.induct)
  case (3 r r' rs)
  then obtain w ws' where ws: "ws = w # ws'" "begins r w" "list_all2 begins (r' # rs) ws'"
    unfolding list_all2_Cons1 [of _ r] by blast
  from "3.prems"(2) consider "u \<in> rx_lang r" | "u \<in> rx_lang (Alts (r' # rs))" by auto
  then show ?case
  proof cases
    case 1
    with ws(1,2) show ?thesis by (auto simp: begins_def)
  next
    case 2
    from "3.IH" [OF ws(3) 2] ws(1) show ?thesis by auto
  qed
qed (auto simp: begins_def list_all2_Cons1)

lemma secret_key_words:
  assumes "search SECRET_KEY_RE s"
  shows "list_ex (\<lambda>w. substring_in w (lower s)) secret_words"
proof -
  obtain v u t where s: "s = v @ u @ t" and u: "u \<in> rx_lang SECRET_KEY_RE"
    using assms unfolding search_iff by blast
  obtain w r where w: "w \<in> set secret_words" "lower u = lower w @ r"
    using begins_Alts [OF _ u [unfolded SECRET_KEY_RE_def Let_def], of secret_words] unfolding secret_words_def
    by (blast intro: begins_intros)
  then have "lower s = lower v @ w @ (r @ lower t)" by (simp add: s secret_words_lower)
  then have "substring_in w (lower s)" unfolding substring_in_iff by blast
  with w(1) show ?thesis by (auto simp: list_ex_iff)
qed

lemma no_secret_key: "\<not> list_ex (\<lambda>w. substring_in w (lower s)) secret_words \<Longrightarrow> \<not> search SECRET_KEY_RE s"
  using secret_key_words by blast

lemma result_keys:
  "\<not> search SECRET_KEY_RE ''kind''" "\<not> search SECRET_KEY_RE ''health_path''" "\<not> search SECRET_KEY_RE ''metadata_label''"
  "\<not> search SECRET_KEY_RE ''project''" "\<not> search SECRET_KEY_RE ''endpoint''" "\<not> search SECRET_KEY_RE ''service_namespace''"
  by (rule no_secret_key, code_simp)+

lemma dict_at_key: "k \<in> fst ` set d \<Longrightarrow> short_values d \<Longrightarrow> \<exists>v. dict_at d k = Inr v \<and> length v \<le> 256"
  by (cases "dget d k") (auto simp: dict_at_def map_of_eq_None_iff dest: short_dget)

definition result_ok :: "integration_result \<Rightarrow> bool" where
  "result_ok r \<longleftrightarrow> length (ir_summary r) \<le> 16
     \<and> list_all (\<lambda>(k, v). \<not> search SECRET_KEY_RE k \<and> length k \<le> 64 \<and> length v \<le> 256) (ir_summary r)"

lemma evaluate_total:
  assumes "integration_ok c" and "1 \<le> budget" "budget \<le> 1000" and "snd clock - fst clock \<le> budget * 1000000"
    and "length slug \<le> 256"
  shows "\<exists>r. evaluate_integration clock [(''project'', slug)] budget c = Inr r \<and> result_ok r
    \<and> ir_status r = (if ic_enabled c then ''ready'' else ''disabled'')"
proof (cases "ic_enabled c")
  case False
  with assms(2,3) show ?thesis by (simp add: evaluate_integration_def MAX_BUDGET_MS_def result_ok_def)
next
  case True
  have ctx: "validate_context [(''project'', slug)] = Inr [(''project'', slug)]"
    using assms(5) by (simp add: validate_context_def MAX_CONFIG_FIELDS_def MAX_CONFIG_VALUE_CHARS_def result_keys del: search.simps)
  have conf: "short_values (ic_config c)" "fst ` set (ic_config c) = set (required_keys (ic_name c))"
    using assms(1) by (auto simp: integration_ok_def short_values_def)
  consider "ic_name c = ''django-runtime''" | "ic_name c = ''otlp-export''" using assms(1) by (auto simp: integration_ok_def)
  then show ?thesis
  proof cases
    case 1
    then obtain p l where "dict_at (ic_config c) ''health_path'' = Inr p" "length p \<le> 256"
      "dict_at (ic_config c) ''metadata_label'' = Inr l" "length l \<le> 256"
      using dict_at_key [OF _ conf(1), of "''health_path''"] dict_at_key [OF _ conf(1), of "''metadata_label''"] conf(2)
      by (auto simp: required_keys_def)
    with 1 True assms ctx show ?thesis
      by (simp add: evaluate_integration_def MAX_BUDGET_MS_def integration_ok_def resolve_definition_def builtin django_runtime_def
          django_runtime_summary_def bounded_result_def MAX_RESULT_FIELDS_def MAX_RESULT_VALUE_CHARS_def result_keys or_else_def result_ok_def del: search.simps)
  next
    case 2
    then obtain e n where "dict_at (ic_config c) ''endpoint'' = Inr e" "length e \<le> 256"
      "dict_at (ic_config c) ''service_namespace'' = Inr n" "length n \<le> 256"
      using dict_at_key [OF _ conf(1), of "''endpoint''"] dict_at_key [OF _ conf(1), of "''service_namespace''"] conf(2)
      by (auto simp: required_keys_def)
    with 2 True assms ctx show ?thesis
      by (simp add: evaluate_integration_def MAX_BUDGET_MS_def integration_ok_def resolve_definition_def builtin otlp_export_def
          otlp_export_summary_def bounded_result_def MAX_RESULT_FIELDS_def MAX_RESULT_VALUE_CHARS_def result_keys or_else_def result_ok_def del: search.simps)
  qed
qed

section \<open>No secrets in a configuration\<close>

text \<open>The delimiters behind which an origin could carry more than scheme and host.\<close>

definition tail_mark :: "char \<Rightarrow> bool" where
  "tail_mark c \<longleftrightarrow> c \<in> set ''?#''"

text \<open>A text without user information, and with nothing behind a question mark or hash but such marks and the tabs and
  line ends a URL parser skips.\<close>

definition credential_free :: "string \<Rightarrow> bool" where
  "credential_free e \<longleftrightarrow> CHR ''@'' \<notin> set e
     \<and> list_all (\<lambda>c. tail_mark c \<or> ord c \<in> {9, 10, 13}) (dropWhile (\<lambda>c. \<not> tail_mark c) e)"

definition secret_free :: "(string \<Rightarrow> bool) \<Rightarrow> integration_config \<Rightarrow> bool" where
  "secret_free ip_ok c \<longleftrightarrow> list_all (\<lambda>k. \<not> search SECRET_KEY_RE k) (dkeys (ic_config c))
     \<and> (ic_name c = ''otlp-export'' \<longrightarrow> (\<exists>e v p. dget (ic_config c) ''endpoint'' = Some e \<and> credential_free e
          \<and> e = rstrip_by (\<lambda>c. c = CHR ''/'') v \<and> urlsplit ip_ok v = Inr p
          \<and> u_scheme p \<in> {''http'', ''https''} \<and> u_hostname p \<noteq> None))"

lemma partition_on_split: "partition_on c s = (h, f, r) \<Longrightarrow> s = h @ (if f then c # r else []) \<and> (\<not> f \<longrightarrow> r = [])"
proof -
  have "s = takeWhile (\<lambda>x. x \<noteq> c) s @ (if c \<in> set s then c # tl (dropWhile (\<lambda>x. x \<noteq> c) s) else [])"
    and "c \<notin> set s \<Longrightarrow> tl (dropWhile (\<lambda>x. x \<noteq> c) s) = []" by (induction s) auto
  then show "partition_on c s = (h, f, r) \<Longrightarrow> ?thesis" unfolding partition_on_def by (cases "c \<in> set s") auto
qed

lemma origin_text:
  assumes "validate_otlp_origin ip_ok v = Inr e"
  obtains p h tl where "urlsplit ip_ok v = Inr p" and "e = rstrip_by (\<lambda>c. c = CHR ''/'') v"
    and "u_scheme p \<in> {''http'', ''https''}" and "u_hostname p \<noteq> None"
    and "url_clean v = h @ tl" and "CHR ''@'' \<notin> set h" and "list_all (\<lambda>c. \<not> tail_mark c) h" and "tl \<in> {'''', ''?'', ''#'', ''?#''}"
proof -
  from assms obtain p where p: "urlsplit ip_ok v = Inr p" "u_scheme p \<in> {''http'', ''https''}" "u_hostname p \<noteq> None"
      "u_username p = None" "u_query p = []" "u_fragment p = []" "u_path p \<in> {'''', ''/''}"
      and e: "e = rstrip_by (\<lambda>c. c = CHR ''/'') v"
    unfolding validate_otlp_origin_def by (cases "urlsplit ip_ok v") (auto split: if_splits)
  let ?z = "url_clean v"
  obtain s r where sr: "split_scheme ?z = (s, r)" by force
  obtain n r1 where nr: "split_netloc r = (n, r1)" by force
  obtain r2 f1 fr where fr: "partition_on CHR ''#'' r1 = (r2, f1, fr)" by (rule prod_cases3)
  obtain pa f2 q where q: "partition_on CHR ''?'' r2 = (pa, f2, q)" by (rule prod_cases3)
  have pp: "p = \<lparr>u_scheme = s, u_netloc = n, u_path = pa, u_query = q, u_fragment = fr\<rparr>"
    using p(1) by (auto simp: urlsplit_def sr nr fr q split: if_splits)
  with p(2) have "s \<noteq> []" by auto
  with sr obtain h1 where z: "?z = h1 @ CHR '':'' # r" "list_all is_scheme_char h1"
    unfolding split_scheme_def by (auto split: prod.splits if_splits dest: partition_on_split)
  have "n \<noteq> []" using p(3) by (auto simp: pp u_hostname_def u_hostinfo_def rpartition_on_def partition_on_def)
  with nr have "starts_with ''//'' r" and tw: "n = takeWhile (\<lambda>c. \<not> is_netloc_end c) (drop 2 r)" "r1 = dropWhile (\<lambda>c. \<not> is_netloc_end c) (drop 2 r)"
    unfolding split_netloc_def by (auto split: if_splits)
  then have r: "r = ''//'' @ n @ r1" by (auto simp: starts_with_iff)
  have n: "\<forall>c \<in> set n. \<not> is_netloc_end c" unfolding tw by (auto dest: set_takeWhileD)
  have r1: "r1 = pa @ (if f2 then ''?'' else '''') @ (if f1 then ''#'' else '''')"
    using partition_on_split [OF fr] partition_on_split [OF q] p(5,6) by (auto simp: pp split: if_splits)
  have at: "CHR ''@'' \<notin> set n" using p(4) by (simp add: userinfo_iff pp)
  have "\<not> is_scheme_char CHR ''@''" "\<not> is_scheme_char CHR ''?''" "\<not> is_scheme_char CHR ''#''" by code_simp+
  then have sc: "c \<noteq> CHR ''@'' \<and> \<not> tail_mark c" if "is_scheme_char c" for c
    using that unfolding tail_mark_def by fastforce
  show ?thesis
  proof (rule that [OF p(1) e p(2,3), of "h1 @ ''://'' @ n @ pa" "(if f2 then ''?'' else '''') @ (if f1 then ''#'' else '''')"])
    show "?z = (h1 @ ''://'' @ n @ pa) @ (if f2 then ''?'' else '''') @ (if f1 then ''#'' else '''')" by (simp add: z(1) r r1)
    have h1: "c \<noteq> CHR ''@'' \<and> \<not> tail_mark c" if "c \<in> set h1" for c
      using z(2) that by (intro sc) (simp only: list_all_iff)
    then have "CHR ''@'' \<notin> set h1" by metis
    moreover have "list_all (\<lambda>c. \<not> tail_mark c) h1" unfolding list_all_iff using h1 by metis
    moreover have "CHR ''@'' \<notin> set pa" "list_all (\<lambda>c. \<not> tail_mark c) pa" using p(7) by (auto simp: pp tail_mark_def)
    moreover have "list_all (\<lambda>c. \<not> tail_mark c) n" using n unfolding list_all_iff tail_mark_def is_netloc_end_def by auto
    moreover have "list_all (\<lambda>c. \<not> tail_mark c) ''://''" "CHR ''@'' \<notin> set ''://''" by code_simp+
    ultimately show "CHR ''@'' \<notin> set (h1 @ ''://'' @ n @ pa)" "list_all (\<lambda>c. \<not> tail_mark c) (h1 @ ''://'' @ n @ pa)"
      using at unfolding set_append list_all_append by blast+
    show "(if f2 then ''?'' else '''') @ (if f1 then ''#'' else '''') \<in> {'''', ''?'', ''#'', ''?#''}" by (cases f1; cases f2; simp)
  qed
qed

lemma rstrip_prefix: "\<exists>w. s = rstrip_by P s @ w"
  unfolding rstrip_by_def by (metis rev_append rev_rev_ident takeWhile_dropWhile_id)

lemma origin_credential_free:
  assumes "validate_otlp_origin ip_ok v = Inr e"
  shows "credential_free e"
proof -
  let ?m = "\<lambda>c. \<not> tail_mark c"
  obtain h tl where e: "e = rstrip_by (\<lambda>c. c = CHR ''/'') v" and z: "url_clean v = h @ tl" "CHR ''@'' \<notin> set h" "list_all ?m h"
      "tl \<in> {'''', ''?'', ''#'', ''?#''}"
    using origin_text [OF assms] by metis
  obtain w where w: "v = e @ w" using rstrip_prefix unfolding e by blast
  obtain u where u: "v = u @ lstrip_by (\<lambda>c. ord c \<le> 32) v" "\<forall>c \<in> set u. ord c \<le> 32"
    unfolding lstrip_by_def by (metis takeWhile_dropWhile_id set_takeWhileD)
  let ?l = "lstrip_by (\<lambda>c. ord c \<le> 32) v"
  have "CHR ''@'' \<notin> set (url_clean v)" using z by auto
  then have "CHR ''@'' \<notin> set ?l" by (simp add: url_clean_def)
  moreover have "CHR ''@'' \<notin> set u" using u(2) by fastforce
  ultimately have at: "CHR ''@'' \<notin> set v" using u(1) by (metis Un_iff set_append)
  have "?m c" if "ord c \<le> 32" for c using that by (auto simp: tail_mark_def)
  then have "dropWhile ?m v = dropWhile ?m ?l" using u by (metis dropWhile_append2)
  moreover have "filter (\<lambda>c. ord c \<notin> {9, 10, 13}) (dropWhile ?m s) = dropWhile ?m (filter (\<lambda>c. ord c \<notin> {9, 10, 13}) s)" for s
    by (induction s) (auto simp: tail_mark_def)
  ultimately have "filter (\<lambda>c. ord c \<notin> {9, 10, 13}) (dropWhile ?m v) = dropWhile ?m (h @ tl)"
    using z(1) by (simp add: url_clean_def)
  also have "\<dots> = dropWhile ?m tl" using z(3) by (simp add: list_all_iff)
  finally have "set (filter (\<lambda>c. ord c \<notin> {9, 10, 13}) (dropWhile ?m v)) \<subseteq> set tl"
    by (metis set_dropWhileD subsetI)
  moreover have "\<forall>c \<in> set tl. tail_mark c" using z(4) by (auto simp: tail_mark_def)
  ultimately have "\<forall>c \<in> set (dropWhile ?m v). tail_mark c \<or> ord c \<in> {9, 10, 13}" by auto
  moreover have "set (dropWhile ?m e) \<subseteq> set (dropWhile ?m (e @ w))"
  proof (cases "\<exists>c \<in> set e. tail_mark c")
    case False
    then have "dropWhile ?m e = []" by (simp add: dropWhile_eq_Nil_conv)
    then show "set (dropWhile ?m e) \<subseteq> set (dropWhile ?m (e @ w))" by (simp only: list.set empty_subsetI)
  qed (auto simp: dropWhile_append1)
  ultimately have "list_all (\<lambda>c. tail_mark c \<or> ord c \<in> {9, 10, 13}) (dropWhile ?m e)" using w by (auto simp: list_all_iff)
  with at w show ?thesis by (auto simp: credential_free_def)
qed

text \<open>Completing a configuration leaves the endpoint as it was validated.\<close>

lemma complete_config_secret_free:
  assumes "complete_config ip_ok ''otlp-export'' w = Inr r"
  shows "\<exists>e v p. dget r ''endpoint'' = Some e \<and> credential_free e \<and> e = rstrip_by (\<lambda>c. c = CHR ''/'') v
    \<and> urlsplit ip_ok v = Inr p \<and> u_scheme p \<in> {''http'', ''https''} \<and> u_hostname p \<noteq> None"
proof -
  from assms obtain v e where e: "validate_otlp_origin ip_ok v = Inr e" and "dget r ''endpoint'' = Some e"
    by (auto simp: complete_config_def Let_def res_simps split: option.splits if_splits)
  moreover obtain p where "urlsplit ip_ok v = Inr p" "e = rstrip_by (\<lambda>c. c = CHR ''/'') v"
      "u_scheme p \<in> {''http'', ''https''}" "u_hostname p \<noteq> None"
    by (rule origin_text [OF e])
  ultimately show ?thesis using origin_credential_free [OF e] by blast
qed

lemma parse_integration_secret_free:
  assumes "parse_integration ip_ok i seen raw = Inr c"
  shows "secret_free ip_ok c"
proof (cases raw)
  case (JObj kvs)
  from assms obtain d v f where d: "resolve_definition BUILTIN_REGISTRY (ic_name c) (ic_version c) = Inr d"
    and conf: "validate_integration_config ip_ok d v f = Inr (ic_config c)"
    unfolding parse_integration_def JObj by (auto simp: res_simps split: if_splits)
  from d have n: "ic_name c = id_name d" by (auto simp: resolve_iff django_runtime_def otlp_export_def)
  have "fst ` set (ic_config c) = set (required_keys (ic_name c))"
    using parse_integration_ok [OF assms] by (auto simp: integration_ok_def)
  then have "\<forall>k \<in> set (dkeys (ic_config c)). \<not> search SECRET_KEY_RE k"
    using result_keys by (auto simp: required_keys_def split: if_splits simp del: search.simps)
  moreover obtain w where "complete_config ip_ok (id_name d) w = Inr (ic_config c)"
    using conf by (auto simp: validate_integration_config_def Let_def res_simps split: json.splits if_splits)
  ultimately show ?thesis
    using complete_config_secret_free [of ip_ok w "ic_config c"] n by (auto simp: secret_free_def list_all_iff simp del: search.simps)
qed (use assms in \<open>simp_all add: parse_integration_def\<close>)

lemma parse_items_secret_free: "parse_items ip_ok i seen raws = Inr cs \<Longrightarrow> list_all (secret_free ip_ok) cs"
proof (induction raws arbitrary: i seen cs)
  case (Cons raw raws)
  from Cons.prems obtain c cs' where c: "parse_integration ip_ok i seen raw = Inr c"
    and cs: "parse_items ip_ok (Suc i) (insert (ic_name c) seen) raws = Inr cs'" "cs = c # cs'"
    unfolding parse_items.simps bindR_Inr_iff sum.inject by metis
  from Cons.IH [OF cs(1)] parse_integration_secret_free [OF c] cs(2) show ?case by simp
qed simp

text \<open>C28. Whatever the section of integrations holds, what is accepted of it is at most eight integrations with
  different names, each a built-in one of a supported version, with capabilities it offers and
  exactly its configuration keys with values of at most 256 characters. Each accepted configuration is
  free of secrets: no key has the form of a secret's name, and the endpoint of an OTLP export is an http(s) origin
  with a host, no user information (no at sign at all) and nothing in its query or fragment. Each accepted
  integration can be evaluated for any project within any allowed budget it keeps: the result is bounded and
  names no secret.\<close>

theorem accepted_integrations:
  assumes "parse_integrations ip_ok v = Inr cs"
  shows "length cs \<le> 8 \<and> distinct (map ic_name cs) \<and> list_all integration_ok cs \<and> list_all (secret_free ip_ok) cs
    \<and> (\<forall>c \<in> set cs. \<forall>clock budget slug. 1 \<le> budget \<longrightarrow> budget \<le> 1000 \<longrightarrow> snd clock - fst clock \<le> budget * 1000000 \<longrightarrow>
        length slug \<le> 256 \<longrightarrow> (\<exists>r. evaluate_integration clock [(''project'', slug)] budget c = Inr r \<and> result_ok r))"
proof -
  have "length cs \<le> 8 \<and> distinct (map ic_name cs) \<and> list_all integration_ok cs"
    using assms by (auto simp: parse_integrations_def MAX_INTEGRATIONS_def split: option.splits json.splits if_splits dest!: parse_items_ok)
  moreover from this have "integration_ok c" if "c \<in> set cs" for c using that by (simp add: list_all_iff)
  moreover have "list_all (secret_free ip_ok) cs"
    using assms by (auto simp: parse_integrations_def split: option.splits json.splits if_splits dest!: parse_items_secret_free)
  ultimately show ?thesis using evaluate_total by blast
qed

definition demo_section :: json where
  "demo_section = JArr [JObj [(''name'', JStr ''otlp-export''), (''version'', JStr ''v1''), (''enabled'', JBool True),
     (''capabilities'', JArr [JStr ''telemetry'']), (''config'', JObj [(''endpoint'', JStr ''https://otel.example.com/'')])]]"

definition demo_integration :: integration_config where
  "demo_integration = \<lparr>ic_name = ''otlp-export'', ic_version = ''v1'', ic_enabled = True, ic_capabilities = [''telemetry''],
     ic_config = [(''endpoint'', ''https://otel.example.com''), (''service_namespace'', ''djangoops'')]\<rparr>"

lemma demo_parsed: "parse_integrations (\<lambda>_. False) (Some demo_section) = Inr [demo_integration]"
  by code_simp

theorem accepted_integrations_witness:
  "(\<exists>r. evaluate_integration (0, 5) [(''project'', ''shop'')] 100 demo_integration = Inr r \<and> result_ok r)
   \<and> secret_free (\<lambda>_. False) demo_integration"
  using accepted_integrations [OF demo_parsed] by simp

end
