(* ===== verification/Ecosystem.thy ===== *)
theory Ecosystem
  imports Tenancy Integrations
begin

text \<open>
  The control plane's view of the integrations: \<open>controlplane/ecosystem.py\<close> and
  \<open>controlplane/ecosystem_views.py\<close>. A response is its status and body.
\<close>

definition project_catalog :: "control_db \<Rightarrow> nat \<Rightarrow> int \<Rightarrow> integration_definition list res" where
  "project_catalog db user project_id =
     bindR (get_project db user project_id) (\<lambda>_. Inr (registry_definitions BUILTIN_REGISTRY))"

text \<open>\<open>clock i\<close> are the clock readings around the evaluation of the \<open>i\<close>-th integration.\<close>

definition evaluate_project_integrations :: "(nat \<Rightarrow> int \<times> int) \<Rightarrow> control_db \<Rightarrow> nat \<Rightarrow> int \<Rightarrow> integration_config list
    \<Rightarrow> integration_result list res" where
  "evaluate_project_integrations clock db user project_id integrations =
     bindR (get_project db user project_id) (\<lambda>p.
       mapR (\<lambda>(i, c). evaluate_integration (clock i) [(''project'', pr_slug p)] DEFAULT_BUDGET_MS c) (enumerate 0 integrations))"

definition strings :: "string list \<Rightarrow> json" where
  "strings ss = JArr (map JStr ss)"

definition catalog_payload :: "integration_definition list \<Rightarrow> json" where
  "catalog_payload ds = JArr (map (\<lambda>d. JObj [(''name'', JStr (id_name d)), (''versions'', strings (id_versions d)),
     (''capabilities'', strings (id_capabilities d))]) ds)"

definition results_payload :: "integration_result list \<Rightarrow> json" where
  "results_payload rs = JArr (map (\<lambda>r. JObj [(''name'', JStr (ir_name r)), (''version'', JStr (ir_version r)),
     (''status'', JStr (ir_status r)), (''capabilities'', strings (ir_capabilities r)),
     (''summary'', JObj (map (\<lambda>(k, v). (k, JStr v)) (ir_summary r)))]) rs)"

definition error_body :: "string \<Rightarrow> json" where
  "error_body code = JObj [(''error'', JObj [(''code'', JStr code)])]"

text \<open>The \<open>except\<close> clauses of the view, around what its body answers or raises.\<close>

definition view_errors :: "(nat \<times> json) res \<Rightarrow> (nat \<times> json) res" where
  "view_errors r =
     (case r of
        Inl (DoesNotExist _) \<Rightarrow> Inr (404, error_body ''NOT_FOUND'')
      | Inl (TypeError _) \<Rightarrow> Inr (400, error_body ''INVALID_REQUEST'')
      | Inl (IntegrationError code _) \<Rightarrow> Inr (400, error_body code)
      | _ \<Rightarrow> r)"

definition ecosystem_project :: "(string \<Rightarrow> bool) \<Rightarrow> (nat \<Rightarrow> int \<times> int) \<Rightarrow> control_db \<Rightarrow> nat \<Rightarrow> bool \<Rightarrow> string \<Rightarrow> int \<Rightarrow> (nat \<times> json) res" where
  "ecosystem_project ip_ok clock db user is_get body project_id =
     view_errors
       (if is_get then bindR (project_catalog db user project_id) (\<lambda>ds. Inr (200, JObj [(''integrations'', catalog_payload ds)]))
        else (case json_loads (if body = [] then ''{}'' else body) of
            None \<Rightarrow> Inr (400, error_body ''INVALID_REQUEST'')
          | Some (JObj kvs) \<Rightarrow>
              bindR (parse_integrations ip_ok (Some (or_else (JArr []) (dget kvs ''integrations'')))) (\<lambda>cs.
              bindR (evaluate_project_integrations clock db user project_id cs) (\<lambda>rs.
                Inr (200, JObj [(''integrations'', results_payload rs)])))
          | Some _ \<Rightarrow> Inr (400, error_body ''INVALID_REQUEST'')))"

text \<open>A malformed address in an endpoint makes the URL parser raise a plain \<open>ValueError\<close>, which no clause catches.\<close>

lemma ecosystem_bad_address:
  "\<exists>e. ecosystem_project (\<lambda>_. False) clock db user False
     (json_encode (JObj [(''integrations'', JArr [JObj [(''name'', JStr ''otlp-export''), (''version'', JStr ''v1''), (''enabled'', JBool True),
        (''capabilities'', JArr []), (''config'', JObj [(''endpoint'', JStr ''http://[x'')])]])])) project_id = Inl e"
proof -
  let ?v = "JArr [JObj [(''name'', JStr ''otlp-export''), (''version'', JStr ''v1''), (''enabled'', JBool True),
        (''capabilities'', JArr []), (''config'', JObj [(''endpoint'', JStr ''http://[x'')])]]"
  have "json_loads (json_encode (JObj [(''integrations'', ?v)])) = Some (JObj [(''integrations'', ?v)])"
    by code_simp
  moreover have "parse_integrations (\<lambda>_. False) (Some ?v) = Inl (ValueError ''Invalid IPv6 URL'')"
    by code_simp
  moreover have "json_encode (JObj [(''integrations'', ?v)]) \<noteq> []" by simp
  ultimately show ?thesis
    by (simp add: ecosystem_project_def view_errors_def or_else_def del: json_encode.simps)
qed

end
