(* ===== verification/Shell.thy ===== *)
theory Shell
  imports Regex
begin

text \<open>
  Python's \<open>shlex.quote\<close> and, as the reference it is measured against, how a POSIX shell reads one word: the
  text up to an unquoted separator, with single and double quotes taken away. \<open>sh_word\<close> answers \<open>None\<close>
  where the shell would do more than take the text literally (an expansion, a substitution, a glob, an
  open quote), so that a word it returns is passed on as it stands.
\<close>

section \<open>Quoting\<close>

definition is_shell_safe :: "char \<Rightarrow> bool" where
  "is_shell_safe c \<longleftrightarrow> is_alnum_az c \<or> c \<in> set ''_@%+=:,./-''"

definition shlex_quote :: "string \<Rightarrow> string" where
  "shlex_quote s =
     (if s = [] then [CHR 0x27, CHR 0x27]
      else if list_all is_shell_safe s then s
      else CHR 0x27 # replace_char CHR 0x27 [CHR 0x27, CHR 0x22, CHR 0x27, CHR 0x22, CHR 0x27] s @ [CHR 0x27])"

section \<open>Reading a word\<close>

datatype sh_mode = Plain | Single | Double

definition is_sh_separator :: "char \<Rightarrow> bool" where
  "is_sh_separator c \<longleftrightarrow> c \<in> set '' ;|&()<>'' \<or> ord c = 9 \<or> ord c = 10"

definition is_sh_special :: "char \<Rightarrow> bool" where
  "is_sh_special c \<longleftrightarrow> c \<in> {CHR ''$'', CHR 0x60, CHR 0x5C, CHR ''*'', CHR ''?'', CHR ''['', CHR ''#'', CHR ''~'', CHR ''!'', CHR ''{'', CHR ''}''}"

definition is_dq_special :: "char \<Rightarrow> bool" where
  "is_dq_special c \<longleftrightarrow> c \<in> {CHR ''$'', CHR 0x60, CHR 0x5C}"

text \<open>The word (behind \<open>acc\<close>) and the rest of the line.\<close>

fun sh_word :: "sh_mode \<Rightarrow> string \<Rightarrow> string \<Rightarrow> (string \<times> string) option" where
  "sh_word Plain acc [] = Some (rev acc, [])"
| "sh_word Plain acc (c # cs) =
     (if is_sh_separator c then Some (rev acc, c # cs)
      else if c = CHR 0x27 then sh_word Single acc cs
      else if c = CHR 0x22 then sh_word Double acc cs
      else if is_sh_special c then None
      else sh_word Plain (c # acc) cs)"
| "sh_word Single acc [] = None"
| "sh_word Single acc (c # cs) = (if c = CHR 0x27 then sh_word Plain acc cs else sh_word Single (c # acc) cs)"
| "sh_word Double acc [] = None"
| "sh_word Double acc (c # cs) =
     (if c = CHR 0x22 then sh_word Plain acc cs else if is_dq_special c then None else sh_word Double (c # acc) cs)"

text \<open>The words of a simple command without operators, separated by single blanks.\<close>

function sh_words :: "string \<Rightarrow> string list option" where
  "sh_words s =
     (case sh_word Plain [] s of
        None \<Rightarrow> None
      | Some (w, []) \<Rightarrow> Some [w]
      | Some (w, c # rest) \<Rightarrow>
          if c = CHR '' '' \<and> length rest < length s then map_option ((#) w) (sh_words rest) else None)"
  by pat_completeness auto

termination
  by (relation "measure length") auto

declare sh_words.simps [simp del]

section \<open>Quoted text is one word\<close>

definition sh_delimited :: "string \<Rightarrow> bool" where
  "sh_delimited rest \<longleftrightarrow> rest = [] \<or> is_sh_separator (hd rest)"

lemma safe_char_plain:
  "is_shell_safe c \<Longrightarrow> \<not> is_sh_separator c \<and> c \<noteq> CHR 0x27 \<and> c \<noteq> CHR 0x22 \<and> \<not> is_sh_special c"
  by (auto simp: is_shell_safe_def is_sh_separator_def is_sh_special_def char_class_defs)

lemma sh_word_plain_end: "sh_delimited rest \<Longrightarrow> sh_word Plain acc rest = Some (rev acc, rest)"
  by (cases rest) (auto simp: sh_delimited_def)

lemma sh_word_safe:
  "list_all is_shell_safe s \<Longrightarrow> sh_delimited rest \<Longrightarrow> sh_word Plain acc (s @ rest) = Some (rev acc @ s, rest)"
  by (induction s arbitrary: acc) (auto simp: sh_word_plain_end dest: safe_char_plain)

lemma sh_word_single:
  "sh_delimited rest \<Longrightarrow>
   sh_word Single acc (replace_char CHR 0x27 [CHR 0x27, CHR 0x22, CHR 0x27, CHR 0x22, CHR 0x27] s @ CHR 0x27 # rest)
   = Some (rev acc @ s, rest)"
proof (induction s arbitrary: acc)
  case Nil
  then show ?case by (simp add: replace_char_def sh_word_plain_end)
next
  case (Cons c s)
  from Cons show ?case
    by (auto simp: replace_char_def is_sh_separator_def is_dq_special_def)
qed

theorem sh_word_quote: "sh_delimited rest \<Longrightarrow> sh_word Plain [] (shlex_quote s @ rest) = Some (s, rest)"
  using sh_word_safe [of s rest "[]"] sh_word_single [of rest "[]" s] sh_word_plain_end [of rest "[]"]
  by (auto simp: shlex_quote_def is_sh_separator_def)

text \<open>A command line built from quoted words is read as those words.\<close>

theorem sh_words_join: "ws \<noteq> [] \<Longrightarrow> sh_words (join '' '' (map shlex_quote ws)) = Some ws"
proof (induction ws rule: induct_list012)
  case (2 w)
  then show ?case using sh_word_quote [of "[]" w] by (subst sh_words.simps) (simp add: sh_delimited_def)
next
  case (3 w v ws)
  have "sh_delimited ('' '' @ join '' '' (map shlex_quote (v # ws)))" by (simp add: sh_delimited_def is_sh_separator_def)
  from sh_word_quote [OF this, of w] 3(2) show ?case by (subst sh_words.simps) simp
qed simp

end
