(* ===== verification/Deploy.thy ===== *)
theory Deploy
  imports Shell PyPath Config
begin

text \<open>
  Deployment over SSH: \<open>cli/djangoops/deploy.py\<close>. The target and its validation, the files of a release, the text
  of every remote command, and the staged deployment with its error paths. A remote command either
  succeeds or raises \<open>DeployError\<close>, whatever the reason; which calls succeed is the argument \<open>ok\<close> (of the
  number of calls made so far), and the log is the list of commands sent. A project directory is a tree;
  how the archive packs the selected files is left out.
\<close>

section \<open>Targets\<close>

definition HOST_RE :: rx where
  "HOST_RE = Seq (Cls is_alnum_az) (Opt (Seq (Rep 0 251 (Cls (\<lambda>c. is_alnum_az c \<or> c \<in> set ''.-''))) (Cls is_alnum_az)))"

definition USER_RE :: rx where
  "USER_RE = Seq (Cls (\<lambda>c. is_alpha_az c \<or> c = CHR ''_'')) (Rep 0 31 (Cls (\<lambda>c. is_alnum_az c \<or> c \<in> set ''_.-'')))"

definition RELEASE_RE :: rx where
  "RELEASE_RE = Seq (Cls (\<lambda>c. c = CHR ''r'')) (Seq (Rep 8 0 (Cls is_digit)) (Seq (Cls (\<lambda>c. c = CHR ''T''))
     (Seq (Rep 6 0 (Cls is_digit)) (Seq (Cls (\<lambda>c. c = CHR ''Z'')) (Seq (Cls (\<lambda>c. c = CHR ''-'')) (Plus (Cls is_digit)))))))"

record deployment_target =
  dt_host :: string
  dt_user :: string
  dt_port :: int
  dt_remote_base :: string
  dt_identity_file :: "string option"

definition validate_remote_base :: "string \<Rightarrow> unit res" where
  "validate_remote_base value =
     bindR (guardR (value \<noteq> [] \<and> \<not> list_ex is_control value) (ValueError ''remote base directory contains control characters'')) (\<lambda>_.
     bindR (guardR (path_is_absolute value) (ValueError ''remote base directory must be an absolute POSIX path'')) (\<lambda>_.
     bindR (guardR (\<not> list_ex (\<lambda>p. p \<in> {''.'', ''..''}) (path_parts value))
       (ValueError ''remote base directory must not contain . or .. segments'')) (\<lambda>_.
     guardR (value \<noteq> ''/'') (ValueError ''remote base directory must not be the filesystem root''))))"

definition create_deployment_target :: "(string \<Rightarrow> bool) \<Rightarrow> string \<Rightarrow> string \<Rightarrow> int \<Rightarrow> string \<Rightarrow> string option \<Rightarrow> deployment_target res" where
  "create_deployment_target is_file host user port remote_base identity_file =
     bindR (guardR (fullmatch HOST_RE host \<and> \<not> substring_in ''..'' host \<and> \<not> starts_with ''-'' host)
       (ValueError ''SSH host must be a DNS name or IPv4-style host without shell syntax'')) (\<lambda>_.
     bindR (guardR (fullmatch USER_RE user \<and> \<not> starts_with ''-'' user) (ValueError ''SSH user contains unsupported characters'')) (\<lambda>_.
     bindR (guardR (1 \<le> port \<and> port \<le> 65535) (ValueError ''SSH port must be between 1 and 65535'')) (\<lambda>_.
     bindR (validate_remote_base remote_base) (\<lambda>_.
     bindR (case identity_file of None \<Rightarrow> Inr () | Some f \<Rightarrow> guardR (is_file f) (ValueError (''SSH identity file does not exist: '' @ f))) (\<lambda>_.
       Inr \<lparr>dt_host = host, dt_user = user, dt_port = port, dt_remote_base = remote_base, dt_identity_file = identity_file\<rparr>)))))"

definition ssh_argv :: "deployment_target \<Rightarrow> string \<Rightarrow> string list" where
  "ssh_argv t remote_command =
     [''ssh'', ''-o'', ''BatchMode=yes'', ''-p'', int_str (dt_port t)]
     @ (case dt_identity_file t of None \<Rightarrow> [] | Some f \<Rightarrow> [''-i'', f])
     @ [dt_user t @ ''@'' @ dt_host t, remote_command]"

record deployment_plan =
  dp_project_name :: string
  dp_target :: deployment_target
  dp_release_id :: string
  dp_compose_file :: string

definition release_dir :: "deployment_plan \<Rightarrow> string" where
  "release_dir p = dt_remote_base (dp_target p) @ ''/releases/'' @ dp_release_id p"

definition current_path :: "deployment_plan \<Rightarrow> string" where
  "current_path p = dt_remote_base (dp_target p) @ ''/current''"

definition shared_env_path :: "deployment_plan \<Rightarrow> string" where
  "shared_env_path p = dt_remote_base (dp_target p) @ ''/shared/.env''"

definition previous_path :: "deployment_plan \<Rightarrow> string" where
  "previous_path p = dt_remote_base (dp_target p) @ ''/.previous-'' @ dp_release_id p"

definition pending_path :: "deployment_plan \<Rightarrow> string" where
  "pending_path p = dt_remote_base (dp_target p) @ ''/.current-'' @ dp_release_id p"

definition restore_path :: "deployment_plan \<Rightarrow> string" where
  "restore_path p = dt_remote_base (dp_target p) @ ''/.restore-'' @ dp_release_id p"

text \<open>\<open>stamp\<close> is the time of the release in the format \<open>%Y%m%dT%H%M%SZ\<close>.\<close>

definition release_id :: "string \<Rightarrow> int \<Rightarrow> string" where
  "release_id stamp pid = ''r'' @ stamp @ ''-'' @ int_str pid"

section \<open>The files of a release\<close>

datatype entry =
    File
  | Symlink
  | Special
  | Dir "(string \<times> entry) list"

definition EXCLUDED_DIRS :: "string list" where
  "EXCLUDED_DIRS = [''.git'', ''.hg'', ''.svn'', ''.mypy_cache'', ''.pytest_cache'', ''.ruff_cache'', ''.tox'', ''.venv'',
     ''__pycache__'', ''node_modules'', ''venv'']"

definition EXCLUDED_NAMES :: "string list" where
  "EXCLUDED_NAMES = [''.env'', ''.secrets'', ''id_ed25519'', ''id_rsa'']"

definition EXCLUDED_SUFFIXES :: "string list" where
  "EXCLUDED_SUFFIXES = [''.key'', ''.pem'', ''.p12'', ''.pfx'']"

text \<open>\<open>Path(name).suffix\<close>: from the last dot, unless it is the first or the last character.\<close>

definition path_suffix :: "string \<Rightarrow> string" where
  "path_suffix name =
     (case rpartition_on CHR ''.'' name of (stem, found, ext) \<Rightarrow>
        if found \<and> stem \<noteq> [] \<and> ext \<noteq> [] then CHR ''.'' # ext else [])"

definition is_secret_or_local_only :: "string \<Rightarrow> bool" where
  "is_secret_or_local_only name \<longleftrightarrow> name \<in> set EXCLUDED_NAMES
     \<or> starts_with ''.env.'' name \<and> name \<noteq> ''.env.example''
     \<or> lower (path_suffix name) \<in> set EXCLUDED_SUFFIXES"

definition is_dir :: "entry \<Rightarrow> bool" where
  "is_dir e = (case e of Dir _ \<Rightarrow> True | _ \<Rightarrow> False)"

lemma entry_size: "(n, Dir es) \<in> set entries \<Longrightarrow> size_list (size_prod (\<lambda>_. 0) size) es < size_list (size_prod (\<lambda>_. 0) size) entries"
  by (erule size_list_estimation) simp

text \<open>\<open>os.walk\<close>, top down: the files of a directory, then its directories; a path is the list of names from the
  project's root.\<close>

function deploy_files :: "string list \<Rightarrow> (string \<times> entry) list \<Rightarrow> string list list" where
  "deploy_files root entries =
     map (\<lambda>(name, _). root @ [name])
       (filter (\<lambda>(name, e). e = File \<and> \<not> is_secret_or_local_only name) (sort_key fst entries))
     @ concat (map (\<lambda>(name, e). case e of Dir es \<Rightarrow> deploy_files (root @ [name]) es | _ \<Rightarrow> [])
         (filter (\<lambda>(name, e). is_dir e \<and> name \<notin> set EXCLUDED_DIRS) (sort_key fst entries)))"
  by pat_completeness auto

termination deploy_files
  by (relation "measure (\<lambda>(_, entries). size_list (size_prod (\<lambda>_. 0) size) entries)") (auto dest: entry_size)

declare deploy_files.simps [simp del]

section \<open>Remote commands\<close>

definition compose_prefix :: "deployment_plan \<Rightarrow> string" where
  "compose_prefix p = ''docker compose -p '' @ shlex_quote (dp_project_name p) @ '' -f '' @ shlex_quote (dp_compose_file p)"

definition upload_command :: "deployment_plan \<Rightarrow> string" where
  "upload_command p = (let release = shlex_quote (release_dir p)
     in ''umask 077; mkdir -p '' @ release @ '' && tar -xzf - -C '' @ release)"

definition target_var :: string where
  "target_var = [CHR 0x22] @ ''$previous_target'' @ [CHR 0x22]"

definition capture_command :: "deployment_plan \<Rightarrow> string" where
  "capture_command p = (let current = shlex_quote (current_path p); previous = shlex_quote (previous_path p)
     in ''set -eu; if test -L '' @ current @ '' || test -d '' @ current @ ''; then previous_target=$(readlink -f -- '' @ current
        @ ''); test -n '' @ target_var @ ''; ln -sfn -- '' @ target_var @ '' '' @ previous @ ''; else rm -f -- '' @ previous @ ''; fi'')"

definition start_command :: "deployment_plan \<Rightarrow> string" where
  "start_command p = (let release = shlex_quote (release_dir p); shared_env = shlex_quote (shared_env_path p)
     in ''set -eu; test -f '' @ shared_env @ ''; ln -sfn '' @ shared_env @ '' '' @ release @ ''/.env; cd '' @ release @ ''; ''
        @ compose_prefix p @ '' up -d --build'')"

definition preflight_command :: "deployment_plan \<Rightarrow> string" where
  "preflight_command p = ''set -eu; cd '' @ shlex_quote (release_dir p) @ ''; '' @ compose_prefix p
     @ '' exec -T web python manage.py migrate --plan --noinput''"

definition migrate_command :: "deployment_plan \<Rightarrow> string" where
  "migrate_command p = ''set -eu; cd '' @ shlex_quote (release_dir p) @ ''; '' @ compose_prefix p
     @ '' exec -T web python manage.py migrate --noinput''"

definition activate_command :: "deployment_plan \<Rightarrow> string" where
  "activate_command p =
     (let base = shlex_quote (dt_remote_base (dp_target p)); release = shlex_quote (release_dir p);
          current = shlex_quote (current_path p); pending = shlex_quote (pending_path p)
      in ''set -eu; mkdir -p '' @ base @ ''/releases '' @ base @ ''/shared; ln -sfn '' @ release @ '' '' @ pending
         @ ''; mv -Tf '' @ pending @ '' '' @ current)"

definition restore_command :: "deployment_plan \<Rightarrow> string" where
  "restore_command p =
     (let current = shlex_quote (current_path p); previous = shlex_quote (previous_path p);
          restore = shlex_quote (restore_path p); release = shlex_quote (release_dir p);
          current_var = [CHR 0x22] @ ''$current_target'' @ [CHR 0x22]
      in ''set -eu; if test -L '' @ previous @ ''; then previous_target=$(readlink -- '' @ previous @ ''); test -n '' @ target_var
         @ ''; ln -sfn -- '' @ target_var @ '' '' @ restore @ ''; mv -Tf '' @ restore @ '' '' @ current
         @ ''; cd '' @ target_var @ ''; '' @ compose_prefix p @ '' up -d --build; else if test -L '' @ current
         @ ''; then current_target=$(readlink -- '' @ current @ ''); if test '' @ current_var @ '' = '' @ release
         @ ''; then rm -f -- '' @ current @ ''; fi; fi; cd '' @ release @ ''; '' @ compose_prefix p @ '' down; fi'')"

definition cleanup_pending_command :: "deployment_plan \<Rightarrow> string" where
  "cleanup_pending_command p = ''rm -f -- '' @ shlex_quote (pending_path p)"

definition cleanup_previous_command :: "deployment_plan \<Rightarrow> string" where
  "cleanup_previous_command p = ''rm -f -- '' @ shlex_quote (previous_path p) @ '' '' @ shlex_quote (restore_path p)"

definition cleanup_release_command :: "deployment_plan \<Rightarrow> string" where
  "cleanup_release_command p = ''rm -rf -- '' @ shlex_quote (release_dir p)"

section \<open>The deployment\<close>

type_synonym 'a remote = "string list \<Rightarrow> string list \<times> 'a res"

definition deploy_ssh :: "(nat \<Rightarrow> bool) \<Rightarrow> string \<Rightarrow> string \<Rightarrow> unit remote" where
  "deploy_ssh ok command message log = (log @ [command], if ok (length log) then Inr () else Inl (DeployError message))"

text \<open>A clean-up: its own failure is swallowed.\<close>

definition quietly :: "(nat \<Rightarrow> bool) \<Rightarrow> string \<Rightarrow> string list \<Rightarrow> string list" where
  "quietly ok command log = fst (deploy_ssh ok command ''remote SSH command failed'' log)"

definition upload_release :: "(nat \<Rightarrow> bool) \<Rightarrow> deployment_plan \<Rightarrow> unit remote" where
  "upload_release ok p = deploy_ssh ok (upload_command p) ''release upload failed over SSH''"

definition capture_previous :: "(nat \<Rightarrow> bool) \<Rightarrow> deployment_plan \<Rightarrow> unit remote" where
  "capture_previous ok p = deploy_ssh ok (capture_command p) ''unable to preserve the pre-deployment current release''"

definition start_staged :: "(nat \<Rightarrow> bool) \<Rightarrow> deployment_plan \<Rightarrow> unit remote" where
  "start_staged ok p = deploy_ssh ok (start_command p)
     ''remote Docker Compose startup failed; previous release restoration was attempted''"

definition migration_preflight :: "(nat \<Rightarrow> bool) \<Rightarrow> deployment_plan \<Rightarrow> unit remote" where
  "migration_preflight ok p = deploy_ssh ok (preflight_command p)
     ''Django migration pre-flight failed; staged release rollback was attempted''"

definition run_migrations :: "(nat \<Rightarrow> bool) \<Rightarrow> deployment_plan \<Rightarrow> unit remote" where
  "run_migrations ok p = deploy_ssh ok (migrate_command p)
     (''Django migration failed; previous application release restoration was attempted. ''
      @ ''Database schema changes may have been partially applied and require operator inspection'')"

definition activate_release :: "(nat \<Rightarrow> bool) \<Rightarrow> deployment_plan \<Rightarrow> unit remote" where
  "activate_release ok p = deploy_ssh ok (activate_command p) ''release started but current pointer activation failed''"

definition restore_or_stop :: "(nat \<Rightarrow> bool) \<Rightarrow> deployment_plan \<Rightarrow> string list \<Rightarrow> string list" where
  "restore_or_stop ok p = quietly ok (restore_command p)"

definition cleanup_pending :: "(nat \<Rightarrow> bool) \<Rightarrow> deployment_plan \<Rightarrow> string list \<Rightarrow> string list" where
  "cleanup_pending ok p log =
     (if fullmatch RELEASE_RE (dp_release_id p) then quietly ok (cleanup_pending_command p) log else log)"

definition cleanup_previous :: "(nat \<Rightarrow> bool) \<Rightarrow> deployment_plan \<Rightarrow> string list \<Rightarrow> string list" where
  "cleanup_previous ok p log =
     (if fullmatch RELEASE_RE (dp_release_id p) then quietly ok (cleanup_previous_command p) log else log)"

definition cleanup_release :: "(nat \<Rightarrow> bool) \<Rightarrow> deployment_plan \<Rightarrow> string list \<Rightarrow> string list" where
  "cleanup_release ok p log =
     (if fullmatch RELEASE_RE (dp_release_id p) then quietly ok (cleanup_release_command p) log else log)"

definition rollback_staged :: "(nat \<Rightarrow> bool) \<Rightarrow> deployment_plan \<Rightarrow> string list \<Rightarrow> string list" where
  "rollback_staged ok p = cleanup_release ok p \<circ> cleanup_previous ok p \<circ> restore_or_stop ok p"

text \<open>\<open>try: act except DeployError: undo; raise\<close>, then \<open>k\<close>.\<close>

definition attempt :: "unit remote \<Rightarrow> (string list \<Rightarrow> string list) \<Rightarrow> 'a remote \<Rightarrow> 'a remote" where
  "attempt act undo k log = (case act log of (l, Inr _) \<Rightarrow> k l | (l, Inl e) \<Rightarrow> (undo l, Inl e))"

definition activation_failed :: string where
  "activation_failed = ''release activation failed after Django migrations completed; previous application ''
     @ ''release restoration was attempted. The database schema may no longer be compatible ''
     @ ''with the restored release and requires operator inspection''"

definition activate_stage :: "(nat \<Rightarrow> bool) \<Rightarrow> deployment_plan \<Rightarrow> string remote" where
  "activate_stage ok p log =
     (case activate_release ok p log of
        (l, Inr _) \<Rightarrow> (cleanup_previous ok p l, Inr (dp_release_id p))
      | (l, Inl _) \<Rightarrow>
          (cleanup_release ok p (cleanup_previous ok p (cleanup_pending ok p (restore_or_stop ok p l))),
           Inl (DeployError activation_failed)))"

definition run_plan :: "(nat \<Rightarrow> bool) \<Rightarrow> deployment_plan \<Rightarrow> string remote" where
  "run_plan ok p =
     attempt (upload_release ok p) (cleanup_release ok p)
     (attempt (capture_previous ok p) (cleanup_release ok p)
     (attempt (start_staged ok p) (rollback_staged ok p)
     (attempt (migration_preflight ok p) (rollback_staged ok p)
     (attempt (run_migrations ok p) (rollback_staged ok p)
     (activate_stage ok p)))))"

text \<open>\<open>deploy_project\<close>: \<open>config\<close> is what loading the configuration gave, \<open>compose_path\<close> the Compose file's path with
  whether it is a file, and \<open>compose\<close> that path relative to the project (\<open>None\<close> when it, or the configuration, is
  outside of it).\<close>

definition deploy_project :: "(nat \<Rightarrow> bool) \<Rightarrow> djangoops_config res \<Rightarrow> string \<Rightarrow> bool \<Rightarrow> string option \<Rightarrow> deployment_target \<Rightarrow> string \<Rightarrow> int
    \<Rightarrow> string remote" where
  "deploy_project ok config compose_path is_file compose target stamp pid log =
     (case config of
        Inl e \<Rightarrow> (log, Inl e)
      | Inr c \<Rightarrow>
          if \<not> is_file then (log, Inl (DeployError (path_name compose_path @ '' does not exist; run '' @ quoted ''djangoops compose''
            @ '' first'')))
          else (case compose of
              None \<Rightarrow> (log, Inl (DeployError ''config and Compose files must be inside the project directory''))
            | Some f \<Rightarrow> run_plan ok \<lparr>dp_project_name = dc_project_name c, dp_target = target, dp_release_id = release_id stamp pid,
                dp_compose_file = f\<rparr> log))"

end
