(* ===== verification/Deploy_Claims.thy ===== *)
theory Deploy_Claims
  imports Deploy
begin

text \<open>
  Deployment: every outcome of a staged deployment with the commands it sent, the words the remote shell
  reads, and the files that are uploaded.
\<close>

section \<open>Outcomes\<close>

text \<open>The reference: the six stages in order; the first that fails decides what is undone and reported.\<close>

definition stages :: "deployment_plan \<Rightarrow> string list" where
  "stages p = [upload_command p, capture_command p, start_command p, preflight_command p, migrate_command p, activate_command p]"

definition undo_of :: "deployment_plan \<Rightarrow> nat \<Rightarrow> string list" where
  "undo_of p i =
     (if i < 2 then [cleanup_release_command p]
      else if i < 5 then [restore_command p, cleanup_previous_command p, cleanup_release_command p]
      else [restore_command p, cleanup_pending_command p, cleanup_previous_command p, cleanup_release_command p])"

definition first_failure :: "(nat \<Rightarrow> bool) \<Rightarrow> nat option" where
  "first_failure ok = List.find (\<lambda>i. \<not> ok i) [0..<6]"

definition is_deploy_error :: "'a res \<Rightarrow> bool" where
  "is_deploy_error r = (case r of Inl (DeployError _) \<Rightarrow> True | _ \<Rightarrow> False)"

lemma six: "[0..<6] = [0, 1, 2, 3, 4, 5 :: nat]"
  by (simp add: upt_rec)

lemmas stage_defs = upload_release_def capture_previous_def start_staged_def migration_preflight_def run_migrations_def
  activate_release_def restore_or_stop_def cleanup_pending_def cleanup_previous_def cleanup_release_def rollback_staged_def
  activate_stage_def deploy_ssh_def quietly_def attempt_def

text \<open>C29. A deployment sends its stages in order and stops at the first that fails. If all six succeed, it removes
  the pointer to the previous release and returns the release; the new release is activated by no other
  run than one whose upload, capture, start, pre-flight and migration have succeeded. If one fails, the
  clean-up of that stage follows, whatever becomes of the clean-up's own commands, and the caller gets a
  \<open>DeployError\<close>: before the start the new directory is removed, after it the previous release is
  restored or the new one stopped first, and after a failed activation the pending pointer is removed too.\<close>

theorem deploy_outcome:
  assumes "fullmatch RELEASE_RE (dp_release_id p)"
  shows "(case first_failure ok of
      None \<Rightarrow> run_plan ok p [] = (stages p @ [cleanup_previous_command p], Inr (dp_release_id p))
    | Some i \<Rightarrow> fst (run_plan ok p []) = take (Suc i) (stages p) @ undo_of p i \<and> is_deploy_error (snd (run_plan ok p [])))"
proof -
  have n: "first_failure ok = (if ok 0 then if ok 1 then if ok 2 then if ok 3 then if ok 4 then if ok 5 then None
      else Some 5 else Some 4 else Some 3 else Some 2 else Some 1 else Some 0)"
    by (simp add: first_failure_def six)
  show ?thesis
    unfolding n run_plan_def stages_def undo_of_def
    by (simp add: stage_defs assms is_deploy_error_def numeral_2_eq_2 numeral_3_eq_3 eval_nat_numeral)
qed

definition demo_plan :: deployment_plan where
  "demo_plan = \<lparr>dp_project_name = ''shop'',
     dp_target = \<lparr>dt_host = ''web-1.example.com'', dt_user = ''deploy'', dt_port = 22, dt_remote_base = ''/srv/shop'', dt_identity_file = None\<rparr>,
     dp_release_id = ''r20240102T030405Z-77'', dp_compose_file = ''docker-compose.yml''\<rparr>"

lemma demo_release: "fullmatch RELEASE_RE (dp_release_id demo_plan)"
  by code_simp

theorem deploy_outcome_witness:
  "fst (run_plan (\<lambda>i. i \<noteq> 3) demo_plan []) = take 4 (stages demo_plan)
     @ [restore_command demo_plan, cleanup_previous_command demo_plan, cleanup_release_command demo_plan]"
proof -
  have "first_failure (\<lambda>i. i \<noteq> 3) = Some 3" by (simp add: first_failure_def six)
  then show ?thesis
    using deploy_outcome [OF demo_release, of "\<lambda>i. i \<noteq> 3"] by (simp add: undo_of_def eval_nat_numeral)
qed

section \<open>Words of the remote shell\<close>

lemma quoted_literals:
  "shlex_quote ''rm'' = ''rm''" "shlex_quote ''-rf'' = ''-rf''" "shlex_quote ''-f'' = ''-f''" "shlex_quote ''--'' = ''--''"
  "shlex_quote ''docker'' = ''docker''" "shlex_quote ''compose'' = ''compose''" "shlex_quote ''-p'' = ''-p''"
  by code_simp+

lemma sh_words_quoted: "s = join '' '' (map shlex_quote ws) \<Longrightarrow> ws \<noteq> [] \<Longrightarrow> sh_words s = Some ws"
  using sh_words_join by simp

text \<open>C30. The paths and names in the commands that delete or name something reach the remote shell as single words,
  whatever characters they hold: a clean-up deletes exactly the path it means, and Compose gets exactly the
  project name and file of the plan.\<close>

theorem commands_read_as_meant:
  "sh_words (cleanup_release_command p) = Some [''rm'', ''-rf'', ''--'', release_dir p]
   \<and> sh_words (cleanup_pending_command p) = Some [''rm'', ''-f'', ''--'', pending_path p]
   \<and> sh_words (cleanup_previous_command p) = Some [''rm'', ''-f'', ''--'', previous_path p, restore_path p]
   \<and> sh_words (compose_prefix p) = Some [''docker'', ''compose'', ''-p'', dp_project_name p, ''-f'', dp_compose_file p]"
proof -
  have "cleanup_release_command p = join '' '' (map shlex_quote [''rm'', ''-rf'', ''--'', release_dir p])"
    "cleanup_pending_command p = join '' '' (map shlex_quote [''rm'', ''-f'', ''--'', pending_path p])"
    "cleanup_previous_command p = join '' '' (map shlex_quote [''rm'', ''-f'', ''--'', previous_path p, restore_path p])"
    "compose_prefix p = join '' '' (map shlex_quote [''docker'', ''compose'', ''-p'', dp_project_name p, ''-f'', dp_compose_file p])"
    by (simp_all only: list.map quoted_literals join.simps)
      (simp_all add: cleanup_release_command_def cleanup_pending_command_def cleanup_previous_command_def compose_prefix_def)
  from this [THEN sh_words_quoted] show ?thesis by simp
qed

section \<open>Uploaded files\<close>

text \<open>The reference: a path leads through real directories that are not excluded to a regular file that is not
  secret.\<close>

fun selected :: "(string \<times> entry) list \<Rightarrow> string list \<Rightarrow> bool" where
  "selected entries [] = False"
| "selected entries [name] = ((name, File) \<in> set entries \<and> \<not> is_secret_or_local_only name)"
| "selected entries (name # m # names) =
     (\<exists>sub. (name, Dir sub) \<in> set entries \<and> name \<notin> set EXCLUDED_DIRS \<and> selected sub (m # names))"

lemma selected_Cons: "ns \<noteq> [] \<Longrightarrow> selected entries (name # ns) =
     (\<exists>sub. (name, Dir sub) \<in> set entries \<and> name \<notin> set EXCLUDED_DIRS \<and> selected sub ns)"
  by (cases ns) auto

lemma deploy_files_set:
  "set (deploy_files root entries) =
     (\<lambda>(name, _). root @ [name]) ` {x \<in> set entries. snd x = File \<and> \<not> is_secret_or_local_only (fst x)}
     \<union> (\<Union>(name, sub) \<in> {(name, sub). (name, Dir sub) \<in> set entries \<and> name \<notin> set EXCLUDED_DIRS}. set (deploy_files (root @ [name]) sub))"
proof -
  have d: "set (concat (map (\<lambda>(name, e). case e of Dir es \<Rightarrow> deploy_files (root @ [name]) es | _ \<Rightarrow> [])
         (filter (\<lambda>(name, e). is_dir e \<and> name \<notin> set EXCLUDED_DIRS) (sort_key fst entries))))
    = (\<Union>(name, sub) \<in> {(name, sub). (name, Dir sub) \<in> set entries \<and> name \<notin> set EXCLUDED_DIRS}. set (deploy_files (root @ [name]) sub))"
    (is "?l = ?r")
  proof (intro equalityI subsetI)
    fix x assume "x \<in> ?l"
    then obtain name e where e: "(name, e) \<in> set entries" "is_dir e" "name \<notin> set EXCLUDED_DIRS"
      "x \<in> set (case e of Dir es \<Rightarrow> deploy_files (root @ [name]) es | _ \<Rightarrow> [])" by auto
    then show "x \<in> ?r" by (cases e) auto
  next
    fix x assume "x \<in> ?r"
    then obtain name sub where "(name, Dir sub) \<in> set entries" "name \<notin> set EXCLUDED_DIRS" "x \<in> set (deploy_files (root @ [name]) sub)"
      by auto
    then show "x \<in> ?l" by (force simp: is_dir_def)
  qed
  show ?thesis by (subst deploy_files.simps) (simp only: set_append d, force)
qed

lemma deploy_files_iff: "path \<in> set (deploy_files root entries) \<longleftrightarrow> (\<exists>ns. path = root @ ns \<and> selected entries ns)"
proof (induction root entries arbitrary: path rule: deploy_files.induct)
  case (1 root entries)
  have "path \<in> set (deploy_files root entries) \<longleftrightarrow>
      (\<exists>name. path = root @ [name] \<and> (name, File) \<in> set entries \<and> \<not> is_secret_or_local_only name)
      \<or> (\<exists>name sub. (name, Dir sub) \<in> set entries \<and> name \<notin> set EXCLUDED_DIRS \<and> path \<in> set (deploy_files (root @ [name]) sub))"
    by (subst deploy_files_set) auto
  moreover have "path \<in> set (deploy_files (root @ [name]) sub) \<longleftrightarrow> (\<exists>ns. path = root @ [name] @ ns \<and> selected sub ns)"
    if "(name, Dir sub) \<in> set entries" "name \<notin> set EXCLUDED_DIRS" for name sub
    using "1.IH" [of "(name, Dir sub)" name "Dir sub" sub] that by (simp add: is_dir_def)
  moreover have "(\<exists>ns. path = root @ ns \<and> selected entries ns) \<longleftrightarrow>
      (\<exists>name. path = root @ [name] \<and> (name, File) \<in> set entries \<and> \<not> is_secret_or_local_only name)
      \<or> (\<exists>name sub. (name, Dir sub) \<in> set entries \<and> name \<notin> set EXCLUDED_DIRS \<and> (\<exists>ns. path = root @ [name] @ ns \<and> selected sub ns))"
  proof -
    have "selected entries ns \<longleftrightarrow> (\<exists>name. ns = [name] \<and> (name, File) \<in> set entries \<and> \<not> is_secret_or_local_only name)
        \<or> (\<exists>name sub ns'. ns = name # ns' \<and> (name, Dir sub) \<in> set entries \<and> name \<notin> set EXCLUDED_DIRS \<and> selected sub ns')" for ns
      by (cases "(entries, ns)" rule: selected.cases) auto
    then show ?thesis by auto
  qed
  ultimately show ?case by blast
qed

text \<open>C31. What a deployment uploads are exactly the regular files of the project reached through real directories
  none of which is excluded, and none of whose names marks it as secret or local; symbolic links are
  neither uploaded nor followed. In particular no uploaded file is called \<open>.env\<close> or has a private key's
  name or suffix.\<close>

theorem uploaded_files:
  "set (deploy_files [] entries) = {path. selected entries path}
   \<and> list_all (\<lambda>path. path \<noteq> [] \<and> \<not> is_secret_or_local_only (last path) \<and> set (butlast path) \<inter> set EXCLUDED_DIRS = {})
       (deploy_files [] entries)"
proof -
  have sel: "selected es path \<Longrightarrow> path \<noteq> [] \<and> \<not> is_secret_or_local_only (last path) \<and> set (butlast path) \<inter> set EXCLUDED_DIRS = {}" for es path
  proof (induction es path rule: selected.induct)
    case (3 entries name m names)
    from "3.prems" obtain sub where sub: "(name, Dir sub) \<in> set entries" "name \<notin> set EXCLUDED_DIRS" "selected sub (m # names)"
      by auto
    show ?case using "3.IH" [OF sub(3)] sub(2) by (simp add: Int_insert_left)
  qed auto
  have "set (deploy_files [] entries) = {path. selected entries path}" using deploy_files_iff [of _ "[]" entries] by auto
  moreover from this sel have "list_all (\<lambda>path. path \<noteq> [] \<and> \<not> is_secret_or_local_only (last path) \<and> set (butlast path) \<inter> set EXCLUDED_DIRS = {})
       (deploy_files [] entries)" unfolding list_all_iff by blast
  ultimately show ?thesis by blast
qed

text \<open>The names of secrets are compared with file names only: a directory of that name is uploaded.\<close>

lemma secrets_directory_uploaded:
  "deploy_files [] [(''.secrets'', Dir [(''token'', File)])] = [[''.secrets'', ''token'']]"
  by (simp add: deploy_files.simps is_dir_def EXCLUDED_DIRS_def is_secret_or_local_only_def EXCLUDED_NAMES_def path_suffix_def
      rpartition_on_def EXCLUDED_SUFFIXES_def lower_def)

text \<open>The check for a root directory compares the text; other spellings of the root pass.\<close>

lemma root_spellings: "isOk (validate_remote_base ''///'')" "isOk (validate_remote_base ''/.'')" "\<not> isOk (validate_remote_base ''/'')"
  by code_simp+

end
