(* ===== verification/Health.thy ===== *)
theory Health
  imports Deploy Json
begin

text \<open>
  Health diagnostics over SSH: \<open>cli/djangoops/health.py\<close>. The report with its JSON text, the remote command and
  the parser of what it prints. The answer of the SSH client is an argument: \<open>None\<close> when the client cannot
  be executed, else the exit status and the output.
\<close>

definition HEALTH_SCHEMA_VERSION :: int where
  "HEALTH_SCHEMA_VERSION = 1"

definition CHECK_NAMES :: "string list" where
  "CHECK_NAMES = [''active_release'', ''compose_services'', ''django_deploy_check'', ''database_connectivity'', ''pending_migrations'']"

record health_check =
  hc_name :: string
  hc_status :: string

type_synonym health_report = "health_check list"

definition check_healthy :: "health_check \<Rightarrow> bool" where
  "check_healthy c \<longleftrightarrow> hc_status c = ''pass''"

definition report_healthy :: "health_report \<Rightarrow> bool" where
  "report_healthy r \<longleftrightarrow> list_all check_healthy r"

definition overall_status :: "health_report \<Rightarrow> string" where
  "overall_status r = (if report_healthy r then ''healthy'' else ''unhealthy'')"

definition report_to_json :: "health_report \<Rightarrow> string" where
  "report_to_json r = json_dumps (JObj
     [(''checks'', JArr (map (\<lambda>c. JObj [(''name'', JStr (hc_name c)), (''status'', JStr (hc_status c))]) r)),
      (''overall_status'', JStr (overall_status r)),
      (''schema_version'', JInt HEALTH_SCHEMA_VERSION)])"

definition validate_compose_file :: "string \<Rightarrow> string res" where
  "validate_compose_file value =
     bindR (guardR (value \<noteq> [] \<and> \<not> list_ex is_control value) (ValueError ''Compose file path contains control characters'')) (\<lambda>_.
     bindR (guardR (\<not> path_is_absolute value) (ValueError ''Compose file path must be project-relative'')) (\<lambda>_.
     bindR (guardR (\<not> list_ex (\<lambda>p. p \<in> {''.'', ''..''}) (path_parts value))
       (ValueError (''Compose file path must not contain '' @ quoted ''.'' @ '' or '' @ quoted ''..'' @ '' segments''))) (\<lambda>_.
       Inr (path_as_posix value))))"

section \<open>The parser of the report\<close>

definition tab :: char where
  "tab = CHR 0x09"

definition add_line :: "(string, string) dict \<Rightarrow> string \<Rightarrow> (string, string) dict" where
  "add_line results raw_line =
     (case split_on tab raw_line of
        [m, name, remote_status] \<Rightarrow>
          if m = ''DJANGOOPS_HEALTH'' \<and> name \<in> set CHECK_NAMES \<and> name \<notin> set (dkeys results)
             \<and> remote_status \<in> {''PASS'', ''FAIL''}
          then dput name (if remote_status = ''PASS'' then ''pass'' else ''fail'') results
          else results
      | _ \<Rightarrow> results)"

definition parse_report :: "string \<Rightarrow> health_report res" where
  "parse_report output =
     (let results = foldl add_line [] (splitlines output)
      in if dkeys results \<noteq> CHECK_NAMES
         then Inl (HealthTransportError ''remote health response was incomplete or invalid'')
         else bindR (mapR (\<lambda>name. case dget results name of None \<Rightarrow> Inl (KeyError name)
             | Some s \<Rightarrow> Inr \<lparr>hc_name = name, hc_status = s\<rparr>) CHECK_NAMES) Inr)"

section \<open>The remote command\<close>

definition emit_text :: string where
  "emit_text = ''emit() { printf '' @ quoted (''DJANGOOPS_HEALTH'' @ [CHR 0x5C] @ ''t%s'' @ [CHR 0x5C] @ ''t%s'' @ [CHR 0x5C] @ ''n'')
     @ '' '' @ dquoted ''$1'' @ '' '' @ dquoted ''$2'' @ ''; }; ''"

text \<open>\<open>if (cd "$release" && docker compose -f FILE exec -T web python ... ); then emit NAME PASS; else emit NAME FAIL; fi\<close>\<close>

definition probe_text :: "string \<Rightarrow> string \<Rightarrow> string \<Rightarrow> string" where
  "probe_text compose python name =
     ''if (cd '' @ dquoted ''$release'' @ '' && docker compose -f '' @ compose @ '' exec -T web python '' @ python
     @ '' >/dev/null 2>&1); then emit '' @ name @ '' PASS; else emit '' @ name @ '' FAIL; fi; ''"

definition services_text :: "string \<Rightarrow> string" where
  "services_text compose =
     ''if (cd '' @ dquoted ''$release'' @ '' && declared=$(docker compose -f '' @ compose @ '' config --services 2>/dev/null) && ''
     @ ''running=$(docker compose -f '' @ compose @ '' ps --services --filter status=running 2>/dev/null) && ''
     @ ''test -n '' @ dquoted ''$declared'' @ '' && test -n '' @ dquoted ''$running'' @ '' && ok=1; ''
     @ ''for service in $declared; do if printf '' @ dquoted (''%s'' @ [CHR 0x5C] @ ''n'') @ '' '' @ dquoted ''$running''
     @ '' | grep -Fx '' @ dquoted ''$service'' @ '' >/dev/null; then :; else ok=0; fi; done; test '' @ dquoted ''$ok''
     @ '' -eq 1); then emit compose_services PASS; else emit compose_services FAIL; fi; ''"

definition health_remote_command :: "string \<Rightarrow> string \<Rightarrow> string" where
  "health_remote_command remote_base compose_file =
     (let base = shlex_quote remote_base;
          current = shlex_quote (remote_base @ ''/current'');
          compose = shlex_quote compose_file;
          db_probe = shlex_quote ''from django.db import connection; connection.ensure_connection()''
      in ''set -u; '' @ emit_text
         @ ''release=$(readlink -f -- '' @ current @ '' 2>/dev/null || true); ''
         @ ''case '' @ dquoted ''$release'' @ '' in '' @ base @ ''/releases/*) if test -d '' @ dquoted ''$release''
         @ ''; then active=1; emit active_release PASS; else active=0; emit active_release FAIL; fi ;; ''
         @ ''*) active=0; emit active_release FAIL ;; esac; ''
         @ ''if test '' @ dquoted ''$active'' @ '' -eq 1; then ''
         @ services_text compose
         @ probe_text compose ''manage.py check --deploy'' ''django_deploy_check''
         @ probe_text compose (''manage.py shell -c '' @ db_probe) ''database_connectivity''
         @ probe_text compose ''manage.py migrate --check --noinput'' ''pending_migrations''
         @ ''else emit compose_services FAIL; emit django_deploy_check FAIL; ''
         @ ''emit database_connectivity FAIL; emit pending_migrations FAIL; fi'')"

definition health_project :: "(string list \<Rightarrow> (int \<times> string) option) \<Rightarrow> deployment_target \<Rightarrow> string \<Rightarrow> health_report res" where
  "health_project ssh target compose_file =
     bindR (validate_compose_file compose_file) (\<lambda>f.
       case ssh (ssh_argv target (health_remote_command (dt_remote_base target) f)) of
         None \<Rightarrow> Inl (HealthTransportError ''unable to execute the system OpenSSH client'')
       | Some (returncode, stdout) \<Rightarrow>
           if returncode \<noteq> 0 then Inl (HealthTransportError ''health evaluation failed over SSH'')
           else parse_report stdout)"

section \<open>What the command prints\<close>

text \<open>The lines of the remote program, from the state it finds: whether a release is active and the answers of
  the four probes.\<close>

definition health_line :: "string \<Rightarrow> bool \<Rightarrow> string" where
  "health_line name ok = ''DJANGOOPS_HEALTH'' @ [tab] @ name @ [tab] @ (if ok then ''PASS'' else ''FAIL'')"

definition health_lines :: "bool \<Rightarrow> (string \<Rightarrow> bool) \<Rightarrow> string list" where
  "health_lines active probe =
     health_line ''active_release'' active
     # map (\<lambda>name. health_line name (active \<and> probe name)) (tl CHECK_NAMES)"

end
