(* ===== verification/Backup.thy ===== *)
theory Backup
  imports Health
begin

text \<open>
  Backups over SSH: \<open>cli/djangoops/backup.py\<close>. Every text that is sent to the remote host, the listing of backups and
  the operations with their errors. The answer of the SSH client is the argument \<open>ssh\<close>: \<open>None\<close> when the client cannot be
  executed, else the exit status and the output.
\<close>

type_synonym ssh_client = "string list \<Rightarrow> (int \<times> string) option"

abbreviation nl :: string where
  "nl \<equiv> [CHR 0x0A]"

definition BACKUP_ID_RE :: rx where
  "BACKUP_ID_RE = Seq (Cls (\<lambda>c. c = CHR ''b'')) (Seq (Rep 8 0 (Cls is_digit)) (Seq (Cls (\<lambda>c. c = CHR ''T''))
     (Seq (Rep 6 0 (Cls is_digit)) (Cls (\<lambda>c. c = CHR ''Z'')))))"

definition validate_backup_id :: "string \<Rightarrow> string res" where
  "validate_backup_id value =
     (if fullmatch BACKUP_ID_RE value then Inr value
      else Inl (ValueError ''backup identifier must match bYYYYMMDDTHHMMSSZ''))"

text \<open>\<open>stamp\<close> is the time in UTC, in the format \<open>%Y%m%dT%H%M%SZ\<close>; \<open>None\<close> for a time without zone.\<close>

definition backup_identifier :: "string option \<Rightarrow> string res" where
  "backup_identifier stamp =
     (case stamp of None \<Rightarrow> Inl (ValueError ''backup timestamp must be timezone-aware'') | Some s \<Rightarrow> Inr (CHR ''b'' # s))"

definition run_ssh_capture :: "ssh_client \<Rightarrow> deployment_target \<Rightarrow> string \<Rightarrow> string res" where
  "run_ssh_capture ssh target command =
     (case ssh (ssh_argv target command) of
        None \<Rightarrow> Inl (BackupError ''unable to execute the system OpenSSH client'')
      | Some (returncode, stdout) \<Rightarrow>
          if returncode \<noteq> 0 then Inl (BackupError ''remote backup/restore command failed'') else Inr stdout)"

definition run_ssh :: "ssh_client \<Rightarrow> deployment_target \<Rightarrow> string \<Rightarrow> unit res" where
  "run_ssh ssh target command = bindR (run_ssh_capture ssh target command) (\<lambda>_. Inr ())"

section \<open>Parts of the commands\<close>

definition writer_services :: "djangoops_config \<Rightarrow> string list" where
  "writer_services c = [''web''] @ (if sc_celery (dc_services c) then [''celery''] else [])
     @ (if sc_celery_beat (dc_services c) then [''celery_beat''] else [])"

definition object_prefix :: "djangoops_config \<Rightarrow> string" where
  "object_prefix c = bc_prefix (dc_backup c) @ ''/'' @ dc_project_name c"

definition aws_env_prefix :: "djangoops_config \<Rightarrow> string" where
  "aws_env_prefix c = ''AWS_ENDPOINT_URL='' @ shlex_quote (so_endpoint_url (dc_storage c))
     @ (case so_region (dc_storage c) of None \<Rightarrow> [] | Some r \<Rightarrow> '' AWS_DEFAULT_REGION='' @ shlex_quote r)"

definition runtime_preflight :: "djangoops_config \<Rightarrow> deployment_target \<Rightarrow> string" where
  "runtime_preflight c target =
     (let env_path = shlex_quote (dt_remote_base target @ ''/shared/.env'')
      in ''command -v docker >/dev/null; command -v aws >/dev/null; ''
         @ ''test -f '' @ env_path @ ''; set -a; . '' @ env_path @ ''; set +a; ''
         @ ''test -n '' @ dquoted ''${POSTGRES_PASSWORD:-}'' @ ''; test -n '' @ dquoted ''${AWS_ACCESS_KEY_ID:-}'' @ ''; ''
         @ ''test -n '' @ dquoted ''${AWS_SECRET_ACCESS_KEY:-}'' @ ''; ''
         @ ''test -n '' @ shlex_quote (dc_project_name c))"

definition backup_compose_prefix :: "djangoops_config \<Rightarrow> string \<Rightarrow> string res" where
  "backup_compose_prefix c compose_file = bindR (validate_compose_file compose_file) (\<lambda>validated. Inr
     (''docker compose -p '' @ shlex_quote (dc_project_name c) @ '' -f '' @ shlex_quote validated))"

section \<open>The backup script and its schedule\<close>

definition database_args :: string where
  "database_args = dquoted ''$POSTGRES_USER'' @ '' '' @ dquoted ''$POSTGRES_DB''"

definition pg_dump :: string where
  "pg_dump = quoted (''pg_dump -U '' @ database_args)"

text \<open>The script, line by line; \<open>compose\<close> is the prefix of the Compose commands. In the source's text \<open>\n\<close> is a newline and a
  backslash at the end of a line joins it with the next.\<close>

definition script_lines :: "djangoops_config \<Rightarrow> deployment_target \<Rightarrow> string \<Rightarrow> string list" where
  "script_lines c target compose =
     (let base = shlex_quote (dt_remote_base target);
          current = shlex_quote (dt_remote_base target @ ''/current'');
          prefix = object_prefix c;
          aws = aws_env_prefix c
      in [''#!/bin/sh'',
          ''set -eu'',
          ''umask 077'',
          ''backup_id='' @ dquoted ''${1:-b$(date -u +%Y%m%dT%H%M%SZ)}'',
          ''printf '' @ quoted (''%s'' @ nl) @ '' '' @ dquoted ''$backup_id'' @ '' | grep -Eq ''
            @ quoted ''^b[0-9]{8}T[0-9]{6}Z$'' @ '' || exit 2'',
          ''command -v docker >/dev/null'',
          ''command -v aws >/dev/null'',
          ''cd '' @ current,
          ''set -a'',
          ''. '' @ base @ ''/shared/.env'',
          ''set +a'',
          ''test -n '' @ dquoted ''${POSTGRES_PASSWORD:-}'',
          ''test -n '' @ dquoted ''${AWS_ACCESS_KEY_ID:-}'',
          ''test -n '' @ dquoted ''${AWS_SECRET_ACCESS_KEY:-}'',
          ''work=$(mktemp -d)'',
          ''trap '' @ quoted (''rm -rf '' @ dquoted ''$work'') @ '' EXIT'',
          compose @ '' config --services | grep -Fx postgres >/dev/null'',
          compose @ '' exec -T postgres sh -c   '' @ pg_dump @ '' | gzip -c > '' @ dquoted ''$work/database.sql.gz'',
          ''printf '' @ quoted (''backup_id=%s'' @ nl @ ''project=%s'' @ nl @ ''database=database.sql.gz'' @ nl @ ''media=media/'' @ nl)
            @ ''   '' @ dquoted ''$backup_id'' @ '' '' @ shlex_quote (dc_project_name c) @ '' > '' @ dquoted ''$work/metadata.txt'',
          ''dest='' @ dquoted (''s3://'' @ bc_bucket (dc_backup c) @ ''/'' @ prefix @ ''/$backup_id''),
          aws @ '' aws s3 cp '' @ dquoted ''$work/database.sql.gz'' @ '' '' @ dquoted ''$dest/database.sql.gz'' @ '' >/dev/null'',
          aws @ '' aws s3 sync '' @ dquoted (''s3://'' @ so_media_bucket (dc_storage c) @ ''/'') @ '' '' @ dquoted ''$dest/media/'' @ '' >/dev/null'',
          '': > '' @ dquoted ''$work/media.ready'',
          aws @ '' aws s3 cp '' @ dquoted ''$work/media.ready'' @ '' '' @ dquoted ''$dest/media.ready'' @ '' >/dev/null'',
          aws @ '' aws s3 cp '' @ dquoted ''$work/metadata.txt'' @ '' '' @ dquoted ''$dest/metadata.txt'' @ '' >/dev/null''])"

definition backup_script :: "djangoops_config \<Rightarrow> deployment_target \<Rightarrow> string \<Rightarrow> string res" where
  "backup_script c target compose_file =
     bindR (backup_compose_prefix c compose_file) (\<lambda>compose. Inr (concat (map (\<lambda>l. l @ nl) (script_lines c target compose))))"

definition cron_marker :: "djangoops_config \<Rightarrow> string" where
  "cron_marker c = ''# djangoops-backup:'' @ dc_project_name c"

definition runner_path :: "deployment_target \<Rightarrow> string" where
  "runner_path target = dt_remote_base target @ ''/shared/djangoops-backup.sh''"

definition cron_line :: "djangoops_config \<Rightarrow> deployment_target \<Rightarrow> string" where
  "cron_line c target = bc_schedule (dc_backup c) @ '' '' @ shlex_quote (runner_path target) @ '' '' @ cron_marker c"

definition install_command :: "djangoops_config \<Rightarrow> deployment_target \<Rightarrow> string \<Rightarrow> string" where
  "install_command c target script =
     (let base = shlex_quote (dt_remote_base target);
          runner_q = shlex_quote (runner_path target);
          heredoc = ''cat > '' @ runner_q @ '' <<'' @ quoted ''DJANGOOPS_BACKUP'' @ nl @ script @ nl @ ''DJANGOOPS_BACKUP'' @ nl;
          line = ''printf '' @ quoted (''%s'' @ [CHR 0x5C] @ ''n'') @ '' ''
      in ''set -eu; umask 077; ''
         @ ''command -v crontab >/dev/null; command -v docker >/dev/null; ''
         @ ''command -v aws >/dev/null; ''
         @ ''mkdir -p '' @ base @ ''/shared; '' @ heredoc
         @ ''chmod 700 '' @ runner_q @ ''; ''
         @ ''current=$(crontab -l 2>/dev/null || true); ''
         @ ''filtered=$('' @ line @ dquoted ''$current'' @ '' | grep -Fv -- '' @ shlex_quote (cron_marker c) @ '' || true); ''
         @ ''{ '' @ line @ dquoted ''$filtered'' @ ''; '' @ line @ shlex_quote (cron_line c target) @ ''; } | ''
         @ ''sed '' @ quoted ''/^$/d'' @ '' | crontab -'')"

definition install_backup_schedule :: "ssh_client \<Rightarrow> djangoops_config \<Rightarrow> deployment_target \<Rightarrow> string \<Rightarrow> unit res" where
  "install_backup_schedule ssh c target compose_file =
     bindR (validate_compose_file compose_file) (\<lambda>validated.
     bindR (backup_script c target validated) (\<lambda>script.
       run_ssh ssh target (install_command c target script)))"

text \<open>What the last commands do to the lines of the crontab: \<open>grep -Fv\<close> drops the lines with the marker in them, the
  new line is added, \<open>sed\<close> drops empty lines.\<close>

definition crontab_after :: "djangoops_config \<Rightarrow> deployment_target \<Rightarrow> string list \<Rightarrow> string list" where
  "crontab_after c target current =
     filter (\<lambda>l. l \<noteq> []) (filter (\<lambda>l. \<not> substring_in (cron_marker c) l) current @ [cron_line c target])"

section \<open>Running and listing\<close>

definition run_backup :: "ssh_client \<Rightarrow> djangoops_config \<Rightarrow> deployment_target \<Rightarrow> string option \<Rightarrow> string res" where
  "run_backup ssh c target stamp =
     bindR (backup_identifier stamp) (\<lambda>backup_id.
     let runner = shlex_quote (runner_path target)
     in bindR (run_ssh ssh target (''test -x '' @ runner @ '' && '' @ runner @ '' '' @ shlex_quote backup_id)) (\<lambda>_. Inr backup_id))"

definition list_command :: "djangoops_config \<Rightarrow> deployment_target \<Rightarrow> string" where
  "list_command c target =
     (let destination = shlex_quote (''s3://'' @ bc_bucket (dc_backup c) @ ''/'' @ object_prefix c @ ''/'')
      in ''set -eu; '' @ runtime_preflight c target @ ''; '' @ aws_env_prefix c @ '' aws s3 ls '' @ destination
         @ '' --recursive | awk '' @ quoted ''{print $4}'')"

text \<open>The identifier a line of the listing shows, if it shows one.\<close>

definition listed_id :: "string \<Rightarrow> string option" where
  "listed_id line =
     (case rev (split_on CHR ''/'' (strip line)) of
        file # backup_id # _ \<Rightarrow> if fullmatch BACKUP_ID_RE backup_id \<and> file = ''metadata.txt'' then Some backup_id else None
      | _ \<Rightarrow> None)"

definition parse_listing :: "string \<Rightarrow> string list" where
  "parse_listing stdout = rev (sort (remdups (List.map_filter listed_id (splitlines stdout))))"

definition list_backups :: "ssh_client \<Rightarrow> djangoops_config \<Rightarrow> deployment_target \<Rightarrow> string list res" where
  "list_backups ssh c target = bindR (run_ssh_capture ssh target (list_command c target)) (\<lambda>stdout. Inr (parse_listing stdout))"

section \<open>Restoring\<close>

definition service_check :: "string \<Rightarrow> string \<Rightarrow> string" where
  "service_check compose service = compose @ '' config --services | grep -Fx '' @ shlex_quote service @ '' >/dev/null;''"

definition restore_text :: "djangoops_config \<Rightarrow> deployment_target \<Rightarrow> string \<Rightarrow> string \<Rightarrow> string" where
  "restore_text c target selected compose =
     (let prefix = object_prefix c @ ''/'' @ selected;
          base = shlex_quote (dt_remote_base target);
          current = shlex_quote (dt_remote_base target @ ''/current'');
          aws = aws_env_prefix c;
          bucket_path = ''s3://'' @ bc_bucket (dc_backup c) @ ''/'' @ prefix;
          writers = writer_services c;
          writer_args = join '' '' (map shlex_quote writers);
          service_checks = join '' '' (map (service_check compose) (''postgres'' # writers));
          recovery_root = ''s3://'' @ bc_bucket (dc_backup c) @ ''/'' @ object_prefix c @ ''/recovery'';
          media = ''s3://'' @ so_media_bucket (dc_storage c) @ ''/'';
          saved = base @ ''/shared/pre-restore-'' @ selected @ ''.sql.gz''
      in ''set -eu; umask 077; ''
         @ runtime_preflight c target @ ''; command -v gzip >/dev/null; ''
         @ ''test -L '' @ current @ ''; cd '' @ current @ ''; ''
         @ service_checks @ '' ''
         @ aws @ '' aws s3 cp '' @ shlex_quote (bucket_path @ ''/metadata.txt'') @ '' /tmp/djangoops-restore-meta >/dev/null; ''
         @ ''grep -Fx '' @ shlex_quote (''backup_id='' @ selected) @ '' /tmp/djangoops-restore-meta >/dev/null; ''
         @ ''grep -Fx '' @ shlex_quote (''project='' @ dc_project_name c) @ '' /tmp/djangoops-restore-meta >/dev/null; ''
         @ ''grep -Fx '' @ quoted ''database=database.sql.gz'' @ '' /tmp/djangoops-restore-meta >/dev/null; ''
         @ ''grep -Fx '' @ quoted ''media=media/'' @ '' /tmp/djangoops-restore-meta >/dev/null; ''
         @ aws @ '' aws s3 cp '' @ shlex_quote (bucket_path @ ''/database.sql.gz'') @ '' /tmp/djangoops-restore-db.sql.gz >/dev/null; ''
         @ ''gzip -t /tmp/djangoops-restore-db.sql.gz; ''
         @ aws @ '' aws s3 cp '' @ shlex_quote (bucket_path @ ''/media.ready'') @ '' /tmp/djangoops-restore-media-ready >/dev/null; ''
         @ ''recovery_id=pre-restore-$(date -u +%Y%m%dT%H%M%SZ); ''
         @ ''recovery='' @ shlex_quote recovery_root @ ''/$recovery_id; ''
         @ compose @ '' exec -T postgres sh -c '' @ pg_dump @ '' | gzip -c > '' @ saved @ ''; ''
         @ aws @ '' aws s3 cp '' @ saved @ '' '' @ dquoted ''$recovery/database.sql.gz'' @ '' >/dev/null; ''
         @ aws @ '' aws s3 sync '' @ shlex_quote media @ '' '' @ dquoted ''$recovery/media/'' @ '' >/dev/null; ''
         @ compose @ '' stop '' @ writer_args @ ''; ''
         @ compose @ '' exec -T postgres sh -c '' @ quoted (''dropdb -U '' @ dquoted ''$POSTGRES_USER'' @ '' --if-exists '' @ dquoted ''$POSTGRES_DB''
             @ '' && createdb -U '' @ database_args) @ ''; ''
         @ ''gzip -dc /tmp/djangoops-restore-db.sql.gz | '' @ compose @ '' exec -T postgres sh -c ''
             @ quoted (''psql -v ON_ERROR_STOP=1 -U '' @ database_args) @ ''; ''
         @ aws @ '' aws s3 sync --delete '' @ shlex_quote (bucket_path @ ''/media/'') @ '' '' @ shlex_quote media @ '' >/dev/null; ''
         @ compose @ '' up -d '' @ writer_args @ ''; ''
         @ compose @ '' exec -T web python manage.py check --deploy'')"

definition restore_failed :: string where
  "restore_failed = ''restore failed; application data may have been mutated. Pre-restore database/media ''
     @ ''artifacts were preserved for operator recovery and the selected source backup was not deleted''"

definition restore_backup :: "ssh_client \<Rightarrow> djangoops_config \<Rightarrow> deployment_target \<Rightarrow> string \<Rightarrow> string \<Rightarrow> unit res" where
  "restore_backup ssh c target backup_id compose_file =
     bindR (validate_backup_id backup_id) (\<lambda>selected.
     bindR (validate_compose_file compose_file) (\<lambda>validated.
     bindR (backup_compose_prefix c validated) (\<lambda>compose.
       case run_ssh ssh target (restore_text c target selected compose) of
         Inl (BackupError _) \<Rightarrow> Inl (BackupError restore_failed)
       | r \<Rightarrow> r)))"

end
