(* ===== verification/Compose.thy ===== *)
theory Compose
  imports Integrations PyPath
begin

text \<open>
  The generated Compose file: \<open>cli/djangoops/compose.py\<close>. The document is a JSON value, in the order of the source's
  dictionaries; \<open>yaml.safe_dump\<close> is the parameter \<open>dump\<close>. Files are a dictionary from paths to texts.
\<close>

definition COMPOSE_FILENAME :: string where "COMPOSE_FILENAME = ''docker-compose.yml''"
definition POSTGRES_IMAGE :: string where "POSTGRES_IMAGE = ''postgres:16''"
definition REDIS_IMAGE :: string where "REDIS_IMAGE = ''redis:7-alpine''"
definition TRAEFIK_IMAGE :: string where "TRAEFIK_IMAGE = ''traefik:v3.7.1''"

abbreviation str_list :: "string list \<Rightarrow> json" where
  "str_list ss \<equiv> JArr (map JStr ss)"

abbreviation str_dict :: "(string, string) dict \<Rightarrow> json" where
  "str_dict d \<equiv> JObj (map (\<lambda>(k, v). (k, JStr v)) d)"

definition APP_ENV_FILE :: json where "APP_ENV_FILE = str_list [''.env'']"
definition APP_BUILD :: json where "APP_BUILD = str_dict [(''context'', ''.'')]"
definition RESTART_POLICY :: json where "RESTART_POLICY = JStr ''unless-stopped''"

section \<open>Parts of the document\<close>

definition find_integration :: "integration_config list \<Rightarrow> string \<Rightarrow> integration_config option" where
  "find_integration integrations name = List.find (\<lambda>c. ic_name c = name) integrations"

definition infrastructure_dependencies :: "djangoops_config \<Rightarrow> (string, json) dict" where
  "infrastructure_dependencies c =
     (if sc_postgres (dc_services c) then [(''postgres'', str_dict [(''condition'', ''service_healthy'')])] else [])
     @ (if sc_redis (dc_services c) then [(''redis'', str_dict [(''condition'', ''service_healthy'')])] else [])"

definition django_project_module :: "djangoops_config \<Rightarrow> string" where
  "django_project_module c =
     (let module = dc_django_module c
      in if ends_with ''.settings'' module then take (length module - length ''.settings'') module else module)"

definition storage_environment :: "djangoops_config \<Rightarrow> (string, string) dict" where
  "storage_environment c =
     [(''DJANGOOPS_S3_ENDPOINT_URL'', so_endpoint_url (dc_storage c)),
      (''DJANGOOPS_S3_STATIC_BUCKET'', so_static_bucket (dc_storage c)),
      (''DJANGOOPS_S3_MEDIA_BUCKET'', so_media_bucket (dc_storage c)),
      (''AWS_ACCESS_KEY_ID'', ''${AWS_ACCESS_KEY_ID:?AWS_ACCESS_KEY_ID must be set}''),
      (''AWS_SECRET_ACCESS_KEY'', ''${AWS_SECRET_ACCESS_KEY:?AWS_SECRET_ACCESS_KEY must be set}'')]
     @ (case so_region (dc_storage c) of None \<Rightarrow> [] | Some r \<Rightarrow> [(''AWS_REGION'', r)])"

text \<open>Whether the SDK is disabled, the endpoint and the namespace.\<close>

definition otlp_settings :: "integration_config list \<Rightarrow> (string \<times> string \<times> string) res" where
  "otlp_settings integrations =
     (case find_integration integrations ''otlp-export'' of
        None \<Rightarrow> Inr (''${OTEL_SDK_DISABLED:-true}'', ''${OTEL_EXPORTER_OTLP_ENDPOINT:-}'', ''djangoops'')
      | Some otlp \<Rightarrow>
          if ic_enabled otlp
          then bindR (dict_at (ic_config otlp) ''endpoint'') (\<lambda>e. bindR (dict_at (ic_config otlp) ''service_namespace'') (\<lambda>n.
            Inr (''false'', e, n)))
          else Inr (''true'', '''', ''djangoops''))"

definition dict_update :: "('k, 'v) dict \<Rightarrow> ('k, 'v) dict \<Rightarrow> ('k, 'v) dict" where
  "dict_update d new = foldl (\<lambda>d (k, v). dput k v d) d new"

definition application_environment :: "djangoops_config \<Rightarrow> string \<Rightarrow> integration_config list \<Rightarrow> (string, string) dict res" where
  "application_environment c component integrations =
     bindR (otlp_settings integrations) (\<lambda>(sdk_disabled, endpoint, namespace). Inr
       (dict_update (storage_environment c)
         [(''OTEL_SDK_DISABLED'', sdk_disabled),
          (''OTEL_EXPORTER_OTLP_ENDPOINT'', endpoint),
          (''OTEL_SERVICE_NAME'', dc_project_name c @ ''-'' @ component),
          (''OTEL_RESOURCE_ATTRIBUTES'', ''service.namespace='' @ namespace @ '',djangoops.project='' @ dc_project_name c
             @ '',djangoops.component='' @ component),
          (''DJANGOOPS_CORRELATION_ID'', ''${DJANGOOPS_CORRELATION_ID:-}'')]))"

definition depends_part :: "djangoops_config \<Rightarrow> (string, json) dict" where
  "depends_part c = (if infrastructure_dependencies c = [] then [] else [(''depends_on'', JObj (infrastructure_dependencies c))])"

definition celery_service :: "djangoops_config \<Rightarrow> string list \<Rightarrow> string \<Rightarrow> integration_config list \<Rightarrow> json res" where
  "celery_service c action component integrations =
     bindR (application_environment c component integrations) (\<lambda>env. Inr (JObj
       ([(''build'', APP_BUILD),
         (''command'', str_list ([''celery'', ''-A'', django_project_module c] @ action)),
         (''env_file'', APP_ENV_FILE),
         (''environment'', str_dict env),
         (''restart'', RESTART_POLICY)]
        @ depends_part c)))"

section \<open>Services\<close>

definition traefik_service :: "djangoops_config \<Rightarrow> json" where
  "traefik_service c = JObj
     [(''image'', JStr TRAEFIK_IMAGE),
      (''restart'', RESTART_POLICY),
      (''command'', str_list
        [''--providers.docker=true'',
         ''--providers.docker.exposedbydefault=false'',
         ''--entrypoints.web.address=:80'',
         ''--entrypoints.web.http.redirections.entrypoint.to=websecure'',
         ''--entrypoints.web.http.redirections.entrypoint.scheme=https'',
         ''--entrypoints.websecure.address=:443'',
         ''--certificatesresolvers.letsencrypt.acme.email='' @ tc_acme_email (dc_tls c),
         ''--certificatesresolvers.letsencrypt.acme.storage=/letsencrypt/acme.json'',
         ''--certificatesresolvers.letsencrypt.acme.httpchallenge=true'',
         ''--certificatesresolvers.letsencrypt.acme.httpchallenge.entrypoint=web'']),
      (''ports'', str_list [''80:80'', ''443:443'']),
      (''volumes'', str_list [''/var/run/docker.sock:/var/run/docker.sock:ro'', ''traefik_acme:/letsencrypt''])]"

definition health_probe :: "string \<Rightarrow> string" where
  "health_probe health_path = ''import urllib.request; urllib.request.urlopen(''
     @ quoted (''http://127.0.0.1:8000'' @ health_path) @ '', timeout=2).read(1)''"

definition web_healthcheck :: "integration_config list \<Rightarrow> (string, json) dict res" where
  "web_healthcheck integrations =
     (case find_integration integrations ''django-runtime'' of
        None \<Rightarrow> Inr []
      | Some runtime \<Rightarrow>
          if \<not> ic_enabled runtime then Inr []
          else bindR (dict_at (ic_config runtime) ''health_path'') (\<lambda>health_path. Inr
            [(''healthcheck'', JObj
               [(''test'', str_list [''CMD'', ''python'', ''-c'', health_probe health_path]),
                (''interval'', JStr ''15s''), (''timeout'', JStr ''3s''), (''retries'', JInt 3)])]))"

definition web_service :: "djangoops_config \<Rightarrow> integration_config list \<Rightarrow> json res" where
  "web_service c integrations =
     bindR (application_environment c ''web'' integrations) (\<lambda>env.
     bindR (web_healthcheck integrations) (\<lambda>healthcheck. Inr (JObj
       ([(''build'', APP_BUILD),
         (''command'', str_list [''gunicorn'', django_project_module c @ ''.wsgi:application'', ''--bind'', ''0.0.0.0:8000'']),
         (''env_file'', APP_ENV_FILE),
         (''environment'', str_dict env),
         (''restart'', RESTART_POLICY),
         (''expose'', str_list [''8000'']),
         (''labels'', str_list
           [''traefik.enable=true'',
            ''traefik.http.routers.web.rule=Host('' @ [CHR 0x60] @ tc_hostname (dc_tls c) @ [CHR 0x60] @ '')'',
            ''traefik.http.routers.web.entrypoints=websecure'',
            ''traefik.http.routers.web.tls=true'',
            ''traefik.http.routers.web.tls.certresolver=letsencrypt'',
            ''traefik.http.services.web.loadbalancer.server.port=8000''])]
        @ healthcheck @ depends_part c))))"

definition postgres_service :: json where
  "postgres_service = JObj
     [(''image'', JStr POSTGRES_IMAGE),
      (''restart'', RESTART_POLICY),
      (''environment'', str_dict
        [(''POSTGRES_DB'', ''${POSTGRES_DB:-djangoops}''),
         (''POSTGRES_USER'', ''${POSTGRES_USER:-djangoops}''),
         (''POSTGRES_PASSWORD'', ''${POSTGRES_PASSWORD:?POSTGRES_PASSWORD must be set}'')]),
      (''volumes'', str_list [''postgres_data:/var/lib/postgresql/data'']),
      (''healthcheck'', JObj
        [(''test'', str_list [''CMD-SHELL'', ''pg_isready -U $${POSTGRES_USER:-djangoops} -d $${POSTGRES_DB:-djangoops}'']),
         (''interval'', JStr ''10s''), (''timeout'', JStr ''5s''), (''retries'', JInt 5)])]"

definition redis_service :: json where
  "redis_service = JObj
     [(''image'', JStr REDIS_IMAGE),
      (''restart'', RESTART_POLICY),
      (''command'', str_list [''redis-server'', ''--appendonly'', ''yes'']),
      (''volumes'', str_list [''redis_data:/data'']),
      (''healthcheck'', JObj
        [(''test'', str_list [''CMD'', ''redis-cli'', ''ping'']),
         (''interval'', JStr ''10s''), (''timeout'', JStr ''5s''), (''retries'', JInt 5)])]"

section \<open>The document\<close>

definition compose_volumes :: "djangoops_config \<Rightarrow> (string, json) dict" where
  "compose_volumes c = [(''traefik_acme'', JObj [])]
     @ (if sc_postgres (dc_services c) then [(''postgres_data'', JObj [])] else [])
     @ (if sc_redis (dc_services c) then [(''redis_data'', JObj [])] else [])"

text \<open>A Celery service, when it is configured.\<close>

definition optional_celery :: "bool \<Rightarrow> string \<Rightarrow> json res \<Rightarrow> (string, json) dict res" where
  "optional_celery enabled name service = (if enabled then bindR service (\<lambda>s. Inr [(name, s)]) else Inr [])"

definition compose_services :: "djangoops_config \<Rightarrow> integration_config list \<Rightarrow> (string, json) dict res" where
  "compose_services c integrations =
     bindR (web_service c integrations) (\<lambda>web.
     bindR (optional_celery (sc_celery (dc_services c)) ''celery''
       (celery_service c [''worker'', ''--loglevel=INFO''] ''worker'' integrations)) (\<lambda>celery.
     bindR (optional_celery (sc_celery_beat (dc_services c)) ''celery_beat''
       (celery_service c [''beat'', ''--loglevel=INFO''] ''beat'' integrations)) (\<lambda>beat. Inr
       ([(''traefik'', traefik_service c), (''web'', web)]
        @ (if sc_postgres (dc_services c) then [(''postgres'', postgres_service)] else [])
        @ (if sc_redis (dc_services c) then [(''redis'', redis_service)] else [])
        @ celery @ beat))))"

definition compose_document :: "djangoops_config \<Rightarrow> integration_config list \<Rightarrow> json res" where
  "compose_document c integrations =
     bindR (compose_services c integrations) (\<lambda>services. Inr (JObj
       [(''name'', JStr (dc_project_name c)), (''services'', JObj services), (''volumes'', JObj (compose_volumes c))]))"

definition render_compose :: "(json \<Rightarrow> string) \<Rightarrow> djangoops_config \<Rightarrow> integration_config list \<Rightarrow> string res" where
  "render_compose dump c integrations = bindR (compose_document c integrations) (\<lambda>d. Inr (dump d))"

section \<open>Files\<close>

definition load_project_config :: "(string \<Rightarrow> json option res) \<Rightarrow> (json \<Rightarrow> string) \<Rightarrow> (string \<Rightarrow> bool) \<Rightarrow> (string, string) dict \<Rightarrow> string
    \<Rightarrow> (djangoops_config \<times> integration_config list) res" where
  "load_project_config load dump ip_ok fs path =
     (case dget fs path of
        None \<Rightarrow> Inl (ValueError (path_name path @ '' does not exist''))
      | Some text \<Rightarrow> parse_project_config load dump ip_ok text)"

definition load_config :: "(string \<Rightarrow> json option res) \<Rightarrow> (json \<Rightarrow> string) \<Rightarrow> (string \<Rightarrow> bool) \<Rightarrow> (string, string) dict \<Rightarrow> string \<Rightarrow> djangoops_config res" where
  "load_config load dump ip_ok fs path = bindR (load_project_config load dump ip_ok fs path) (\<lambda>(c, _). Inr c)"

definition generate_compose :: "(string \<Rightarrow> json option res) \<Rightarrow> (json \<Rightarrow> string) \<Rightarrow> (string \<Rightarrow> bool) \<Rightarrow> pyexn option \<Rightarrow> string \<Rightarrow> string
    \<Rightarrow> (string, string) dict \<Rightarrow> (string, string) dict \<times> unit res" where
  "generate_compose load dump ip_ok failure config_path output_path fs =
     (case bindR (load_project_config load dump ip_ok fs config_path) (\<lambda>(c, integrations). render_compose dump c integrations) of
        Inl e \<Rightarrow> (fs, Inl e)
      | Inr rendered \<Rightarrow> write_new_text failure output_path rendered fs)"

end
