(* ===== verification/Cli.thy ===== *)
theory Cli
  imports Backup Compose
begin

text \<open>
  The command line: \<open>cli/djangoops/cli.py\<close>, from the arguments \<open>argparse\<close> has parsed to the exit status and what is
  printed. The world the commands run in is a record: the YAML library, the SSH client, the clock, the
  file system's answers. Files are a dictionary from absolute paths to texts. The working directory is \<open>None\<close> when it
  has been removed: \<open>Path.cwd()\<close> then raises, and so does opening a relative path.
\<close>

record environment =
  en_load :: "string \<Rightarrow> json option res"
  en_dump :: "json \<Rightarrow> string"
  en_ip_ok :: "string \<Rightarrow> bool"
  en_cwd :: "string option"
  en_is_file :: "string \<Rightarrow> bool"
  en_relative :: "string \<Rightarrow> string option"
  en_write_failure :: "pyexn option"
  en_partial :: string
  en_ssh :: ssh_client
  en_ssh_ok :: "nat \<Rightarrow> bool"
  en_stamp :: string
  en_pid :: int

record ssh_args =
  sa_host :: string
  sa_user :: string
  sa_port :: int
  sa_remote_base :: string
  sa_identity_file :: "string option"

record init_args =
  ia_project_name :: "string option"
  ia_django_module :: string
  ia_hostname :: string
  ia_acme_email :: string
  ia_storage_endpoint_url :: string
  ia_storage_region :: "string option"
  ia_static_bucket :: string
  ia_media_bucket :: string
  ia_backup_bucket :: string
  ia_backup_schedule :: string

datatype backup_action = Schedule | Run | List | Restore string

text \<open>The fields are named as the options: \<open>--config\<close>, \<open>--compose-file\<close> and so on, in the order of the parser.\<close>

datatype cli_command =
    Init init_args
  | ConfigUpgrade string string string
  | ComposeCmd string string
  | DeployCmd ssh_args string string
  | HealthCmd ssh_args string bool
  | BackupCmd backup_action ssh_args string string

text \<open>The files afterwards, the lines printed to standard output and standard error, and the exit status, or the
  exception nothing catches.\<close>

record outcome =
  oc_files :: "(string, string) dict"
  oc_out :: "string list"
  oc_err :: "string list"
  oc_exit :: "int res"

definition CONFIG_FILENAME :: string where
  "CONFIG_FILENAME = ''djangoops.yaml''"

text \<open>\<open>str(exc)\<close>\<close>

fun exn_message :: "pyexn \<Rightarrow> string" where
  "exn_message (ValueError m) = m"
| "exn_message (LookupError m) = m"
| "exn_message (KeyError m) = quoted m"
| "exn_message (RuntimeError m) = m"
| "exn_message (TimeoutError m) = m"
| "exn_message (OSError m) = m"
| "exn_message (TypeError m) = m"
| "exn_message (IntegrityError m) = m"
| "exn_message (DoesNotExist m) = m"
| "exn_message (ValidationError m) = m"
| "exn_message (AttributeError m) = m"
| "exn_message (GraphQLError m) = m"
| "exn_message (DeployError m) = m"
| "exn_message (BackupError m) = m"
| "exn_message (HealthTransportError m) = m"
| "exn_message (IntegrationError code m) = m"

definition is_FileExistsError :: "pyexn \<Rightarrow> bool" where
  "is_FileExistsError e \<longleftrightarrow> e = OSError ''File exists''"

text \<open>An absolute path for the files' dictionary.\<close>

definition cwd :: "environment \<Rightarrow> string res" where
  "cwd env = (case en_cwd env of None \<Rightarrow> Inl (OSError ''No such file or directory'') | Some d \<Rightarrow> Inr d)"

definition at_cwd :: "environment \<Rightarrow> string \<Rightarrow> string res" where
  "at_cwd env path = (if path_is_absolute path then Inr path else bindR (cwd env) (\<lambda>d. Inr (d @ ''/'' @ path)))"

text \<open>\<open>try: ... except E as exc: print(f"error: {exc}", file=sys.stderr); return 2\<close>, and what follows on success.\<close>

definition conclude :: "(pyexn \<Rightarrow> string option) \<Rightarrow> (string, string) dict \<Rightarrow> 'a res \<Rightarrow> ('a \<Rightarrow> string list \<times> int) \<Rightarrow> outcome" where
  "conclude handler files r done =
     (case r of
        Inr x \<Rightarrow> \<lparr>oc_files = files, oc_out = fst (done x), oc_err = [], oc_exit = Inr (snd (done x))\<rparr>
      | Inl e \<Rightarrow> (case handler e of
            Some line \<Rightarrow> \<lparr>oc_files = files, oc_out = [], oc_err = [line], oc_exit = Inr 2\<rparr>
          | None \<Rightarrow> \<lparr>oc_files = files, oc_out = [], oc_err = [], oc_exit = Inl e\<rparr>))"

definition error_line :: "(pyexn \<Rightarrow> bool) \<Rightarrow> pyexn \<Rightarrow> string option" where
  "error_line caught e = (if caught e then Some (''error: '' @ exn_message e) else None)"

text \<open>The two handlers of a command that creates a file.\<close>

definition create_handler :: "string \<Rightarrow> pyexn \<Rightarrow> string option" where
  "create_handler name e =
     (if is_FileExistsError e then Some (''error: '' @ name @ '' already exists; refusing to overwrite it'')
      else error_line (\<lambda>e. is_OSError e \<or> is_ValueError e) e)"

definition target_from_args :: "environment \<Rightarrow> ssh_args \<Rightarrow> deployment_target res" where
  "target_from_args env a =
     create_deployment_target (en_is_file env) (sa_host a) (sa_user a) (sa_port a) (sa_remote_base a) (sa_identity_file a)"

definition config_from :: "environment \<Rightarrow> (string, string) dict \<Rightarrow> string \<Rightarrow> djangoops_config res" where
  "config_from env files path =
     (case at_cwd env path of
        Inl _ \<Rightarrow> Inl (ValueError (path_name path @ '' does not exist''))
      | Inr p \<Rightarrow> load_config (en_load env) (en_dump env) (en_ip_ok env) files p)"

section \<open>Commands\<close>

text \<open>The working directory is asked for before the \<open>try\<close>: that exception leaves the command.\<close>

definition main_init :: "environment \<Rightarrow> init_args \<Rightarrow> (string, string) dict \<Rightarrow> outcome" where
  "main_init env a files =
     (case cwd env of Inl e \<Rightarrow> \<lparr>oc_files = files, oc_out = [], oc_err = [], oc_exit = Inl e\<rparr> | Inr d \<Rightarrow>
      let project_name = or_else (path_name d) (ia_project_name a);
          config_target = d @ ''/'' @ CONFIG_FILENAME;
          (files', r) =
            (case create_config (en_ip_ok env) project_name (ia_django_module a)
                \<lparr>tc_hostname = ia_hostname a, tc_acme_email = ia_acme_email a\<rparr>
                \<lparr>so_endpoint_url = ia_storage_endpoint_url a, so_region = ia_storage_region a,
                 so_static_bucket = ia_static_bucket a, so_media_bucket = ia_media_bucket a\<rparr>
                \<lparr>bc_schedule = ia_backup_schedule a, bc_bucket = ia_backup_bucket a, bc_prefix = ''djangoops-backups''\<rparr> of
               Inl e \<Rightarrow> (files, Inl e)
             | Inr c \<Rightarrow> write_new_config (en_dump env) (en_write_failure env) config_target c files)
      in conclude (create_handler CONFIG_FILENAME) files' r (\<lambda>_. ([''Created '' @ config_target], 0)))"

text \<open>\<open>path.write_text\<close>: a failure leaves \<open>en_partial\<close> in the file.\<close>

definition write_text :: "environment \<Rightarrow> string \<Rightarrow> string \<Rightarrow> (string, string) dict \<Rightarrow> (string, string) dict \<times> unit res" where
  "write_text env path text files =
     (case en_write_failure env of
        None \<Rightarrow> (dput path text files, Inr ())
      | Some e \<Rightarrow> (dput path (en_partial env) files, Inl e))"

definition read_text :: "(string, string) dict \<Rightarrow> string \<Rightarrow> string res" where
  "read_text files path = (case dget files path of None \<Rightarrow> Inl (OSError ''No such file or directory'') | Some t \<Rightarrow> Inr t)"

definition main_upgrade :: "environment \<Rightarrow> string \<Rightarrow> string \<Rightarrow> string \<Rightarrow> (string, string) dict \<Rightarrow> outcome" where
  "main_upgrade env config backup_bucket backup_schedule files =
     (let (files', r) =
            (case bindR (at_cwd env config) (\<lambda>path.
                 bindR (read_text files path) (\<lambda>original.
                 bindR (upgrade_config (en_load env) (en_dump env) (en_ip_ok env) original backup_bucket backup_schedule) (\<lambda>rendered.
                 Inr (path, rendered)))) of
               Inl e \<Rightarrow> (files, Inl e)
             | Inr (path, rendered) \<Rightarrow> write_text env path rendered files)
      in conclude (error_line (\<lambda>e. is_OSError e \<or> is_ValueError e)) files' r
           (\<lambda>_. ([''Upgraded '' @ path_as_posix config @ '' to schema version 3''], 0)))"

definition main_compose :: "environment \<Rightarrow> string \<Rightarrow> string \<Rightarrow> (string, string) dict \<Rightarrow> outcome" where
  "main_compose env config output files =
     (let (files', r) =
            (case (at_cwd env config, at_cwd env output) of
               (Inr c, Inr out) \<Rightarrow> generate_compose (en_load env) (en_dump env) (en_ip_ok env) (en_write_failure env) c out files
             | (Inr c, Inl e) \<Rightarrow> (files,
                 bindR (load_project_config (en_load env) (en_dump env) (en_ip_ok env) files c) (\<lambda>(k, integrations).
                 bindR (render_compose (en_dump env) k integrations) (\<lambda>_. Inl e)))
             | (Inl _, _) \<Rightarrow> (files, Inl (ValueError (path_name config @ '' does not exist''))))
      in conclude (create_handler (path_as_posix output)) files' r (\<lambda>_. ([''Created '' @ path_as_posix output], 0)))"

definition main_deploy :: "environment \<Rightarrow> ssh_args \<Rightarrow> string \<Rightarrow> string \<Rightarrow> (string, string) dict \<Rightarrow> outcome" where
  "main_deploy env ta config compose_file files =
     (let inside = (if en_relative env config = None then None else en_relative env compose_file);
          r = bindR (cwd env) (\<lambda>_. bindR (target_from_args env ta) (\<lambda>target.
                snd (deploy_project (en_ssh_ok env) (config_from env files config) compose_file
                  (en_is_file env compose_file) inside target (en_stamp env) (en_pid env) [])))
      in conclude (error_line (\<lambda>e. (case e of DeployError _ \<Rightarrow> True | _ \<Rightarrow> False) \<or> is_OSError e \<or> is_ValueError e)) files r
           (\<lambda>release_id. ([''Deployed release '' @ release_id], 0)))"

definition report_lines :: "health_report \<Rightarrow> bool \<Rightarrow> string list" where
  "report_lines report as_json =
     (if as_json then [report_to_json report]
      else map (\<lambda>c. ''['' @ upper (hc_status c) @ ''] '' @ hc_name c) report @ [''Overall: '' @ upper (overall_status report)])"

definition main_health :: "environment \<Rightarrow> ssh_args \<Rightarrow> string \<Rightarrow> bool \<Rightarrow> (string, string) dict \<Rightarrow> outcome" where
  "main_health env ta compose_file as_json files =
     conclude (error_line (\<lambda>e. (case e of HealthTransportError _ \<Rightarrow> True | _ \<Rightarrow> False) \<or> is_OSError e \<or> is_ValueError e)) files
       (bindR (target_from_args env ta) (\<lambda>target. health_project (en_ssh env) target compose_file))
       (\<lambda>report. (report_lines report as_json, if report_healthy report then 0 else 1))"

text \<open>One backup command, with the lines it prints.\<close>

definition backup_lines :: "environment \<Rightarrow> backup_action \<Rightarrow> djangoops_config \<Rightarrow> deployment_target \<Rightarrow> string \<Rightarrow> string list res" where
  "backup_lines env action c target compose_file =
     (case action of
        Schedule \<Rightarrow> bindR (install_backup_schedule (en_ssh env) c target compose_file) (\<lambda>_. Inr [''Backup schedule installed''])
      | Run \<Rightarrow> bindR (run_backup (en_ssh env) c target (Some (en_stamp env))) (\<lambda>backup_id. Inr [backup_id])
      | List \<Rightarrow> list_backups (en_ssh env) c target
      | Restore backup_id \<Rightarrow> bindR (restore_backup (en_ssh env) c target backup_id compose_file) (\<lambda>_. Inr [''Restored backup '' @ backup_id]))"

definition main_backup :: "environment \<Rightarrow> backup_action \<Rightarrow> ssh_args \<Rightarrow> string \<Rightarrow> string \<Rightarrow> (string, string) dict \<Rightarrow> outcome" where
  "main_backup env action ta config compose_file files =
     conclude (error_line (\<lambda>e. (case e of BackupError _ \<Rightarrow> True | _ \<Rightarrow> False) \<or> is_OSError e \<or> is_ValueError e)) files
       (bindR (config_from env files config) (\<lambda>c.
        bindR (target_from_args env ta) (\<lambda>target.
          backup_lines env action c target compose_file)))
       (\<lambda>ls. (ls, 0))"

fun cli_main :: "environment \<Rightarrow> cli_command \<Rightarrow> (string, string) dict \<Rightarrow> outcome" where
  "cli_main env (Init a) files = main_init env a files"
| "cli_main env (ConfigUpgrade config bucket schedule) files = main_upgrade env config bucket schedule files"
| "cli_main env (ComposeCmd config output) files = main_compose env config output files"
| "cli_main env (DeployCmd ta config compose_file) files = main_deploy env ta config compose_file files"
| "cli_main env (HealthCmd ta compose_file as_json) files = main_health env ta compose_file as_json files"
| "cli_main env (BackupCmd action ta config compose_file) files = main_backup env action ta config compose_file files"

end
