(* ===== verification/Compose_Claims.thy ===== *)
theory Compose_Claims
  imports Compose Config_Claims Integrations_Claims
begin

text \<open>
  The generated Compose file: the document is well-formed whatever the configuration, and the command never overwrites a file.
\<close>

section \<open>Well-formed documents\<close>

text \<open>Reading the document: a service is the dictionary of its keys; a named volume is a mount that does not start
  with a slash.\<close>

definition obj_of :: "json \<Rightarrow> (string, json) dict" where
  "obj_of v = (case v of JObj kvs \<Rightarrow> kvs | _ \<Rightarrow> [])"

definition at_key :: "string \<Rightarrow> json \<Rightarrow> json" where
  "at_key k v = or_else JNull (dget (obj_of v) k)"

definition strs_of :: "json \<Rightarrow> string list" where
  "strs_of v = (case v of JArr vs \<Rightarrow> map (\<lambda>v. case v of JStr s \<Rightarrow> s | _ \<Rightarrow> []) vs | _ \<Rightarrow> [])"

definition doc_services :: "json \<Rightarrow> (string, json) dict" where
  "doc_services doc = obj_of (at_key ''services'' doc)"

definition named_volumes :: "json \<Rightarrow> string list" where
  "named_volumes service = map (takeWhile (\<lambda>ch. ch \<noteq> CHR '':'')) (filter (\<lambda>m. \<not> starts_with ''/'' m) (strs_of (at_key ''volumes'' service)))"

text \<open>Service \<open>d\<close> can be waited for: it is declared and has a health check.\<close>

definition awaitable :: "json \<Rightarrow> string \<Rightarrow> bool" where
  "awaitable doc d \<longleftrightarrow> (case dget (doc_services doc) d of None \<Rightarrow> False | Some s \<Rightarrow> ''healthcheck'' \<in> set (dkeys (obj_of s)))"

definition service_closed :: "json \<Rightarrow> string \<times> json \<Rightarrow> bool" where
  "service_closed doc ns \<longleftrightarrow>
     distinct (dkeys (obj_of (snd ns)))
     \<and> list_all (awaitable doc) (dkeys (obj_of (at_key ''depends_on'' (snd ns))))
     \<and> list_all (\<lambda>v. v \<in> set (dkeys (obj_of (at_key ''volumes'' doc)))) (named_volumes (snd ns))
     \<and> (dget (obj_of (snd ns)) ''ports'' \<noteq> None \<longleftrightarrow> fst ns = ''traefik'')
     \<and> (dget (obj_of (snd ns)) ''image'' \<noteq> None \<longleftrightarrow> dget (obj_of (snd ns)) ''build'' = None)
     \<and> distinct (dkeys (obj_of (at_key ''environment'' (snd ns))))"

definition service_names :: "djangoops_config \<Rightarrow> string list" where
  "service_names c = [''traefik'', ''web''] @ (if sc_postgres (dc_services c) then [''postgres''] else [])
     @ (if sc_redis (dc_services c) then [''redis''] else [])
     @ (if sc_celery (dc_services c) then [''celery''] else [])
     @ (if sc_celery_beat (dc_services c) then [''celery_beat''] else [])"

definition doc_closed :: "djangoops_config \<Rightarrow> json \<Rightarrow> bool" where
  "doc_closed c doc \<longleftrightarrow> dkeys (doc_services doc) = service_names c \<and> list_all (service_closed doc) (doc_services doc)"

section \<open>Integrations never make it fail\<close>

lemma found_integration:
  assumes "list_all integration_ok cs" and "find_integration cs name = Some c"
  shows "integration_ok c \<and> ic_name c = name"
  using assms unfolding find_integration_def list_all_iff find_Some_iff by auto

lemma config_key:
  assumes "integration_ok c" and "k \<in> set (required_keys (ic_name c))"
  shows "\<exists>v. dict_at (ic_config c) k = Inr v"
  using assms dict_at_key [of k "ic_config c"] unfolding integration_ok_def short_values_def by (metis set_map)

lemma otlp_settings_total:
  assumes "list_all integration_ok cs"
  shows "\<exists>x. otlp_settings cs = Inr x"
proof (cases "find_integration cs ''otlp-export''")
  case (Some c)
  from found_integration [OF assms Some] obtain e n where "dict_at (ic_config c) ''endpoint'' = Inr e"
    "dict_at (ic_config c) ''service_namespace'' = Inr n"
    using config_key [of c "''endpoint''"] config_key [of c "''service_namespace''"] by (auto simp: required_keys_def)
  then show ?thesis unfolding otlp_settings_def Some by simp
qed (simp add: otlp_settings_def)

definition env_keys :: "djangoops_config \<Rightarrow> string list" where
  "env_keys c = [''DJANGOOPS_S3_ENDPOINT_URL'', ''DJANGOOPS_S3_STATIC_BUCKET'', ''DJANGOOPS_S3_MEDIA_BUCKET'', ''AWS_ACCESS_KEY_ID'',
      ''AWS_SECRET_ACCESS_KEY''] @ (if so_region (dc_storage c) = None then [] else [''AWS_REGION''])
     @ [''OTEL_SDK_DISABLED'', ''OTEL_EXPORTER_OTLP_ENDPOINT'', ''OTEL_SERVICE_NAME'', ''OTEL_RESOURCE_ATTRIBUTES'', ''DJANGOOPS_CORRELATION_ID'']"

lemma env_total:
  assumes "list_all integration_ok cs"
  shows "\<exists>env. application_environment c component cs = Inr env \<and> dkeys env = env_keys c"
proof -
  obtain s e n where o: "otlp_settings cs = Inr (s, e, n)" using otlp_settings_total [OF assms] by auto
  show ?thesis
    unfolding application_environment_def o
    by (cases "so_region (dc_storage c)") (simp_all add: dict_update_def storage_environment_def env_keys_def)
qed

lemma env_keys_distinct: "distinct (env_keys c)"
  by (simp add: env_keys_def)

lemma health_total:
  assumes "list_all integration_ok cs"
  shows "\<exists>h. web_healthcheck cs = Inr h \<and> (h = [] \<or> dkeys h = [''healthcheck''])"
proof (cases "find_integration cs ''django-runtime''")
  case (Some c)
  from found_integration [OF assms Some] config_key [of c "''health_path''"] show ?thesis
    unfolding web_healthcheck_def Some by (auto simp: required_keys_def)
qed (simp add: web_healthcheck_def)

section \<open>The theorem\<close>

lemmas doc_defs = doc_services_def named_volumes_def at_key_def obj_of_def strs_of_def or_else_def

lemma keys_of_str_dict: "map (fst \<circ> (\<lambda>(k, v). (k, JStr v))) d = dkeys d"
  by (induction d) auto

text \<open>What a service needs of the rest of the document, by its name.\<close>

definition mounts :: "string \<Rightarrow> string list" where
  "mounts name = (if name = ''traefik'' then [''traefik_acme''] else if name = ''postgres'' then [''postgres_data'']
     else if name = ''redis'' then [''redis_data''] else [])"

definition service_shape :: "djangoops_config \<Rightarrow> string \<Rightarrow> json \<Rightarrow> bool" where
  "service_shape c name s \<longleftrightarrow>
     distinct (dkeys (obj_of s))
     \<and> set (dkeys (obj_of (at_key ''depends_on'' s))) \<subseteq> set (dkeys (infrastructure_dependencies c))
     \<and> named_volumes s = mounts name
     \<and> (dget (obj_of s) ''ports'' \<noteq> None \<longleftrightarrow> name = ''traefik'')
     \<and> (dget (obj_of s) ''image'' \<noteq> None \<longleftrightarrow> dget (obj_of s) ''build'' = None)
     \<and> distinct (dkeys (obj_of (at_key ''environment'' s)))"

lemma traefik_shape: "service_shape c ''traefik'' (traefik_service c)"
  by (simp add: service_shape_def traefik_service_def doc_defs mounts_def)

lemma postgres_shape: "service_shape c ''postgres'' postgres_service"
  by (simp add: service_shape_def postgres_service_def doc_defs mounts_def)

lemma redis_shape: "service_shape c ''redis'' redis_service"
  by (simp add: service_shape_def redis_service_def doc_defs mounts_def)

lemma depends_part_cases: "depends_part c = [] \<or> depends_part c = [(''depends_on'', JObj (infrastructure_dependencies c))]"
  by (simp add: depends_part_def)

lemma web_shape:
  assumes ok: "list_all integration_ok cs"
  shows "\<exists>s. web_service c cs = Inr s \<and> service_shape c ''web'' s"
proof -
  obtain env where env: "application_environment c ''web'' cs = Inr env" "dkeys env = env_keys c" using env_total [OF ok] by blast
  obtain h where h: "web_healthcheck cs = Inr h" "h = [] \<or> (\<exists>v. h = [(''healthcheck'', v)])"
    using health_total [OF ok] by (auto simp: map_eq_Cons_conv)
  from h(2) depends_part_cases [of c] show ?thesis
    by (elim disjE exE)
      (simp_all add: web_service_def env h(1) service_shape_def doc_defs mounts_def keys_of_str_dict env_keys_distinct)
qed

lemma celery_shape:
  assumes ok: "list_all integration_ok cs" and n: "name \<in> {''celery'', ''celery_beat''}"
  shows "\<exists>s. celery_service c action component cs = Inr s \<and> service_shape c name s"
proof -
  obtain env where env: "application_environment c component cs = Inr env" "dkeys env = env_keys c" using env_total [OF ok] by blast
  from n depends_part_cases [of c] show ?thesis
    by (elim disjE insertE emptyE)
      (simp_all add: celery_service_def env service_shape_def doc_defs mounts_def keys_of_str_dict env_keys_distinct)
qed

text \<open>The document closes over the shapes of its services.\<close>

lemma shape_closed:
  assumes shape: "service_shape c name s"
    and doc: "doc = JObj [(''name'', p), (''services'', JObj svcs), (''volumes'', JObj (compose_volumes c))]"
    and names: "name \<in> set (service_names c)"
    and infra: "sc_postgres (dc_services c) \<longrightarrow> dget svcs ''postgres'' = Some postgres_service"
      "sc_redis (dc_services c) \<longrightarrow> dget svcs ''redis'' = Some redis_service"
  shows "service_closed doc (name, s)"
proof -
  have svcs: "doc_services doc = svcs" and vols: "obj_of (at_key ''volumes'' doc) = compose_volumes c"
    by (simp_all add: doc doc_defs)
  have "awaitable doc d" if "d \<in> set (dkeys (infrastructure_dependencies c))" for d
    using that infra unfolding awaitable_def svcs infrastructure_dependencies_def
    by (auto simp: postgres_service_def redis_service_def obj_of_def split: if_splits)
  then have deps: "list_all (awaitable doc) (dkeys (obj_of (at_key ''depends_on'' s)))"
    using shape unfolding service_shape_def list_all_iff by blast
  have "list_all (\<lambda>v. v \<in> set (dkeys (compose_volumes c))) (mounts name)"
    using names by (auto simp: mounts_def compose_volumes_def service_names_def split: if_splits)
  then have "list_all (\<lambda>v. v \<in> set (dkeys (compose_volumes c))) (named_volumes s)" using shape by (simp add: service_shape_def)
  with shape deps show ?thesis unfolding service_closed_def vols service_shape_def fst_conv snd_conv by blast
qed

lemma celery_part:
  assumes "list_all integration_ok cs" and "name \<in> {''celery'', ''celery_beat''}"
  shows "\<exists>d. optional_celery b name (celery_service c action component cs) = Inr d
     \<and> dkeys d = (if b then [name] else []) \<and> list_all (\<lambda>(n, s). service_shape c n s) d"
proof -
  obtain s where "celery_service c action component cs = Inr s" "service_shape c name s" using celery_shape [OF assms] by blast
  then show ?thesis by (auto simp: optional_celery_def)
qed

lemma services_ok:
  assumes ok: "list_all integration_ok cs"
  shows "\<exists>svcs. compose_services c cs = Inr svcs \<and> dkeys svcs = service_names c \<and> list_all (\<lambda>(n, s). service_shape c n s) svcs
     \<and> (sc_postgres (dc_services c) \<longrightarrow> dget svcs ''postgres'' = Some postgres_service)
     \<and> (sc_redis (dc_services c) \<longrightarrow> dget svcs ''redis'' = Some redis_service)"
proof -
  obtain w where w: "web_service c cs = Inr w" "service_shape c ''web'' w" using web_shape [OF ok] by blast
  obtain d1 where d1: "optional_celery (sc_celery (dc_services c)) ''celery'' (celery_service c [''worker'', ''--loglevel=INFO''] ''worker'' cs) = Inr d1"
    "dkeys d1 = (if sc_celery (dc_services c) then [''celery''] else [])" "list_all (\<lambda>(n, s). service_shape c n s) d1"
    using celery_part [OF ok, of "''celery''"] by blast
  obtain d2 where d2: "optional_celery (sc_celery_beat (dc_services c)) ''celery_beat'' (celery_service c [''beat'', ''--loglevel=INFO''] ''beat'' cs) = Inr d2"
    "dkeys d2 = (if sc_celery_beat (dc_services c) then [''celery_beat''] else [])" "list_all (\<lambda>(n, s). service_shape c n s) d2"
    using celery_part [OF ok, of "''celery_beat''"] by blast
  show ?thesis unfolding compose_services_def w(1) d1(1) d2(1)
    by (simp add: d1(2,3) d2(2,3) w(2) traefik_shape postgres_shape redis_shape service_names_def)
qed

lemma compose_document_closed:
  assumes ok: "list_all integration_ok cs"
  shows "\<exists>doc. compose_document c cs = Inr doc \<and> doc_closed c doc"
proof -
  obtain svcs where s: "compose_services c cs = Inr svcs" "dkeys svcs = service_names c" "list_all (\<lambda>(n, s). service_shape c n s) svcs"
    "sc_postgres (dc_services c) \<longrightarrow> dget svcs ''postgres'' = Some postgres_service"
    "sc_redis (dc_services c) \<longrightarrow> dget svcs ''redis'' = Some redis_service"
    using services_ok [OF ok, of c] by (elim exE conjE) blast
  define doc where "doc = JObj [(''name'', JStr (dc_project_name c)), (''services'', JObj svcs), (''volumes'', JObj (compose_volumes c))]"
  have d: "doc_services doc = svcs" by (simp add: doc_def doc_defs)
  have "service_closed doc ns" if "ns \<in> set svcs" for ns
  proof -
    obtain n v where ns: "ns = (n, v)" by (cases ns)
    have "service_shape c n v" using s(3) that unfolding list_all_iff ns by blast
    moreover have "n \<in> set (service_names c)" using that unfolding s(2) [symmetric] ns by force
    ultimately show ?thesis unfolding ns using shape_closed doc_def s(4,5) by blast
  qed
  then have "doc_closed c doc" unfolding doc_closed_def d s(2) by (simp add: list_all_iff)
  then show ?thesis by (simp add: compose_document_def s(1) doc_def)
qed

lemma parsed_integrations_ok: "parse_integrations ip_ok value = Inr cs \<Longrightarrow> list_all integration_ok cs"
  using parse_items_ok unfolding parse_integrations_def by (auto split: option.splits json.splits if_splits)

text \<open>C33. From any configuration and any accepted integrations a Compose document is generated, and it is closed: it
  has exactly the configured services besides the proxy and the web application; every service waited for
  is declared and has the health check the wait condition needs; every named volume is declared; only the
  proxy publishes ports; each service has either an image or a build; and no dictionary has a key twice.\<close>

theorem compose_closed:
  assumes "parse_integrations ip_ok value = Inr integrations"
  shows "\<exists>doc. render_compose dump c integrations = Inr (dump doc) \<and> doc_closed c doc"
proof -
  from compose_document_closed [OF parsed_integrations_ok [OF assms], of c] show ?thesis by (auto simp: render_compose_def)
qed

definition demo_integrations :: json where
  "demo_integrations = JArr [JObj [(''name'', JStr ''django-runtime''), (''version'', JStr ''v1''), (''enabled'', JBool True),
     (''capabilities'', JArr [JStr ''health'']), (''config'', JObj [])]]"

theorem compose_closed_witness:
  "\<exists>integrations doc. parse_integrations (\<lambda>_. False) (Some demo_integrations) = Inr integrations \<and> length integrations = 1
     \<and> render_compose json_encode demo_config integrations = Inr (json_encode doc) \<and> doc_closed demo_config doc"
proof -
  have "isOk (parse_integrations (\<lambda>_. False) (Some demo_integrations))" by code_simp
  then obtain cs where cs: "parse_integrations (\<lambda>_. False) (Some demo_integrations) = Inr cs" by (auto simp: isOk_iff)
  moreover have "length cs = 1"
    using cs by (auto simp: parse_integrations_def demo_integrations_def MAX_INTEGRATIONS_def res_simps)
  ultimately show ?thesis using compose_closed [OF cs, of json_encode demo_config] by blast
qed

section \<open>Texts that reach an interpreter\<close>

text \<open>The health path of the probe ends up in a Python string literal; its pattern has neither quotes nor
  backslashes, so the literal is the path.\<close>

lemma health_path_plain:
  assumes "fullmatch SAFE_HEALTH_PATH_RE p"
  shows "CHR 0x27 \<notin> set p \<and> CHR 0x5C \<notin> set p"
proof -
  let ?q = "\<lambda>c. is_alnum_az c \<or> c \<in> set ''/_-''"
  obtain cs where p: "p = CHR ''/'' # cs" "list_all ?q cs"
    using assms unfolding SAFE_HEALTH_PATH_RE_def fullmatch_head_tail by auto
  moreover have "\<not> ?q (CHR 0x27)" "\<not> ?q (CHR 0x5C)" by (simp_all add: char_class_defs)
  ultimately show ?thesis unfolding list_all_iff by auto
qed

end
