(* ===== verification/Health_Claims.thy ===== *)
theory Health_Claims
  imports Health
begin

text \<open>
  Health diagnostics: exactly which outputs of the remote host are accepted as a report, and what the report says.
\<close>

section \<open>The reference\<close>

text \<open>The verdict a line gives, if it gives one; the verdicts of an output; the first verdict on each check.\<close>

definition verdict :: "string \<Rightarrow> (string \<times> string) option" where
  "verdict line =
     (case split_on tab line of
        [m, name, status] \<Rightarrow>
          if m = ''DJANGOOPS_HEALTH'' \<and> name \<in> set CHECK_NAMES \<and> status \<in> {''PASS'', ''FAIL''}
          then Some (name, if status = ''PASS'' then ''pass'' else ''fail'') else None
      | _ \<Rightarrow> None)"

definition verdicts :: "string \<Rightarrow> (string \<times> string) list" where
  "verdicts output = List.map_filter verdict (splitlines output)"

fun firsts :: "('a \<times> 'b) list \<Rightarrow> ('a \<times> 'b) list" where
  "firsts [] = []"
| "firsts ((n, s) # vs) = (n, s) # filter (\<lambda>v. fst v \<noteq> n) (firsts vs)"

lemma map_of_filter_fst: "map_of (filter (\<lambda>v. P (fst v)) vs) n = (if P n then map_of vs n else None)"
  by (induction vs) auto

lemma map_of_firsts: "map_of (firsts vs) n = map_of vs n"
proof (induction vs rule: firsts.induct)
  case (2 m s vs)
  then show ?case using map_of_filter_fst [of "\<lambda>x. x \<noteq> m" "firsts vs" n] by simp
qed simp

lemma set_firsts: "set (dkeys (firsts vs)) = set (dkeys vs)"
  by (induction vs rule: firsts.induct) auto

lemma add_line_verdict:
  "add_line results line =
     (case verdict line of None \<Rightarrow> results
      | Some (n, s) \<Rightarrow> if n \<in> set (dkeys results) then results else results @ [(n, s)])"
  unfolding add_line_def verdict_def by (auto simp: dput_fresh split: list.splits)

lemma filter_firsts: "filter (\<lambda>v. fst v \<notin> insert n K) (firsts vs) = filter (\<lambda>v. fst v \<notin> K) (filter (\<lambda>v. fst v \<noteq> n) (firsts vs))"
  by (simp add: conj_commute)

lemma add_lines: "foldl add_line results lines
   = results @ filter (\<lambda>v. fst v \<notin> set (dkeys results)) (firsts (List.map_filter verdict lines))"
proof (induction lines arbitrary: results)
  case Nil
  then show ?case by (simp add: List.map_filter_simps)
next
  case (Cons line lines)
  show ?case
  proof (cases "verdict line")
    case None
    then show ?thesis using Cons by (simp add: add_line_verdict List.map_filter_simps)
  next
    case (Some v)
    obtain n s where v: "v = (n, s)" by (cases v)
    show ?thesis
    proof (cases "n \<in> set (dkeys results)")
      case True
      then have "filter (\<lambda>v. fst v \<notin> set (dkeys results)) (filter (\<lambda>v. fst v \<noteq> n) fs)
          = filter (\<lambda>v. fst v \<notin> set (dkeys results)) fs" for fs :: "(string \<times> string) list"
        by (induction fs) auto
      with True show ?thesis using Cons Some v by (simp add: add_line_verdict List.map_filter_simps)
    next
      case False
      then show ?thesis using Cons [of "results @ [(n, s)]"] Some v
        by (simp add: add_line_verdict List.map_filter_simps conj_commute)
    qed
  qed
qed

lemma parse_report_exact:
  "parse_report output =
     (if dkeys (firsts (verdicts output)) = CHECK_NAMES
      then Inr (map (\<lambda>n. \<lparr>hc_name = n, hc_status = the (map_of (verdicts output) n)\<rparr>) CHECK_NAMES)
      else Inl (HealthTransportError ''remote health response was incomplete or invalid''))"
proof -
  have fold: "foldl add_line [] (splitlines output) = firsts (verdicts output)"
    by (simp add: add_lines verdicts_def)
  have m: "mapR (\<lambda>name. case dget (firsts vs) name of None \<Rightarrow> Inl (KeyError name) | Some s \<Rightarrow> Inr \<lparr>hc_name = name, hc_status = s\<rparr>) ns
      = Inr (map (\<lambda>n. \<lparr>hc_name = n, hc_status = the (map_of vs n)\<rparr>) ns)"
    if "set ns \<subseteq> set (dkeys (firsts vs))" for ns vs
    using that
  proof (induction ns)
    case (Cons n ns)
    then obtain s where "map_of vs n = Some s" unfolding set_firsts by (auto dest: weak_map_of_SomeI)
    with Cons show ?case by (simp add: map_of_firsts)
  qed simp
  show ?thesis
  proof (cases "dkeys (firsts (verdicts output)) = CHECK_NAMES")
    case True
    then show ?thesis unfolding parse_report_def fold Let_def using m [of CHECK_NAMES "verdicts output"] by simp
  next
    case False
    then show ?thesis unfolding parse_report_def fold Let_def by simp
  qed
qed

section \<open>What the remote command prints\<close>

definition recognised :: "string \<Rightarrow> bool" where
  "recognised line \<longleftrightarrow> verdict line \<noteq> None"

lemma map_filter_recognised: "List.map_filter verdict (filter recognised lines) = List.map_filter verdict lines"
  by (induction lines) (auto simp: List.map_filter_simps recognised_def split: option.split)

lemma verdict_line: "n \<in> set CHECK_NAMES \<Longrightarrow> verdict (health_line n ok) = Some (n, if ok then ''pass'' else ''fail'')"
proof -
  assume n: "n \<in> set CHECK_NAMES"
  then have "tab \<notin> set n" by (auto simp: CHECK_NAMES_def tab_def)
  then have "split_on tab (join [tab] [''DJANGOOPS_HEALTH'', n, if ok then ''PASS'' else ''FAIL''])
      = [''DJANGOOPS_HEALTH'', n, if ok then ''PASS'' else ''FAIL'']"
    by (intro split_on_join) (auto simp: tab_def)
  then show ?thesis using n by (simp add: health_line_def verdict_def)
qed

text \<open>C32. Whatever else the remote host prints, before, between or after the lines of the health command (a banner,
  warnings of Docker), the report has the five checks in their fixed order with the outcome of the probes,
  and it is healthy exactly when a release is active and every probe succeeds. In general an output is
  accepted exactly when its first verdicts on the checks come complete and in that order; the report then
  consists of these verdicts, and no other text of the host gets into it.\<close>

theorem health_report:
  assumes "filter recognised (splitlines output) = health_lines active probe"
  shows "(\<exists>r. parse_report output = Inr r
            \<and> r = map (\<lambda>n. \<lparr>hc_name = n, hc_status = (if active \<and> (n = ''active_release'' \<or> probe n) then ''pass'' else ''fail'')\<rparr>) CHECK_NAMES
            \<and> (report_healthy r \<longleftrightarrow> active \<and> list_all probe (tl CHECK_NAMES)))
     \<and> parse_report other =
        (if dkeys (firsts (verdicts other)) = CHECK_NAMES
         then Inr (map (\<lambda>n. \<lparr>hc_name = n, hc_status = the (map_of (verdicts other) n)\<rparr>) CHECK_NAMES)
         else Inl (HealthTransportError ''remote health response was incomplete or invalid''))"
proof -
  have "verdicts output = List.map_filter verdict (health_lines active probe)"
    unfolding verdicts_def using map_filter_recognised assms by metis
  also have "\<dots> = map (\<lambda>n. (n, if active \<and> (n = ''active_release'' \<or> probe n) then ''pass'' else ''fail'')) CHECK_NAMES"
    using verdict_line by (simp add: health_lines_def List.map_filter_simps CHECK_NAMES_def)
  finally have v: "verdicts output = map (\<lambda>n. (n, if active \<and> (n = ''active_release'' \<or> probe n) then ''pass'' else ''fail'')) CHECK_NAMES" .
  have f: "firsts (verdicts output) = verdicts output" unfolding v by (simp add: CHECK_NAMES_def)
  have p: "parse_report output = Inr (map (\<lambda>n. \<lparr>hc_name = n, hc_status = (if active \<and> (n = ''active_release'' \<or> probe n) then ''pass'' else ''fail'')\<rparr>) CHECK_NAMES)"
    unfolding parse_report_exact f unfolding v by (simp add: CHECK_NAMES_def)
  show ?thesis unfolding p
    using parse_report_exact [of other] by (auto simp: report_healthy_def check_healthy_def CHECK_NAMES_def)
qed

definition demo_output :: string where
  "demo_output = join [CHR 0x0A] (''Welcome'' # health_lines True (\<lambda>n. n \<noteq> ''pending_migrations'') @ [''bye''])"

theorem health_report_witness:
  "\<exists>r. parse_report demo_output = Inr r \<and> \<not> report_healthy r"
proof -
  have "filter recognised (splitlines demo_output) = health_lines True (\<lambda>n. n \<noteq> ''pending_migrations'')"
    by code_simp
  from health_report [OF this, THEN conjunct1] obtain r where "parse_report demo_output = Inr r"
    "report_healthy r \<longleftrightarrow> True \<and> list_all (\<lambda>n. n \<noteq> ''pending_migrations'') (tl CHECK_NAMES)" by blast
  then show ?thesis by (auto simp: CHECK_NAMES_def)
qed

text \<open>A base directory with a final slash, which validation accepts, or one reached through a symbolic link is
  spelled differently by \<open>readlink -f\<close>, so the command's pattern does not match the active release.\<close>

lemma final_slash_accepted: "isOk (validate_remote_base ''/srv/shop/'')"
  by code_simp

end
