(* ===== verification/Backup_Claims.thy ===== *)
theory Backup_Claims
  imports Backup Config_Claims
begin

text \<open>
  Backups: what a restore has verified before it changes anything and what it has not, the crontab after a schedule is
  installed, and the listing of backups.
\<close>

section \<open>The restore command as a sequence of pipelines\<close>

text \<open>A step is a pipeline, the list of its commands. Under \<open>set -e\<close> without \<open>pipefail\<close>, which \<open>sh\<close> need not have, a
  step succeeds when its last command does, and the first step that fails ends the run. \<open>st i k\<close> tells whether
  command \<open>k\<close> of step \<open>i\<close> succeeds; \<open>started\<close> is the number of steps started from step \<open>i\<close> on.\<close>

type_synonym pipeline = "string list"

definition pipeline_ok :: "(nat \<Rightarrow> nat \<Rightarrow> bool) \<Rightarrow> nat \<Rightarrow> pipeline \<Rightarrow> bool" where
  "pipeline_ok st i p = st i (length p - 1)"

fun started :: "(nat \<Rightarrow> nat \<Rightarrow> bool) \<Rightarrow> nat \<Rightarrow> pipeline list \<Rightarrow> nat" where
  "started st i [] = 0"
| "started st i (p # ps) = Suc (if pipeline_ok st i p then started st (Suc i) ps else 0)"

definition run_ok :: "(nat \<Rightarrow> nat \<Rightarrow> bool) \<Rightarrow> pipeline list \<Rightarrow> bool" where
  "run_ok st ps \<longleftrightarrow> list_all (\<lambda>i. pipeline_ok st i (ps ! i)) [0..<length ps]"

definition steps_text :: "pipeline list \<Rightarrow> string" where
  "steps_text ps = join ''; '' (map (join '' | '') ps)"

definition preflight_steps :: "djangoops_config \<Rightarrow> deployment_target \<Rightarrow> pipeline list" where
  "preflight_steps c target =
     (let env_path = shlex_quote (dt_remote_base target @ ''/shared/.env'')
      in [[''command -v docker >/dev/null''], [''command -v aws >/dev/null''], [''test -f '' @ env_path], [''set -a''], [''. '' @ env_path],
          [''set +a''], [''test -n '' @ dquoted ''${POSTGRES_PASSWORD:-}''], [''test -n '' @ dquoted ''${AWS_ACCESS_KEY_ID:-}''],
          [''test -n '' @ dquoted ''${AWS_SECRET_ACCESS_KEY:-}''], [''test -n '' @ shlex_quote (dc_project_name c)]])"

definition bucket_path :: "djangoops_config \<Rightarrow> string \<Rightarrow> string" where
  "bucket_path c selected = ''s3://'' @ bc_bucket (dc_backup c) @ ''/'' @ object_prefix c @ ''/'' @ selected"

definition media_url :: "djangoops_config \<Rightarrow> string" where
  "media_url c = ''s3://'' @ so_media_bucket (dc_storage c) @ ''/''"

definition saved_path :: "deployment_target \<Rightarrow> string \<Rightarrow> string" where
  "saved_path target selected = shlex_quote (dt_remote_base target) @ ''/shared/pre-restore-'' @ selected @ ''.sql.gz''"

definition dump_step :: "deployment_target \<Rightarrow> string \<Rightarrow> string \<Rightarrow> pipeline" where
  "dump_step target selected compose =
     [compose @ '' exec -T postgres sh -c '' @ pg_dump, ''gzip -c > '' @ saved_path target selected]"

definition recovery_steps :: "djangoops_config \<Rightarrow> deployment_target \<Rightarrow> string \<Rightarrow> pipeline list" where
  "recovery_steps c target selected =
     [[aws_env_prefix c @ '' aws s3 cp '' @ saved_path target selected @ '' '' @ dquoted ''$recovery/database.sql.gz'' @ '' >/dev/null''],
      [aws_env_prefix c @ '' aws s3 sync '' @ shlex_quote (media_url c) @ '' '' @ dquoted ''$recovery/media/'' @ '' >/dev/null'']]"

definition service_step :: "string \<Rightarrow> string \<Rightarrow> pipeline" where
  "service_step compose s = [compose @ '' config --services'', ''grep -Fx '' @ shlex_quote s @ '' >/dev/null'']"

text \<open>Everything before the first change of the application: tools and secrets, the release, the services of the Compose
  file, the metadata, the archive, the marker of the media, and the recovery copies.\<close>

definition check_steps :: "djangoops_config \<Rightarrow> deployment_target \<Rightarrow> string \<Rightarrow> string \<Rightarrow> pipeline list" where
  "check_steps c target selected compose =
     (let current = shlex_quote (dt_remote_base target @ ''/current''); aws = aws_env_prefix c;
          meta = '' /tmp/djangoops-restore-meta >/dev/null''
      in [[''set -eu''], [''umask 077'']] @ preflight_steps c target
         @ [[''command -v gzip >/dev/null''], [''test -L '' @ current], [''cd '' @ current]]
         @ map (service_step compose) (''postgres'' # writer_services c)
         @ [[aws @ '' aws s3 cp '' @ shlex_quote (bucket_path c selected @ ''/metadata.txt'') @ meta],
            [''grep -Fx '' @ shlex_quote (''backup_id='' @ selected) @ meta],
            [''grep -Fx '' @ shlex_quote (''project='' @ dc_project_name c) @ meta],
            [''grep -Fx '' @ quoted ''database=database.sql.gz'' @ meta],
            [''grep -Fx '' @ quoted ''media=media/'' @ meta],
            [aws @ '' aws s3 cp '' @ shlex_quote (bucket_path c selected @ ''/database.sql.gz'') @ '' /tmp/djangoops-restore-db.sql.gz >/dev/null''],
            [''gzip -t /tmp/djangoops-restore-db.sql.gz''],
            [aws @ '' aws s3 cp '' @ shlex_quote (bucket_path c selected @ ''/media.ready'') @ '' /tmp/djangoops-restore-media-ready >/dev/null''],
            [''recovery_id=pre-restore-$(date -u +%Y%m%dT%H%M%SZ)''],
            [''recovery='' @ shlex_quote (''s3://'' @ bc_bucket (dc_backup c) @ ''/'' @ object_prefix c @ ''/recovery'') @ ''/$recovery_id''],
            dump_step target selected compose]
         @ recovery_steps c target selected)"

text \<open>The changes: writers stopped, database dropped and refilled, media replaced, writers started, a final check.\<close>

definition change_steps :: "djangoops_config \<Rightarrow> string \<Rightarrow> string \<Rightarrow> pipeline list" where
  "change_steps c selected compose =
     (let writer_args = join '' '' (map shlex_quote (writer_services c))
      in [[compose @ '' stop '' @ writer_args],
          [compose @ '' exec -T postgres sh -c '' @ quoted (''dropdb -U '' @ dquoted ''$POSTGRES_USER'' @ '' --if-exists '' @ dquoted ''$POSTGRES_DB''
             @ '' && createdb -U '' @ database_args)],
          [''gzip -dc /tmp/djangoops-restore-db.sql.gz'', compose @ '' exec -T postgres sh -c ''
             @ quoted (''psql -v ON_ERROR_STOP=1 -U '' @ database_args)],
          [aws_env_prefix c @ '' aws s3 sync --delete '' @ shlex_quote (bucket_path c selected @ ''/media/'') @ '' '' @ shlex_quote (media_url c)
             @ '' >/dev/null''],
          [compose @ '' up -d '' @ writer_args],
          [compose @ '' exec -T web python manage.py check --deploy'']])"

lemma join_append: "xs \<noteq> [] \<Longrightarrow> ys \<noteq> [] \<Longrightarrow> join sep (xs @ ys) = join sep xs @ sep @ join sep ys"
  by (induction sep xs rule: join.induct) (auto simp: neq_Nil_conv)

lemma join_Cons: "ys \<noteq> [] \<Longrightarrow> join sep (x # ys) = x @ sep @ join sep ys"
  by (cases ys) auto

lemma steps_append: "ps \<noteq> [] \<Longrightarrow> qs \<noteq> [] \<Longrightarrow> steps_text (ps @ qs) = steps_text ps @ ''; '' @ steps_text qs"
  by (simp add: steps_text_def join_append)

lemma preflight_text: "steps_text (preflight_steps c target) = runtime_preflight c target"
  by (simp add: steps_text_def preflight_steps_def runtime_preflight_def Let_def)

lemma steps_Cons: "ps \<noteq> [] \<Longrightarrow> steps_text (p # ps) = join '' | '' p @ ''; '' @ steps_text ps"
  by (simp add: steps_text_def join_Cons)

lemma service_checks_text:
  "ss \<noteq> [] \<Longrightarrow> join '' '' (map (service_check compose) ss) @ '' '' @ rest = steps_text (map (service_step compose) ss) @ ''; '' @ rest"
proof (induction ss)
  case (Cons s ss)
  have s: "service_check compose s = join '' | '' (service_step compose s) @ '';''" by (simp add: service_check_def service_step_def)
  show ?case
  proof (cases "ss = []")
    case True
    then show ?thesis by (simp add: s steps_text_def)
  next
    case False
    with Cons show ?thesis by (simp add: s steps_Cons join_Cons)
  qed
qed simp

lemma restore_steps_text: "restore_text c target selected compose = steps_text (check_steps c target selected compose @ change_steps c selected compose)"
proof -
  have n: "preflight_steps c target \<noteq> []" "recovery_steps c target selected \<noteq> []" "change_steps c selected compose \<noteq> []"
    "writer_services c \<noteq> []"
    by (simp_all add: preflight_steps_def recovery_steps_def change_steps_def Let_def writer_services_def)
  define services where "services = map (service_step compose) (''postgres'' # writer_services c)"
  have s: "services \<noteq> []" "\<And>rest. join '' '' (map (service_check compose) (''postgres'' # writer_services c)) @ '' '' @ rest = steps_text services @ ''; '' @ rest"
    unfolding services_def by (simp, rule service_checks_text, simp)
  have r: "steps_text (recovery_steps c target selected) = aws_env_prefix c @ '' aws s3 cp '' @ saved_path target selected @ '' ''
      @ dquoted ''$recovery/database.sql.gz'' @ '' >/dev/null; '' @ aws_env_prefix c @ '' aws s3 sync '' @ shlex_quote (media_url c) @ '' ''
      @ dquoted ''$recovery/media/'' @ '' >/dev/null''"
    by (simp add: steps_text_def recovery_steps_def)
  show ?thesis
    unfolding check_steps_def Let_def services_def [symmetric] restore_text_def s(2)
    by (simp add: steps_append steps_Cons n s(1) preflight_text r)
      (simp add: steps_text_def change_steps_def Let_def dump_step_def bucket_path_def media_url_def saved_path_def)
qed

section \<open>What a restore has verified\<close>

lemma started_iff: "k < started st i ps \<longleftrightarrow> k < length ps \<and> (\<forall>j < k. pipeline_ok st (i + j) (ps ! j))"
proof (induction ps arbitrary: i k)
  case (Cons p ps)
  show ?case
  proof (cases k)
    case (Suc k')
    then show ?thesis using Cons [of k' "Suc i"] by (auto simp: less_Suc_eq_0_disj)
  qed simp
qed simp

text \<open>C35. A restore is the sequence of check steps and change steps. No change is started (no writer stopped, nothing
  dropped or overwritten) unless every check step has succeeded as the shell sees it: the tools and
  secrets are there, the Compose file names PostgreSQL and every writer, the metadata are those of the
  selected backup and project, the archive is a valid one, and the recovery copies have been uploaded.
  What the shell does not see is the status of the dump that makes the recovery copy, as it is not the
  last command of its pipeline: in some run the dump fails, the database is dropped nevertheless, and the
  whole command succeeds.\<close>

theorem restore_guarded:
  assumes "length (check_steps c target selected compose) < started st 0 (check_steps c target selected compose @ change_steps c selected compose)"
  shows "list_all (\<lambda>i. pipeline_ok st i (check_steps c target selected compose ! i)) [0..<length (check_steps c target selected compose)]
    \<and> restore_text c target selected compose = steps_text (check_steps c target selected compose @ change_steps c selected compose)
    \<and> (\<exists>st' i. i < length (check_steps c target selected compose) \<and> check_steps c target selected compose ! i = dump_step target selected compose
         \<and> \<not> st' i 0 \<and> run_ok st' (check_steps c target selected compose @ change_steps c selected compose))"
proof -
  let ?checks = "check_steps c target selected compose"
  let ?all = "?checks @ change_steps c selected compose"
  have "\<forall>j < length ?checks. pipeline_ok st j (?checks ! j)"
    using assms unfolding started_iff by (metis add_0 nth_append)
  then have 1: "list_all (\<lambda>i. pipeline_ok st i (?checks ! i)) [0..<length ?checks]" by (simp add: list_all_iff)
  have "dump_step target selected compose \<in> set ?checks" by (simp add: check_steps_def Let_def)
  then obtain i where i: "i < length ?checks" "?checks ! i = dump_step target selected compose" by (metis in_set_conv_nth)
  have "\<not> (0 = length (?all ! i) - 1)" using i by (simp add: nth_append dump_step_def)
  moreover have "run_ok (\<lambda>i k. k = length (?all ! i) - 1) ?all" by (simp add: run_ok_def pipeline_ok_def list_all_iff)
  ultimately have "\<exists>st' i. i < length ?checks \<and> ?checks ! i = dump_step target selected compose \<and> \<not> st' i 0 \<and> run_ok st' ?all"
    using i by (intro exI [of _ "\<lambda>i k. k = length (?all ! i) - 1"] exI [of _ i]) simp
  with 1 restore_steps_text show ?thesis by blast
qed

definition demo_target :: deployment_target where
  "demo_target = \<lparr>dt_host = ''web-1.example.com'', dt_user = ''deploy'', dt_port = 22, dt_remote_base = ''/srv/shop'', dt_identity_file = None\<rparr>"

theorem restore_guarded_witness:
  "list_all (\<lambda>i. pipeline_ok (\<lambda>_ _. True) i (check_steps demo_config demo_target ''b20240102T030405Z'' ''docker compose'' ! i))
     [0..<length (check_steps demo_config demo_target ''b20240102T030405Z'' ''docker compose'')]"
proof -
  have "change_steps c s x \<noteq> []" for c s x by (simp add: change_steps_def Let_def)
  then have "length (check_steps c t s x) < started (\<lambda>_ _. True) 0 (check_steps c t s x @ change_steps c s x)" for c t s x
    by (simp add: started_iff pipeline_ok_def)
  from restore_guarded [OF this] show ?thesis by blast
qed

section \<open>The schedule\<close>

lemma marker_in_line: "substring_in (cron_marker c) (cron_line c target)"
  unfolding substring_in_iff cron_line_def by (metis append.assoc append_Nil2)

lemma cron_line_nonempty: "cron_line c target \<noteq> []"
  by (simp add: cron_line_def)

text \<open>C34. Installing a schedule leaves exactly one line with the project's marker in the crontab, the new one, keeps every
  other line without that marker in its place (empty lines are dropped), and installing it again changes nothing.\<close>

theorem schedule_installed:
  "filter (substring_in (cron_marker c)) (crontab_after c target current) = [cron_line c target]
   \<and> filter (\<lambda>l. \<not> substring_in (cron_marker c) l) (crontab_after c target current)
       = filter (\<lambda>l. l \<noteq> []) (filter (\<lambda>l. \<not> substring_in (cron_marker c) l) current)
   \<and> crontab_after c target (crontab_after c target current) = crontab_after c target current
   \<and> last (crontab_after c target current) = cron_line c target"
  by (auto simp: crontab_after_def marker_in_line cron_line_nonempty filter_empty_conv intro: filter_cong)

text \<open>The marker is searched for anywhere in a line: installing the schedule of a project removes the lines of every
  project whose name begins with its name.\<close>

lemma prefix_projects:
  assumes "dc_project_name d = dc_project_name c @ suffix"
  shows "cron_line d target' \<notin> set (crontab_after c target [cron_line d target']) \<or> cron_line d target' = cron_line c target"
proof -
  have "substring_in (cron_marker c) (cron_line d target')"
    unfolding substring_in_iff cron_line_def cron_marker_def assms by (metis append.assoc)
  then show ?thesis by (simp add: crontab_after_def)
qed

text \<open>An endpoint with a line end in it is accepted; the script then holds the end marker of its own here-document
  as a line, after which the remote shell reads the rest of the script as commands.\<close>

definition evil_endpoint :: string where
  "evil_endpoint = ''https://h'' @ nl @ ''DJANGOOPS_BACKUP'' @ nl @ ''reboot'' @ nl @ ''x''"

lemma evil_endpoint_accepted: "validate_storage_endpoint (\<lambda>_. False) evil_endpoint = Inr evil_endpoint"
  by code_simp

lemma here_document_ends:
  assumes "so_endpoint_url (dc_storage c) = evil_endpoint"
  shows "substring_in (nl @ ''DJANGOOPS_BACKUP'' @ nl @ ''reboot'' @ nl) (concat (map (\<lambda>l. l @ nl) (script_lines c target compose)))"
proof -
  let ?line = "aws_env_prefix c @ '' aws s3 cp '' @ dquoted ''$work/media.ready'' @ '' '' @ dquoted ''$dest/media.ready'' @ '' >/dev/null''"
  have "?line \<in> set (script_lines c target compose)" by (simp add: script_lines_def Let_def)
  then obtain as bs where "script_lines c target compose = as @ ?line # bs" by (metis split_list)
  then obtain xs ys where s: "concat (map (\<lambda>l. l @ nl) (script_lines c target compose)) = xs @ ?line @ ys" by auto
  have q: "shlex_quote evil_endpoint = [CHR 0x27] @ evil_endpoint @ [CHR 0x27]" by code_simp
  show ?thesis
    unfolding s substring_in_iff aws_env_prefix_def assms q
    unfolding evil_endpoint_def
    by (rule exI [of _ "xs @ ''AWS_ENDPOINT_URL='' @ [CHR 0x27] @ ''https://h''"], rule exI) (simp only: append_assoc)
qed

section \<open>Listing\<close>

lemma listing_exact:
  "sorted (rev (parse_listing stdout)) \<and> distinct (parse_listing stdout)
   \<and> set (parse_listing stdout) = {b. \<exists>line \<in> set (splitlines stdout). listed_id line = Some b}"
  by (auto simp: parse_listing_def List.map_filter_def intro: rev_image_eqI)

lemma listed_restorable: "b \<in> set (parse_listing stdout) \<Longrightarrow> validate_backup_id b = Inr b"
  unfolding parse_listing_def
  by (auto simp: List.map_filter_def listed_id_def validate_backup_id_def split: list.splits if_splits)

text \<open>The errors of a restore: a bad identifier or Compose path is refused before anything is sent.\<close>

lemma restore_errors:
  "restore_backup ssh c target backup_id f = Inl e \<Longrightarrow> (\<exists>m. e = ValueError m) \<or> e = BackupError restore_failed"
  by (auto simp: restore_backup_def res_simps validate_backup_id_def validate_compose_file_def backup_compose_prefix_def
      run_ssh_def run_ssh_capture_def split: if_splits sum.splits option.splits prod.splits pyexn.splits)

end
