(* ===== verification/Cli_Claims.thy ===== *)
theory Cli_Claims
  imports Cli Compose_Claims Health_Claims Backup_Claims
begin

text \<open>
  The command line: every command ends with an exit status and a single message or result, and none overwrites a file
  except the upgrade the one it upgrades.
\<close>

named_theorems only_intros

section \<open>Which exceptions an operation raises\<close>

definition only :: "(pyexn \<Rightarrow> bool) \<Rightarrow> 'a res \<Rightarrow> bool" where
  "only P r \<longleftrightarrow> (\<forall>e. r = Inl e \<longrightarrow> P e)"

lemma only_Inr [only_intros]: "only P (Inr x)"
  by (simp add: only_def)

lemma only_Inl [only_intros]: "P e \<Longrightarrow> only P (Inl e)"
  by (simp add: only_def)

lemma only_bind [only_intros]: "only P r \<Longrightarrow> (\<And>x. r = Inr x \<Longrightarrow> only P (f x)) \<Longrightarrow> only P (bindR r f)"
  by (cases r) (simp_all add: only_def)

lemma only_guard [only_intros]: "P e \<Longrightarrow> only P (guardR b e)"
  by (simp add: only_def)

lemma only_if [only_intros]: "only P x \<Longrightarrow> only P y \<Longrightarrow> only P (if b then x else y)"
  by simp

lemma only_option [only_intros]: "only P a \<Longrightarrow> (\<And>x. only P (f x)) \<Longrightarrow> only P (case v of None \<Rightarrow> a | Some x \<Rightarrow> f x)"
  by (cases v) simp_all

lemma only_prod [only_intros]: "(\<And>x y. only P (f x y)) \<Longrightarrow> only P (case p of (x, y) \<Rightarrow> f x y)"
  by (cases p) simp

lemma only_json [only_intros]:
  "only P a \<Longrightarrow> (\<And>x. only P (b x)) \<Longrightarrow> (\<And>x. only P (i x)) \<Longrightarrow> (\<And>x. only P (f x)) \<Longrightarrow> (\<And>x. only P (s x)) \<Longrightarrow> (\<And>x. only P (l x))
   \<Longrightarrow> (\<And>x. only P (d x)) \<Longrightarrow> only P (case v of JNull \<Rightarrow> a | JBool x \<Rightarrow> b x | JInt x \<Rightarrow> i x | JFloat x \<Rightarrow> f x | JStr x \<Rightarrow> s x | JArr x \<Rightarrow> l x | JObj x \<Rightarrow> d x)"
  by (cases v) simp_all

lemma only_mapR [only_intros]: "(\<And>x. only P (f x)) \<Longrightarrow> only P (mapR f xs)"
  by (induction xs) (simp_all add: only_intros)

lemma only_mono: "only P r \<Longrightarrow> (\<And>e. P e \<Longrightarrow> Q e) \<Longrightarrow> only Q r"
  by (simp add: only_def)

text \<open>What reading a document raises: a \<open>ValueError\<close>, or what the YAML library raised.\<close>

definition document_error :: "(string \<Rightarrow> json option res) \<Rightarrow> pyexn \<Rightarrow> bool" where
  "document_error load e \<longleftrightarrow> is_ValueError e \<or> (\<exists>t. load t = Inl e)"

abbreviation value_error :: "'a res \<Rightarrow> bool" where
  "value_error r \<equiv> only is_ValueError r"

lemma urlsplit_only [only_intros]: "value_error (urlsplit ip_ok s)"
  unfolding urlsplit_def Let_def by (intro only_intros) simp_all

lemma config_checks_only [only_intros]:
  "value_error (validate_project_name a)" "value_error (validate_django_module a)" "value_error (validate_hostname a)"
  "value_error (validate_email a)" "value_error (validate_storage_endpoint ip_ok a)" "value_error (validate_region r)"
  "value_error (validate_bucket n a)" "value_error (validate_backup_schedule a)" "value_error (validate_backup_prefix a)"
  unfolding validate_project_name_def validate_django_module_def validate_hostname_def validate_email_def validate_storage_endpoint_def
    validate_region_def validate_bucket_def validate_backup_schedule_def validate_backup_prefix_def Let_def
  by (intro only_intros; simp)+

lemma checked_only [only_intros]: "value_error (checked_config ip_ok n m sv t s b)"
  unfolding checked_config_def checked_tls_def checked_storage_def checked_backup_def by (intro only_intros)

lemma create_only [only_intros]: "value_error (create_config ip_ok n m t s b)"
  unfolding create_config_def by (rule only_intros)

lemma requires_only [only_intros]:
  "value_error (require_mapping v f)" "value_error (require_string v f)" "value_error (require_bool v f)" "value_error (require_region v)"
  unfolding require_mapping_def require_string_def require_bool_def require_region_def
  by (intro only_intros; simp)+

lemma document_mono: "value_error r \<Longrightarrow> only (document_error load) r"
  by (erule only_mono) (simp add: document_error_def)

lemma document_value [only_intros]: "only (document_error load) (Inl (ValueError m))"
  by (simp add: only_def document_error_def)

lemma load_yaml_only [only_intros]: "only (document_error load) (load_yaml load text)"
  by (auto simp: load_yaml_def only_def document_error_def res_simps split: option.splits)

lemma parse_sections_only [only_intros]: "value_error (parse_sections a b c d e f)"
  unfolding parse_sections_def parse_services_def by (intro only_intros; simp)

lemma normalized_only [only_intros]: "value_error (normalized v)"
  unfolding normalized_def by (intro only_intros; simp)

lemma from_mapping_only [only_intros]: "value_error (from_mapping ip_ok v)"
  unfolding from_mapping_def by (intro only_intros)

lemma parse_config_only [only_intros]: "only (document_error load) (parse_config load ip_ok text)"
  unfolding parse_config_def by (intro only_intros document_mono [OF from_mapping_only])

lemma upgrade_only [only_intros]: "only (document_error load) (upgrade_config load dump ip_ok text b s)"
proof -
  note checks = document_mono [OF config_checks_only(7)] document_mono [OF config_checks_only(8)] document_mono [OF from_mapping_only]
  show ?thesis unfolding upgrade_config_def by (intro only_bind only_json only_if checks document_value only_Inr load_yaml_only)
qed

lemma as_string_only [only_intros]: "value_error (as_string v f)"
  unfolding as_string_def by (intro only_intros; simp)

lemma validate_fields_only [only_intros]: "value_error (validate_fields kvs d)"
proof (induction kvs arbitrary: d)
  case (Cons kv kvs)
  obtain key raw where kv: "kv = (key, raw)" by (cases kv)
  show ?case unfolding kv validate_fields.simps by (intro only_intros Cons; simp)
qed (simp add: only_intros)

lemma integration_config_only [only_intros]: "value_error (validate_integration_config ip_ok d v f)"
  unfolding validate_integration_config_def complete_config_def validate_otlp_origin_def Let_def by (intro only_intros; simp)

lemma resolve_only [only_intros]: "value_error (resolve_definition r n v)"
  unfolding resolve_definition_def by (intro only_intros; simp)

lemma parse_integration_only [only_intros]: "value_error (parse_integration ip_ok i seen v)"
  unfolding parse_integration_def parse_capabilities_def Let_def by (intro only_intros; simp)

lemma parse_items_only [only_intros]: "value_error (parse_items ip_ok i seen vs)"
  by (induction vs arbitrary: i seen) (auto intro!: only_intros)

lemma parse_integrations_only [only_intros]: "value_error (parse_integrations ip_ok v)"
  unfolding parse_integrations_def by (intro only_intros; simp)

lemma parse_project_config_only [only_intros]: "only (document_error load) (parse_project_config load dump ip_ok text)"
  unfolding parse_project_config_def
  by (intro only_bind only_json document_mono [OF parse_integrations_only] parse_config_only document_value only_Inr load_yaml_only)

lemma load_config_only [only_intros]:
  "only (document_error load) (load_project_config load dump ip_ok fs path)" "only (document_error load) (load_config load dump ip_ok fs path)"
  unfolding load_config_def load_project_config_def
  by (intro only_bind only_option only_prod only_Inr document_value parse_project_config_only)+

lemma target_only [only_intros]: "value_error (create_deployment_target isf h u p b i)"
  unfolding create_deployment_target_def validate_remote_base_def by (intro only_intros; simp)

lemma compose_file_only [only_intros]: "value_error (validate_compose_file f)"
  unfolding validate_compose_file_def by (intro only_intros; simp)

section \<open>Transport errors\<close>

definition is_deploy :: "pyexn \<Rightarrow> bool" where "is_deploy e = (case e of DeployError _ \<Rightarrow> True | _ \<Rightarrow> False)"
definition is_health :: "pyexn \<Rightarrow> bool" where "is_health e = (case e of HealthTransportError _ \<Rightarrow> True | _ \<Rightarrow> False)"
definition is_backup :: "pyexn \<Rightarrow> bool" where "is_backup e = (case e of BackupError _ \<Rightarrow> True | _ \<Rightarrow> False)"

lemma transport_simps [simp]: "is_deploy (DeployError m)" "is_health (HealthTransportError m)" "is_backup (BackupError m)"
  by (simp_all add: is_deploy_def is_health_def is_backup_def)

lemma only_attempt: "only P (snd (act log)) \<Longrightarrow> (\<And>l. only P (snd (k l))) \<Longrightarrow> only P (snd (attempt act undo k log))"
  unfolding attempt_def by (cases "act log"; cases "snd (act log)") (auto simp: only_def)

lemma deploy_ssh_only: "only is_deploy (snd (deploy_ssh ok c m log))"
  by (simp add: deploy_ssh_def only_def)

lemma run_plan_only: "only is_deploy (snd (run_plan ok p log))"
proof -
  have "only is_deploy (snd (activate_stage ok p l))" for l
    by (auto simp: activate_stage_def only_def split: prod.splits sum.splits)
  then show ?thesis unfolding run_plan_def
    by (intro only_attempt) (simp_all add: upload_release_def capture_previous_def start_staged_def migration_preflight_def run_migrations_def deploy_ssh_only)
qed

lemma deploy_project_only:
  "only (document_error load) config \<Longrightarrow> only (\<lambda>e. is_deploy e \<or> document_error load e) (snd (deploy_project ok config path isf compose t stamp pid log))"
  unfolding deploy_project_def
  by (auto simp: only_def document_error_def split: sum.split option.split dest: run_plan_only [unfolded only_def, rule_format])

lemma health_project_only: "only (\<lambda>e. is_health e \<or> is_ValueError e) (health_project ssh t f)"
proof -
  have "only (\<lambda>e. is_health e \<or> is_ValueError e) (validate_compose_file f)"
    using compose_file_only by (rule only_mono) simp
  then show ?thesis unfolding health_project_def parse_report_exact by (intro only_intros; simp)
qed

lemma run_ssh_only: "only is_backup (run_ssh_capture ssh t c)" "only is_backup (run_ssh ssh t c)"
  unfolding run_ssh_def run_ssh_capture_def by (intro only_intros; simp)+

lemma backup_lines_only: "only (\<lambda>e. is_backup e \<or> is_ValueError e) (backup_lines env action c t f)"
proof -
  have s: "only (\<lambda>e. is_backup e \<or> is_ValueError e) (run_ssh ssh t c)" "only (\<lambda>e. is_backup e \<or> is_ValueError e) (run_ssh_capture ssh t c)" for ssh t c
    by (rule only_mono [OF run_ssh_only(2)], simp) (rule only_mono [OF run_ssh_only(1)], simp)
  have v: "only (\<lambda>e. is_backup e \<or> is_ValueError e) (validate_compose_file g)" for g
    using compose_file_only by (rule only_mono) simp
  have x: "only (\<lambda>e. is_backup e \<or> is_ValueError e) (backup_compose_prefix c g)" for g
    unfolding backup_compose_prefix_def by (intro only_intros v)
  have r: "only (\<lambda>e. is_backup e \<or> is_ValueError e) (restore_backup ssh c t b g)" for ssh t b g
    unfolding only_def using restore_errors by fastforce
  show ?thesis
  proof (cases action)
    case Schedule
    then show ?thesis unfolding backup_lines_def install_backup_schedule_def backup_script_def by (simp, intro only_intros s v x)
  next
    case Run
    then show ?thesis unfolding backup_lines_def run_backup_def backup_identifier_def Let_def by (simp, intro only_intros s)
  next
    case List
    then show ?thesis unfolding backup_lines_def list_backups_def by (simp, intro only_intros s)
  next
    case (Restore b)
    then show ?thesis unfolding backup_lines_def by (simp, intro only_intros r)
  qed
qed

lemma compose_only:
  assumes "load_project_config load dump ip_ok fs path = Inr (c, integrations)"
  shows "\<exists>t. render_compose d c integrations = Inr t"
proof -
  obtain u where "parse_project_config load dump ip_ok u = Inr (c, integrations)"
    using assms by (auto simp: load_project_config_def split: option.splits)
  then obtain w where w: "(case w of
       JObj kvs \<Rightarrow> bindR (parse_integrations ip_ok (dget kvs ''integrations'')) (\<lambda>integrations.
         bindR (parse_config load ip_ok (dump (JObj (ddel ''integrations'' kvs)))) (\<lambda>c. Inr (c, integrations)))
     | _ \<Rightarrow> Inl (ValueError ''configuration root must be a mapping'')) = Inr (c, integrations)"
    unfolding parse_project_config_def bindR_Inr_iff by blast
  then obtain v where "parse_integrations ip_ok v = Inr integrations" by (cases w) (auto simp: res_simps)
  from compose_document_closed [OF parsed_integrations_ok [OF this], of c] show ?thesis by (auto simp: render_compose_def)
qed

section \<open>The contract of the command line\<close>

text \<open>An outcome is reported: success prints no error; failure is status 2 and one line to standard error.\<close>

definition reported :: "outcome \<Rightarrow> bool" where
  "reported oc \<longleftrightarrow>
     (case oc_exit oc of
        Inl _ \<Rightarrow> False
      | Inr status \<Rightarrow> (status = 0 \<or> status = 1) \<and> oc_err oc = []
          \<or> status = 2 \<and> oc_out oc = [] \<and> length (oc_err oc) = 1 \<and> starts_with ''error: '' (hd (oc_err oc)))"

text \<open>The exceptions that leave a command, with nothing printed: the working directory of \<open>init\<close> is gone, or the YAML
  library raised something that is neither a \<open>YAMLError\<close> nor an exception the command handles.\<close>

definition uncaught :: "environment \<Rightarrow> cli_command \<Rightarrow> pyexn \<Rightarrow> bool" where
  "uncaught env cmd e \<longleftrightarrow>
     (case cmd of
        Init _ \<Rightarrow> cwd env = Inl e
      | HealthCmd _ _ _ \<Rightarrow> False
      | _ \<Rightarrow> (\<exists>t. en_load env t = Inl e) \<and> \<not> is_OSError e \<and> \<not> is_ValueError e)"

definition escapes :: "(pyexn \<Rightarrow> bool) \<Rightarrow> outcome \<Rightarrow> bool" where
  "escapes Q oc \<longleftrightarrow> (\<exists>e. Q e \<and> oc_exit oc = Inl e \<and> oc_out oc = [] \<and> oc_err oc = [])"

definition upgraded :: "environment \<Rightarrow> cli_command \<Rightarrow> string \<Rightarrow> bool" where
  "upgraded env cmd p \<longleftrightarrow> (case cmd of ConfigUpgrade config _ _ \<Rightarrow> at_cwd env config = Inr p | _ \<Rightarrow> False)"

lemma conclude_reported:
  assumes "only P r" and "\<And>e line. h e = Some line \<Longrightarrow> starts_with ''error: '' line" and "\<And>e. P e \<Longrightarrow> (\<exists>line. h e = Some line) \<or> Q e"
    and "\<And>x. snd (done x) \<in> {0, 1}"
  shows "reported (conclude h files r done) \<or> escapes Q (conclude h files r done)"
proof (cases r)
  case (Inl e)
  then have "P e" using assms(1) by (simp add: only_def)
  with assms(3) [of e] consider line where "h e = Some line" | "h e = None" "Q e" by (cases "h e") auto
  then show ?thesis
  proof cases
    case 1
    then show ?thesis using assms(2) by (simp add: conclude_def Inl reported_def)
  qed (simp add: conclude_def Inl escapes_def)
next
  case (Inr x)
  then show ?thesis using assms(4) [of x] by (simp add: conclude_def reported_def)
qed

lemma error_lines: "error_line P e = Some line \<Longrightarrow> starts_with ''error: '' line" "P e \<Longrightarrow> \<exists>line. error_line P e = Some line"
  by (auto simp: error_line_def split: if_splits)

lemma create_lines: "create_handler n e = Some line \<Longrightarrow> starts_with ''error: '' line"
  "is_OSError e \<or> is_ValueError e \<Longrightarrow> \<exists>line. create_handler n e = Some line"
  by (auto simp: create_handler_def error_line_def split: if_splits)

lemma conclude_files [simp]: "oc_files (conclude h files r done) = files"
  by (simp add: conclude_def split: sum.split option.split)

lemma write_new_text_kept: "dget fs p = Some t \<Longrightarrow> dget (fst (write_new_text failure path text fs)) p = Some t"
  by (auto simp: write_new_text_def dict_simps split: option.split)

section \<open>Each command\<close>

abbreviation file_error :: "pyexn \<Rightarrow> bool" where
  "file_error e \<equiv> is_OSError e \<or> is_ValueError e"

text \<open>What writing a file raises is an \<open>OSError\<close>.\<close>

definition writes_ok :: "environment \<Rightarrow> bool" where
  "writes_ok env \<longleftrightarrow> (case en_write_failure env of None \<Rightarrow> True | Some e \<Rightarrow> is_OSError e)"

lemma write_new_only: "writes_ok env \<Longrightarrow> only file_error (snd (write_new_text (en_write_failure env) path u fs))"
  by (auto simp: writes_ok_def write_new_text_def only_def split: option.splits)

text \<open>What a command may raise inside its \<open>try\<close>, and what of it the handlers let through.\<close>

definition command_error :: "environment \<Rightarrow> pyexn \<Rightarrow> bool" where
  "command_error env e \<longleftrightarrow> is_OSError e \<or> document_error (en_load env) e"

definition let_through :: "environment \<Rightarrow> pyexn \<Rightarrow> bool" where
  "let_through env e \<longleftrightarrow> (\<exists>t. en_load env t = Inl e) \<and> \<not> is_OSError e \<and> \<not> is_ValueError e"

lemma command_cases: "command_error env e \<Longrightarrow> is_OSError e \<or> is_ValueError e \<or> let_through env e"
  by (auto simp: command_error_def document_error_def let_through_def)

lemma file_command: "only file_error r \<Longrightarrow> only (command_error env) r"
  by (erule only_mono) (auto simp: command_error_def document_error_def)

lemma document_command: "only (document_error (en_load env)) r \<Longrightarrow> only (command_error env) r"
  by (erule only_mono) (simp add: command_error_def)

lemma cwd_only: "only (command_error env) (cwd env)" "only (command_error env) (at_cwd env path)"
proof -
  show c: "only (command_error env) (cwd env)" by (simp add: cwd_def only_def command_error_def split: option.split)
  show "only (command_error env) (at_cwd env path)" unfolding at_cwd_def by (intro only_if only_bind only_Inr c)
qed

lemma uncaught_lets:
  "uncaught env (Init a) = (\<lambda>e. cwd env = Inl e)" "uncaught env (ConfigUpgrade u v w) = let_through env"
  "uncaught env (ComposeCmd u v) = let_through env" "uncaught env (DeployCmd ta u v) = let_through env"
  "uncaught env (BackupCmd b ta u v) = let_through env"
  by (simp_all add: fun_eq_iff uncaught_def let_through_def)

lemma init_contract:
  assumes "writes_ok env"
  shows "(reported (main_init env a files) \<or> escapes (\<lambda>e. cwd env = Inl e) (main_init env a files))
    \<and> (dget files p = None \<or> dget (oc_files (main_init env a files)) p = dget files p)"
proof (cases "cwd env")
  case (Inl e)
  then show ?thesis by (simp add: main_init_def escapes_def)
next
  case (Inr d)
  let ?r = "\<lambda>i n m t s b target. case create_config i n m t s b of Inl e \<Rightarrow> (files, Inl e)
        | Inr c \<Rightarrow> write_new_config (en_dump env) (en_write_failure env) target c files"
  have "only file_error (snd (?r i n m t s b target))" for i n m t s b target
    using create_only [of i n m t s b] write_new_only [OF assms, unfolded only_def, rule_format]
    by (auto simp: only_def write_new_config_def split: sum.split)
  moreover have "dget files p = None \<or> dget (fst (?r i n m t s b target)) p = dget files p" for i n m t s b target
    by (cases "dget files p") (auto simp: write_new_config_def write_new_text_kept split: sum.split)
  ultimately show ?thesis unfolding main_init_def Inr sum.case Let_def split_beta conclude_files
    by (intro conjI conclude_reported [of file_error]) (simp_all add: create_lines)
qed

lemma upgrade_contract:
  assumes "writes_ok env"
  shows "(reported (main_upgrade env config bucket schedule files) \<or> escapes (let_through env) (main_upgrade env config bucket schedule files))
    \<and> (at_cwd env config = Inr p \<or> dget (oc_files (main_upgrade env config bucket schedule files)) p = dget files p)"
proof -
  let ?b = "bindR (at_cwd env config) (\<lambda>path. bindR (read_text files path) (\<lambda>original.
     bindR (upgrade_config (en_load env) (en_dump env) (en_ip_ok env) original bucket schedule) (\<lambda>rendered. Inr (path, rendered))))"
  let ?r = "case ?b of Inl e \<Rightarrow> (files, Inl e) | Inr (path, rendered) \<Rightarrow> write_text env path rendered files"
  have read: "only (command_error env) (read_text files q)" for q
    by (simp add: read_text_def only_def command_error_def split: option.split)
  have "only (command_error env) ?b"
    by (intro only_bind only_Inr cwd_only read document_command [OF upgrade_only])
  then have "only (command_error env) (snd ?r)"
    using assms by (auto simp: only_def writes_ok_def write_text_def command_error_def split: sum.split option.splits)
  moreover have "at_cwd env config = Inr p \<or> dget (fst ?r) p = dget files p"
    by (auto simp: write_text_def res_simps split: sum.split option.split)
  ultimately show ?thesis unfolding main_upgrade_def Let_def split_beta conclude_files
    by (intro conjI conclude_reported [of "command_error env"]) (auto simp: error_line_def split: if_splits dest: command_cases)
qed

lemma compose_contract:
  assumes "writes_ok env"
  shows "(reported (main_compose env config output files) \<or> escapes (let_through env) (main_compose env config output files))
    \<and> (dget files p = None \<or> dget (oc_files (main_compose env config output files)) p = dget files p)"
proof -
  let ?l = "en_load env" and ?d = "en_dump env" and ?i = "en_ip_ok env"
  note loaded = document_command [OF load_config_only(1)]
  let ?r = "case (at_cwd env config, at_cwd env output) of
       (Inr c, Inr out) \<Rightarrow> generate_compose ?l ?d ?i (en_write_failure env) c out files
     | (Inr c, Inl e) \<Rightarrow> (files, bindR (load_project_config ?l ?d ?i files c) (\<lambda>(k, integrations).
         bindR (render_compose ?d k integrations) (\<lambda>_. Inl e)))
     | (Inl _, _) \<Rightarrow> (files, Inl (ValueError (path_name config @ '' does not exist'')))"
  have gen: "only (command_error env) (snd (generate_compose ?l ?d ?i (en_write_failure env) q r files))" for q r
  proof (cases "load_project_config ?l ?d ?i files q")
    case (Inl e)
    then show ?thesis using loaded [of env ?d ?i files q] by (simp add: generate_compose_def only_def)
  next
    case (Inr ci)
    obtain k integrations where ci: "ci = (k, integrations)" by (cases ci)
    obtain t where "render_compose ?d k integrations = Inr t" using compose_only Inr ci by blast
    then show ?thesis using file_command [OF write_new_only [OF assms]] by (simp add: generate_compose_def Inr ci)
  qed
  have late: "only (command_error env) (bindR (load_project_config ?l ?d ?i files c) (\<lambda>(k, integrations).
         bindR (render_compose ?d k integrations) (\<lambda>_. Inl e)))" if "at_cwd env output = Inl e" for c e
  proof (rule only_bind [OF loaded])
    fix ki assume l: "load_project_config ?l ?d ?i files c = Inr ki"
    obtain k integrations where ki: "ki = (k, integrations)" by (cases ki)
    obtain t where "render_compose ?d k integrations = Inr t" using compose_only l ki by blast
    then show "only (command_error env) (case ki of (k, integrations) \<Rightarrow> bindR (render_compose ?d k integrations) (\<lambda>_. Inl e))"
      using that cwd_only(2) [of env "output"] by (simp add: ki only_def)
  qed
  have "only (command_error env) (snd ?r)"
  proof (cases "at_cwd env config")
    case (Inr c)
    show ?thesis
    proof (cases "at_cwd env output")
      case (Inl e)
      with late [OF Inl, of c] Inr show ?thesis by simp
    qed (use gen Inr in simp)
  qed (simp add: only_def command_error_def document_error_def)
  moreover have "dget files p = None \<or> dget (fst ?r) p = dget files p"
    by (cases "dget files p") (auto simp: generate_compose_def write_new_text_kept split: sum.split)
  ultimately show ?thesis unfolding main_compose_def Let_def split_beta conclude_files
    by (intro conjI conclude_reported [of "command_error env"]) (auto intro: create_lines dest: command_cases)
qed

lemma target_args_only: "value_error (target_from_args env ta)"
  unfolding target_from_args_def by (rule target_only)

lemma config_args_only: "only (document_error (en_load env)) (config_from env files config)"
  unfolding config_from_def using load_config_only(2)
  by (auto simp: only_def document_error_def split: sum.split)

lemma deploy_contract:
  "reported (main_deploy env ta config compose_file files) \<or> escapes (let_through env) (main_deploy env ta config compose_file files)"
proof -
  let ?D = "\<lambda>e. is_deploy e \<or> command_error env e"
  have c: "only ?D (cwd env)" using cwd_only(1) by (rule only_mono) simp
  have t: "only ?D (target_from_args env ta)"
    using target_args_only by (rule only_mono) (simp add: command_error_def document_error_def)
  have d: "only ?D (snd (deploy_project (en_ssh_ok env) (config_from env files config) compose_file isf inside target (en_stamp env) (en_pid env) []))"
    for isf inside target
    using deploy_project_only [OF config_args_only] by (rule only_mono) (auto simp: command_error_def)
  have "only ?D (bindR (cwd env) (\<lambda>_. bindR (target_from_args env ta) (\<lambda>target. snd (deploy_project (en_ssh_ok env) (config_from env files config) compose_file
      isf inside target (en_stamp env) (en_pid env) []))))" for isf inside
    by (intro only_bind c t d)
  then show ?thesis unfolding main_deploy_def Let_def is_deploy_def [symmetric]
    by (intro conclude_reported [of ?D]) (auto simp: error_line_def split: if_splits dest: command_cases)
qed

lemma health_contract: "reported (main_health env ta compose_file as_json files)"
proof -
  let ?H = "\<lambda>e. is_health e \<or> is_ValueError e"
  have t: "only ?H (target_from_args env ta)" using target_args_only by (rule only_mono) simp
  have "only ?H (bindR (target_from_args env ta) (\<lambda>target. health_project (en_ssh env) target compose_file))"
    by (intro only_bind t health_project_only)
  then have "reported (main_health env ta compose_file as_json files) \<or> escapes (\<lambda>_. False) (main_health env ta compose_file as_json files)"
    unfolding main_health_def is_health_def [symmetric]
    by (intro conclude_reported [of ?H]) (auto simp: error_line_def split: if_splits)
  then show ?thesis by (simp add: escapes_def)
qed

lemma backup_contract:
  "reported (main_backup env action ta config compose_file files) \<or> escapes (let_through env) (main_backup env action ta config compose_file files)"
proof -
  let ?B = "\<lambda>e. is_backup e \<or> command_error env e"
  have t: "only ?B (target_from_args env ta)"
    using target_args_only by (rule only_mono) (simp add: command_error_def document_error_def)
  have k: "only ?B (config_from env files config)" using config_args_only by (rule only_mono) (simp add: command_error_def)
  have b: "only ?B (backup_lines env action c target compose_file)" for c target
    using backup_lines_only by (rule only_mono) (auto simp: command_error_def document_error_def)
  have "only ?B (bindR (config_from env files config) (\<lambda>c. bindR (target_from_args env ta) (\<lambda>target.
      backup_lines env action c target compose_file)))"
    by (intro only_bind k t b)
  then show ?thesis unfolding main_backup_def is_backup_def [symmetric]
    by (intro conclude_reported [of ?B]) (auto simp: error_line_def split: if_splits dest: command_cases)
qed

lemma remote_files:
  "oc_files (main_deploy env ta config compose_file files) = files"
  "oc_files (main_health env ta compose_file as_json files) = files"
  "oc_files (main_backup env action ta config compose_file files) = files"
  by (simp_all add: main_deploy_def main_health_def main_backup_def Let_def)

text \<open>An exception of the library does leave the command.\<close>

lemma library_exception_escapes:
  assumes "at_cwd env config = Inr p" and "dget files p = Some text" and "en_load env text = Inl (KeyError m)"
  shows "oc_exit (main_compose env config output files) = Inl (KeyError m)"
proof -
  have "load_project_config (en_load env) (en_dump env) (en_ip_ok env) files p = Inl (KeyError m)"
    using assms(2,3) by (simp add: load_project_config_def parse_project_config_def load_yaml_def)
  moreover have "create_handler n (KeyError m) = None" for n
    by (simp add: create_handler_def error_line_def is_FileExistsError_def)
  ultimately show ?thesis using assms(1)
    by (auto simp: main_compose_def generate_compose_def conclude_def split: sum.split)
qed

text \<open>C36. Every command, on any arguments and any answers of the world, ends with an exit status and reports: status 2 with
  exactly one error line and nothing printed to standard output, or status 0 (or 1, for an unhealthy
  project) with nothing on standard error. The only exceptions to this, as long as what writing a file raises is an \<open>OSError\<close>,
  are an exception that leaves the command with nothing printed: that of \<open>Path.cwd()\<close> in \<open>init\<close>, which is asked for outside the
  \<open>try\<close> and raises when the working directory is gone, and one of the YAML library that is neither a \<open>YAMLError\<close> nor an
  \<open>OSError\<close> or \<open>ValueError\<close>; \<open>health\<close>, which does neither, always reports. When the working directory is gone, \<open>init\<close> does not
  report. No command changes or removes a file that exists, except the upgrade the configuration it upgrades.\<close>

theorem cli_contract:
  assumes "writes_ok env"
  shows "(reported (cli_main env cmd files) \<or> escapes (uncaught env cmd) (cli_main env cmd files))
    \<and> (dget files p = None \<or> upgraded env cmd p \<or> dget (oc_files (cli_main env cmd files)) p = dget files p)
    \<and> (en_cwd env = None \<longrightarrow> (\<forall>a. oc_exit (cli_main env (Init a) files) = Inl (OSError ''No such file or directory'')))"
proof (intro conjI impI allI)
  have contract: "(reported (cli_main env cmd files) \<or> escapes (uncaught env cmd) (cli_main env cmd files))
    \<and> (dget files p = None \<or> upgraded env cmd p \<or> dget (oc_files (cli_main env cmd files)) p = dget files p)"
  proof (cases cmd)
    case (Init a)
    then show ?thesis using init_contract [OF assms, of a files p] by (auto simp: uncaught_lets)
  next
    case (ConfigUpgrade config bucket schedule)
    then show ?thesis using upgrade_contract [OF assms, of config bucket schedule files p]
      by (auto simp: upgraded_def uncaught_lets)
  next
    case (ComposeCmd config out)
    then show ?thesis using compose_contract [OF assms, of config out files p]
      by (auto simp: uncaught_lets)
  next
    case (DeployCmd ta config compose_file)
    then show ?thesis using deploy_contract [of env ta config compose_file files]
      by (simp add: uncaught_lets remote_files)
  next
    case (BackupCmd action ta config compose_file)
    then show ?thesis using backup_contract [of env action ta config compose_file files]
      by (simp add: uncaught_lets remote_files)
  qed (simp add: health_contract remote_files)
  then show "reported (cli_main env cmd files) \<or> escapes (uncaught env cmd) (cli_main env cmd files)"
    and "dget files p = None \<or> upgraded env cmd p \<or> dget (oc_files (cli_main env cmd files)) p = dget files p" by blast+
next
  fix a assume "en_cwd env = None"
  then show "oc_exit (cli_main env (Init a) files) = Inl (OSError ''No such file or directory'')"
    by (simp add: main_init_def cwd_def)
qed

definition demo_env :: environment where
  "demo_env = \<lparr>en_load = (\<lambda>t. Inr (json_loads t)), en_dump = json_encode, en_ip_ok = (\<lambda>_. False), en_cwd = Some ''/home/dev/shop'',
     en_is_file = (\<lambda>_. False), en_relative = Some, en_write_failure = Some (OSError ''No space left on device''), en_partial = '''',
     en_ssh = (\<lambda>_. None), en_ssh_ok = (\<lambda>_. True), en_stamp = ''20240102T030405Z'', en_pid = 7\<rparr>"

theorem cli_contract_witness:
  "reported (cli_main demo_env (ComposeCmd ''djangoops.yaml'' ''docker-compose.yml'') [(''/home/dev/shop/docker-compose.yml'', ''mine'')])
   \<and> dget (oc_files (cli_main demo_env (ComposeCmd ''djangoops.yaml'' ''docker-compose.yml'') [(''/home/dev/shop/docker-compose.yml'', ''mine'')]))
       ''/home/dev/shop/docker-compose.yml'' = Some ''mine''
   \<and> oc_exit (cli_main (demo_env\<lparr>en_cwd := None\<rparr>) (HealthCmd \<lparr>sa_host = ''h'', sa_user = ''u'', sa_port = 22, sa_remote_base = ''b'', sa_identity_file = None\<rparr> ''c'' False) [])
       = Inr 2"
proof -
  have w: "writes_ok demo_env" "writes_ok (demo_env\<lparr>en_cwd := None\<rparr>)" by (simp_all add: writes_ok_def demo_env_def)
  have "\<not> escapes (uncaught demo_env (ComposeCmd c d)) oc" for c d oc
    by (simp add: escapes_def uncaught_def demo_env_def)
  moreover note cli_contract [OF w(1), of "ComposeCmd ''djangoops.yaml'' ''docker-compose.yml''" "[(''/home/dev/shop/docker-compose.yml'', ''mine'')]"
      "''/home/dev/shop/docker-compose.yml''"]
  moreover have "oc_exit (cli_main (demo_env\<lparr>en_cwd := None\<rparr>) (HealthCmd \<lparr>sa_host = ''h'', sa_user = ''u'', sa_port = 22, sa_remote_base = ''b'', sa_identity_file = None\<rparr> ''c'' False) [])
       = Inr 2" by code_simp
  ultimately show ?thesis by (simp add: upgraded_def)
qed

end
