(* ===== verification/Cli_Args.thy ===== *)
theory Cli_Args
  imports Cli Tenancy
begin

text \<open>
  The argument parser of the command line (\<open>cli/djangoops/cli.py\<close>, \<open>build_parser\<close>) as data: the options of every command
  with their defaults, and the command the options given make. How \<open>argparse\<close> splits the words into
  options is its own; here the options given are a dictionary from names to texts (a flag's text is not used). \<open>None\<close> is
  \<open>argparse\<close>'s usage error: it prints the usage and exits with status 2.
\<close>

datatype option_kind = TextOption | IntOption | FlagOption

datatype arg_value = NoValue | TextValue string | IntValue int | FlagValue bool

record option_spec =
  ps_name :: string
  ps_kind :: option_kind
  ps_required :: bool
  ps_default :: arg_value

definition required :: "string \<Rightarrow> option_spec" where
  "required name = \<lparr>ps_name = name, ps_kind = TextOption, ps_required = True, ps_default = NoValue\<rparr>"

definition optional :: "string \<Rightarrow> arg_value \<Rightarrow> option_spec" where
  "optional name d = \<lparr>ps_name = name, ps_kind = TextOption, ps_required = False, ps_default = d\<rparr>"

definition ssh_target_options :: "option_spec list" where
  "ssh_target_options =
     [required ''--host'', required ''--user'',
      \<lparr>ps_name = ''--port'', ps_kind = IntOption, ps_required = False, ps_default = IntValue 22\<rparr>,
      required ''--remote-base'', optional ''--identity-file'' NoValue]"

definition config_option :: option_spec where
  "config_option = optional ''--config'' (TextValue CONFIG_FILENAME)"

definition compose_file_option :: option_spec where
  "compose_file_option = optional ''--compose-file'' (TextValue COMPOSE_FILENAME)"

definition default_schedule :: arg_value where
  "default_schedule = TextValue ''17 2 * * *''"

definition init_options :: "option_spec list" where
  "init_options =
     [optional ''--project-name'' NoValue, required ''--django-module'', required ''--hostname'', required ''--acme-email'',
      required ''--storage-endpoint-url'', optional ''--storage-region'' NoValue, required ''--static-bucket'',
      required ''--media-bucket'', required ''--backup-bucket'', optional ''--backup-schedule'' default_schedule]"

definition json_flag :: option_spec where
  "json_flag = \<lparr>ps_name = ''--json'', ps_kind = FlagOption, ps_required = False, ps_default = FlagValue False\<rparr>"

definition backup_options :: "option_spec list" where
  "backup_options = ssh_target_options @ [config_option, compose_file_option]"

definition parsers :: "(string, option_spec list) dict" where
  "parsers =
     [(''init'', init_options),
      (''config-upgrade'', [config_option, required ''--backup-bucket'', optional ''--backup-schedule'' default_schedule]),
      (''compose'', [config_option, optional ''--output'' (TextValue COMPOSE_FILENAME)]),
      (''deploy'', ssh_target_options @ [config_option, compose_file_option]),
      (''health'', ssh_target_options @ [compose_file_option, json_flag]),
      (''backup-schedule'', backup_options),
      (''backup-run'', backup_options),
      (''backup-list'', backup_options),
      (''backup-restore'', backup_options @ [required ''backup_id''])]"

section \<open>The namespace\<close>

definition option_value :: "(string, string) dict \<Rightarrow> option_spec \<Rightarrow> arg_value option" where
  "option_value given p =
     (case (dget given (ps_name p), ps_kind p) of
        (_, FlagOption) \<Rightarrow> Some (FlagValue (dget given (ps_name p) \<noteq> None))
      | (None, _) \<Rightarrow> if ps_required p then None else Some (ps_default p)
      | (Some s, TextOption) \<Rightarrow> Some (TextValue s)
      | (Some s, IntOption) \<Rightarrow> (case py_int s of Inl _ \<Rightarrow> None | Inr n \<Rightarrow> Some (IntValue n)))"

definition namespace :: "option_spec list \<Rightarrow> (string, string) dict \<Rightarrow> (string, arg_value) dict option" where
  "namespace ps given =
     (if \<not> list_all (\<lambda>k. k \<in> set (map ps_name ps)) (dkeys given) then None
      else if list_ex (\<lambda>p. option_value given p = None) ps then None
      else Some (map (\<lambda>p. (ps_name p, the (option_value given p))) ps))"

definition text_at :: "(string, arg_value) dict \<Rightarrow> string \<Rightarrow> string" where
  "text_at ns name = (case dget ns name of Some (TextValue s) \<Rightarrow> s | _ \<Rightarrow> '''')"

definition opt_text_at :: "(string, arg_value) dict \<Rightarrow> string \<Rightarrow> string option" where
  "opt_text_at ns name = (case dget ns name of Some (TextValue s) \<Rightarrow> Some s | _ \<Rightarrow> None)"

definition int_at :: "(string, arg_value) dict \<Rightarrow> string \<Rightarrow> int" where
  "int_at ns name = (case dget ns name of Some (IntValue n) \<Rightarrow> n | _ \<Rightarrow> 0)"

definition flag_at :: "(string, arg_value) dict \<Rightarrow> string \<Rightarrow> bool" where
  "flag_at ns name = (dget ns name = Some (FlagValue True))"

definition ssh_args_of :: "(string, arg_value) dict \<Rightarrow> ssh_args" where
  "ssh_args_of ns = \<lparr>sa_host = text_at ns ''--host'', sa_user = text_at ns ''--user'', sa_port = int_at ns ''--port'',
     sa_remote_base = text_at ns ''--remote-base'', sa_identity_file = opt_text_at ns ''--identity-file''\<rparr>"

definition init_args_of :: "(string, arg_value) dict \<Rightarrow> init_args" where
  "init_args_of ns =
     \<lparr>ia_project_name = opt_text_at ns ''--project-name'', ia_django_module = text_at ns ''--django-module'',
      ia_hostname = text_at ns ''--hostname'', ia_acme_email = text_at ns ''--acme-email'',
      ia_storage_endpoint_url = text_at ns ''--storage-endpoint-url'', ia_storage_region = opt_text_at ns ''--storage-region'',
      ia_static_bucket = text_at ns ''--static-bucket'', ia_media_bucket = text_at ns ''--media-bucket'',
      ia_backup_bucket = text_at ns ''--backup-bucket'', ia_backup_schedule = text_at ns ''--backup-schedule''\<rparr>"

definition backup_command :: "backup_action \<Rightarrow> (string, arg_value) dict \<Rightarrow> cli_command" where
  "backup_command action ns = BackupCmd action (ssh_args_of ns) (text_at ns ''--config'') (text_at ns ''--compose-file'')"

definition command_of :: "string \<Rightarrow> (string, arg_value) dict \<Rightarrow> cli_command option" where
  "command_of name ns =
     (if name = ''init'' then Some (Init (init_args_of ns))
      else if name = ''config-upgrade'' then Some (ConfigUpgrade (text_at ns ''--config'') (text_at ns ''--backup-bucket'') (text_at ns ''--backup-schedule''))
      else if name = ''compose'' then Some (ComposeCmd (text_at ns ''--config'') (text_at ns ''--output''))
      else if name = ''deploy'' then Some (DeployCmd (ssh_args_of ns) (text_at ns ''--config'') (text_at ns ''--compose-file''))
      else if name = ''health'' then Some (HealthCmd (ssh_args_of ns) (text_at ns ''--compose-file'') (flag_at ns ''--json''))
      else if name = ''backup-schedule'' then Some (backup_command Schedule ns)
      else if name = ''backup-run'' then Some (backup_command Run ns)
      else if name = ''backup-list'' then Some (backup_command List ns)
      else if name = ''backup-restore'' then Some (backup_command (Restore (text_at ns ''backup_id'')) ns)
      else None)"

text \<open>\<open>build_parser().parse_args(argv)\<close>\<close>

definition parse_args :: "string \<Rightarrow> (string, string) dict \<Rightarrow> cli_command option" where
  "parse_args name given =
     (case dget parsers name of None \<Rightarrow> None
      | Some ps \<Rightarrow> (case namespace ps given of None \<Rightarrow> None | Some ns \<Rightarrow> command_of name ns))"

text \<open>A command line is refused exactly when the command or one of the options is unknown, a required one is missing, or
  the port is not a number.\<close>

lemma parse_args_accepts:
  assumes "dget parsers name = Some ps"
  shows "parse_args name given \<noteq> None \<longleftrightarrow>
     set (dkeys given) \<subseteq> set (map ps_name ps) \<and> (\<forall>p \<in> set ps. option_value given p \<noteq> None)"
proof -
  have "command_of name ns \<noteq> None" for ns
    using assms by (auto simp: parsers_def command_of_def split: if_splits)
  then show ?thesis unfolding parse_args_def assms namespace_def
    by (auto simp: list_all_iff list_ex_iff split: if_splits)
qed

lemma unknown_command: "dget parsers name = None \<Longrightarrow> parse_args name given = None"
  by (simp add: parse_args_def)

lemma compose_defaults: "parse_args ''compose'' [] = Some (ComposeCmd ''djangoops.yaml'' ''docker-compose.yml'')"
  by code_simp

end
