(* ===== verification/Web.thy ===== *)
theory Web
  imports GraphQL
begin

text \<open>
  The edges of the control plane: the environment's configuration of the gateway (\<open>controlplane/config.py\<close>), the process-wide
  registry (\<open>controlplane/runtime.py\<close>, \<open>controlplane/gateway_runtime.py\<close>), the pages (\<open>controlplane/views.py\<close>) and the
  operation identifiers of the command line (\<open>cli/djangoops/telemetry.py\<close>). Login, method checks, templates and the
  routing are Django's. Public ids in a request are texts of UUIDs.
\<close>

section \<open>Configuration of the gateway\<close>

record gateway_config =
  gc_listen :: string
  gc_certificate :: string
  gc_private_key :: string
  gc_agent_tokens :: "(string, string) dict"

definition env_get :: "(string, string) dict \<Rightarrow> string \<Rightarrow> string \<Rightarrow> string" where
  "env_get env name d = (case dget env name of None \<Rightarrow> d | Some v \<Rightarrow> v)"

definition required_path :: "(string, string) dict \<Rightarrow> (string \<Rightarrow> bool) \<Rightarrow> string \<Rightarrow> string res" where
  "required_path env is_file name =
     (let value = env_get env name ''''
      in bindR (guardR (value \<noteq> []) (ValueError (name @ '' is required''))) (\<lambda>_.
         bindR (guardR (is_file value) (ValueError (name @ '' must reference an existing file''))) (\<lambda>_. Inr value)))"

fun read_tokens :: "(string \<times> json) list \<Rightarrow> (string, string) dict \<Rightarrow> (string, string) dict res" where
  "read_tokens [] tokens = Inr tokens"
| "read_tokens ((agent_id, token) # rest) tokens =
     (case token of
        JStr s \<Rightarrow> if s = [] then Inl (ValueError ''agent token entries must be non-empty strings'')
                  else read_tokens rest (dput agent_id s tokens)
      | _ \<Rightarrow> Inl (ValueError ''agent token entries must be non-empty strings''))"

text \<open>\<open>json.JSONDecodeError\<close> is a \<open>ValueError\<close>.\<close>

definition config_from_env :: "(string, string) dict \<Rightarrow> (string \<Rightarrow> bool) \<Rightarrow> gateway_config res" where
  "config_from_env env is_file =
     (let listen = env_get env ''DJANGOOPS_CONTROLPLANE_LISTEN'' ''127.0.0.1:8443''
      in bindR (required_path env is_file ''DJANGOOPS_CONTROLPLANE_TLS_CERT'') (\<lambda>certificate.
         bindR (required_path env is_file ''DJANGOOPS_CONTROLPLANE_TLS_KEY'') (\<lambda>private_key.
         let raw_tokens = env_get env ''DJANGOOPS_AGENT_TOKENS_JSON'' ''''
         in bindR (guardR (raw_tokens \<noteq> []) (ValueError ''DJANGOOPS_AGENT_TOKENS_JSON is required'')) (\<lambda>_.
            bindR (case json_loads raw_tokens of None \<Rightarrow> Inl (ValueError ''JSONDecodeError'') | Some v \<Rightarrow> Inr v) (\<lambda>parsed.
            case parsed of
              JObj kvs \<Rightarrow>
                if kvs = [] then Inl (ValueError ''agent token configuration must be a non-empty object'')
                else bindR (read_tokens kvs []) (\<lambda>tokens. Inr
                  \<lparr>gc_listen = listen, gc_certificate = certificate, gc_private_key = private_key, gc_agent_tokens = tokens\<rparr>)
            | _ \<Rightarrow> Inl (ValueError ''agent token configuration must be a non-empty object''))))))"

section \<open>The registry\<close>

definition register_gateway :: "gateway \<Rightarrow> gateway option \<Rightarrow> gateway option" where
  "register_gateway g _ = Some g"

text \<open>The property \<open>gateway\<close> of the proxy.\<close>

definition proxy_gateway :: "gateway option \<Rightarrow> gateway option" where
  "proxy_gateway rt =
     (case gateway_runtime rt of Inl e \<Rightarrow> if is_RuntimeError e then None else None | Inr g \<Rightarrow> Some g)"

section \<open>Pages\<close>

text \<open>\<open>Http404\<close> is \<open>NotFound\<close>; an exception the page does not catch is an \<open>Inl\<close>.\<close>

datatype response =
    Redirect string
  | JsonPage json
  | TextPage string
  | Forbidden
  | NotFound

record dashboard_row =
  dr_project :: project
  dr_agents :: "(agent_registration \<times> agent_state) list"
  dr_operations :: "diagnostic_operation list"
  dr_targets :: "kubernetes_target list"
  dr_releases :: "kubernetes_release_row list"
  dr_observability :: observability_summary

text \<open>\<open>mode\<close> is the query parameter; the result also tells whether demo mode is enabled and whether it is on.\<close>

definition dashboard :: "operations_backend \<Rightarrow> (diagnostic_operation list \<Rightarrow> diagnostic_operation list)
    \<Rightarrow> (kubernetes_release_row list \<Rightarrow> kubernetes_release_row list) \<Rightarrow> telemetry \<Rightarrow> bool \<Rightarrow> bool \<Rightarrow> control_db \<Rightarrow> nat \<Rightarrow> string option
    \<Rightarrow> (dashboard_row list \<times> bool \<times> bool) res" where
  "dashboard be ordr kordr tel debug web_demo db user mode =
     (let demo_enabled = debug \<and> web_demo;
          demo_mode = demo_enabled \<and> (case mode of None \<Rightarrow> True | Some m \<Rightarrow> m \<noteq> ''live'');
          projects = if demo_mode then [] else member_projects db user
      in bindR (mapR (\<lambda>p. bindR (summary_for_project be ordr kordr tel db user (int (pr_id p))) (\<lambda>summary. Inr
            \<lparr>dr_project = p,
             dr_agents = map (\<lambda>(_, a). (a, agent_state_of be a)) (project_agents db p),
             dr_operations = take 20 (ordr (filter (\<lambda>r. op_project_id r = pr_id p) (ot_rows (db_operations db)))),
             dr_targets = filter (\<lambda>r. kt_project r = pr_id p) (tt_rows (db_targets db)),
             dr_releases = take 20 (kordr (filter (\<lambda>r. kr_project r = pr_id p) (rt_rows (db_releases db)))),
             dr_observability = summary\<rparr>)) projects) (\<lambda>rows. Inr (rows, demo_enabled, demo_mode)))"

definition metrics :: "operations_backend \<Rightarrow> telemetry \<Rightarrow> control_db \<Rightarrow> bool \<Rightarrow> response" where
  "metrics be tel db is_staff = (if \<not> is_staff then Forbidden else TextPage (prometheus (prometheus_extra be db) tel))"

definition live_dashboard :: response where
  "live_dashboard = Redirect ''/?mode=live''"

text \<open>\<open>get_object_or_404(AgentRegistration, pk=agent_id, project=project)\<close>\<close>

definition agent_or_404 :: "control_db \<Rightarrow> project \<Rightarrow> int \<Rightarrow> agent_registration option" where
  "agent_or_404 db p agent_id = map_option snd (List.find (\<lambda>(n, _). int n = agent_id) (project_agents db p))"

definition start_page :: "operations_backend \<Rightarrow> (diagnostic_operation list \<Rightarrow> diagnostic_operation list) \<Rightarrow> string \<Rightarrow> int \<Rightarrow> int
    \<Rightarrow> nat \<Rightarrow> int \<Rightarrow> int \<Rightarrow> control_db \<Rightarrow> control_db \<times> response res" where
  "start_page be ordr uid now now' user project_id agent_id db =
     (case get_project db user project_id of
        Inl _ \<Rightarrow> (db, Inr NotFound)
      | Inr p \<Rightarrow>
          (case agent_or_404 db p agent_id of
             None \<Rightarrow> (db, Inr NotFound)
           | Some agent \<Rightarrow>
               (case start_diagnostic be ordr uid agent user ''django_health'' now now' (db_operations db) of
                  (t, r) \<Rightarrow> (db\<lparr>db_operations := t\<rparr>, bindR r (\<lambda>_. Inr live_dashboard)))))"

text \<open>\<open>except (DiagnosticOperation.DoesNotExist, ValueError): raise Http404\<close>. The \<open>ValidationError\<close> of an id that is no
  UUID is neither, and leaves the view.\<close>

definition not_found_or_raise :: "pyexn \<Rightarrow> response res" where
  "not_found_or_raise e = (if e = DoesNotExist ''DiagnosticOperation'' \<or> is_ValueError e then Inr NotFound else Inl e)"

definition cancel_page :: "operations_backend \<Rightarrow> nat \<Rightarrow> string \<Rightarrow> control_db \<Rightarrow> control_db \<times> response res" where
  "cancel_page be user operation_id db =
     (case scoped_operation db user operation_id of
        Inl e \<Rightarrow> (db, not_found_or_raise e)
      | Inr r \<Rightarrow>
          (case cancel_diagnostic be (op_pk r) (db_operations db) of
             (t, res) \<Rightarrow> (db\<lparr>db_operations := t\<rparr>, bindR res (\<lambda>_. Inr live_dashboard))))"

text \<open>The JSON column \<open>result_summary\<close>.\<close>

definition summary_json :: "op_summary \<Rightarrow> json" where
  "summary_json s =
     (case s of
        EmptySummary \<Rightarrow> JObj []
      | ProgressSummary phase message \<Rightarrow> JObj [(''progress'', JObj [(''phase'', JStr phase), (''message'', JStr message)])]
      | ChecksSummary cs \<Rightarrow> JObj [(''checks'', JArr (map check_fields cs))])"

definition operation_update :: "control_db \<Rightarrow> nat \<Rightarrow> string \<Rightarrow> response res" where
  "operation_update db user operation_id =
     (case scoped_operation db user operation_id of
        Inl e \<Rightarrow> not_found_or_raise e
      | Inr r \<Rightarrow> Inr (JsonPage (JObj
          [(''id'', JStr (op_public_id r)), (''status'', JStr (op_status_text (op_status r))),
           (''error_code'', opt_str (op_error_code r)), (''result'', summary_json (op_result_summary r))])))"

section \<open>Operation identifiers\<close>

definition SAFE :: rx where
  "SAFE = Cls (\<lambda>c. \<not> (is_alnum_az c \<or> c \<in> set ''._-''))"

text \<open>\<open>token\<close> is \<open>secrets.token_hex(12)\<close>.\<close>

definition operation_id :: "string \<Rightarrow> string \<Rightarrow> string" where
  "operation_id token kind =
     (let prefix = (if take 16 (re_sub SAFE ''_'' kind) = [] then ''operation'' else take 16 (re_sub SAFE ''_'' kind))
      in take 64 (prefix @ ''-'' @ token))"

section \<open>Facts\<close>

text \<open>Tokens that are accepted are never empty, so that no agent is admitted with an empty token.\<close>

lemma set_dput: "set (dput k v d) \<subseteq> insert (k, v) (set d)"
  by (induction d) (auto split: if_splits)

lemma read_tokens_nonempty:
  "read_tokens kvs tokens = Inr r \<Longrightarrow> (\<forall>(a, s) \<in> set tokens. s \<noteq> []) \<Longrightarrow> \<forall>(a, s) \<in> set r. s \<noteq> []"
proof (induction kvs tokens rule: read_tokens.induct)
  case (2 agent_id token rest tokens)
  from "2.prems"(1) obtain s where s: "token = JStr s" "s \<noteq> []" "read_tokens rest (dput agent_id s tokens) = Inr r"
    by (auto split: json.splits if_splits)
  have "\<forall>(a, s) \<in> set (dput agent_id s tokens). s \<noteq> []" using "2.prems"(2) s(2) set_dput [of agent_id s tokens] by blast
  with "2.IH" [OF s(1,2,3)] show ?case by blast
qed auto

lemma config_tokens_nonempty:
  "config_from_env env is_file = Inr c \<Longrightarrow> \<forall>(a, s) \<in> set (gc_agent_tokens c). s \<noteq> []"
proof -
  assume "config_from_env env is_file = Inr c"
  then obtain parsed cert key where p: "(case parsed of
      JObj kvs \<Rightarrow> if kvs = [] then Inl (ValueError ''agent token configuration must be a non-empty object'')
        else bindR (read_tokens kvs []) (\<lambda>tokens. Inr \<lparr>gc_listen = env_get env ''DJANGOOPS_CONTROLPLANE_LISTEN'' ''127.0.0.1:8443'',
          gc_certificate = cert, gc_private_key = key, gc_agent_tokens = tokens\<rparr>)
    | _ \<Rightarrow> Inl (ValueError ''agent token configuration must be a non-empty object'')) = Inr c"
    unfolding config_from_env_def Let_def bindR_Inr_iff by blast
  then obtain kvs where "read_tokens kvs [] = Inr (gc_agent_tokens c)" by (cases parsed) (auto simp: res_simps split: if_splits)
  from read_tokens_nonempty [OF this] show ?thesis by simp
qed

text \<open>An identifier is at most 64 characters of the pattern the telemetry accepts, for any kind.\<close>

lemma list_all_take: "list_all P xs \<Longrightarrow> list_all P (take n xs)"
  by (auto simp: list_all_iff dest: in_set_takeD)

lemma operation_id_safe:
  assumes "length token = 24" and "list_all (\<lambda>c. is_alnum_az c \<or> c \<in> set ''._-'') token"
  shows "length (operation_id token kind) \<le> 41 \<and> list_all (\<lambda>c. is_alnum_az c \<or> c \<in> set ''._-'') (operation_id token kind)"
proof -
  let ?ok = "\<lambda>c. is_alnum_az c \<or> c \<in> set ''._-''"
  have "list_all ?ok (re_sub SAFE ''_'' kind)"
    using re_sub_Cls [of "\<lambda>c. \<not> ?ok c" "''_''" kind] by (auto simp: SAFE_def list_all_iff)
  then have "list_all ?ok (take 16 (re_sub SAFE ''_'' kind))" by (rule list_all_take)
  moreover have "list_all ?ok ''operation''" by (simp add: char_class_defs)
  moreover define prefix where "prefix = (if take 16 (re_sub SAFE ''_'' kind) = [] then ''operation'' else take 16 (re_sub SAFE ''_'' kind))"
  ultimately have p: "list_all ?ok prefix" "length prefix \<le> 16" by (simp_all add: prefix_def)
  have "list_all ?ok (prefix @ ''-'' @ token)" using p(1) assms(2) by simp
  moreover have oi: "operation_id token kind = take 64 (prefix @ ''-'' @ token)" by (simp add: operation_id_def prefix_def Let_def)
  ultimately have "list_all ?ok (operation_id token kind)" unfolding oi by (intro list_all_take)
  then show ?thesis using p(2) assms(1) by (simp add: oi)
qed

text \<open>A page about an operation shows operations of the user's projects only.\<close>

lemma operation_update_scoped:
  "operation_update db user i = Inr (JsonPage v) \<Longrightarrow>
   \<exists>r \<in> set (ot_rows (db_operations db)). uuid_field i = Inr (op_public_id r) \<and> is_member db user (op_project_id r)"
  by (cases "scoped_operation db user i")
    (auto simp: operation_update_def not_found_or_raise_def split: if_splits dest: scoped_operation_member)

lemma malformed_id_escapes:
  "uuid_of i = Inl e \<Longrightarrow> operation_update db user i = Inl (ValidationError i) \<and> cancel_page be user i db = (db, Inl (ValidationError i))"
  by (simp add: operation_update_def cancel_page_def scoped_operation_def uuid_field_def not_found_or_raise_def)

end
