(* ===== verification/Schema.thy ===== *)
theory Schema
  imports Observability
begin

text \<open>
  The tables of the control plane as declarations: \<open>controlplane/models.py\<close> (the fields, constraints and choices of every
  model) and \<open>controlplane/migrations\<close> (the operations that build the tables). A field is a record with Django's
  defaults for what a declaration does not give; a reference names its model by label, as Django resolves it.
\<close>

section \<open>Fields and models\<close>

datatype on_delete = CASCADE | PROTECT

datatype field_kind =
    BigAutoField
  | SlugField nat
  | CharField nat
  | JSONField
  | DateTimeField
  | UUIDField
  | PositiveIntegerField
  | ForeignKey string on_delete string
  | ManyToManyField string string

datatype field_default = NoDefault | DefaultText string | DefaultCall string

record model_field =
  fd_name :: string
  fd_kind :: field_kind
  fd_primary_key :: bool
  fd_unique :: bool
  fd_null :: bool
  fd_blank :: bool
  fd_editable :: bool
  fd_default :: field_default
  fd_choices :: "(string \<times> string) list"
  fd_auto_now :: bool
  fd_auto_now_add :: bool

definition column :: "string \<Rightarrow> field_kind \<Rightarrow> model_field" where
  "column name kind =
     \<lparr>fd_name = name, fd_kind = kind, fd_primary_key = False, fd_unique = False, fd_null = False, fd_blank = False,
      fd_editable = True, fd_default = NoDefault, fd_choices = [], fd_auto_now = False, fd_auto_now_add = False\<rparr>"

record model_table =
  mt_name :: string
  mt_fields :: "model_field list"
  mt_ordering :: "string list"
  mt_indexes :: "(string \<times> string list) list"
  mt_constraints :: "(string \<times> string list) list"

definition fk :: "string \<Rightarrow> on_delete \<Rightarrow> string \<Rightarrow> string \<Rightarrow> model_field" where
  "fk to del rel name = column name (ForeignKey to del rel)"

text \<open>\<open>BigAutoField\<close> of the setting \<open>DEFAULT_AUTO_FIELD\<close>: a model without a primary key gets one.\<close>

definition id_field :: model_field where
  "id_field = (column ''id'' BigAutoField)\<lparr>fd_primary_key := True\<rparr>"

abbreviation user_label :: string where
  "user_label \<equiv> ''settings.AUTH_USER_MODEL''"

text \<open>The label of a model of the app, \<open>controlplane.<name in lower case>\<close>.\<close>

definition label_of :: "string \<Rightarrow> string" where
  "label_of name = ''controlplane.'' @ lower name"

section \<open>The models\<close>

definition Project_model :: model_table where
  "Project_model = \<lparr>mt_name = ''Project'', mt_fields =
     [id_field,
      (column ''slug'' (SlugField 64))\<lparr>fd_unique := True\<rparr>,
      column ''name'' (CharField 120),
      (column ''release_root'' (CharField 256))\<lparr>fd_default := DefaultText ''current''\<rparr>,
      column ''members'' (ManyToManyField user_label ''djangoops_projects'')],
     mt_ordering = [''slug''], mt_indexes = [], mt_constraints = []\<rparr>"

definition AgentRegistration_model :: model_table where
  "AgentRegistration_model = \<lparr>mt_name = ''AgentRegistration'', mt_fields =
     [id_field,
      fk (label_of ''Project'') CASCADE ''agents'' ''project'',
      (column ''agent_id'' (CharField 64))\<lparr>fd_unique := True\<rparr>,
      (column ''capabilities'' JSONField)\<lparr>fd_default := DefaultCall ''list''\<rparr>,
      (column ''last_seen_at'' DateTimeField)\<lparr>fd_null := True, fd_blank := True\<rparr>],
     mt_ordering = [''agent_id''], mt_indexes = [], mt_constraints = []\<rparr>"

definition DiagnosticOperation_choices :: "(string \<times> string) list" where
  "DiagnosticOperation_choices =
     [(''pending'', ''Pending''), (''running'', ''Running''), (''succeeded'', ''Succeeded''), (''failed'', ''Failed''),
      (''cancelled'', ''Cancelled''), (''offline'', ''Offline''), (''overloaded'', ''Overloaded''),
      (''disconnected'', ''Disconnected''), (''timeout'', ''Timeout'')]"

definition DiagnosticOperation_model :: model_table where
  "DiagnosticOperation_model = \<lparr>mt_name = ''DiagnosticOperation'', mt_fields =
     [id_field,
      (column ''public_id'' UUIDField)\<lparr>fd_default := DefaultCall ''uuid.uuid4'', fd_unique := True, fd_editable := False\<rparr>,
      fk (label_of ''Project'') CASCADE ''operations'' ''project'',
      fk (label_of ''AgentRegistration'') CASCADE ''operations'' ''agent'',
      fk user_label PROTECT ''djangoops_operations'' ''requested_by'',
      (column ''diagnostic'' (CharField 32))\<lparr>fd_default := DefaultText ''django_health''\<rparr>,
      (column ''status'' (CharField 16))\<lparr>fd_choices := DiagnosticOperation_choices, fd_default := DefaultText (op_status_text PENDING)\<rparr>,
      (column ''result_summary'' JSONField)\<lparr>fd_default := DefaultCall ''dict''\<rparr>,
      (column ''error_code'' (CharField 32))\<lparr>fd_blank := True\<rparr>,
      (column ''created_at'' DateTimeField)\<lparr>fd_auto_now_add := True\<rparr>,
      (column ''updated_at'' DateTimeField)\<lparr>fd_auto_now := True\<rparr>],
     mt_ordering = [''-created_at''], mt_indexes = [(''cp_op_project_created'', [''project'', ''-created_at''])], mt_constraints = []\<rparr>"

definition KubernetesTarget_model :: model_table where
  "KubernetesTarget_model = \<lparr>mt_name = ''KubernetesTarget'', mt_fields =
     [id_field,
      (column ''public_id'' UUIDField)\<lparr>fd_default := DefaultCall ''uuid.uuid4'', fd_unique := True, fd_editable := False\<rparr>,
      fk (label_of ''Project'') CASCADE ''kubernetes_targets'' ''project'',
      fk (label_of ''AgentRegistration'') PROTECT ''kubernetes_targets'' ''agent'',
      column ''name'' (CharField 80),
      column ''api_server'' (CharField 255),
      column ''namespace'' (CharField 63),
      column ''release_name'' (CharField 53),
      column ''credential_ref'' (CharField 128),
      (column ''ingress_class'' (CharField 63))\<lparr>fd_blank := True\<rparr>,
      (column ''tls_secret_name'' (CharField 63))\<lparr>fd_blank := True\<rparr>,
      (column ''validated_at'' DateTimeField)\<lparr>fd_null := True, fd_blank := True\<rparr>,
      (column ''validation_summary'' JSONField)\<lparr>fd_default := DefaultCall ''dict''\<rparr>,
      (column ''created_at'' DateTimeField)\<lparr>fd_auto_now_add := True\<rparr>,
      (column ''updated_at'' DateTimeField)\<lparr>fd_auto_now := True\<rparr>],
     mt_ordering = [''name''], mt_indexes = [],
     mt_constraints = [(''cp_k8s_cluster_release_unique'', [''api_server'', ''namespace'', ''release_name''])]\<rparr>"

definition KubernetesRelease_choices :: "(string \<times> string) list" where
  "KubernetesRelease_choices =
     [(''pending'', ''Pending''), (''validating'', ''Validating''), (''migrating'', ''Migrating''), (''applying'', ''Applying''),
      (''verifying'', ''Verifying''), (''succeeded'', ''Succeeded''), (''failed'', ''Failed''), (''cancelled'', ''Cancelled''),
      (''rolled_back'', ''Rolled back''), (''rollback_blocked'', ''Rollback blocked'')]"

definition KubernetesRelease_model :: model_table where
  "KubernetesRelease_model = \<lparr>mt_name = ''KubernetesRelease'', mt_fields =
     [id_field,
      (column ''public_id'' UUIDField)\<lparr>fd_default := DefaultCall ''uuid.uuid4'', fd_unique := True, fd_editable := False\<rparr>,
      fk (label_of ''Project'') CASCADE ''kubernetes_releases'' ''project'',
      fk (label_of ''KubernetesTarget'') PROTECT ''releases'' ''target'',
      fk user_label PROTECT ''djangoops_kubernetes_releases'' ''requested_by'',
      (column ''status'' (CharField 24))\<lparr>fd_choices := KubernetesRelease_choices, fd_default := DefaultText (release_status_text KPENDING)\<rparr>,
      (column ''operation_id'' (CharField 64))\<lparr>fd_unique := True\<rparr>,
      column ''image'' (CharField 255),
      column ''chart_version'' (CharField 32),
      column ''values_digest'' (CharField 64),
      (column ''values_snapshot'' JSONField)\<lparr>fd_default := DefaultCall ''dict''\<rparr>,
      (column ''helm_revision'' PositiveIntegerField)\<lparr>fd_null := True, fd_blank := True\<rparr>,
      (column ''previous_helm_revision'' PositiveIntegerField)\<lparr>fd_null := True, fd_blank := True\<rparr>,
      (column ''previous_image'' (CharField 255))\<lparr>fd_blank := True\<rparr>,
      (column ''previous_values_digest'' (CharField 64))\<lparr>fd_blank := True\<rparr>,
      (column ''migration_compatibility'' (CharField 16))\<lparr>fd_default := DefaultText ''unknown''\<rparr>,
      (column ''rollback_status'' (CharField 32))\<lparr>fd_blank := True\<rparr>,
      (column ''error_code'' (CharField 48))\<lparr>fd_blank := True\<rparr>,
      (column ''result_summary'' JSONField)\<lparr>fd_default := DefaultCall ''dict''\<rparr>,
      (column ''created_at'' DateTimeField)\<lparr>fd_auto_now_add := True\<rparr>,
      (column ''updated_at'' DateTimeField)\<lparr>fd_auto_now := True\<rparr>],
     mt_ordering = [''-created_at''], mt_indexes = [(''cp_k8s_project_created'', [''project'', ''-created_at''])], mt_constraints = []\<rparr>"

definition declared_models :: "model_table list" where
  "declared_models = [Project_model, AgentRegistration_model, DiagnosticOperation_model, KubernetesTarget_model, KubernetesRelease_model]"

end
