(* ===== verification/GraphQL_Schema.thy ===== *)
theory GraphQL_Schema
  imports GraphQL_Claims Schema
begin

text \<open>
  The GraphQL schema itself (\<open>controlplane/graphql/schema.py\<close>, the types and the two root objects, and
  \<open>controlplane/observability.py\<close>, \<open>SummaryType\<close> and \<open>install_graphql_field\<close>): the declared types as data, and for every
  field of the two roots the resolver it names, from the coerced arguments to the value it shows. What it means for a
  value to be of a type is GraphQL's own (\<open>conforms\<close>, \<open>accepts\<close>).
\<close>

section \<open>Types\<close>

text \<open>An enum lists the names clients see with the values the program uses.\<close>

datatype gql_type =
    GID
  | GString
  | GInt
  | GBoolean
  | GEnum string "(string \<times> string) list"
  | GObject string "(string \<times> gql_type) list"
  | GInput string "(string \<times> gql_type) list"
  | GList gql_type
  | GNonNull gql_type

datatype gql_field = GField (field_type: gql_type) (field_args: "(string \<times> gql_type) list")

definition int32 :: "int \<Rightarrow> bool" where
  "int32 n \<longleftrightarrow> - (2 ^ 31) \<le> n \<and> n < 2 ^ 31"

definition opt_int32 :: "int option \<Rightarrow> bool" where
  "opt_int32 v \<longleftrightarrow> (case v of None \<Rightarrow> True | Some n \<Rightarrow> int32 n)"

text \<open>A result of a type: an object has exactly the type's fields, in the type's order.\<close>

fun conforms :: "gql_type \<Rightarrow> json \<Rightarrow> bool" and conforms_fields :: "(string \<times> gql_type) list \<Rightarrow> (string \<times> json) list \<Rightarrow> bool" where
  "conforms (GNonNull t) v = (v \<noteq> JNull \<and> conforms t v)"
| "conforms GID v = (case v of JNull \<Rightarrow> True | JStr _ \<Rightarrow> True | _ \<Rightarrow> False)"
| "conforms GString v = (case v of JNull \<Rightarrow> True | JStr _ \<Rightarrow> True | _ \<Rightarrow> False)"
| "conforms GInt v = (case v of JNull \<Rightarrow> True | JInt n \<Rightarrow> int32 n | _ \<Rightarrow> False)"
| "conforms GBoolean v = (case v of JNull \<Rightarrow> True | JBool _ \<Rightarrow> True | _ \<Rightarrow> False)"
| "conforms (GEnum _ vs) v = (case v of JNull \<Rightarrow> True | JStr s \<Rightarrow> s \<in> set (map fst vs) | _ \<Rightarrow> False)"
| "conforms (GObject _ fs) v = (case v of JNull \<Rightarrow> True | JObj kvs \<Rightarrow> conforms_fields fs kvs | _ \<Rightarrow> False)"
| "conforms (GInput _ fs) v = False"
| "conforms (GList t) v = (case v of JNull \<Rightarrow> True | JArr vs \<Rightarrow> list_all (conforms t) vs | _ \<Rightarrow> False)"
| "conforms_fields [] kvs = (kvs = [])"
| "conforms_fields ((n, t) # fs) kvs = (case kvs of [] \<Rightarrow> False | (k, v) # rest \<Rightarrow> k = n \<and> conforms t v \<and> conforms_fields fs rest)"

text \<open>Coerced arguments: only declared ones, none of a required type missing or null; an enum is given by its value.\<close>

fun input_ok :: "gql_type \<Rightarrow> json \<Rightarrow> bool" and inputs_ok :: "(string \<times> gql_type) list \<Rightarrow> (string \<times> json) list \<Rightarrow> bool" where
  "input_ok (GNonNull t) v = (v \<noteq> JNull \<and> input_ok t v)"
| "input_ok GID v = (case v of JNull \<Rightarrow> True | JStr _ \<Rightarrow> True | _ \<Rightarrow> False)"
| "input_ok GString v = (case v of JNull \<Rightarrow> True | JStr _ \<Rightarrow> True | _ \<Rightarrow> False)"
| "input_ok GInt v = (case v of JNull \<Rightarrow> True | JInt n \<Rightarrow> int32 n | _ \<Rightarrow> False)"
| "input_ok GBoolean v = (case v of JNull \<Rightarrow> True | JBool _ \<Rightarrow> True | _ \<Rightarrow> False)"
| "input_ok (GEnum _ vs) v = (case v of JNull \<Rightarrow> True | JStr s \<Rightarrow> s \<in> set (map snd vs) | _ \<Rightarrow> False)"
| "input_ok (GObject _ fs) v = False"
| "input_ok (GInput _ fs) v =
     (case v of JNull \<Rightarrow> True | JObj kvs \<Rightarrow> list_all (\<lambda>kv. fst kv \<in> set (map fst fs)) kvs \<and> inputs_ok fs kvs | _ \<Rightarrow> False)"
| "input_ok (GList t) v = (case v of JNull \<Rightarrow> True | JArr vs \<Rightarrow> list_all (input_ok t) vs | _ \<Rightarrow> False)"
| "inputs_ok [] kvs = True"
| "inputs_ok ((n, t) # fs) kvs = (input_ok t (case dget kvs n of None \<Rightarrow> JNull | Some v \<Rightarrow> v) \<and> inputs_ok fs kvs)"

definition accepts :: "(string \<times> gql_type) list \<Rightarrow> (string \<times> json) list \<Rightarrow> bool" where
  "accepts decl args \<longleftrightarrow> list_all (\<lambda>kv. fst kv \<in> set (map fst decl)) args \<and> inputs_ok decl args"

section \<open>The declared types\<close>

text \<open>An enum made of the choices of a model's status.\<close>

definition enum_of :: "string \<Rightarrow> (string \<times> string) list \<Rightarrow> gql_type" where
  "enum_of n choices = GEnum n (map (\<lambda>(v, _). (upper v, v)) choices)"

definition DiagnosticStatus :: gql_type where
  "DiagnosticStatus = enum_of ''DiagnosticStatus'' DiagnosticOperation_choices"

definition DiagnosticKind :: gql_type where
  "DiagnosticKind = GEnum ''DiagnosticKind'' [(''DJANGO_HEALTH'', ''django_health'')]"

definition KubernetesReleaseStatus :: gql_type where
  "KubernetesReleaseStatus = enum_of ''KubernetesReleaseStatus'' KubernetesRelease_choices"

definition MigrationCompatibility :: gql_type where
  "MigrationCompatibility = GEnum ''MigrationCompatibility'' [(''SAFE'', ''safe''), (''UNKNOWN'', ''unknown'')]"

definition DiagnosticCheck :: gql_type where
  "DiagnosticCheck = GObject ''DiagnosticCheck''
     [(''name'', GNonNull GString), (''status'', GNonNull GString), (''detail'', GNonNull GString)]"

definition ProjectType :: gql_type where
  "ProjectType = GObject ''Project'' [(''id'', GNonNull GID), (''slug'', GNonNull GString), (''name'', GNonNull GString)]"

definition AgentType :: gql_type where
  "AgentType = GObject ''Agent''
     [(''id'', GNonNull GID), (''agentId'', GNonNull GString), (''capabilities'', GNonNull (GList (GNonNull GString))),
      (''connected'', GNonNull GBoolean), (''heartbeatAgeSeconds'', GInt), (''protocolMajor'', GInt), (''protocolMinor'', GInt)]"

definition OperationType :: gql_type where
  "OperationType = GObject ''DiagnosticOperation''
     [(''id'', GNonNull GID), (''diagnostic'', GNonNull DiagnosticKind), (''status'', GNonNull DiagnosticStatus),
      (''errorCode'', GString), (''checks'', GNonNull (GList (GNonNull DiagnosticCheck))), (''createdAt'', GNonNull GString)]"

definition KubernetesTargetType :: gql_type where
  "KubernetesTargetType = GObject ''KubernetesTarget''
     [(''id'', GNonNull GID), (''name'', GNonNull GString), (''apiServer'', GNonNull GString), (''namespace'', GNonNull GString),
      (''releaseName'', GNonNull GString), (''ingressClass'', GString), (''tlsSecretName'', GString), (''validatedAt'', GString)]"

definition KubernetesReleaseType :: gql_type where
  "KubernetesReleaseType = GObject ''KubernetesRelease''
     [(''id'', GNonNull GID), (''status'', GNonNull KubernetesReleaseStatus), (''image'', GNonNull GString),
      (''chartVersion'', GNonNull GString), (''valuesDigest'', GNonNull GString), (''helmRevision'', GInt),
      (''previousHelmRevision'', GInt), (''rollbackStatus'', GString), (''errorCode'', GString), (''createdAt'', GNonNull GString)]"

definition ApiErrorType :: gql_type where
  "ApiErrorType = GObject ''ApiError'' [(''code'', GNonNull GString), (''message'', GNonNull GString)]"

definition DiagnosticMutationPayload :: gql_type where
  "DiagnosticMutationPayload = GObject ''DiagnosticMutationPayload'' [(''operation'', OperationType), (''error'', ApiErrorType)]"

definition KubernetesTargetMutationPayload :: gql_type where
  "KubernetesTargetMutationPayload = GObject ''KubernetesTargetMutationPayload'' [(''target'', KubernetesTargetType), (''error'', ApiErrorType)]"

definition KubernetesReleaseMutationPayload :: gql_type where
  "KubernetesReleaseMutationPayload = GObject ''KubernetesReleaseMutationPayload'' [(''release'', KubernetesReleaseType), (''error'', ApiErrorType)]"

definition release_values_input :: "(string \<times> gql_type) list" where
  "release_values_input =
     [(''webReplicas'', GInt), (''environmentSecretName'', GString), (''migrationCompatibility'', MigrationCompatibility),
      (''celeryWorkerEnabled'', GBoolean), (''celeryBeatEnabled'', GBoolean), (''ingressHost'', GString),
      (''ingressClass'', GString), (''tlsSecretName'', GString)]"

section \<open>The roots\<close>

abbreviation project_arg :: "string \<times> gql_type" where
  "project_arg \<equiv> (''projectId'', GNonNull GID)"

definition Query_fields :: "(string \<times> gql_field) list" where
  "Query_fields =
     [(''projects'', GField (GNonNull (GList (GNonNull ProjectType))) []),
      (''agents'', GField (GNonNull (GList (GNonNull AgentType))) [project_arg]),
      (''diagnosticOperations'', GField (GNonNull (GList (GNonNull OperationType))) [project_arg, (''first'', GInt)]),
      (''diagnosticOperation'', GField OperationType [(''id'', GNonNull GID)]),
      (''kubernetesTargets'', GField (GNonNull (GList (GNonNull KubernetesTargetType))) [project_arg]),
      (''kubernetesReleases'', GField (GNonNull (GList (GNonNull KubernetesReleaseType))) [project_arg, (''first'', GInt)])]"

text \<open>\<open>input\<close> are the fields of \<open>KubernetesReleaseValuesInput\<close>, which \<open>install_graphql_field\<close> extends in place.\<close>

definition Mutation_fields :: "(string \<times> gql_type) list \<Rightarrow> (string \<times> gql_field) list" where
  "Mutation_fields inputs =
     [(''startDiagnostic'', GField (GNonNull DiagnosticMutationPayload)
        [project_arg, (''agentId'', GNonNull GID), (''diagnostic'', GNonNull DiagnosticKind)]),
      (''cancelDiagnostic'', GField (GNonNull DiagnosticMutationPayload) [(''operationId'', GNonNull GID)]),
      (''registerKubernetesTarget'', GField (GNonNull KubernetesTargetMutationPayload)
        [project_arg, (''agentId'', GNonNull GID), (''name'', GNonNull GString), (''apiServer'', GNonNull GString),
         (''namespace'', GNonNull GString), (''releaseName'', GNonNull GString), (''credentialRef'', GNonNull GString),
         (''ingressClass'', GString), (''tlsSecretName'', GString)]),
      (''startKubernetesRelease'', GField (GNonNull KubernetesReleaseMutationPayload)
        [(''targetId'', GNonNull GID), (''image'', GNonNull GString), (''values'', GNonNull (GInput ''KubernetesReleaseValuesInput'' inputs))]),
      (''cancelKubernetesRelease'', GField (GNonNull KubernetesReleaseMutationPayload) [(''releaseId'', GNonNull GID)])]"

section \<open>Installation\<close>

definition SummaryType :: gql_type where
  "SummaryType = GObject ''ObservabilitySummary''
     [(''totalAgents'', GNonNull GInt), (''connectedAgents'', GNonNull GInt), (''recentOperations'', GNonNull GInt),
      (''recentReleases'', GNonNull GInt), (''recentFailures'', GNonNull GInt), (''otlpConfigured'', GNonNull GBoolean),
      (''telemetryStatus'', GNonNull GString)]"

definition summary_fields :: "observability_summary \<Rightarrow> (string \<times> json) list" where
  "summary_fields s =
     [(''totalAgents'', JInt (int (os_total_agents s))), (''connectedAgents'', JInt (int (os_connected_agents s))),
      (''recentOperations'', JInt (int (os_recent_operations s))), (''recentReleases'', JInt (int (os_recent_releases s))),
      (''recentFailures'', JInt (int (os_recent_failures s))), (''otlpConfigured'', JBool (os_otlp_configured s)),
      (''telemetryStatus'', JStr (os_telemetry_status s))]"

text \<open>What the process keeps: the roots' fields, the input type's fields, the function that reads release values, the
  connected signal handlers, and the two flags \<open>_graphql_installed\<close> and \<open>_installed\<close>.\<close>

record schema_module =
  sm_query :: "(string \<times> gql_field) list"
  sm_input :: "(string \<times> gql_type) list"
  sm_release_values :: "(string \<times> json) list \<Rightarrow> (string \<times> json) list res"
  sm_receivers :: "(string \<times> string) list"
  sm_graphql_installed :: bool
  sm_signals_installed :: bool

definition schema_imported :: schema_module where
  "schema_imported =
     \<lparr>sm_query = Query_fields, sm_input = release_values_input, sm_release_values = (\<lambda>raw. Inr (release_values raw)),
      sm_receivers = [], sm_graphql_installed = False, sm_signals_installed = False\<rparr>"

definition set_default :: "string \<Rightarrow> 'v \<Rightarrow> (string \<times> 'v) list \<Rightarrow> (string \<times> 'v) list" where
  "set_default k v d = (case dget d k of None \<Rightarrow> dput k v d | Some _ \<Rightarrow> d)"

definition install_graphql_field :: "(string \<Rightarrow> bool) \<Rightarrow> schema_module \<Rightarrow> schema_module" where
  "install_graphql_field ip_ok m =
     (if sm_graphql_installed m then m
      else m\<lparr>sm_query := set_default ''observabilitySummary'' (GField (GNonNull SummaryType) [project_arg]) (sm_query m),
             sm_input := set_default ''otelServiceNamespace'' GString (set_default ''otlpEndpoint'' GString
               (set_default ''observabilityEnabled'' GBoolean (sm_input m))),
             sm_release_values := (\<lambda>raw. bindR (sm_release_values m raw) (observed_release_values ip_ok raw)),
             sm_graphql_installed := True\<rparr>)"

definition install_signals :: "schema_module \<Rightarrow> schema_module" where
  "install_signals m =
     (if sm_signals_installed m then m
      else m\<lparr>sm_receivers := sm_receivers m @ [(''_diagnostic_saved'', ''DiagnosticOperation''), (''_release_saved'', ''KubernetesRelease'')],
             sm_signals_installed := True\<rparr>)"

text \<open>\<open>ControlPlaneConfig.ready\<close>, as far as the schema and the signals go.\<close>

definition app_ready :: "(string \<Rightarrow> bool) \<Rightarrow> schema_module \<Rightarrow> schema_module" where
  "app_ready ip_ok m = install_graphql_field ip_ok (install_signals m)"

section \<open>The resolvers of the roots\<close>

text \<open>What a request sees beside the database: the services' environment, the telemetry, the projects' names, the
  public ids of targets and releases, and \<open>isoformat\<close>.\<close>

record schema_env = environment +
  se_telemetry :: telemetry
  se_name :: "nat \<Rightarrow> string"
  se_isof :: "int \<Rightarrow> string"
  se_target_id :: "nat \<Rightarrow> string"
  se_release_id :: "nat \<Rightarrow> string"

definition str_arg :: "(string \<times> json) list \<Rightarrow> string \<Rightarrow> string" where
  "str_arg args n = (case dget args n of Some (JStr s) \<Rightarrow> s | _ \<Rightarrow> [])"

text \<open>\<open>first: int = 20\<close> and \<open>min(first, 50)\<close>: an explicit null is not the default.\<close>

definition first_arg :: "(string \<times> json) list \<Rightarrow> int res" where
  "first_arg args = (case dget args ''first'' of None \<Rightarrow> Inr 20 | Some (JInt n) \<Rightarrow> Inr n
     | Some _ \<Rightarrow> Inl (TypeError ''not supported between instances of int and NoneType''))"

definition show_all :: "('a \<Rightarrow> (string \<times> json) list) \<Rightarrow> 'a list \<Rightarrow> json" where
  "show_all f xs = JArr (map (\<lambda>x. JObj (f x)) xs)"

definition resolve_query :: "schema_env \<Rightarrow> control_db \<Rightarrow> nat \<Rightarrow> string \<Rightarrow> (string \<times> json) list \<Rightarrow> json res" where
  "resolve_query ev db user field args =
     (let project_id = str_arg args ''projectId'' in
      if field = ''projects'' then Inr (show_all (project_fields (se_name ev)) (query_projects db user))
      else if field = ''agents'' then bindR (query_agents db user project_id) (\<lambda>xs. Inr (show_all (agent_fields (ev_operations ev)) xs))
      else if field = ''diagnosticOperations'' then
        bindR (scoped_project db user project_id) (\<lambda>_. bindR (first_arg args) (\<lambda>n.
        bindR (query_operations (ev_ordr ev) db user project_id n) (\<lambda>xs. Inr (show_all (operation_fields (se_isof ev)) xs))))
      else if field = ''diagnosticOperation'' then
        bindR (scoped_operation db user (str_arg args ''id'')) (\<lambda>r. Inr (JObj (operation_fields (se_isof ev) r)))
      else if field = ''kubernetesTargets'' then
        bindR (query_targets db user project_id) (\<lambda>xs. Inr (show_all (\<lambda>r. target_fields (se_isof ev) (se_target_id ev (kt_pk r)) r) xs))
      else if field = ''kubernetesReleases'' then
        bindR (scoped_project db user project_id) (\<lambda>_. bindR (first_arg args) (\<lambda>n.
        bindR (query_releases (ev_kordr ev) db user project_id n) (\<lambda>xs.
          Inr (show_all (\<lambda>r. release_fields (se_isof ev) (se_release_id ev (kr_pk r)) r) xs))))
      else if field = ''observabilitySummary'' then
        bindR (py_int project_id) (\<lambda>pk.
        bindR (summary_for_project (ev_operations ev) (ev_ordr ev) (ev_kordr ev) (se_telemetry ev) db user pk) (\<lambda>s. Inr (JObj (summary_fields s))))
      else Inl (GraphQLError ''Cannot query field''))"

text \<open>The dictionary a mutation returns; the row of a primary key is read from the table the mutation leaves.\<close>

definition payload_json :: "string \<Rightarrow> ('a \<Rightarrow> json) \<Rightarrow> 'a payload \<Rightarrow> json" where
  "payload_json key f p =
     (case p of
        Done x \<Rightarrow> JObj [(key, f x), (''error'', JNull)]
      | ApiError c m \<Rightarrow> JObj [(key, JNull), (''error'', JObj [(''code'', JStr c), (''message'', JStr m)])])"

definition row_json :: "('a \<Rightarrow> (string \<times> json) list) \<Rightarrow> 'a option \<Rightarrow> json" where
  "row_json f r = (case r of None \<Rightarrow> JNull | Some x \<Rightarrow> JObj (f x))"

definition answered :: "string \<Rightarrow> (control_db \<Rightarrow> 'a \<Rightarrow> json) \<Rightarrow> control_db \<times> 'a payload res \<Rightarrow> control_db \<times> json res" where
  "answered key f r = (fst r, bindR (snd r) (\<lambda>p. Inr (payload_json key (f (fst r)) p)))"

definition target_args_of :: "(string \<times> json) list \<Rightarrow> target_args" where
  "target_args_of args =
     \<lparr>ta_project_id = str_arg args ''projectId'', ta_agent_id = str_arg args ''agentId'', ta_name = str_arg args ''name'',
      ta_api_server = str_arg args ''apiServer'', ta_namespace = str_arg args ''namespace'', ta_release_name = str_arg args ''releaseName'',
      ta_credential_ref = str_arg args ''credentialRef'',
      ta_ingress_class = (case dget args ''ingressClass'' of Some (JStr s) \<Rightarrow> Some s | _ \<Rightarrow> None),
      ta_tls_secret_name = (case dget args ''tlsSecretName'' of Some (JStr s) \<Rightarrow> Some s | _ \<Rightarrow> None)\<rparr>"

definition resolve_mutation :: "schema_env \<Rightarrow> nat \<Rightarrow> string \<Rightarrow> (string \<times> json) list \<Rightarrow> control_db \<Rightarrow> control_db \<times> json res" where
  "resolve_mutation ev user field args db =
     (let operation = (\<lambda>r. JObj (operation_fields (se_isof ev) r));
          release = (\<lambda>r. JObj (release_fields (se_isof ev) (se_release_id ev (kr_pk r)) r)) in
      if field = ''startDiagnostic'' then
        answered ''operation'' (\<lambda>d pk. row_json (operation_fields (se_isof ev)) (op_find (db_operations d) pk))
          (resolve_start (ev_operations ev) (ev_ordr ev) (ev_uid ev) (ev_now ev) (ev_later ev) user
            (str_arg args ''projectId'') (str_arg args ''agentId'') (str_arg args ''diagnostic'') db)
      else if field = ''cancelDiagnostic'' then
        answered ''operation'' (\<lambda>_. operation) (resolve_cancel (ev_operations ev) user (str_arg args ''operationId'') db)
      else if field = ''registerKubernetesTarget'' then
        answered ''target'' (\<lambda>d pk. row_json (\<lambda>r. target_fields (se_isof ev) (se_target_id ev (kt_pk r)) r)
            (List.find (\<lambda>r. kt_pk r = pk) (tt_rows (db_targets d))))
          (resolve_register (ev_kubernetes ev) (ev_ip_ok ev) (ev_now ev) user (target_args_of args) db)
      else if field = ''startKubernetesRelease'' then
        answered ''release'' (\<lambda>d pk. row_json (\<lambda>r. release_fields (se_isof ev) (se_release_id ev (kr_pk r)) r) (rel_find (db_releases d) pk))
          (resolve_start_release (ev_ip_ok ev) (ev_fresh ev) (ev_kubernetes ev) (ev_sha ev) (ev_kordr ev) (ev_uid ev) (ev_now ev)
            user (str_arg args ''targetId'') (str_arg args ''image'')
            (case dget args ''values'' of Some (JObj raw) \<Rightarrow> raw | _ \<Rightarrow> []) db)
      else if field = ''cancelKubernetesRelease'' then
        answered ''release'' (\<lambda>_. release) (resolve_cancel_release (ev_kubernetes ev) user (str_arg args ''releaseId'') db)
      else (db, Inl (GraphQLError ''Cannot query field'')))"

end
