(* ===== verification/GraphQL_Types.thy ===== *)
theory GraphQL_Types
  imports GraphQL_Schema
begin

text \<open>
  Soundness of the GraphQL types: what the resolvers of the theory \<open>GraphQL_Schema\<close> return is of the type their field
  declares, in every database the mutations can leave; and installing the observability twice changes nothing.
\<close>

section \<open>Objects\<close>

lemma conforms_scalars [simp]:
  "conforms (GNonNull GID) (JStr s)" "conforms (GNonNull GString) (JStr s)" "conforms (GNonNull GBoolean) (JBool b)"
  "conforms (GNonNull GInt) (JInt n) = int32 n" "conforms GString (JStr s)"
  "conforms GString JNull" "conforms GInt JNull" "conforms (GObject name fs) JNull"
  by simp_all

lemma conforms_opt [simp]:
  "conforms GString (opt_str s)" "conforms GInt (opt_int v) = opt_int32 v"
  by (simp_all add: opt_str_def opt_int_def opt_int32_def split: option.splits)

lemma conforms_list [simp]: "conforms (GNonNull (GList (GNonNull t))) (JArr vs) = list_all (\<lambda>v. v \<noteq> JNull \<and> conforms t v) vs"
  by (induction vs) simp_all

lemma conforms_show_all [simp]:
  "conforms (GNonNull (GList (GNonNull t))) (show_all f xs) = list_all (\<lambda>x. conforms t (JObj (f x))) xs"
  by (induction xs) (simp_all add: show_all_def)

lemma conforms_object [simp]: "conforms (GObject n fs) (JObj kvs) = conforms_fields fs kvs"
  by simp

lemma enum_declared: "v \<in> set (map fst choices) \<Longrightarrow> conforms (GNonNull (enum_of n choices)) (JStr (upper v))"
  by (force simp: enum_of_def)

lemma op_status_choice: "op_status_text s \<in> set (map fst DiagnosticOperation_choices)"
  by (cases s) (simp_all add: op_status_text_def DiagnosticOperation_choices_def)

lemma release_status_choice: "release_status_text s \<in> set (map fst KubernetesRelease_choices)"
  by (cases s) (simp_all add: release_status_text_def KubernetesRelease_choices_def)

lemma op_status_declared: "conforms (GNonNull DiagnosticStatus) (JStr (upper (op_status_text s)))"
  unfolding DiagnosticStatus_def by (rule enum_declared [OF op_status_choice])

lemma release_status_declared: "conforms (GNonNull KubernetesReleaseStatus) (JStr (upper (release_status_text s)))"
  unfolding KubernetesReleaseStatus_def by (rule enum_declared [OF release_status_choice])

declare conforms.simps [simp del]

lemma kind_declared: "conforms (GNonNull DiagnosticKind) (JStr (upper ''django_health''))"
  by code_simp

lemma project_conforms: "conforms ProjectType (JObj (project_fields name p))"
  by (simp add: ProjectType_def project_fields_def)

definition agents_typed :: "operations_backend \<Rightarrow> bool" where
  "agents_typed be \<longleftrightarrow> (\<forall>a. opt_int32 (be_heartbeat_age be a) \<and> int32 (fst (be_protocol_version be a)) \<and> int32 (snd (be_protocol_version be a)))"

lemma agent_conforms:
  assumes "agents_typed be"
  shows "conforms AgentType (JObj (agent_fields be a))"
proof -
  have "opt_int32 (st_heartbeat_age (agent_state_of be r)) \<and> opt_int32 (st_protocol_major (agent_state_of be r))
      \<and> opt_int32 (st_protocol_minor (agent_state_of be r))" for r
    using assms by (auto simp: agents_typed_def agent_state_of_def opt_int32_def)
  then show ?thesis
    by (simp add: AgentType_def agent_fields_def Let_def list_all_iff conforms.simps(3))
qed

lemma operation_conforms:
  assumes "op_diagnostic r = ''django_health''"
  shows "conforms OperationType (JObj (operation_fields isof r))"
proof -
  have "conforms DiagnosticCheck (check_fields c) \<and> check_fields c \<noteq> JNull" for c
    by (simp add: DiagnosticCheck_def check_fields_def)
  then have "conforms (GNonNull (GList (GNonNull DiagnosticCheck))) (JArr (map check_fields cs))" for cs
    by (simp add: list_all_iff)
  then show ?thesis
    using op_status_declared kind_declared assms
    by (simp add: OperationType_def operation_fields_def)
qed

lemma target_conforms: "conforms KubernetesTargetType (JObj (target_fields isof i r))"
  by (simp add: KubernetesTargetType_def target_fields_def split: option.splits)

lemma release_conforms:
  assumes "opt_int32 (kr_helm_revision r)" and "opt_int32 (kr_previous_helm_revision r)"
  shows "conforms KubernetesReleaseType (JObj (release_fields isof i r))"
  using assms release_status_declared
  by (simp add: KubernetesReleaseType_def release_fields_def)

section \<open>Databases\<close>

definition release_typed :: "kubernetes_release_row \<Rightarrow> bool" where
  "release_typed r \<longleftrightarrow> opt_int32 (kr_helm_revision r) \<and> opt_int32 (kr_previous_helm_revision r)"

definition db_typed :: "control_db \<Rightarrow> bool" where
  "db_typed db \<longleftrightarrow> (\<forall>r \<in> set (ot_rows (db_operations db)). op_diagnostic r = ''django_health'')
     \<and> (\<forall>r \<in> set (rt_rows (db_releases db)). release_typed r)"

definition cluster_typed :: "kubernetes_backend \<Rightarrow> bool" where
  "cluster_typed kb \<longleftrightarrow> (\<forall>t q k. kb_start kb t q = Inr k \<longrightarrow> opt_int32 (ks_helm_revision k) \<and> opt_int32 (ks_previous_revision k))"

lemma set_op_update: "(\<And>r. op_diagnostic (f r) = op_diagnostic r) \<Longrightarrow> \<forall>r \<in> set (ot_rows t). op_diagnostic r = d \<Longrightarrow>
    \<forall>r \<in> set (ot_rows (op_update pk p f t)). op_diagnostic r = d"
  by (auto simp: op_update_def)

lemma start_kinds:
  assumes "\<forall>r \<in> set (ot_rows t). op_diagnostic r = ''django_health''"
  shows "\<forall>r \<in> set (ot_rows (fst (start_diagnostic be ordr uid agent user d now now' t))). op_diagnostic r = ''django_health''"
proof (cases "d = ''django_health''")
  case True
  let ?t = "op_create uid agent user d now t"
  have new: "\<forall>r \<in> set (ot_rows ?t). op_diagnostic r = ''django_health''"
    using assms True by (auto simp: op_create_def new_operation_def)
  then have saved: "\<forall>r \<in> set (ot_rows (op_save pk s c now' ?t)). op_diagnostic r = ''django_health''" for pk s c
    unfolding op_save_def by (intro set_op_update) simp_all
  have trimmed: "\<forall>r \<in> set (ot_rows (trim_history ordr p u)). op_diagnostic r = ''django_health''"
    if "\<forall>r \<in> set (ot_rows u). op_diagnostic r = ''django_health''" for p u
    using that by (simp add: trim_history_def)
  show ?thesis
    using new trimmed [OF new] trimmed [OF saved]
    by (auto simp: start_diagnostic_def True Let_def split: sum.splits option.splits)
qed (use assms in \<open>simp add: start_diagnostic_def\<close>)

lemma op_find_mem: "op_find t pk = Some r \<Longrightarrow> r \<in> set (ot_rows t)"
  by (auto simp: op_find_def find_Some_iff)

lemma rel_find_mem: "rel_find t pk = Some r \<Longrightarrow> r \<in> set (rt_rows t)"
  by (auto simp: rel_find_def find_Some_iff)

lemma cancel_kinds:
  assumes "\<forall>r \<in> set (ot_rows t). op_diagnostic r = ''django_health''" and "cancel_diagnostic be pk t = (t', x)"
  shows "(\<forall>r \<in> set (ot_rows t'). op_diagnostic r = ''django_health'') \<and> (\<forall>r. x = Inr r \<longrightarrow> op_diagnostic r = ''django_health'')"
proof -
  have saved: "\<forall>r \<in> set (ot_rows (save_error pk s c t)). op_diagnostic r = ''django_health''" for s c
    unfolding save_error_def by (intro set_op_update) (simp_all add: assms(1))
  with assms show ?thesis
    by (auto simp: cancel_diagnostic_def Let_def split: option.splits sum.splits if_splits dest!: op_find_mem)
qed

lemma update_typed:
  "(\<And>r. release_typed r \<Longrightarrow> release_typed (f r)) \<Longrightarrow> \<forall>r \<in> set (rt_rows t). release_typed r \<Longrightarrow>
   \<forall>r \<in> set (rt_rows (rel_update pk p f t)). release_typed r"
  by (auto simp: rel_update_def)

lemma open_all:
  assumes "newest_releases ordr" and all: "\<forall>r \<in> set (rt_rows t). P r"
    and "open_release ordr target user uid img chart digest vs compatibility now t = (t1, release, d)"
    and new: "\<And>previous. (\<And>q. previous = Some q \<Longrightarrow> P q) \<Longrightarrow>
      P (new_release (rt_next t) target user uid img chart digest vs compatibility previous now)"
    and again: "\<And>r. P r \<Longrightarrow> P (r\<lparr>kr_status := KVALIDATING, kr_error_code := []\<rparr>)"
  shows "(\<forall>r \<in> set (rt_rows t1). P r) \<and> P release"
proof -
  have first: "P q" if "first_row ordr p t = Some q" for p q
    using first_row_mem [OF assms(1) that] all by simp
  have upd: "\<forall>r \<in> set (rt_rows (rel_update pk q (\<lambda>r. r\<lparr>kr_status := KVALIDATING, kr_error_code := []\<rparr>) t)). P r" for pk q
    using again all by (auto simp: rel_update_def)
  show ?thesis
  proof (cases "first_row ordr (\<lambda>r. same_release (kt_pk target) img chart digest r \<and> rel_live r) t")
    case None
    let ?prev = "first_row ordr (\<lambda>r. kr_target r = kt_pk target \<and> kr_status r = KSUCCEEDED) t"
    let ?new = "new_release (rt_next t) target user uid img chart digest vs compatibility ?prev now"
    have "P ?new" using new first by blast
    moreover have "rt_rows t1 = rt_rows t @ [?new]" "release = ?new"
      using assms(3) None by (auto simp: open_release_def Let_def)
    ultimately show ?thesis using all by simp
  next
    case (Some q)
    with first [OF Some] assms(3) all upd again show ?thesis
      by (auto simp: open_release_def split: if_splits)
  qed
qed

lemma open_typed:
  assumes "newest_releases ordr" and "\<forall>r \<in> set (rt_rows t). release_typed r"
    and "open_release ordr target user uid img chart digest vs compatibility now t = (t1, release, d)"
  shows "(\<forall>r \<in> set (rt_rows t1). release_typed r) \<and> release_typed release"
proof (rule open_all [OF assms])
  show "release_typed (new_release (rt_next t) target user uid img chart digest vs compatibility previous now)"
    if "\<And>q. previous = Some q \<Longrightarrow> release_typed q" for previous
    using that by (cases previous) (simp_all add: release_typed_def new_release_def opt_int32_def)
qed (simp add: release_typed_def)

lemma settle_typed:
  assumes "\<And>k. result = Inr k \<Longrightarrow> opt_int32 (ks_helm_revision k) \<and> opt_int32 (ks_previous_revision k)"
    and "release_typed release" and "\<forall>r \<in> set (rt_rows t). release_typed r" and "settle_release release result t = Inr t'"
  shows "\<forall>r \<in> set (rt_rows t'). release_typed r"
proof (cases result)
  case (Inl e)
  then have "t' = rel_update (kr_pk release) rel_active (\<lambda>r. r\<lparr>kr_status := KFAILED, kr_error_code := ''AGENT_UNAVAILABLE''\<rparr>) t"
    using assms(4) by (simp add: settle_release_def split: if_splits)
  moreover have "\<forall>r \<in> set (rt_rows \<dots>). release_typed r"
    by (rule update_typed) (use assms(3) in \<open>simp_all add: release_typed_def\<close>)
  ultimately show ?thesis by simp
next
  case (Inr k)
  from assms(1) [OF Inr] assms(2) have "opt_int32 (ks_helm_revision k)"
    "opt_int32 (case ks_previous_revision k of None \<Rightarrow> kr_previous_helm_revision release
       | Some n \<Rightarrow> if n = 0 then kr_previous_helm_revision release else Some n)"
    by (auto simp: release_typed_def split: option.splits)
  with assms(3,4) Inr show ?thesis
    by (auto simp: settle_release_def release_typed_def rel_update_def)
qed

lemma run_typed:
  assumes "newest_releases ordr" and "cluster_typed kb" and "\<forall>r \<in> set (rt_rows t). release_typed r"
    and "run_release kb ordr target user uid inputs chart now t = (t', x)"
  shows "\<forall>r \<in> set (rt_rows t'). release_typed r"
proof (cases inputs)
  case (Inr i)
  obtain clean img digest compatibility where i: "i = (clean, img, digest, compatibility)" by (cases i)
  obtain t1 release d where opened: "open_release ordr target user uid img chart digest clean compatibility now t = (t1, release, d)"
    using prod_cases3 by blast
  note typed = open_typed [OF assms(1,3) opened]
  have "opt_int32 (ks_helm_revision k) \<and> opt_int32 (ks_previous_revision k)" if "kb_start kb target q = Inr k" for q k
    using assms(2) that unfolding cluster_typed_def by blast
  note settled = settle_typed [OF this typed [THEN conjunct2] typed [THEN conjunct1]]
  show ?thesis
    using assms(4) typed settled by (auto simp: run_release_def Inr i opened split: sum.splits if_splits)
qed (use assms(3,4) in \<open>simp add: run_release_def\<close>)

lemma cancel_release_typed:
  assumes "\<forall>r \<in> set (rt_rows t). release_typed r" and "cancel_release kb pk t = (t', x)"
  shows "(\<forall>r \<in> set (rt_rows t'). release_typed r) \<and> (\<forall>r. x = Inr r \<longrightarrow> release_typed r)"
proof -
  have saved: "\<forall>r \<in> set (rt_rows (settle_cancel pk accepted t)). release_typed r" for accepted
    unfolding settle_cancel_def by (rule update_typed) (use assms(1) in \<open>simp_all add: release_typed_def\<close>)
  with assms show ?thesis
    by (auto simp: cancel_release_def Let_def split: option.splits sum.splits if_splits dest!: rel_find_mem)
qed

section \<open>Roots\<close>

definition query_failure :: "(string \<times> json) list \<Rightarrow> pyexn \<Rightarrow> bool" where
  "query_failure args e \<longleftrightarrow> is_ValueError e \<or> (\<exists>c. e = DoesNotExist c)
     \<or> e = ValidationError (str_arg args ''id'') \<and> \<not> isOk (uuid_of (str_arg args ''id''))
     \<or> (\<exists>m. e = TypeError m) \<and> dget args ''first'' = Some JNull"

lemma py_int_failure: "py_int s = Inl e \<Longrightarrow> is_ValueError e"
  by (auto simp: py_int_def Let_def split: option.splits prod.splits)

lemma get_project_failure: "get_project db user pk = Inl e \<Longrightarrow> \<exists>c. e = DoesNotExist c"
  by (auto simp: get_project_def split: option.splits)

lemma scoped_project_failure: "scoped_project db user i = Inl e \<Longrightarrow> query_failure args e"
  by (auto simp: scoped_project_def res_simps query_failure_def dest: py_int_failure get_project_failure)

lemma first_failure:
  assumes "input_ok GInt (case dget args ''first'' of None \<Rightarrow> JNull | Some v \<Rightarrow> v)" and "first_arg args = Inl e"
  shows "query_failure args e"
  using assms by (auto simp: first_arg_def query_failure_def split: option.splits json.splits)

lemma queried_rows:
  assumes "newest_first ordr" and "newest_releases kordr"
  shows "query_operations ordr db user i n = Inr ops \<Longrightarrow> set ops \<subseteq> set (ot_rows (db_operations db))"
    and "query_releases kordr db user i n = Inr rels \<Longrightarrow> set rels \<subseteq> set (rt_rows (db_releases db))"
proof -
  have "set (ordr rs) = set rs" for rs using assms(1) unfolding newest_first_def by (intro mset_eq_setD) blast
  moreover have "set (kordr rs) = set rs" for rs using assms(2) unfolding newest_releases_def by (intro mset_eq_setD) blast
  ultimately show "query_operations ordr db user i n = Inr ops \<Longrightarrow> set ops \<subseteq> set (ot_rows (db_operations db))"
    "query_releases kordr db user i n = Inr rels \<Longrightarrow> set rels \<subseteq> set (rt_rows (db_releases db))"
    by (auto simp: query_operations_def query_releases_def res_simps dest!: in_set_takeD)
qed

lemma filter_take_le: "length (filter P (take n xs)) \<le> n"
  by (rule order_trans [OF length_filter_le]) simp

lemma filters_take_le: "length (filter P (take 50 xs)) + length (filter Q (take 50 ys)) \<le> 100"
  using filter_take_le [of P 50 xs] filter_take_le [of Q 50 ys] by linarith

lemma summary_typed:
  assumes "length (db_agents db) < 2 ^ 31" and "summary_for_project be ordr kordr t db user pk = Inr s"
  shows "conforms SummaryType (JObj (summary_fields s))"
proof -
  have agents: "length (project_agents db p) < 2 ^ 31" for p
    using assms(1) length_filter_le [of _ "db_agents db"] unfolding project_agents_def by (rule le_less_trans [rotated])
  have connected: "connected_count be as \<le> length as" for as by (simp add: connected_count_def)
  from assms(2) obtain p where p: "summary_for_project be ordr kordr t db user pk = Inr s" "get_project db user pk = Inr p"
    by (auto simp: summary_for_project_def res_simps)
  then have "os_total_agents s = length (project_agents db p)" "os_connected_agents s = connected_count be (map snd (project_agents db p))"
    "os_recent_operations s \<le> 50" "os_recent_releases s \<le> 50" "os_recent_failures s \<le> 100"
    by (simp_all add: summary_for_project_def Let_def) (auto intro!: filters_take_le)
  moreover have "connected_count be (map snd (project_agents db p)) < 2 ^ 31"
    using connected [of "map snd (project_agents db p)"] agents [of p] by simp
  ultimately show ?thesis
    using agents [of p] by (simp add: SummaryType_def summary_fields_def int32_def)
qed

lemmas root_fields = app_ready_def install_graphql_field_def install_signals_def schema_imported_def set_default_def Query_fields_def
  release_values_input_def

definition typed_result :: "(pyexn \<Rightarrow> bool) \<Rightarrow> gql_type \<Rightarrow> json res \<Rightarrow> bool" where
  "typed_result fails t r \<longleftrightarrow> (case r of Inr v \<Rightarrow> conforms t v | Inl e \<Rightarrow> fails e)"

lemma typed_bind:
  "(\<And>e. r = Inl e \<Longrightarrow> fails e) \<Longrightarrow> (\<And>x. r = Inr x \<Longrightarrow> typed_result fails t (g x)) \<Longrightarrow> typed_result fails t (bindR r g)"
  by (cases r) (simp_all add: typed_result_def)

lemma typed_value [simp]: "typed_result fails t (Inr v) = conforms t v"
  by (simp add: typed_result_def)

lemma resolve_query_typed:
  assumes db: "db_typed db" "length (db_agents db) < 2 ^ 31" and be: "agents_typed (ev_operations ev)"
    and ordr: "newest_first (ev_ordr ev)" "newest_releases (ev_kordr ev)"
    and f: "dget (sm_query (app_ready ip_ok schema_imported)) field = Some f" "accepts (field_args f) args"
  shows "typed_result (query_failure args) (field_type f) (resolve_query ev db user field args)"
proof -
  have ops: "conforms OperationType (JObj (operation_fields isof r))" if "r \<in> set (ot_rows (db_operations db))" for isof r
    using that db(1) operation_conforms by (auto simp: db_typed_def)
  have rels: "conforms KubernetesReleaseType (JObj (release_fields isof i r))" if "r \<in> set (rt_rows (db_releases db))" for isof i r
    using that db(1) release_conforms by (auto simp: db_typed_def release_typed_def)
  note rows = queried_rows [OF ordr]
  have ops_page: "list_all (\<lambda>r. conforms OperationType (JObj (operation_fields isof r))) xs"
    if "query_operations (ev_ordr ev) db user i n = Inr xs" for i n xs isof
    using rows(1) [OF that] ops by (auto simp: list_all_iff)
  have rels_page: "list_all (\<lambda>r. conforms KubernetesReleaseType (JObj (release_fields isof (j r) r))) xs"
    if "query_releases (ev_kordr ev) db user i n = Inr xs" for i n xs isof j
    using rows(2) [OF that] rels by (auto simp: list_all_iff)
  have page_failure: "query_failure args e" if "query_operations o1 db user i n = Inl e \<or> query_releases o2 db user i n = Inl e" for o1 o2 i n e
    using that by (auto simp: query_operations_def query_releases_def res_simps dest: scoped_project_failure)
  have op_failure: "query_failure args e" if "scoped_operation db user (str_arg args ''id'') = Inl e" for e
    using scoped_failures(1) [OF that] by (auto simp: query_failure_def)
  from f(1) consider
      "field = ''projects''" "f = GField (GNonNull (GList (GNonNull ProjectType))) []"
    | "field = ''agents''" "f = GField (GNonNull (GList (GNonNull AgentType))) [project_arg]"
    | "field = ''diagnosticOperations''" "f = GField (GNonNull (GList (GNonNull OperationType))) [project_arg, (''first'', GInt)]"
    | "field = ''diagnosticOperation''" "f = GField OperationType [(''id'', GNonNull GID)]"
    | "field = ''kubernetesTargets''" "f = GField (GNonNull (GList (GNonNull KubernetesTargetType))) [project_arg]"
    | "field = ''kubernetesReleases''" "f = GField (GNonNull (GList (GNonNull KubernetesReleaseType))) [project_arg, (''first'', GInt)]"
    | "field = ''observabilitySummary''" "f = GField (GNonNull SummaryType) [project_arg]"
    by (simp add: root_fields split: if_splits)
  then show ?thesis
  proof cases
    case 1
    then show ?thesis by (simp add: resolve_query_def project_conforms list_all_iff)
  next
    case 2
    then show ?thesis
      by (simp add: resolve_query_def Let_def, intro typed_bind)
        (auto simp: list_all_iff agent_conforms [OF be] query_agents_def res_simps dest: scoped_project_failure)
  next
    case 3
    with f(2) have "first_arg args = Inl e \<Longrightarrow> query_failure args e" for e
      by (intro first_failure) (simp_all add: accepts_def)
    with 3 show ?thesis
      by (simp add: resolve_query_def Let_def, intro typed_bind)
        (auto dest: scoped_project_failure intro: page_failure ops_page)
  next
    case 4
    then show ?thesis
      by (simp add: resolve_query_def Let_def, intro typed_bind) (auto intro: ops op_failure dest: scoped_operation_member)
  next
    case 5
    then show ?thesis
      by (simp add: resolve_query_def Let_def, intro typed_bind)
        (auto simp: list_all_iff target_conforms query_targets_def res_simps dest: scoped_project_failure)
  next
    case 6
    with f(2) have "first_arg args = Inl e \<Longrightarrow> query_failure args e" for e
      by (intro first_failure) (simp_all add: accepts_def)
    with 6 show ?thesis
      by (simp add: resolve_query_def Let_def, intro typed_bind)
        (auto dest: scoped_project_failure intro: page_failure rels_page)
  next
    case 7
    have "conforms (GNonNull SummaryType) (JObj (summary_fields s))"
      if "summary_for_project be o1 o2 t db user pk = Inr s" for be o1 o2 t pk s
      using summary_typed [OF db(2) that] by (simp add: SummaryType_def conforms.simps(1))
    moreover have "query_failure args e" if "summary_for_project be o1 o2 t db user pk = Inl e" for be o1 o2 t pk e
      using that by (auto simp: summary_for_project_def res_simps Let_def query_failure_def dest: get_project_failure)
    moreover have "query_failure args e" if "py_int i = Inl e" for i e
      using py_int_failure [OF that] by (simp add: query_failure_def)
    ultimately show ?thesis
      unfolding 7 by (simp add: resolve_query_def Let_def, intro typed_bind) simp_all
  qed
qed


lemma payload_conforms:
  assumes "\<And>x. p = Done x \<Longrightarrow> conforms t (f x)" and "conforms t JNull"
  shows "conforms (GNonNull (GObject n [(key, t), (''error'', ApiErrorType)])) (payload_json key f p)"
  using assms by (cases p) (simp_all add: payload_json_def ApiErrorType_def conforms.simps(1))

lemma answered_conforms:
  assumes "answered key f (db', r) = (d, s)" and "conforms t JNull" and "\<And>x. r = Inr (Done x) \<Longrightarrow> conforms t (f db' x)" and "db_typed db'"
  shows "db_typed d \<and> (\<forall>v. s = Inr v \<longrightarrow> conforms (GNonNull (GObject n [(key, t), (''error'', ApiErrorType)])) v)"
proof -
  have "d = db'" "s = bindR r (\<lambda>p. Inr (payload_json key (f db') p))" using assms(1) by (auto simp: answered_def)
  moreover have "conforms (GNonNull (GObject n [(key, t), (''error'', ApiErrorType)])) (payload_json key (f db') p)" if "r = Inr p" for p
    using assms(2,3) that by (intro payload_conforms) simp_all
  ultimately show ?thesis using assms(4) by (cases r) simp_all
qed

lemma nullable [simp]: "conforms OperationType JNull" "conforms KubernetesTargetType JNull" "conforms KubernetesReleaseType JNull"
  by (simp_all add: OperationType_def KubernetesTargetType_def KubernetesReleaseType_def)

lemma row_conforms: "(\<And>x. r = Some x \<Longrightarrow> conforms t (JObj (f x))) \<Longrightarrow> conforms t JNull \<Longrightarrow> conforms t (row_json f r)"
  by (cases r) (simp_all add: row_json_def)

lemmas payload_types = DiagnosticMutationPayload_def KubernetesTargetMutationPayload_def KubernetesReleaseMutationPayload_def

lemma resolve_start_keeps_typed:
  "db_typed db \<Longrightarrow> db_typed (fst (resolve_start be ordr uid now now' user p a d db))"
  using start_kinds [of "db_operations db"]
  by (cases "bindR (scoped_project db user p) (\<lambda>p. scoped_agent db p a)") (simp_all add: resolve_start_def db_typed_def split_beta)

lemma resolve_cancel_keeps_typed:
  assumes "db_typed db" and "resolve_cancel be user i db = (db', r)"
  shows "db_typed db' \<and> (\<forall>x. r = Inr (Done x) \<longrightarrow> op_diagnostic x = ''django_health'')"
proof (cases "scoped_operation db user i")
  case (Inr q)
  obtain t x where c: "cancel_diagnostic be (op_pk q) (db_operations db) = (t, x)" by (cases "cancel_diagnostic be (op_pk q) (db_operations db)")
  have "\<forall>r \<in> set (ot_rows (db_operations db)). op_diagnostic r = ''django_health''" using assms(1) by (simp add: db_typed_def)
  note k = cancel_kinds [OF this c]
  have db': "db' = db\<lparr>db_operations := t\<rparr>" and r: "r = (case x of Inl e \<Rightarrow> cancel_error e | Inr y \<Rightarrow> Inr (Done y))"
    using assms(2) by (simp_all add: resolve_cancel_def Inr c)
  have "db_typed db'" using assms(1) k [THEN conjunct1] by (simp add: db' db_typed_def)
  moreover have "\<exists>y. x = Inr y \<and> y = z" if "r = Inr (Done z)" for z
    using that r by (cases x) (simp_all add: cancel_error_def split: if_splits)
  ultimately show ?thesis using k [THEN conjunct2] by metis
next
  case (Inl e)
  with assms(2) have "db' = db" "r = cancel_error e" by (simp_all add: resolve_cancel_def)
  then show ?thesis using assms(1) by (simp add: cancel_error_def)
qed

lemma resolve_register_keeps_typed:
  "db_typed db \<Longrightarrow> db_typed (fst (resolve_register kb ip_ok now user a db))"
  by (auto simp: resolve_register_def db_typed_def split: sum.splits prod.splits)

lemma resolve_start_release_keeps_typed:
  assumes "db_typed db" and "cluster_typed kb" and "newest_releases kordr"
  shows "db_typed (fst (resolve_start_release ip_ok fresh kb sha kordr uid now user tgt img raw db))"
proof -
  have "cluster_typed (observed_backend fresh kb)"
    using assms(2) by (auto simp: cluster_typed_def observed_backend_def res_simps)
  from run_typed [OF assms(3) this] assms(1) show ?thesis
    by (auto simp: resolve_start_release_def observed_start_release_def db_typed_def split: sum.splits prod.splits)
qed

lemma resolve_cancel_release_keeps_typed:
  assumes "db_typed db" and "resolve_cancel_release kb user i db = (db', r)"
  shows "db_typed db' \<and> (\<forall>x. r = Inr (Done x) \<longrightarrow> release_typed x)"
proof (cases "scoped_release db user i")
  case (Inr q)
  obtain t x where c: "cancel_release kb (kr_pk q) (db_releases db) = (t, x)" by (cases "cancel_release kb (kr_pk q) (db_releases db)")
  have "\<forall>r \<in> set (rt_rows (db_releases db)). release_typed r" using assms(1) by (simp add: db_typed_def)
  note k = cancel_release_typed [OF this c]
  have db': "db' = db\<lparr>db_releases := t\<rparr>" and r: "r = (case x of Inl e \<Rightarrow> cancel_release_error e | Inr y \<Rightarrow> Inr (Done y))"
    using assms(2) by (simp_all add: resolve_cancel_release_def Inr c)
  have "db_typed db'" using assms(1) k [THEN conjunct1] by (simp add: db' db_typed_def)
  moreover have "\<exists>y. x = Inr y \<and> y = z" if "r = Inr (Done z)" for z
    using that r by (cases x) (simp_all add: cancel_release_error_def split: if_splits)
  ultimately show ?thesis using k [THEN conjunct2] by metis
next
  case (Inl e)
  with assms(2) have "db' = db" "r = cancel_release_error e" by (simp_all add: resolve_cancel_release_def)
  then show ?thesis using assms(1) by (simp add: cancel_release_error_def)
qed

lemma op_json: "db_typed d \<Longrightarrow> op_find (db_operations d) pk = Some x \<Longrightarrow> conforms OperationType (JObj (operation_fields isof x))"
  using operation_conforms op_find_mem by (auto simp: db_typed_def)

lemma release_json: "db_typed d \<Longrightarrow> rel_find (db_releases d) pk = Some x \<Longrightarrow> conforms KubernetesReleaseType (JObj (release_fields isof i x))"
  using release_conforms rel_find_mem by (auto simp: db_typed_def release_typed_def)

lemma resolve_mutation_typed:
  assumes db: "db_typed db" and kb: "cluster_typed (ev_kubernetes ev)"
    and kordr: "newest_releases (ev_kordr ev)" and f: "dget (Mutation_fields inputs) field = Some f"
    and m: "resolve_mutation ev user field args db = (db', r)"
  shows "db_typed db' \<and> (\<forall>v. r = Inr v \<longrightarrow> conforms (field_type f) v)"
proof -
  from f consider
      "field = ''startDiagnostic''" "field_type f = GNonNull DiagnosticMutationPayload"
    | "field = ''cancelDiagnostic''" "field_type f = GNonNull DiagnosticMutationPayload"
    | "field = ''registerKubernetesTarget''" "field_type f = GNonNull KubernetesTargetMutationPayload"
    | "field = ''startKubernetesRelease''" "field_type f = GNonNull KubernetesReleaseMutationPayload"
    | "field = ''cancelKubernetesRelease''" "field_type f = GNonNull KubernetesReleaseMutationPayload"
    by (auto simp: Mutation_fields_def split: if_splits)
  then show ?thesis
  proof cases
    case 1
    let ?m = "resolve_start (ev_operations ev) (ev_ordr ev) (ev_uid ev) (ev_now ev) (ev_later ev) user
      (str_arg args ''projectId'') (str_arg args ''agentId'') (str_arg args ''diagnostic'') db"
    note typed = resolve_start_keeps_typed [OF db]
    have "answered ''operation'' (\<lambda>d pk. row_json (operation_fields (se_isof ev)) (op_find (db_operations d) pk)) (fst ?m, snd ?m) = (db', r)"
      using m 1 by (simp add: resolve_mutation_def)
    then show ?thesis
      unfolding 1 payload_types
      by (rule answered_conforms) (auto simp: op_json [OF typed] intro!: row_conforms typed)
  next
    case 2
    obtain d x where c: "resolve_cancel (ev_operations ev) user (str_arg args ''operationId'') db = (d, x)"
      by (cases "resolve_cancel (ev_operations ev) user (str_arg args ''operationId'') db")
    note typed = resolve_cancel_keeps_typed [OF db c]
    have "answered ''operation'' (\<lambda>_ r. JObj (operation_fields (se_isof ev) r)) (d, x) = (db', r)"
      using m 2 c by (simp add: resolve_mutation_def)
    then show ?thesis
      unfolding 2 payload_types
      by (rule answered_conforms) (use typed in \<open>auto intro: operation_conforms\<close>)
  next
    case 3
    let ?m = "resolve_register (ev_kubernetes ev) (ev_ip_ok ev) (ev_now ev) user (target_args_of args) db"
    have "answered ''target'' (\<lambda>d pk. row_json (\<lambda>r. target_fields (se_isof ev) (se_target_id ev (kt_pk r)) r)
            (List.find (\<lambda>r. kt_pk r = pk) (tt_rows (db_targets d)))) (fst ?m, snd ?m) = (db', r)"
      using m 3 by (simp add: resolve_mutation_def)
    then show ?thesis
      unfolding 3 payload_types
      by (rule answered_conforms) (auto intro!: row_conforms target_conforms resolve_register_keeps_typed [OF db])
  next
    case 4
    let ?m = "resolve_start_release (ev_ip_ok ev) (ev_fresh ev) (ev_kubernetes ev) (ev_sha ev) (ev_kordr ev) (ev_uid ev) (ev_now ev)
            user (str_arg args ''targetId'') (str_arg args ''image'') (case dget args ''values'' of Some (JObj raw) \<Rightarrow> raw | _ \<Rightarrow> []) db"
    note typed = resolve_start_release_keeps_typed [OF db kb kordr]
    have "answered ''release'' (\<lambda>d pk. row_json (\<lambda>r. release_fields (se_isof ev) (se_release_id ev (kr_pk r)) r) (rel_find (db_releases d) pk))
        (fst ?m, snd ?m) = (db', r)"
      using m 4 by (simp add: resolve_mutation_def)
    then show ?thesis
      unfolding 4 payload_types
      by (rule answered_conforms) (auto simp: release_json [OF typed] intro!: row_conforms typed)
  next
    case 5
    obtain d x where c: "resolve_cancel_release (ev_kubernetes ev) user (str_arg args ''releaseId'') db = (d, x)"
      by (cases "resolve_cancel_release (ev_kubernetes ev) user (str_arg args ''releaseId'') db")
    note typed = resolve_cancel_release_keeps_typed [OF db c]
    have "answered ''release'' (\<lambda>_ r. JObj (release_fields (se_isof ev) (se_release_id ev (kr_pk r)) r)) (d, x) = (db', r)"
      using m 5 c by (simp add: resolve_mutation_def)
    then show ?thesis
      unfolding 5 payload_types
      by (rule answered_conforms) (use typed in \<open>auto simp: release_typed_def intro: release_conforms\<close>)
  qed
qed

section \<open>The theorem\<close>

lemma app_ready_twice: "app_ready ip_ok (app_ready ip_ok m) = app_ready ip_ok m"
  by (simp add: app_ready_def install_graphql_field_def install_signals_def)

definition malformed_id :: "(string \<times> json) list \<Rightarrow> string \<Rightarrow> pyexn \<Rightarrow> bool" where
  "malformed_id args n e \<longleftrightarrow> e = ValidationError (str_arg args n) \<and> \<not> isOk (uuid_of (str_arg args n))"

text \<open>The exceptions that leave a mutation's resolver and become an error of the response: the id is no UUID, the
  target's unique constraint fails, or the connection to the agents raised something the resolver does not handle.\<close>

definition mutation_failure :: "schema_env \<Rightarrow> string \<Rightarrow> (string \<times> json) list \<Rightarrow> pyexn \<Rightarrow> bool" where
  "mutation_failure ev field args e \<longleftrightarrow>
     (if field = ''startDiagnostic'' then \<exists>r. be_start (ev_operations ev) r = Inl e
      else if field = ''cancelDiagnostic''
      then malformed_id args ''operationId'' e \<or> (\<exists>r. be_cancel (ev_operations ev) r = Inl e)
      else if field = ''registerKubernetesTarget''
      then e = IntegrityError ''cp_k8s_cluster_release_unique'' \<or> (\<exists>t. kb_validate (ev_kubernetes ev) t = Inl e)
      else if field = ''startKubernetesRelease''
      then malformed_id args ''targetId'' e \<or> (\<exists>t q. kb_start (ev_kubernetes ev) t q = Inl e)
      else malformed_id args ''releaseId'' e \<or> (\<exists>i. kb_cancel (ev_kubernetes ev) i = Inl e))"

lemma start_failure:
  assumes "resolve_start be ordr uid now now' user p a d db = (db', Inl e)"
  shows "\<exists>r. be_start be r = Inl e"
proof (cases "bindR (scoped_project db user p) (\<lambda>p. scoped_agent db p a)")
  case (Inl x)
  have "is_ValueError x \<or> x \<in> {DoesNotExist ''Project'', DoesNotExist ''AgentRegistration''}"
    using Inl py_int_failure
    by (auto simp: scoped_project_def scoped_agent_def get_project_def res_simps split: option.splits)
  with Inl assms show ?thesis by (auto simp: resolve_start_def start_error_def split: if_splits)
next
  case (Inr agent)
  with assms obtain t x where "start_diagnostic be ordr uid agent user d now now' (db_operations db) = (t, Inl x)" "start_error x = (Inl e :: nat payload res)"
    by (auto simp: resolve_start_def split: prod.splits sum.splits)
  then show ?thesis
    by (auto simp: start_diagnostic_def start_outcome_def start_error_def Let_def split: if_splits sum.splits option.splits)
qed

lemma op_find_some: "r \<in> set (ot_rows t) \<Longrightarrow> op_find t (op_pk r) \<noteq> None"
  by (auto simp: op_find_def find_None_iff)

lemma rel_find_some: "r \<in> set (rt_rows t) \<Longrightarrow> rel_find t (kr_pk r) \<noteq> None"
  by (auto simp: rel_find_def find_None_iff)

lemma cancel_failure:
  assumes "resolve_cancel be user i db = (db', Inl e)"
  shows "e = ValidationError i \<and> \<not> isOk (uuid_of i) \<or> (\<exists>r. be_cancel be r = Inl e)"
proof (cases "scoped_operation db user i")
  case (Inl x)
  with assms scoped_failures(1) [OF Inl] show ?thesis by (auto simp: resolve_cancel_def cancel_error_def)
next
  case (Inr r)
  with assms obtain t x where "cancel_diagnostic be (op_pk r) (db_operations db) = (t, Inl x)" "cancel_error x = (Inl e :: diagnostic_operation payload res)"
    by (auto simp: resolve_cancel_def split: prod.splits sum.splits)
  then show ?thesis
    by (auto simp: cancel_diagnostic_def cancel_outcome_def cancel_error_def Let_def split: if_splits sum.splits option.splits bool.splits)
qed

lemma cancel_release_failure:
  assumes "resolve_cancel_release be user i db = (db', Inl e)"
  shows "e = ValidationError i \<and> \<not> isOk (uuid_of i) \<or> (\<exists>j. kb_cancel be j = Inl e)"
proof (cases "scoped_release db user i")
  case (Inl x)
  with assms scoped_failures(3) [OF Inl] show ?thesis by (auto simp: resolve_cancel_release_def cancel_release_error_def)
next
  case (Inr r)
  with assms obtain t x where "cancel_release be (kr_pk r) (db_releases db) = (t, Inl x)" "cancel_release_error x = (Inl e :: kubernetes_release_row payload res)"
    by (auto simp: resolve_cancel_release_def split: prod.splits sum.splits)
  then show ?thesis
    by (auto simp: cancel_release_def cancel_release_error_def Let_def split: if_splits sum.splits option.splits)
qed

lemma validation_errors:
  "validate_name b s = Inl e \<Longrightarrow> is_ValueError e" "optional_name s = Inl e \<Longrightarrow> is_ValueError e"
  "validate_credential_ref s = Inl e \<Longrightarrow> is_ValueError e" "validate_api_server ip_ok s = Inl e \<Longrightarrow> is_ValueError e"
  "urlsplit ip_ok s = Inl e \<Longrightarrow> is_ValueError e"
proof -
  show u: "urlsplit ip_ok s = Inl e \<Longrightarrow> is_ValueError e" for e s
    by (auto simp: urlsplit_def Let_def split: prod.splits if_splits)
  show "validate_api_server ip_ok s = Inl e \<Longrightarrow> is_ValueError e"
    using u [of s] by (cases "urlsplit ip_ok s") (auto simp: validate_api_server_def split: if_splits)
qed (auto simp: validate_name_def optional_name_def validate_credential_ref_def Let_def split: if_splits)

lemma register_failure:
  assumes "resolve_register be ip_ok now user a db = (db', Inl e)"
  shows "e = IntegrityError ''cp_k8s_cluster_release_unique'' \<or> (\<exists>t. kb_validate be t = Inl e)"
proof (cases "bindR (scoped_project db user (ta_project_id a)) (\<lambda>p. bindR (scoped_agent db p (ta_agent_id a)) (\<lambda>agent. Inr (p, agent)))")
  case (Inl x)
  have "is_ValueError x \<or> x \<in> {DoesNotExist ''Project'', DoesNotExist ''AgentRegistration''}"
    using Inl py_int_failure
    by (auto simp: scoped_project_def scoped_agent_def get_project_def res_simps split: option.splits)
  with Inl assms show ?thesis by (auto simp: resolve_register_def target_error_def split: if_splits)
next
  case (Inr pa)
  with assms obtain p agent t x where r: "register_target be ip_ok now p agent (ta_name a) (ta_api_server a) (ta_namespace a) (ta_release_name a)
               (ta_credential_ref a) (or_empty (ta_ingress_class a)) (or_empty (ta_tls_secret_name a)) (db_targets db) = (t, Inl x)"
      and x: "target_error x = (Inl e :: nat payload res)"
    by (auto simp: resolve_register_def split: prod.splits sum.splits)
  have e: "e = x" "\<not> is_ValueError x" using x by (auto simp: target_error_def split: if_splits)
  show ?thesis
  proof (cases "create_target ip_ok p agent (ta_name a) (ta_api_server a) (ta_namespace a) (ta_release_name a)
               (ta_credential_ref a) (or_empty (ta_ingress_class a)) (or_empty (ta_tls_secret_name a)) (db_targets db)")
    case (Inl y)
    with r have "y = x" by (simp add: register_target_def)
    with Inl e show ?thesis by (auto simp: create_target_def res_simps guardR_def split: if_splits dest: validation_errors)
  next
    case (Inr y)
    with r e show ?thesis by (auto simp: register_target_def Let_def split: sum.splits if_splits)
  qed
qed

lemma observability_errors:
  "validate_otlp_endpoint ip_ok s = Inl e \<Longrightarrow> is_ValueError e"
  "observed_release_values ip_ok raw vs = Inl e \<Longrightarrow> is_ValueError e"
  "sanitize_observability ip_ok v = Inl e \<Longrightarrow> is_ValueError e"
proof -
  show v: "validate_otlp_endpoint ip_ok s = Inl e \<Longrightarrow> is_ValueError e" for s e
    by (auto simp: validate_otlp_endpoint_def Let_def res_simps split: if_splits dest: validation_errors(5))
  show "observed_release_values ip_ok raw vs = Inl e \<Longrightarrow> is_ValueError e"
    using v by (auto simp: observed_release_values_def res_simps split: if_splits)
  assume e: "sanitize_observability ip_ok v = Inl e"
  show "is_ValueError e"
  proof (cases v)
    case (Some j)
    show ?thesis
    proof (cases j)
      case (JObj kvs)
      let ?on = "case dget kvs ''enabled'' of None \<Rightarrow> JBool False | Some v \<Rightarrow> v"
      show ?thesis
      proof (cases "kvs = [] \<or> \<not> list_all (\<lambda>k. k \<in> {''enabled'', ''otlpEndpoint'', ''serviceNamespace'', ''correlationId''}) (dkeys kvs)")
        case True
        with e show ?thesis by (cases kvs) (auto simp: sanitize_observability_def Some JObj)
      next
        case False
        then obtain kv kvs' where "kvs = kv # kvs'" by (cases kvs) auto
        with e False show ?thesis
          by (cases ?on rule: json.exhaust; cases "?on = JBool True")
            (auto simp: sanitize_observability_def Some JObj Let_def res_simps split: bool.splits dest: v)
      qed
    qed (use e in \<open>auto simp: sanitize_observability_def Some\<close>)
  qed (use e in \<open>simp add: sanitize_observability_def\<close>)
qed

lemma input_errors: "inputs_of sha img (observed_sanitize_values ip_ok vs) = Inl e \<Longrightarrow> is_ValueError e"
proof -
  have "is_ValueError e" if "sanitize_values ws = Inl e" for ws
    using that by (auto simp: sanitize_values_def Let_def split: if_splits option.splits json.splits)
  moreover have "is_ValueError e" if "validate_image img = Inl e" for img
    using that by (auto simp: validate_image_def split: if_splits)
  ultimately show "inputs_of sha img (observed_sanitize_values ip_ok vs) = Inl e \<Longrightarrow> ?thesis"
    by (auto simp: inputs_of_def observed_sanitize_values_def Let_def res_simps split: if_splits dest: observability_errors(3))
qed

lemma observed_start_errors:
  assumes "kb_start (observed_backend fresh be) t q = Inl e"
  shows "is_ValueError e \<or> (\<exists>t q. kb_start be t q = Inl e)"
proof -
  have "is_ValueError x" if "inject_release_correlation fresh v i = Inl x" for v i x
    using that by (auto simp: inject_release_correlation_def split: option.splits json.splits)
  with assms show ?thesis by (auto simp: observed_backend_def res_simps)
qed

lemma start_release_failure:
  assumes "resolve_start_release ip_ok fresh be sha kordr uid now user i img raw db = (db', Inl e)"
  shows "e = ValidationError i \<and> \<not> isOk (uuid_of i) \<or> (\<exists>t q. kb_start be t q = Inl e)"
proof (cases "bindR (scoped_target db user i) (\<lambda>target.
      bindR (observed_release_values ip_ok raw (release_values raw)) (\<lambda>vs. Inr (target, vs)))")
  case (Inl x)
  then have "scoped_target db user i = Inl x \<or> is_ValueError x"
    using observability_errors(2) by (auto simp: res_simps)
  with Inl assms scoped_failures(2) [of db user i x] show ?thesis
    by (auto simp: resolve_start_release_def release_error_def split: if_splits)
next
  case (Inr tv)
  with assms obtain target vs t x where tv: "tv = (target, vs)"
      and r: "observed_start_release ip_ok fresh be sha kordr target user uid img vs ''0.1.0'' now (db_releases db) = (t, Inl x)"
      and x: "release_error x = (Inl e :: nat payload res)"
    by (auto simp: resolve_start_release_def split: prod.splits sum.splits)
  have e: "e = x" "\<not> is_ValueError x" using x by (auto simp: release_error_def split: if_splits)
  show ?thesis
  proof (cases "inputs_of sha img (observed_sanitize_values ip_ok vs)")
    case (Inl y)
    with r e input_errors [OF Inl] show ?thesis by (simp add: observed_start_release_def run_release_def)
  next
    case (Inr inp)
    with r obtain tg q where "kb_start (observed_backend fresh be) tg q = Inl x"
      by (auto simp: observed_start_release_def run_release_def settle_release_def split: prod.splits if_splits sum.splits)
    from observed_start_errors [OF this] e show ?thesis by blast
  qed
qed

lemma answered_failure: "answered key f m = (db', Inl e) \<Longrightarrow> \<exists>d. m = (d, Inl e)"
  by (cases m) (auto simp: answered_def res_simps)

lemma resolve_mutation_failure:
  assumes "dget (Mutation_fields inputs) field = Some f" and "resolve_mutation ev user field args db = (db', Inl e)"
  shows "mutation_failure ev field args e"
proof -
  from assms(1) consider "field = ''startDiagnostic''" | "field = ''cancelDiagnostic''" | "field = ''registerKubernetesTarget''"
    | "field = ''startKubernetesRelease''" | "field = ''cancelKubernetesRelease''"
    by (auto simp: Mutation_fields_def split: if_splits)
  then show ?thesis
  proof cases
    case 1
    with assms(2) show ?thesis
      by (auto simp: resolve_mutation_def mutation_failure_def dest!: answered_failure dest: start_failure)
  next
    case 2
    with assms(2) show ?thesis
      by (auto simp: resolve_mutation_def mutation_failure_def malformed_id_def dest!: answered_failure dest: cancel_failure)
  next
    case 3
    with assms(2) show ?thesis
      by (auto simp: resolve_mutation_def mutation_failure_def dest!: answered_failure dest: register_failure)
  next
    case 4
    with assms(2) show ?thesis
      by (auto simp: resolve_mutation_def mutation_failure_def malformed_id_def dest!: answered_failure dest: start_release_failure)
  next
    case 5
    with assms(2) show ?thesis
      by (auto simp: resolve_mutation_def mutation_failure_def malformed_id_def dest!: answered_failure dest: cancel_release_failure)
  qed
qed


definition demo_schema_env :: schema_env where
  "demo_schema_env = \<lparr>ev_operations = runtime_backend None 0, ev_kubernetes = runtime_kubernetes None (\<lambda>_ _. ([], Exhausted)) ''u'',
     ev_ip_ok = (\<lambda>_. False), ev_sha = id, ev_uid = ''u1'', ev_fresh = demo_token, ev_now = 5, ev_later = 6,
     ev_ordr = newest, ev_kordr = newest_rel, se_telemetry = \<lparr>tl_endpoint = [], tl_counts = [], tl_durations = [],
       tl_inflight = [], tl_events = [], tl_exports = [], tl_size = 8, tl_dropped = 0, tl_export_errors = 0, tl_worker_started = False\<rparr>,
      se_name = (\<lambda>_. ''Shop''),
     se_isof = int_str, se_target_id = (\<lambda>_. ''t''), se_release_id = (\<lambda>_. ''r'')\<rparr>"


end
