(* ===== verification/GraphQL_Termination.thy ===== *)
theory GraphQL_Termination
  imports GraphQL_Claims
begin

text \<open>
  The check of a query as Python runs it, with a stack of finitely many frames: every call of \<open>walk\<close>, also the one on
  the absent selections of a leaf field, takes one. The check returns for every document once the stack is large
  enough, and how much is enough is the height of the expanded selections.
\<close>

section \<open>The check on a stack\<close>

text \<open>\<open>k\<close> is the number of frames left below the present call; \<open>None\<close> is \<open>RecursionError\<close>.\<close>

fun walk_frames :: "nat \<Rightarrow> (string, selection list) dict \<Rightarrow> nat \<Rightarrow> string list \<Rightarrow> selection list \<Rightarrow> nat \<times> nat \<Rightarrow> (nat \<times> nat) option" where
  "walk_frames k frs depth active [] st = Some st"
| "walk_frames k frs depth active (FieldSel None # ss) st =
     (case k of 0 \<Rightarrow> None | Suc _ \<Rightarrow> walk_frames k frs depth active ss (fst st, Suc (snd st)))"
| "walk_frames k frs depth active (FieldSel (Some xs) # ss) st =
     Option.bind (case k of 0 \<Rightarrow> None | Suc j \<Rightarrow> walk_frames j frs (Suc depth) active xs (enter (Suc depth) (fst st, Suc (snd st))))
       (\<lambda>st'. walk_frames k frs depth active ss st')"
| "walk_frames k frs depth active (Spread n # ss) st =
     Option.bind (if n \<in> set active then Some st
        else (case dget frs n of None \<Rightarrow> Some st
          | Some xs \<Rightarrow> (case k of 0 \<Rightarrow> None | Suc j \<Rightarrow> walk_frames j frs depth (n # active) xs (enter depth st))))
       (\<lambda>st'. walk_frames k frs depth active ss st')"
| "walk_frames k frs depth active (InlineSel xs # ss) st =
     Option.bind (case k of 0 \<Rightarrow> None | Suc j \<Rightarrow> walk_frames j frs depth active xs (enter depth st))
       (\<lambda>st'. walk_frames k frs depth active ss st')"

fun walk_operations_frames :: "nat \<Rightarrow> (string, selection list) dict \<Rightarrow> doc_def list \<Rightarrow> nat \<times> nat \<Rightarrow> (nat \<times> nat) option" where
  "walk_operations_frames k frs [] st = Some st"
| "walk_operations_frames k frs (OperationDef sels # ds) st =
     Option.bind (case k of 0 \<Rightarrow> None | Suc j \<Rightarrow> walk_frames j frs 1 [] sels (enter 1 st)) (walk_operations_frames k frs ds)"
| "walk_operations_frames k frs (_ # ds) st = walk_operations_frames k frs ds st"

definition resource_error_frames :: "nat \<Rightarrow> graphql_settings \<Rightarrow> doc_def list \<Rightarrow> string \<Rightarrow> string option option" where
  "resource_error_frames k cfg document query =
     (case walk_operations_frames k (fragments_of document []) document (0, 0) of
        None \<Rightarrow> None
      | Some (max_depth, field_count) \<Rightarrow> Some
          (if gs_max_depth cfg < max_depth then Some ''QUERY_TOO_DEEP''
           else if gs_max_fields cfg < field_count then Some ''QUERY_TOO_COMPLEX''
           else if \<not> gs_introspection cfg \<and> (substring_in ''__schema'' query \<or> substring_in ''__type'' query)
           then Some ''INTROSPECTION_DISABLED'' else None))"

section \<open>Frames\<close>

text \<open>The calls below one another that the loop over some selections makes; a spread is counted where it is written out.\<close>

fun tree_frames :: "selection list \<Rightarrow> nat" where
  "tree_frames [] = 0"
| "tree_frames (FieldSel None # ss) = max 1 (tree_frames ss)"
| "tree_frames (FieldSel (Some xs) # ss) = max (Suc (tree_frames xs)) (tree_frames ss)"
| "tree_frames (Spread n # ss) = tree_frames ss"
| "tree_frames (InlineSel xs # ss) = max (Suc (tree_frames xs)) (tree_frames ss)"

lemma tree_frames_append [simp]: "tree_frames (xs @ ys) = max (tree_frames xs) (tree_frames ys)"
  by (induction xs rule: tree_frames.induct) auto

lemma walk_frames_eq:
  "walk_frames k frs depth active sels st =
     (if tree_frames (expand frs active sels) \<le> k then Some (walk_items frs depth active sels st) else None)"
proof (induction k frs depth active sels st rule: walk_frames.induct)
  case (2 k frs depth active ss st)
  then show ?case by (cases k) simp_all
next
  case (3 k frs depth active xs ss st)
  then show ?case by (cases k) simp_all
next
  case (4 k frs depth active n ss st)
  then show ?case by (cases "n \<in> set active"; cases "dget frs n"; cases k) simp_all
next
  case (5 k frs depth active xs ss st)
  then show ?case by (cases k) simp_all
qed simp

lemma walk_operations_frames_eq:
  "walk_operations_frames k frs ds st =
     (if \<forall>sels \<in> set (operations_of ds). tree_frames (expand frs [] sels) < k then Some (walk_operations frs ds st) else None)"
proof (induction k frs ds st rule: walk_operations_frames.induct)
  case (2 k frs sels ds st)
  then show ?case by (cases k) (auto simp: walk_frames_eq walk_def less_Suc_eq_le)
qed simp_all

lemma resource_error_frames_eq:
  "resource_error_frames k cfg document query =
     (if \<forall>sels \<in> set (operations_of document). tree_frames (expand (fragments_of document []) [] sels) < k
      then Some (resource_error cfg document query) else None)"
  by (simp add: resource_error_frames_def resource_error_def walk_operations_frames_eq split: prod.splits)

text \<open>A bound that needs no expansion: the fragments on a path of calls differ.\<close>

lemma expanded_frames:
  assumes "\<And>n xs. dget frs n = Some xs \<Longrightarrow> tree_frames xs \<le> m"
  shows "tree_frames (expand frs active sels) \<le> tree_frames sels + names_left frs active * Suc m"
  using assms
proof (induction frs active sels rule: expand.induct)
  case (4 frs active n ss)
  have rest: "tree_frames (expand frs active ss) \<le> tree_frames ss + names_left frs active * Suc m"
    using 4 by simp
  show ?case
  proof (cases "n \<in> set active \<or> dget frs n = None")
    case True
    then show ?thesis using rest by auto
  next
    case False
    then obtain xs where xs: "n \<notin> set active" "dget frs n = Some xs" by auto
    have "tree_frames (expand frs (n # active) xs) \<le> tree_frames xs + names_left frs (n # active) * Suc m"
      by (rule 4(1)) (use xs 4(3) in auto)
    with 4(3) [OF xs(2)] have "Suc (tree_frames (expand frs (n # active) xs)) \<le> Suc (names_left frs (n # active)) * Suc m" by simp
    also have "\<dots> \<le> names_left frs active * Suc m"
      using names_left_Cons [OF xs] by (intro mult_le_mono1) simp
    finally show ?thesis using rest xs by simp
  qed
qed (auto simp: le_max_iff_disj)

text \<open>The height of what is written in a document, and the number of frames that is always enough for it.\<close>

fun doc_frames :: "doc_def list \<Rightarrow> nat" where
  "doc_frames [] = 0"
| "doc_frames (OperationDef sels # ds) = max (tree_frames sels) (doc_frames ds)"
| "doc_frames (FragmentDef _ sels # ds) = max (tree_frames sels) (doc_frames ds)"
| "doc_frames (OtherDef # ds) = doc_frames ds"

definition enough_frames :: "doc_def list \<Rightarrow> nat" where
  "enough_frames document = Suc (doc_frames document + length (fragments_of document []) * Suc (doc_frames document))"

lemma fragment_frames:
  "dget (fragments_of ds acc) n = Some xs \<Longrightarrow> dget acc n = Some xs \<or> tree_frames xs \<le> doc_frames ds"
proof (induction ds acc rule: fragments_of.induct)
  case (2 name sels ds acc)
  then have "dget (dput name sels acc) n = Some xs \<or> tree_frames xs \<le> doc_frames ds" by simp
  then show ?case by (cases "n = name") auto
qed auto

lemma operation_frames: "sels \<in> set (operations_of ds) \<Longrightarrow> tree_frames sels \<le> doc_frames ds"
  by (induction ds rule: doc_frames.induct) auto

lemma enough_frames_enough:
  assumes "sels \<in> set (operations_of document)"
  shows "tree_frames (expand (fragments_of document []) [] sels) < enough_frames document"
proof -
  let ?frs = "fragments_of document []" and ?m = "doc_frames document"
  have "tree_frames (expand ?frs [] sels) \<le> tree_frames sels + names_left ?frs [] * Suc ?m"
    by (rule expanded_frames) (auto dest: fragment_frames)
  moreover have "names_left ?frs [] \<le> length ?frs"
    using card_length [of "dkeys ?frs"] by (simp add: names_left_def)
  then have "names_left ?frs [] * Suc ?m \<le> length ?frs * Suc ?m" by (rule mult_le_mono1)
  moreover note operation_frames [OF assms]
  ultimately show ?thesis unfolding enough_frames_def by linarith
qed

text \<open>A query whose only field is reached through \<open>n + 1\<close> fragments, each of which spreads the one before it once.\<close>

definition chain_fragment :: "nat \<Rightarrow> doc_def" where
  "chain_fragment k = FragmentDef (bomb_name k) (case k of 0 \<Rightarrow> [FieldSel None] | Suc j \<Rightarrow> [Spread (bomb_name j)])"

definition chain :: "nat \<Rightarrow> doc_def list" where
  "chain n = OperationDef [Spread (bomb_name n)] # map chain_fragment [0..<Suc n]"

lemma chain_lookup:
  "dget (fragments_of (map chain_fragment [0..<n]) []) (bomb_name k) =
     (if k < n then Some (case k of 0 \<Rightarrow> [FieldSel None] | Suc j \<Rightarrow> [Spread (bomb_name j)]) else None)"
proof (induction n)
  case (Suc n)
  then show ?case by (auto simp: fragments_of_append chain_fragment_def bomb_name_inj split: nat.splits)
qed simp

lemma chain_frames:
  "k < n \<Longrightarrow> \<forall>j \<le> k. bomb_name j \<notin> set active \<Longrightarrow>
   tree_frames (expand (fragments_of (map chain_fragment [0..<n]) []) active [Spread (bomb_name k)]) = k + 2
   \<and> tree_fields (expand (fragments_of (map chain_fragment [0..<n]) []) active [Spread (bomb_name k)]) = 1
   \<and> tree_depth 1 (expand (fragments_of (map chain_fragment [0..<n]) []) active [Spread (bomb_name k)]) = 1"
proof (induction k arbitrary: active)
  case 0
  then show ?case by (simp add: chain_lookup)
next
  case (Suc k)
  have "\<forall>j \<le> k. bomb_name j \<notin> set (bomb_name (Suc k) # active)"
    using Suc.prems(2) by (simp add: bomb_name_inj)
  from Suc.IH [OF _ this] Suc.prems show ?case by (simp add: chain_lookup bomb_name_inj)
qed

lemma chain_operations: "operations_of (chain n) = [[Spread (bomb_name n)]]"
proof -
  have "operations_of (map chain_fragment ks) = []" for ks
    by (induction ks) (simp_all add: chain_fragment_def)
  then show ?thesis by (simp add: chain_def del: upt_Suc)
qed

lemma chain_fragments: "fragments_of (chain n) [] = fragments_of (map chain_fragment [0..<Suc n]) []"
  by (simp add: chain_def)

text \<open>C38. The check returns for every document, whatever its fragments spread, on a stack whose size is computed from the
  document: its height, once more for every fragment; and then it returns what the check without bounds on the
  stack says. On a smaller stack it may not: a document with one field of depth one, reached through a
  chain of fragments, is checked exactly when there are frames for the whole chain, and otherwise
  ends in a \<open>RecursionError\<close>, which the view does not catch.\<close>

theorem check_returns:
  "(enough_frames document \<le> k \<longrightarrow> resource_error_frames k cfg document query = Some (resource_error cfg document query))
   \<and> resource_error_frames k cfg (chain n) query = (if n + 3 \<le> k then Some (resource_error cfg (chain n) query) else None)
   \<and> doc_size (chain n) = 2 * n + 4
   \<and> (1 \<le> gs_max_depth cfg \<and> 1 \<le> gs_max_fields cfg \<and> gs_introspection cfg \<longrightarrow> resource_error cfg (chain n) query = None)
   \<and> \<not> caught_by_view (RuntimeError m)"
proof (intro conjI impI)
  show "resource_error_frames k cfg document query = Some (resource_error cfg document query)" if "enough_frames document \<le> k"
    using enough_frames_enough less_le_trans [OF _ that] by (auto simp: resource_error_frames_eq)
  note chain = chain_frames [of n "Suc n" "[]", folded chain_fragments, simplified]
  show "resource_error_frames k cfg (chain n) query = (if n + 3 \<le> k then Some (resource_error cfg (chain n) query) else None)"
    unfolding resource_error_frames_eq chain_operations using chain by auto
  have "doc_size (map chain_fragment [0..<Suc n]) = 2 * n + 2"
    by (induction n) (simp_all add: doc_size_append chain_fragment_def)
  then show "doc_size (chain n) = 2 * n + 4" by (simp add: chain_def del: upt_Suc)
  show "resource_error cfg (chain n) query = None" if "1 \<le> gs_max_depth cfg \<and> 1 \<le> gs_max_fields cfg \<and> gs_introspection cfg"
    using that chain by (simp add: resource_error_def walk_operations_eq chain_operations)
  show "\<not> caught_by_view (RuntimeError m)" by (simp add: caught_by_view_def)
qed

theorem check_returns_witness:
  "resource_error_frames 40 \<lparr>gs_max_depth = 8, gs_max_fields = 80, gs_introspection = True\<rparr> (chain 2) ''{ a }'' = Some None
   \<and> resource_error_frames 1000 \<lparr>gs_max_depth = 8, gs_max_fields = 80, gs_introspection = True\<rparr> (chain 998) ''{ a }'' = None"
proof -
  let ?cfg = "\<lparr>gs_max_depth = 8, gs_max_fields = 80, gs_introspection = True\<rparr>"
  have "enough_frames (chain 2) \<le> 40" by code_simp
  with check_returns [of "chain 2" 40 ?cfg "''{ a }''" 2 "''m''"]
  have "resource_error_frames 40 ?cfg (chain 2) ''{ a }'' = Some None" by simp
  moreover have "resource_error_frames 1000 ?cfg (chain 998) ''{ a }'' = None"
    using check_returns [of "chain 2" 1000 ?cfg "''{ a }''" 998 "''m''"] by simp
  ultimately show ?thesis by simp
qed

end
