(* ===== verification/Schema_Claims.thy ===== *)
theory Schema_Claims
  imports Schema GraphQL_Types
begin

text \<open>
  What the services store fits the columns the models declare: statuses are among the choices, and texts are not longer
  than their columns, for the columns a bound of the services protects.
\<close>

section \<open>Columns\<close>

definition find_field :: "model_table \<Rightarrow> string \<Rightarrow> model_field option" where
  "find_field m name = List.find (\<lambda>fd. fd_name fd = name) (mt_fields m)"

text \<open>A text a column takes: at most \<open>max_length\<close> characters, and one of the choices where there are any.\<close>

definition fits :: "model_table \<Rightarrow> string \<Rightarrow> string \<Rightarrow> bool" where
  "fits m name s \<longleftrightarrow> (case find_field m name of
     None \<Rightarrow> False
   | Some fd \<Rightarrow> (case fd_kind fd of CharField n \<Rightarrow> length s \<le> n | SlugField n \<Rightarrow> length s \<le> n | _ \<Rightarrow> False)
       \<and> (fd_choices fd = [] \<or> s \<in> set (map fst (fd_choices fd))))"

lemmas models = Project_model_def AgentRegistration_model_def DiagnosticOperation_model_def KubernetesTarget_model_def
  KubernetesRelease_model_def column_def fk_def id_field_def

lemma fits_operation:
  "fits DiagnosticOperation_model ''status'' s = (s \<in> set (map fst DiagnosticOperation_choices) \<and> length s \<le> 16)"
  "fits DiagnosticOperation_model ''error_code'' s = (length s \<le> 32)"
  "fits DiagnosticOperation_model ''diagnostic'' s = (length s \<le> 32)"
  by (auto simp: fits_def find_field_def models DiagnosticOperation_choices_def)

lemma fits_target:
  "fits KubernetesTarget_model ''name'' s = (length s \<le> 80)"
  "fits KubernetesTarget_model ''namespace'' s = (length s \<le> 63)"
  "fits KubernetesTarget_model ''release_name'' s = (length s \<le> 53)"
  "fits KubernetesTarget_model ''credential_ref'' s = (length s \<le> 128)"
  "fits KubernetesTarget_model ''ingress_class'' s = (length s \<le> 63)"
  "fits KubernetesTarget_model ''tls_secret_name'' s = (length s \<le> 63)"
  "fits KubernetesTarget_model ''api_server'' s = (length s \<le> 255)"
  by (simp_all add: fits_def find_field_def models)

lemma fits_release:
  "fits KubernetesRelease_model ''status'' s = (s \<in> set (map fst KubernetesRelease_choices) \<and> length s \<le> 24)"
  "fits KubernetesRelease_model ''rollback_status'' s = (length s \<le> 32)"
  "fits KubernetesRelease_model ''error_code'' s = (length s \<le> 48)"
  "fits KubernetesRelease_model ''migration_compatibility'' s = (length s \<le> 16)"
  "fits KubernetesRelease_model ''operation_id'' s = (length s \<le> 64)"
  "fits KubernetesRelease_model ''chart_version'' s = (length s \<le> 32)"
  "fits KubernetesRelease_model ''values_digest'' s = (length s \<le> 64)"
  "fits KubernetesRelease_model ''previous_values_digest'' s = (length s \<le> 64)"
  "fits KubernetesRelease_model ''image'' s = (length s \<le> 255)"
  "fits KubernetesRelease_model ''previous_image'' s = (length s \<le> 255)"
  by (auto simp: fits_def find_field_def models KubernetesRelease_choices_def)

lemma op_status_fits: "fits DiagnosticOperation_model ''status'' (op_status_text s)"
proof -
  have "length (op_status_text s) \<le> 16" by (cases s) (simp_all add: op_status_text_def)
  then show ?thesis using op_status_choice by (simp add: fits_operation)
qed

lemma release_status_fits: "fits KubernetesRelease_model ''status'' (release_status_text s)"
proof -
  have "length (release_status_text s) \<le> 24" by (cases s) (simp_all add: release_status_text_def)
  then show ?thesis using release_status_choice by (simp add: fits_release)
qed

section \<open>Rows\<close>

definition operation_fits :: "diagnostic_operation \<Rightarrow> bool" where
  "operation_fits r \<longleftrightarrow> fits DiagnosticOperation_model ''status'' (op_status_text (op_status r))
     \<and> fits DiagnosticOperation_model ''error_code'' (op_error_code r) \<and> fits DiagnosticOperation_model ''diagnostic'' (op_diagnostic r)"

definition target_fits :: "kubernetes_target \<Rightarrow> bool" where
  "target_fits r \<longleftrightarrow> fits KubernetesTarget_model ''name'' (kt_name r) \<and> fits KubernetesTarget_model ''namespace'' (kt_namespace r)
     \<and> fits KubernetesTarget_model ''release_name'' (kt_release_name r) \<and> fits KubernetesTarget_model ''credential_ref'' (kt_credential_ref r)
     \<and> fits KubernetesTarget_model ''ingress_class'' (kt_ingress_class r) \<and> fits KubernetesTarget_model ''tls_secret_name'' (kt_tls_secret_name r)"

definition release_fits :: "kubernetes_release_row \<Rightarrow> bool" where
  "release_fits r \<longleftrightarrow> fits KubernetesRelease_model ''status'' (release_status_text (kr_status r))
     \<and> fits KubernetesRelease_model ''rollback_status'' (kr_rollback_status r) \<and> fits KubernetesRelease_model ''error_code'' (kr_error_code r)
     \<and> fits KubernetesRelease_model ''migration_compatibility'' (kr_migration_compatibility r)
     \<and> fits KubernetesRelease_model ''operation_id'' (kr_operation_id r) \<and> fits KubernetesRelease_model ''chart_version'' (kr_chart_version r)
     \<and> fits KubernetesRelease_model ''values_digest'' (kr_values_digest r)
     \<and> fits KubernetesRelease_model ''previous_values_digest'' (kr_previous_values_digest r)"

definition images_fit :: "kubernetes_release_row \<Rightarrow> bool" where
  "images_fit r \<longleftrightarrow> fits KubernetesRelease_model ''image'' (kr_image r)
     \<and> fits KubernetesRelease_model ''previous_image'' (kr_previous_image r)"

lemmas row_fits = operation_fits_def target_fits_def release_fits_def op_status_fits release_status_fits

lemma operation_update_fits:
  "(\<And>r. operation_fits r \<Longrightarrow> operation_fits (f r)) \<Longrightarrow> \<forall>r \<in> set (ot_rows t). operation_fits r \<Longrightarrow>
   \<forall>r \<in> set (ot_rows (op_update pk p f t)). operation_fits r"
  by (auto simp: op_update_def)

lemma save_error_fits:
  "length c \<le> 32 \<Longrightarrow> \<forall>r \<in> set (ot_rows t). operation_fits r \<Longrightarrow> \<forall>r \<in> set (ot_rows (save_error pk s c t)). operation_fits r"
  "length c \<le> 32 \<Longrightarrow> \<forall>r \<in> set (ot_rows t). operation_fits r \<Longrightarrow> \<forall>r \<in> set (ot_rows (op_save pk s c now t)). operation_fits r"
  unfolding save_error_def op_save_def
  by (rule operation_update_fits; simp add: row_fits fits_operation(2))+

lemma start_fits:
  assumes "\<forall>r \<in> set (ot_rows t). operation_fits r"
  shows "\<forall>r \<in> set (ot_rows (fst (start_diagnostic be ordr uid agent user d now now' t))). operation_fits r"
proof (cases "d = ''django_health''")
  case True
  let ?t = "op_create uid agent user d now t"
  have new: "\<forall>r \<in> set (ot_rows ?t). operation_fits r"
    using assms True by (auto simp: op_create_def new_operation_def row_fits fits_operation(2,3))
  have trimmed: "\<forall>r \<in> set (ot_rows (trim_history ordr p u)). operation_fits r"
    if "\<forall>r \<in> set (ot_rows u). operation_fits r" for p u
    using that by (simp add: trim_history_def)
  show ?thesis
  proof (cases "start_outcome be (new_operation (ot_next t) uid agent user d now)")
    case (Inr x)
    have "length c \<le> 32" if "x = Some (s, c)" for s c
      using Inr that by (auto simp: start_outcome_def split: if_splits sum.splits)
    then show ?thesis
      using trimmed [OF new] trimmed [OF save_error_fits(2) [OF _ new]]
      by (cases x) (auto simp: start_diagnostic_def Let_def True Inr [unfolded True])
  qed (use new True in \<open>auto simp: start_diagnostic_def Let_def\<close>)
qed (use assms in \<open>simp add: start_diagnostic_def\<close>)

lemma cancel_fits:
  assumes "\<forall>r \<in> set (ot_rows t). operation_fits r"
  shows "\<forall>r \<in> set (ot_rows (fst (cancel_diagnostic be pk t))). operation_fits r"
proof (cases "op_find t pk")
  case (Some r)
  have "length c \<le> 32" if "cancel_outcome x = Inr (s, c)" for x s c
    using that by (auto simp: cancel_outcome_def split: if_splits sum.splits bool.splits)
  note saved = save_error_fits(1) [OF this assms]
  show ?thesis
  proof (cases "cancel_outcome (be_cancel be r)")
    case (Inr sc)
    with saved show ?thesis using assms by (cases sc) (auto simp: cancel_diagnostic_def Some Let_def)
  qed (use assms in \<open>simp add: cancel_diagnostic_def Some\<close>)
qed (use assms in \<open>simp add: cancel_diagnostic_def\<close>)

lemma consume_fits:
  assumes "\<forall>r \<in> set (ot_rows t). operation_fits r" and "s \<in> set (consume_operation pk frames fin)"
  shows "\<forall>r \<in> set (ot_rows (db_step ordr s t)). operation_fits r"
proof -
  have "(\<exists>pk. s = SetRunning pk) \<or> (\<exists>pk a b. s = SaveProgress pk a b) \<or> (\<exists>pk a cs. s = SaveResult pk a cs)
      \<or> (\<exists>pk st c. s = SaveError pk st c \<and> length c \<le> 32)"
  proof -
    consider "s = SetRunning pk" | f where "s \<in> set (consume_event pk f)" | "s \<in> set (consume_end pk fin)"
      using assms(2) by (auto simp: consume_operation_def)
    then show ?thesis
    proof cases
      case (2 f)
      then show ?thesis by (cases f) auto
    next
      case 3
      then show ?thesis by (cases fin) (auto split: if_splits)
    qed simp
  qed
  then show ?thesis
  proof (elim disjE exE conjE)
    show ?thesis if "s = SetRunning k" for k
      unfolding that db_step.simps set_running_def by (rule operation_update_fits [OF _ assms(1)]) (simp add: row_fits)
    show ?thesis if "s = SaveProgress k a b" for k a b
      unfolding that db_step.simps save_progress_def by (rule operation_update_fits [OF _ assms(1)]) (simp add: row_fits)
    show ?thesis if "s = SaveResult k a cs" for k a cs
      unfolding that db_step.simps save_result_def
      by (rule operation_update_fits [OF _ assms(1)]) (simp add: row_fits fits_operation(2))
    show ?thesis if "s = SaveError k st c" "length c \<le> 32" for k st c
      unfolding that(1) db_step.simps by (rule save_error_fits(1) [OF that(2) assms(1)])
  qed
qed

lemma name_fits: "validate_name b s = Inr v \<Longrightarrow> length v \<le> (if b then 53 else 63)"
  unfolding validate_name_iff by blast

lemma optional_name_fits: "optional_name s = Inr v \<Longrightarrow> length v \<le> 63"
  using name_fits [of False s v] by (auto simp: optional_name_def split: if_splits)

lemma credential_fits: "validate_credential_ref s = Inr v \<Longrightarrow> length v \<le> 128"
  by (auto simp: validate_credential_ref_def CREDENTIAL_REF_def fullmatch_head_tail_min split: if_splits)

lemma created_target_fits:
  assumes "create_target ip_ok project agent name api namespace release cred ing tls t = Inr r"
  shows "target_fits r"
  using assms name_fits [of False namespace] name_fits [of True release] optional_name_fits credential_fits
  by (auto simp: create_target_def res_simps target_fits_def fits_target)

lemma api_server_fits:
  "create_target ip_ok project agent name api namespace release cred ing tls t = Inr r \<Longrightarrow> length api \<le> 255 \<Longrightarrow>
   fits KubernetesTarget_model ''api_server'' (kt_api_server r)"
  using le_trans [OF length_rstrip_by, of api]
  by (auto simp: create_target_def validate_api_server_def res_simps fits_target split: if_splits)

lemma inputs_fit:
  assumes "inputs_of sha img cleaned = Inr (clean, img', digest, compatibility)"
  shows "length compatibility \<le> 16" and "digest = values_digest sha clean" and "img' = img"
  using assms by (auto simp: inputs_of_def validate_image_def res_simps Let_def split: if_splits)

text \<open>A property of releases that no statement of the service breaks, but for the row it creates.\<close>

definition kept_by_updates :: "(kubernetes_release_row \<Rightarrow> bool) \<Rightarrow> bool" where
  "kept_by_updates P \<longleftrightarrow> (\<forall>r st h p rb c. P r \<longrightarrow> length rb \<le> 32 \<longrightarrow> length c \<le> 48 \<longrightarrow>
     P (r\<lparr>kr_status := st\<rparr>) \<and> P (r\<lparr>kr_status := st, kr_error_code := c\<rparr>)
     \<and> P (r\<lparr>kr_status := st, kr_helm_revision := h, kr_previous_helm_revision := p, kr_rollback_status := rb, kr_error_code := c\<rparr>))"

lemma kept_predicates: "kept_by_updates release_fits" "kept_by_updates images_fit"
  by (simp_all add: kept_by_updates_def row_fits images_fit_def fits_release(2,3))

lemma kept_update:
  "kept_by_updates P \<Longrightarrow> P r \<Longrightarrow> length c \<le> 48 \<Longrightarrow> P (r\<lparr>kr_status := st, kr_error_code := c\<rparr>)"
  "kept_by_updates P \<Longrightarrow> P r \<Longrightarrow> length c \<le> 48 \<Longrightarrow> length rb \<le> 32 \<Longrightarrow>
   P (r\<lparr>kr_status := st, kr_helm_revision := h, kr_previous_helm_revision := p, kr_rollback_status := rb, kr_error_code := c\<rparr>)"
  unfolding kept_by_updates_def by (metis list.size(3) zero_le)+

lemma release_update_fits:
  "(\<And>r. P r \<Longrightarrow> P (f r)) \<Longrightarrow> \<forall>r \<in> set (rt_rows t). P r \<Longrightarrow> \<forall>r \<in> set (rt_rows (rel_update pk p f t)). P r"
  by (auto simp: rel_update_def)

lemma settle_fits:
  assumes "kept_by_updates P" and "\<forall>r \<in> set (rt_rows t). P r" and "settle_release release result t = Inr t'"
  shows "\<forall>r \<in> set (rt_rows t'). P r"
proof -
  from assms(3) obtain f where "t' = rel_update (kr_pk release) rel_active f t" "\<And>r. P r \<Longrightarrow> P (f r)"
    using kept_update [OF assms(1)]
    by (auto simp: settle_release_def split: sum.splits if_splits)
  with release_update_fits [of P] assms(2) show ?thesis by blast
qed

lemma run_fits:
  assumes "newest_releases ordr" and kept: "kept_by_updates P" and rows: "\<forall>r \<in> set (rt_rows t). P r"
    and new: "\<And>clean digest compatibility previous. inputs_of sha img cleaned = Inr (clean, img, digest, compatibility) \<Longrightarrow>
      (\<And>q. previous = Some q \<Longrightarrow> P q) \<Longrightarrow>
      P (new_release (rt_next t) target user uid img chart digest clean compatibility previous now)"
  shows "\<forall>r \<in> set (rt_rows (fst (run_release kb ordr target user uid (inputs_of sha img cleaned) chart now t))). P r"
proof (cases "inputs_of sha img cleaned")
  case (Inr i)
  obtain clean img' digest compatibility where i: "i = (clean, img', digest, compatibility)" by (cases i)
  have img: "img' = img" by (rule inputs_fit(3) [OF Inr [unfolded i]])
  obtain t1 release d where opened: "open_release ordr target user uid img chart digest clean compatibility now t = (t1, release, d)"
    using prod_cases3 by blast
  have fit: "\<forall>r \<in> set (rt_rows t1). P r"
    by (rule open_all [OF assms(1) rows opened, THEN conjunct1])
      (use new [OF Inr [unfolded i img]] kept_update(1) [OF kept, of _ "[]"] in simp_all)
  show ?thesis
    using fit settle_fits [OF kept fit] by (auto simp: run_release_def Inr i img opened split: sum.splits)
qed (use rows in \<open>simp add: run_release_def\<close>)

lemma cancel_release_fits:
  assumes "kept_by_updates P" and "\<forall>r \<in> set (rt_rows t). P r"
  shows "\<forall>r \<in> set (rt_rows (fst (cancel_release kb pk t))). P r"
proof -
  have "\<forall>r \<in> set (rt_rows (settle_cancel pk accepted t)). P r" for accepted
    unfolding settle_cancel_def by (rule release_update_fits [OF _ assms(2)]) (use kept_update(1) [OF assms(1)] in simp)
  with assms(2) show ?thesis
    by (auto simp: cancel_release_def Let_def split: option.splits sum.splits)
qed

lemma new_release_fits:
  assumes "length uid \<le> 20" and "length chart \<le> 32" and "\<forall>x. length (sha x) \<le> 64"
    and "inputs_of sha img cleaned = Inr (clean, img, digest, compatibility)" and "\<And>q. previous = Some q \<Longrightarrow> release_fits q"
  shows "release_fits (new_release pk target user uid img chart digest clean compatibility previous now)"
  using assms inputs_fit [OF assms(4)]
  by (cases previous) (simp_all add: row_fits new_release_def fits_release(2-8) values_digest_def)

lemma new_release_images:
  "length img \<le> 255 \<Longrightarrow> (\<And>q. previous = Some q \<Longrightarrow> images_fit q) \<Longrightarrow>
   images_fit (new_release pk target user uid img chart digest clean compatibility previous now)"
  by (cases previous) (simp_all add: images_fit_def new_release_def fits_release(9,10))

text \<open>A digest that pins an image of a long name.\<close>

definition long_image :: string where
  "long_image = replicate 300 (CHR ''a'') @ ''@sha256:'' @ replicate 64 (CHR ''0'')"

lemma long_image_accepted: "validate_image long_image = Inr long_image"
  unfolding validate_image_iff
  by (intro conjI refl exI [of _ "replicate 300 (CHR ''a'')"] exI [of _ "replicate 64 (CHR ''0'')"])
    (auto simp: long_image_def list_all_iff char_class_defs is_hex_lower_def)

text \<open>And the address of a server of a long name.\<close>

definition long_server :: string where
  "long_server = ''https://'' @ replicate 250 (CHR ''a'')"

lemma long_server_accepted: "validate_api_server ip_ok long_server = Inr long_server"
  by code_simp

section \<open>The theorem\<close>

text \<open>C39. What the services write fits the bounded text columns the models and migrations declare, on a database that
  enforces them too. Starting and cancelling a diagnostic and every statement of its consuming coroutine leave
  statuses among the choices, and error codes within their columns, whatever the agent sends; a target that
  passes validation fits in name, namespace, release, credential reference, ingress class and TLS secret; starting and
  cancelling a release keep statuses among the choices and the operation id, chart version, digests, compatibility,
  rollback status and error code within their columns, whatever the cluster answers, when the unique part of the id has at most 20
  characters, a digest at most 64 and the chart's version at most 32. Two inputs are bounded by nothing: the
  server's address and the image (with the previous image that copies it). They fit exactly as long as the caller sends at
  most 255 characters; validation accepts longer ones.\<close>

theorem rows_fit_columns:
  assumes "newest_releases kordr" and "length uid' \<le> 20" and "length chart \<le> 32" and "\<forall>x. length (sha x) \<le> 64"
  shows "((\<forall>r \<in> set (ot_rows t). operation_fits r) \<longrightarrow>
      (\<forall>r \<in> set (ot_rows (fst (start_diagnostic be ordr uid agent user d now now' t))). operation_fits r)
      \<and> (\<forall>r \<in> set (ot_rows (fst (cancel_diagnostic be pk t))). operation_fits r)
      \<and> (\<forall>s \<in> set (consume_operation pk frames fin). \<forall>r \<in> set (ot_rows (db_step ordr s t)). operation_fits r))
    \<and> (create_target ip_ok project agent name api namespace release cred ing tls tt = Inr target \<longrightarrow> target_fits target
      \<and> (length api \<le> 255 \<longrightarrow> fits KubernetesTarget_model ''api_server'' (kt_api_server target)))
    \<and> ((\<forall>r \<in> set (rt_rows rt). release_fits r) \<longrightarrow>
      (\<forall>r \<in> set (rt_rows (fst (start_release kb sha kordr target' user uid' img vs chart now rt))). release_fits r)
      \<and> (\<forall>r \<in> set (rt_rows (fst (cancel_release kb pk rt))). release_fits r))
    \<and> ((\<forall>r \<in> set (rt_rows rt). images_fit r) \<longrightarrow>
      (length img \<le> 255 \<longrightarrow> (\<forall>r \<in> set (rt_rows (fst (start_release kb sha kordr target' user uid' img vs chart now rt))). images_fit r))
      \<and> (\<forall>r \<in> set (rt_rows (fst (cancel_release kb pk rt))). images_fit r))
    \<and> (\<exists>img. validate_image img = Inr img \<and> \<not> fits KubernetesRelease_model ''image'' img)
    \<and> (\<exists>api. validate_api_server ip_ok api = Inr api \<and> \<not> fits KubernetesTarget_model ''api_server'' api)"
proof (intro conjI impI)
  assume t: "\<forall>r \<in> set (ot_rows t). operation_fits r"
  show "\<forall>r \<in> set (ot_rows (fst (start_diagnostic be ordr uid agent user d now now' t))). operation_fits r" by (rule start_fits [OF t])
  show "\<forall>r \<in> set (ot_rows (fst (cancel_diagnostic be pk t))). operation_fits r" by (rule cancel_fits [OF t])
  show "\<forall>s \<in> set (consume_operation pk frames fin). \<forall>r \<in> set (ot_rows (db_step ordr s t)). operation_fits r"
    using consume_fits [OF t] by blast
next
  assume c: "create_target ip_ok project agent name api namespace release cred ing tls tt = Inr target"
  then show "target_fits target" by (rule created_target_fits)
  show "length api \<le> 255 \<Longrightarrow> fits KubernetesTarget_model ''api_server'' (kt_api_server target)" by (rule api_server_fits [OF c])
next
  assume rt: "\<forall>r \<in> set (rt_rows rt). release_fits r"
  show "\<forall>r \<in> set (rt_rows (fst (start_release kb sha kordr target' user uid' img vs chart now rt))). release_fits r"
    unfolding start_release_def release_inputs_def
    by (rule run_fits [OF assms(1) kept_predicates(1) rt]) (rule new_release_fits [OF assms(2-4)])
  show "\<forall>r \<in> set (rt_rows (fst (cancel_release kb pk rt))). release_fits r" by (rule cancel_release_fits [OF kept_predicates(1) rt])
next
  assume rt: "\<forall>r \<in> set (rt_rows rt). images_fit r"
  show "\<forall>r \<in> set (rt_rows (fst (start_release kb sha kordr target' user uid' img vs chart now rt))). images_fit r" if "length img \<le> 255"
    unfolding start_release_def release_inputs_def
    by (rule run_fits [OF assms(1) kept_predicates(2) rt]) (rule new_release_images [OF that])
  show "\<forall>r \<in> set (rt_rows (fst (cancel_release kb pk rt))). images_fit r" by (rule cancel_release_fits [OF kept_predicates(2) rt])
next
  have "\<not> fits KubernetesRelease_model ''image'' long_image" by (simp add: fits_release long_image_def)
  with long_image_accepted show "\<exists>img. validate_image img = Inr img \<and> \<not> fits KubernetesRelease_model ''image'' img" by blast
  have "\<not> fits KubernetesTarget_model ''api_server'' long_server" by (simp add: fits_target long_server_def)
  with long_server_accepted show "\<exists>api. validate_api_server ip_ok api = Inr api \<and> \<not> fits KubernetesTarget_model ''api_server'' api" by blast
qed

theorem rows_fit_columns_witness:
  "list_all operation_fits (ot_rows (fst (start_diagnostic (runtime_backend None 0) newest ''u-1'' shop_agent 9 ''django_health'' 101 102 shop_table)))
   \<and> list_all release_fits (rt_rows (fst (start_release down_backend (\<lambda>_. replicate 64 CHR ''0'') newest_rel shop_target 9 ''a1'' shop_image shop_values ''0.1.0'' 5 empty_releases)))"
proof -
  have o: "\<forall>r \<in> set (ot_rows shop_table). operation_fits r"
    by (simp add: shop_defs op_create_def new_operation_def row_fits fits_operation(2,3))
  have r: "\<forall>r \<in> set (rt_rows empty_releases). release_fits r" by (simp add: empty_releases_def)
  have h: "length ''a1'' \<le> 20" "length ''0.1.0'' \<le> 32" "\<forall>x :: string. length ((\<lambda>_. replicate 64 CHR ''0'') x) \<le> 64" by simp_all
  note fits = rows_fit_columns [OF newest_rel_law h]
  show ?thesis unfolding list_all_iff
  proof
    show "\<forall>r \<in> set (ot_rows (fst (start_diagnostic (runtime_backend None 0) newest ''u-1'' shop_agent 9 ''django_health'' 101 102 shop_table))). operation_fits r"
      by (rule fits [of shop_table "runtime_backend None 0" newest "''u-1''" shop_agent 9 "''django_health''" 101 102,
          THEN conjunct1, THEN mp [OF _ o], THEN conjunct1])
    show "\<forall>r \<in> set (rt_rows (fst (start_release down_backend (\<lambda>_. replicate 64 CHR ''0'') newest_rel shop_target 9 ''a1'' shop_image shop_values ''0.1.0'' 5 empty_releases))). release_fits r"
      by (rule fits [where rt = empty_releases, THEN conjunct2, THEN conjunct2, THEN conjunct1, THEN mp [OF _ r], THEN conjunct1])
  qed
qed

end
