(* ===== verification/Migrations.thy ===== *)
theory Migrations
  imports Schema
begin

text \<open>
  The migrations of \<open>controlplane/migrations\<close> as data, what applying them does to the tables, and the theorem that they
  build the declared models. \<open>apply_operation\<close> is the meaning given here to Django's operations on the declared tables: one
  that repeats a table or names a table or column that is not there is an error. How Django's executor orders
  migrations and runs their SQL is not modelled.
\<close>

section \<open>Operations\<close>

datatype migration_operation =
    CreateModel model_table
  | AddConstraint string "string \<times> string list"
  | AddIndex string "string \<times> string list"

record migration =
  mg_name :: string
  mg_dependencies :: "string list"
  mg_operations :: "migration_operation list"

type_synonym project_state = "(string, model_table) dict"

definition reference :: "model_field \<Rightarrow> string list" where
  "reference fd = (case fd_kind fd of ForeignKey to _ _ \<Rightarrow> [to] | ManyToManyField to _ \<Rightarrow> [to] | _ \<Rightarrow> [])"

text \<open>A column named in an index or constraint, without its sign.\<close>

definition column_name :: "string \<Rightarrow> string" where
  "column_name c = (if c \<noteq> [] \<and> hd c = CHR ''-'' then tl c else c)"

definition has_columns :: "model_table \<Rightarrow> string list \<Rightarrow> bool" where
  "has_columns t cs \<longleftrightarrow> list_all (\<lambda>c. column_name c \<in> set (map fd_name (mt_fields t))) cs"

definition alter_table :: "string \<Rightarrow> string list \<Rightarrow> (model_table \<Rightarrow> model_table) \<Rightarrow> project_state \<Rightarrow> project_state res" where
  "alter_table name columns f st =
     (case dget st (''controlplane.'' @ name) of
        None \<Rightarrow> Inl (KeyError name)
      | Some t \<Rightarrow> if has_columns t columns then Inr (dput (''controlplane.'' @ name) (f t) st) else Inl (KeyError name))"

fun apply_operation :: "migration_operation \<Rightarrow> project_state \<Rightarrow> project_state res" where
  "apply_operation (CreateModel t) st =
     (let label = label_of (mt_name t) in
      if dget st label \<noteq> None then Inl (ValueError ''the table exists'')
      else if \<not> list_all (\<lambda>r. r = user_label \<or> r = label \<or> dget st r \<noteq> None) (concat (map reference (mt_fields t)))
      then Inl (ValueError ''a reference to a table that does not exist'')
      else if \<not> list_all (\<lambda>i. has_columns t (snd i)) (mt_indexes t @ mt_constraints t) then Inl (KeyError (mt_name t))
      else Inr (dput label t st))"
| "apply_operation (AddConstraint name c) st = alter_table name (snd c) (\<lambda>t. t\<lparr>mt_constraints := mt_constraints t @ [c]\<rparr>) st"
| "apply_operation (AddIndex name i) st = alter_table name (snd i) (\<lambda>t. t\<lparr>mt_indexes := mt_indexes t @ [i]\<rparr>) st"

fun apply_operations :: "migration_operation list \<Rightarrow> project_state \<Rightarrow> project_state res" where
  "apply_operations [] st = Inr st"
| "apply_operations (x # xs) st = bindR (apply_operation x st) (apply_operations xs)"

section \<open>The migrations\<close>

definition create_Project :: migration_operation where
  "create_Project =
     CreateModel \<lparr>mt_name = ''Project'', mt_fields =
     [id_field,
      (column ''slug'' (SlugField 64))\<lparr>fd_unique := True\<rparr>,
      column ''name'' (CharField 120),
      (column ''release_root'' (CharField 256))\<lparr>fd_default := DefaultText ''current''\<rparr>,
      column ''members'' (ManyToManyField user_label ''djangoops_projects'')],
     mt_ordering = [''slug''], mt_indexes = [], mt_constraints = []\<rparr>"

definition create_AgentRegistration :: migration_operation where
  "create_AgentRegistration =
     CreateModel \<lparr>mt_name = ''AgentRegistration'', mt_fields =
     [id_field,
      (column ''agent_id'' (CharField 64))\<lparr>fd_unique := True\<rparr>,
      (column ''capabilities'' JSONField)\<lparr>fd_default := DefaultCall ''list''\<rparr>,
      (column ''last_seen_at'' DateTimeField)\<lparr>fd_blank := True, fd_null := True\<rparr>,
      fk ''controlplane.project'' CASCADE ''agents'' ''project''],
     mt_ordering = [''agent_id''], mt_indexes = [], mt_constraints = []\<rparr>"

definition create_DiagnosticOperation :: migration_operation where
  "create_DiagnosticOperation =
     CreateModel \<lparr>mt_name = ''DiagnosticOperation'', mt_fields =
     [id_field,
      (column ''public_id'' UUIDField)\<lparr>fd_default := DefaultCall ''uuid.uuid4'', fd_editable := False, fd_unique := True\<rparr>,
      (column ''diagnostic'' (CharField 32))\<lparr>fd_default := DefaultText ''django_health''\<rparr>,
      (column ''status'' (CharField 16))\<lparr>fd_choices := [(''pending'', ''Pending''), (''running'', ''Running''), (''succeeded'', ''Succeeded''), (''failed'', ''Failed''),
        (''cancelled'', ''Cancelled''), (''offline'', ''Offline''), (''overloaded'', ''Overloaded''), (''disconnected'', ''Disconnected''), (''timeout'', ''Timeout'')], fd_default := DefaultText ''pending''\<rparr>,
      (column ''result_summary'' JSONField)\<lparr>fd_default := DefaultCall ''dict''\<rparr>,
      (column ''error_code'' (CharField 32))\<lparr>fd_blank := True\<rparr>,
      (column ''created_at'' DateTimeField)\<lparr>fd_auto_now_add := True\<rparr>,
      (column ''updated_at'' DateTimeField)\<lparr>fd_auto_now := True\<rparr>,
      fk ''controlplane.agentregistration'' CASCADE ''operations'' ''agent'',
      fk ''controlplane.project'' CASCADE ''operations'' ''project'',
      fk user_label PROTECT ''djangoops_operations'' ''requested_by''],
     mt_ordering = [''-created_at''], mt_indexes = [(''cp_op_project_created'', [''project'', ''-created_at''])], mt_constraints = []\<rparr>"

definition migration_0001 :: migration where
  "migration_0001 = \<lparr>mg_name = ''0001_phase2_controlplane'', mg_dependencies = [user_label],
     mg_operations = [create_Project, create_AgentRegistration, create_DiagnosticOperation]\<rparr>"

definition create_KubernetesTarget :: migration_operation where
  "create_KubernetesTarget =
     CreateModel \<lparr>mt_name = ''KubernetesTarget'', mt_fields =
     [id_field,
      (column ''public_id'' UUIDField)\<lparr>fd_default := DefaultCall ''uuid.uuid4'', fd_editable := False, fd_unique := True\<rparr>,
      column ''name'' (CharField 80),
      column ''api_server'' (CharField 255),
      column ''namespace'' (CharField 63),
      column ''release_name'' (CharField 53),
      column ''credential_ref'' (CharField 128),
      (column ''ingress_class'' (CharField 63))\<lparr>fd_blank := True\<rparr>,
      (column ''tls_secret_name'' (CharField 63))\<lparr>fd_blank := True\<rparr>,
      (column ''validated_at'' DateTimeField)\<lparr>fd_blank := True, fd_null := True\<rparr>,
      (column ''validation_summary'' JSONField)\<lparr>fd_default := DefaultCall ''dict''\<rparr>,
      (column ''created_at'' DateTimeField)\<lparr>fd_auto_now_add := True\<rparr>,
      (column ''updated_at'' DateTimeField)\<lparr>fd_auto_now := True\<rparr>,
      fk ''controlplane.agentregistration'' PROTECT ''kubernetes_targets'' ''agent'',
      fk ''controlplane.project'' CASCADE ''kubernetes_targets'' ''project''],
     mt_ordering = [''name''], mt_indexes = [], mt_constraints = []\<rparr>"

definition add_target_constraint :: migration_operation where
  "add_target_constraint =
     AddConstraint ''kubernetestarget'' (''cp_k8s_cluster_release_unique'', [''api_server'', ''namespace'', ''release_name''])"

definition create_KubernetesRelease :: migration_operation where
  "create_KubernetesRelease =
     CreateModel \<lparr>mt_name = ''KubernetesRelease'', mt_fields =
     [id_field,
      (column ''public_id'' UUIDField)\<lparr>fd_default := DefaultCall ''uuid.uuid4'', fd_editable := False, fd_unique := True\<rparr>,
      (column ''status'' (CharField 24))\<lparr>fd_choices := [(''pending'', ''Pending''), (''validating'', ''Validating''),
        (''migrating'', ''Migrating''), (''applying'', ''Applying''), (''verifying'', ''Verifying''), (''succeeded'', ''Succeeded''), (''failed'', ''Failed''), (''cancelled'', ''Cancelled''),
        (''rolled_back'', ''Rolled back''), (''rollback_blocked'', ''Rollback blocked'')], fd_default := DefaultText ''pending''\<rparr>,
      (column ''operation_id'' (CharField 64))\<lparr>fd_unique := True\<rparr>,
      column ''image'' (CharField 255),
      column ''chart_version'' (CharField 32),
      column ''values_digest'' (CharField 64),
      (column ''values_snapshot'' JSONField)\<lparr>fd_default := DefaultCall ''dict''\<rparr>,
      (column ''helm_revision'' PositiveIntegerField)\<lparr>fd_blank := True, fd_null := True\<rparr>,
      (column ''previous_helm_revision'' PositiveIntegerField)\<lparr>fd_blank := True, fd_null := True\<rparr>,
      (column ''previous_image'' (CharField 255))\<lparr>fd_blank := True\<rparr>,
      (column ''previous_values_digest'' (CharField 64))\<lparr>fd_blank := True\<rparr>,
      (column ''migration_compatibility'' (CharField 16))\<lparr>fd_default := DefaultText ''unknown''\<rparr>,
      (column ''rollback_status'' (CharField 32))\<lparr>fd_blank := True\<rparr>,
      (column ''error_code'' (CharField 48))\<lparr>fd_blank := True\<rparr>,
      (column ''result_summary'' JSONField)\<lparr>fd_default := DefaultCall ''dict''\<rparr>,
      (column ''created_at'' DateTimeField)\<lparr>fd_auto_now_add := True\<rparr>,
      (column ''updated_at'' DateTimeField)\<lparr>fd_auto_now := True\<rparr>,
      fk ''controlplane.project'' CASCADE ''kubernetes_releases'' ''project'',
      fk user_label PROTECT ''djangoops_kubernetes_releases'' ''requested_by'',
      fk ''controlplane.kubernetestarget'' PROTECT ''releases'' ''target''],
     mt_ordering = [''-created_at''], mt_indexes = [], mt_constraints = []\<rparr>"

definition add_release_index :: migration_operation where
  "add_release_index =
     AddIndex ''kubernetesrelease'' (''cp_k8s_project_created'', [''project'', ''-created_at''])"

definition migration_0002 :: migration where
  "migration_0002 = \<lparr>mg_name = ''0002_phase3_kubernetes'', mg_dependencies = [''0001_phase2_controlplane'', user_label],
     mg_operations = [create_KubernetesTarget, add_target_constraint, create_KubernetesRelease, add_release_index]\<rparr>"

section \<open>The tables they build\<close>

text \<open>Two tables are the same up to the order of their fields.\<close>

definition same_table :: "model_table \<Rightarrow> model_table \<Rightarrow> bool" where
  "same_table a b \<longleftrightarrow> mt_name a = mt_name b \<and> distinct (map fd_name (mt_fields a)) \<and> length (mt_fields a) = length (mt_fields b)
     \<and> set (mt_fields a) = set (mt_fields b) \<and> mt_ordering a = mt_ordering b \<and> mt_indexes a = mt_indexes b
     \<and> mt_constraints a = mt_constraints b"

definition builds :: "project_state res \<Rightarrow> model_table list \<Rightarrow> bool" where
  "builds r models \<longleftrightarrow> (case r of
     Inl _ \<Rightarrow> False
   | Inr st \<Rightarrow> length st = length models
       \<and> list_all (\<lambda>m. case dget st (label_of (mt_name m)) of None \<Rightarrow> False | Some t \<Rightarrow> same_table t m) models)"

text \<open>In the order of their dependency the operations build what the models declare: those of the first migration the tables of
  projects, agents and operations, both together every declared table, each with exactly the declared fields (kind,
  length, default, choices, uniqueness, null, references with what deleting does) in some order, the declared ordering,
  indexes and the unique identity of a target.\<close>

lemma migrations_build_models:
  "mg_dependencies migration_0002 = [mg_name migration_0001, user_label]"
  "builds (apply_operations (mg_operations migration_0001) []) [Project_model, AgentRegistration_model, DiagnosticOperation_model]"
  "builds (apply_operations (mg_operations migration_0001 @ mg_operations migration_0002) []) declared_models"
  by code_simp+

end
