(* ===== verification/Site.thy ===== *)
theory Site
  imports Web
begin

text \<open>
  The frame around the control plane: the settings made from the environment (\<open>controlplane/settings.py\<close>), the table of
  addresses (\<open>controlplane/urls.py\<close>) and the start of the servers (\<open>controlplane/server.py\<close>, \<open>controlplane/webserver.py\<close>).
  How Django matches a path with a pattern is \<open>path_matches\<close>; gRPC and uvicorn are parameters.
\<close>

section \<open>Settings\<close>

text \<open>\<open>float(s)\<close>: the accepted texts, and the text as its value.\<close>

definition digit_part :: rx where
  "digit_part = Seq (Plus (Cls is_digit)) (Star (Seq (Lit ''_'') (Plus (Cls is_digit))))"

definition FLOAT :: rx where
  "FLOAT = Seq (Opt (Cls (\<lambda>c. c \<in> set ''+-'')))
     (Alt (Seq (Alt (Seq digit_part (Opt (Seq (Lit ''.'') (Opt digit_part)))) (Seq (Lit ''.'') digit_part))
            (Opt (Seq (Cls (\<lambda>c. c \<in> set ''eE'')) (Seq (Opt (Cls (\<lambda>c. c \<in> set ''+-''))) digit_part))))
          (Alt (LitI ''nan'') (Alt (LitI ''inf'') (LitI ''infinity''))))"

definition py_float :: "string \<Rightarrow> string res" where
  "py_float s = (if fullmatch FLOAT (strip s) then Inr (strip s) else Inl (ValueError ''could not convert string to float''))"

text \<open>What importing the settings ends with, beside a \<open>ValueError\<close> of a number.\<close>

datatype settings_error = ImproperlyConfigured string | BadNumber pyexn

record web_settings =
  ws_debug :: bool
  ws_secret_key :: string
  ws_allowed_hosts :: "string list"
  ws_root_urlconf :: string
  ws_wsgi_application :: string
  ws_asgi_application :: string
  ws_installed_apps :: "string list"
  ws_middleware :: "string list"
  ws_template_backend :: string
  ws_template_app_dirs :: bool
  ws_context_processors :: "string list"
  ws_database_engine :: string
  ws_database_name :: string
  ws_password_validators :: "string list"
  ws_language_code :: string
  ws_time_zone :: string
  ws_use_i18n :: bool
  ws_use_tz :: bool
  ws_static_url :: string
  ws_default_auto_field :: string
  ws_login_url :: string
  ws_login_redirect_url :: string
  ws_logout_redirect_url :: string
  ws_session_cookie_httponly :: bool
  ws_session_cookie_samesite :: string
  ws_session_cookie_secure :: bool
  ws_csrf_cookie_samesite :: string
  ws_csrf_cookie_secure :: bool
  ws_content_type_nosniff :: bool
  ws_x_frame_options :: string
  ws_graphql_max_depth :: int
  ws_graphql_max_fields :: int
  ws_graphql_introspection :: bool
  ws_diagnostic_timeout :: string
  ws_demo_enabled :: bool

definition number :: "'a res \<Rightarrow> settings_error + 'a" where
  "number r = (case r of Inl e \<Rightarrow> Inl (BadNumber e) | Inr x \<Rightarrow> Inr x)"

definition and_then :: "settings_error + 'a \<Rightarrow> ('a \<Rightarrow> settings_error + 'b) \<Rightarrow> settings_error + 'b" where
  "and_then r f = (case r of Inl e \<Rightarrow> Inl e | Inr x \<Rightarrow> f x)"

definition secret_key_of :: "(string, string) dict \<Rightarrow> bool \<Rightarrow> settings_error + string" where
  "secret_key_of env debug =
     (let key = env_get env ''DJANGOOPS_WEB_SECRET_KEY'' '''' in
      if key = [] then
        if \<not> debug then Inl (ImproperlyConfigured ''DJANGOOPS_WEB_SECRET_KEY is required when debug is disabled'')
        else Inr ''dev-only-djangoops-secret''
      else Inr key)"

text \<open>\<open>base_dir\<close> is \<open>BASE_DIR\<close>.\<close>

definition settings_from_env :: "string \<Rightarrow> (string, string) dict \<Rightarrow> settings_error + web_settings" where
  "settings_from_env base_dir env =
     (let debug = (env_get env ''DJANGOOPS_WEB_DEBUG'' ''1'' = ''1'') in
      and_then (secret_key_of env debug) (\<lambda>secret_key.
      and_then (number (py_int (env_get env ''DJANGOOPS_GRAPHQL_MAX_DEPTH'' ''8''))) (\<lambda>max_depth.
      and_then (number (py_int (env_get env ''DJANGOOPS_GRAPHQL_MAX_FIELDS'' ''80''))) (\<lambda>max_fields.
      and_then (number (py_float (env_get env ''DJANGOOPS_DIAGNOSTIC_TIMEOUT_SECONDS'' ''60''))) (\<lambda>timeout.
      Inr \<lparr>ws_debug = debug, ws_secret_key = secret_key,
        ws_allowed_hosts = filter (\<lambda>item. item \<noteq> [])
          (split_on CHR '','' (env_get env ''DJANGOOPS_WEB_ALLOWED_HOSTS'' ''localhost,127.0.0.1,testserver'')),
        ws_root_urlconf = ''controlplane.urls'', ws_wsgi_application = ''controlplane.wsgi.application'',
        ws_asgi_application = ''controlplane.asgi.application'',
        ws_installed_apps = [''django.contrib.auth'', ''django.contrib.contenttypes'', ''django.contrib.sessions'',
          ''django.contrib.messages'', ''django.contrib.staticfiles'', ''controlplane.apps.ControlPlaneConfig''],
        ws_middleware = [''django.middleware.security.SecurityMiddleware'', ''django.contrib.sessions.middleware.SessionMiddleware'',
          ''django.middleware.common.CommonMiddleware'', ''django.middleware.csrf.CsrfViewMiddleware'',
          ''django.contrib.auth.middleware.AuthenticationMiddleware'', ''django.contrib.messages.middleware.MessageMiddleware'',
          ''django.middleware.clickjacking.XFrameOptionsMiddleware''],
        ws_template_backend = ''django.template.backends.django.DjangoTemplates'', ws_template_app_dirs = True,
        ws_context_processors = [''django.template.context_processors.request'', ''django.contrib.auth.context_processors.auth'',
          ''django.contrib.messages.context_processors.messages''],
        ws_database_engine = ''django.db.backends.sqlite3'',
        ws_database_name = env_get env ''DJANGOOPS_WEB_DB'' (base_dir @ ''/djangoops-controlplane.sqlite3''),
        ws_password_validators = [], ws_language_code = ''en-us'', ws_time_zone = ''UTC'', ws_use_i18n = True, ws_use_tz = True,
        ws_static_url = ''/static/'', ws_default_auto_field = ''django.db.models.BigAutoField'',
        ws_login_url = ''/accounts/login/'', ws_login_redirect_url = ''/'', ws_logout_redirect_url = ''/accounts/login/'',
        ws_session_cookie_httponly = True, ws_session_cookie_samesite = ''Lax'', ws_session_cookie_secure = (\<not> debug),
        ws_csrf_cookie_samesite = ''Lax'', ws_csrf_cookie_secure = (\<not> debug), ws_content_type_nosniff = True,
        ws_x_frame_options = ''DENY'', ws_graphql_max_depth = max_depth, ws_graphql_max_fields = max_fields,
        ws_graphql_introspection = debug, ws_diagnostic_timeout = timeout,
        ws_demo_enabled = (debug \<and> env_get env ''DJANGOOPS_WEB_DEMO'' ''0'' = ''1'')\<rparr>)))))"

text \<open>The part the check of a query reads.\<close>

definition graphql_settings_of :: "web_settings \<Rightarrow> graphql_settings" where
  "graphql_settings_of s =
     \<lparr>gs_max_depth = nat (ws_graphql_max_depth s), gs_max_fields = nat (ws_graphql_max_fields s),
      gs_introspection = ws_graphql_introspection s\<rparr>"

section \<open>Addresses\<close>

datatype segment = Fixed string | IntArg | StrArg

datatype path_arg = PathInt nat | PathStr string

record route =
  ro_path :: "segment list"
  ro_view :: string
  ro_name :: string

definition urlpatterns :: "route list" where
  "urlpatterns =
     [\<lparr>ro_path = [Fixed ''accounts'', Fixed ''login'', Fixed ''''], ro_view = ''LoginView'', ro_name = ''login''\<rparr>,
      \<lparr>ro_path = [Fixed ''accounts'', Fixed ''logout'', Fixed ''''], ro_view = ''LogoutView'', ro_name = ''logout''\<rparr>,
      \<lparr>ro_path = [Fixed ''graphql'', Fixed ''v1''], ro_view = ''graphql_view'', ro_name = ''graphql-v1''\<rparr>,
      \<lparr>ro_path = [Fixed ''projects'', IntArg, Fixed ''ecosystem''], ro_view = ''ecosystem_project'', ro_name = ''ecosystem-project''\<rparr>,
      \<lparr>ro_path = [Fixed ''internal'', Fixed ''metrics''], ro_view = ''views.metrics'', ro_name = ''metrics''\<rparr>,
      \<lparr>ro_path = [Fixed ''operations'', StrArg, Fixed ''updates''], ro_view = ''views.operation_update'', ro_name = ''operation-update''\<rparr>,
      \<lparr>ro_path = [Fixed ''operations'', StrArg, Fixed ''cancel''], ro_view = ''views.cancel_diagnostic'', ro_name = ''cancel-diagnostic''\<rparr>,
      \<lparr>ro_path = [Fixed ''projects'', IntArg, Fixed ''agents'', IntArg, Fixed ''diagnostics'', Fixed ''start''],
       ro_view = ''views.start_diagnostic'', ro_name = ''start-diagnostic''\<rparr>,
      \<lparr>ro_path = [Fixed ''''], ro_view = ''views.dashboard'', ro_name = ''dashboard''\<rparr>]"

text \<open>Matching the parts of a path between slashes: \<open><int:...>\<close> takes digits, \<open><str:...>\<close> any part that is not empty.\<close>

fun path_matches :: "segment list \<Rightarrow> string list \<Rightarrow> path_arg list option" where
  "path_matches [] [] = Some []"
| "path_matches (Fixed s # ss) (w # ws) = (if w = s then path_matches ss ws else None)"
| "path_matches (IntArg # ss) (w # ws) =
     (if w \<noteq> [] \<and> list_all is_digit w then map_option (\<lambda>as. PathInt (digits_val w) # as) (path_matches ss ws) else None)"
| "path_matches (StrArg # ss) (w # ws) = (if w \<noteq> [] then map_option (\<lambda>as. PathStr w # as) (path_matches ss ws) else None)"
| "path_matches _ _ = None"

fun first_route :: "route list \<Rightarrow> string list \<Rightarrow> (string \<times> path_arg list) option" where
  "first_route [] ws = None"
| "first_route (r # rs) ws = (case path_matches (ro_path r) ws of Some as \<Rightarrow> Some (ro_view r, as) | None \<Rightarrow> first_route rs ws)"

definition resolve_path :: "string \<Rightarrow> (string \<times> path_arg list) option" where
  "resolve_path p = first_route urlpatterns (split_on CHR ''/'' p)"

text \<open>\<open>reverse\<close>: the address of a named route with its arguments.\<close>

fun fill :: "segment list \<Rightarrow> path_arg list \<Rightarrow> string list option" where
  "fill [] [] = Some []"
| "fill (Fixed s # ss) as = map_option ((#) s) (fill ss as)"
| "fill (IntArg # ss) (PathInt n # as) = map_option ((#) (nat_digits n)) (fill ss as)"
| "fill (StrArg # ss) (PathStr s # as) = (if s \<noteq> [] \<and> CHR ''/'' \<notin> set s then map_option ((#) s) (fill ss as) else None)"
| "fill _ _ = None"

definition reverse_path :: "string \<Rightarrow> path_arg list \<Rightarrow> string option" where
  "reverse_path name as =
     (case List.find (\<lambda>r. ro_name r = name) urlpatterns of
        None \<Rightarrow> None | Some r \<Rightarrow> map_option (join ''/'') (fill (ro_path r) as))"

section \<open>Servers\<close>

text \<open>\<open>read_bytes\<close> reads a file, \<open>bound\<close> is the port \<open>add_secure_port\<close> returns.\<close>

definition build_server :: "(string \<Rightarrow> string res) \<Rightarrow> (string \<Rightarrow> nat) \<Rightarrow> gateway_config \<Rightarrow> gateway res" where
  "build_server read_bytes bound config =
     bindR (init_gateway (gc_agent_tokens config) 256 4) (\<lambda>g.
     bindR (read_bytes (gc_private_key config)) (\<lambda>_.
     bindR (read_bytes (gc_certificate config)) (\<lambda>_.
     if bound (gc_listen config) = 0 then Inl (RuntimeError ''control-plane TLS listener could not bind'') else Inr g)))"

datatype server_action = GatewayRegistered gateway | GrpcStarted | HttpServed string int | GrpcStopped nat

text \<open>\<open>server.main\<close>, with what \<open>wait_for_termination()\<close> returns or raises.\<close>

definition serve_grpc :: "(string, string) dict \<Rightarrow> (string \<Rightarrow> bool) \<Rightarrow> (string \<Rightarrow> string res) \<Rightarrow> (string \<Rightarrow> nat) \<Rightarrow> unit res
    \<Rightarrow> server_action list \<times> unit res" where
  "serve_grpc env is_file read_bytes bound terminated =
     (case bindR (config_from_env env is_file) (build_server read_bytes bound) of
        Inl e \<Rightarrow> ([], Inl e)
      | Inr g \<Rightarrow> ([GatewayRegistered g, GrpcStarted], terminated))"

text \<open>The actions of \<open>webserver.serve\<close> and how it ends; \<open>http\<close> is what \<open>http.serve()\<close> returns or raises.\<close>

definition serve_web :: "(string, string) dict \<Rightarrow> (string \<Rightarrow> bool) \<Rightarrow> (string \<Rightarrow> string res) \<Rightarrow> (string \<Rightarrow> nat) \<Rightarrow> unit res
    \<Rightarrow> server_action list \<times> unit res" where
  "serve_web env is_file read_bytes bound http =
     (case bindR (config_from_env env is_file) (build_server read_bytes bound) of
        Inl e \<Rightarrow> ([], Inl e)
      | Inr g \<Rightarrow>
          (case py_int (env_get env ''DJANGOOPS_WEB_PORT'' ''8000'') of
             Inl e \<Rightarrow> ([GatewayRegistered g, GrpcStarted], Inl e)
           | Inr port \<Rightarrow> ([GatewayRegistered g, GrpcStarted, HttpServed (env_get env ''DJANGOOPS_WEB_HOST'' ''127.0.0.1'') port, GrpcStopped 5], http)))"

end
