(* ===== verification/Site_Claims.thy ===== *)
theory Site_Claims
  imports Site Json_Roundtrip GraphQL_Claims
begin

text \<open>
  The settings of a process without debug, and the table of addresses: every address made from a name leads back to
  the view and the arguments it was made from.
\<close>

section \<open>Settings\<close>

lemma number_Inr [simp]: "number r = Inr x \<longleftrightarrow> r = Inr x" "number r = Inl e \<longleftrightarrow> (\<exists>e'. r = Inl e' \<and> e = BadNumber e')"
  by (cases r; auto simp: number_def)+

lemma and_then_iff:
  "and_then r f = Inr y \<longleftrightarrow> (\<exists>x. r = Inr x \<and> f x = Inr y)"
  "and_then r f = Inl e \<longleftrightarrow> r = Inl e \<or> (\<exists>x. r = Inr x \<and> f x = Inl e)"
  by (cases r; simp add: and_then_def)+

lemma py_int_ValueError: "py_int s = Inl e \<Longrightarrow> is_ValueError e"
  by (auto simp: py_int_def Let_def split: option.splits prod.splits)

lemma py_float_ValueError: "py_float s = Inl e \<Longrightarrow> is_ValueError e"
  by (auto simp: py_float_def split: if_splits)

lemma secret_key_iff:
  "secret_key_of env debug = Inr k \<longleftrightarrow>
     dget env ''DJANGOOPS_WEB_SECRET_KEY'' = Some k \<and> k \<noteq> []
     \<or> env_get env ''DJANGOOPS_WEB_SECRET_KEY'' [] = [] \<and> debug \<and> k = ''dev-only-djangoops-secret''"
  "secret_key_of env debug = Inl e \<longleftrightarrow>
     env_get env ''DJANGOOPS_WEB_SECRET_KEY'' [] = [] \<and> \<not> debug
     \<and> e = ImproperlyConfigured ''DJANGOOPS_WEB_SECRET_KEY is required when debug is disabled''"
  by (auto simp: secret_key_of_def env_get_def Let_def split: option.splits)

text \<open>C40. A process does not start without debug unless it has a secret key of its own: importing the settings ends with
  \<open>ImproperlyConfigured\<close> exactly then, and otherwise fails only on a limit that is not a number. A process that
  starts without debug uses the key of its environment, sends its session and CSRF cookies over HTTPS only, has
  no demo mode, and answers no query that names \<open>__schema\<close> or \<open>__type\<close>.\<close>

theorem production_settings:
  "case settings_from_env base env of
     Inl (ImproperlyConfigured m) \<Rightarrow>
       env_get env ''DJANGOOPS_WEB_DEBUG'' ''1'' \<noteq> ''1'' \<and> env_get env ''DJANGOOPS_WEB_SECRET_KEY'' [] = []
   | Inl (BadNumber e) \<Rightarrow> is_ValueError e
   | Inr s \<Rightarrow> (ws_debug s \<longleftrightarrow> env_get env ''DJANGOOPS_WEB_DEBUG'' ''1'' = ''1'') \<and> [] \<notin> set (ws_allowed_hosts s)
       \<and> (\<not> ws_debug s \<longrightarrow>
           dget env ''DJANGOOPS_WEB_SECRET_KEY'' = Some (ws_secret_key s) \<and> ws_secret_key s \<noteq> []
         \<and> ws_session_cookie_secure s \<and> ws_csrf_cookie_secure s \<and> \<not> ws_demo_enabled s
         \<and> (\<forall>document query. resource_error (graphql_settings_of s) document query = None \<longrightarrow>
              \<not> substring_in ''__schema'' query \<and> \<not> substring_in ''__type'' query))"
proof (cases "settings_from_env base env")
  case (Inl e)
  have "(\<exists>m. e = ImproperlyConfigured m) \<and> env_get env ''DJANGOOPS_WEB_DEBUG'' ''1'' \<noteq> ''1''
        \<and> env_get env ''DJANGOOPS_WEB_SECRET_KEY'' [] = [] \<or> (\<exists>e'. e = BadNumber e' \<and> is_ValueError e')"
    using Inl by (auto simp: settings_from_env_def Let_def and_then_iff secret_key_iff dest: py_int_ValueError py_float_ValueError)
  with Inl show ?thesis by auto
next
  case (Inr s)
  have closed: "\<not> substring_in ''__schema'' query \<and> \<not> substring_in ''__type'' query"
    if "\<not> ws_graphql_introspection s" "resource_error (graphql_settings_of s) document query = None" for document query
    using that by (auto simp: resource_error_def graphql_settings_of_def split: prod.splits if_splits)
  let ?debug = "env_get env ''DJANGOOPS_WEB_DEBUG'' ''1'' = ''1''"
  from Inr have "secret_key_of env ?debug = Inr (ws_secret_key s)" "ws_debug s = ?debug" "ws_graphql_introspection s = ?debug"
    "ws_session_cookie_secure s = (\<not> ?debug)" "ws_csrf_cookie_secure s = (\<not> ?debug)" "ws_demo_enabled s \<Longrightarrow> ?debug" "[] \<notin> set (ws_allowed_hosts s)"
    by (auto simp: settings_from_env_def Let_def and_then_iff)
  then show ?thesis using Inr closed by (simp add: secret_key_iff) blast
qed

definition demo_env :: "(string, string) dict" where
  "demo_env = [(''DJANGOOPS_WEB_DEBUG'', ''0''), (''DJANGOOPS_WEB_SECRET_KEY'', ''k3y''), (''DJANGOOPS_WEB_DEMO'', ''1'')]"

theorem production_settings_witness:
  "\<exists>s. settings_from_env ''/srv'' demo_env = Inr s \<and> ws_session_cookie_secure s \<and> \<not> ws_demo_enabled s"
proof -
  have "\<not> (case settings_from_env ''/srv'' demo_env of Inl _ \<Rightarrow> True | Inr s \<Rightarrow> ws_debug s)" by code_simp
  then obtain s where s: "settings_from_env ''/srv'' demo_env = Inr s" "\<not> ws_debug s"
    by (cases "settings_from_env ''/srv'' demo_env") auto
  with production_settings [where base = "''/srv''" and env = demo_env] show ?thesis by simp
qed

section \<open>Addresses\<close>

lemma digits_no_slash: "list_all is_digit w \<Longrightarrow> CHR ''/'' \<notin> set w"
  by (auto simp: list_all_iff is_digit_def in_range_def)

lemma fill_matches:
  assumes "\<forall>s. Fixed s \<in> set ss \<longrightarrow> CHR ''/'' \<notin> set s" and "fill ss as = Some ws"
  shows "path_matches ss ws = Some as \<and> (\<forall>w \<in> set ws. CHR ''/'' \<notin> set w) \<and> length ws = length ss"
  using assms
proof (induction ss as arbitrary: ws rule: fill.induct)
  case (3 ss n as)
  then show ?case using nat_digits_props [of n] nat_digits_ne [of n] digits_no_slash [of "nat_digits n"] by auto
next
  case (4 ss s as)
  then show ?case by (auto split: if_splits)
qed auto

lemma fill_iff:
  "fill [] as = Some ws \<longleftrightarrow> as = [] \<and> ws = []"
  "fill (Fixed t # ss) as = Some ws \<longleftrightarrow> (\<exists>us. ws = t # us \<and> fill ss as = Some us)"
  "fill (IntArg # ss) as = Some ws \<longleftrightarrow> (\<exists>n bs us. as = PathInt n # bs \<and> ws = nat_digits n # us \<and> fill ss bs = Some us)"
  "fill (StrArg # ss) as = Some ws \<longleftrightarrow>
     (\<exists>t bs us. as = PathStr t # bs \<and> ws = t # us \<and> t \<noteq> [] \<and> CHR ''/'' \<notin> set t \<and> fill ss bs = Some us)"
proof -
  show "fill [] as = Some ws \<longleftrightarrow> as = [] \<and> ws = []" by (cases as) auto
  show "fill (Fixed t # ss) as = Some ws \<longleftrightarrow> (\<exists>us. ws = t # us \<and> fill ss as = Some us)" by auto
  show "fill (IntArg # ss) as = Some ws \<longleftrightarrow> (\<exists>n bs us. as = PathInt n # bs \<and> ws = nat_digits n # us \<and> fill ss bs = Some us)"
    by (cases as; cases "hd as") auto
  show "fill (StrArg # ss) as = Some ws \<longleftrightarrow>
     (\<exists>t bs us. as = PathStr t # bs \<and> ws = t # us \<and> t \<noteq> [] \<and> CHR ''/'' \<notin> set t \<and> fill ss bs = Some us)"
    by (cases as; cases "hd as") auto
qed

lemma int_part: "nat_digits n \<noteq> []" "list_all is_digit (nat_digits n)" "digits_val (nat_digits n) = n"
  using nat_digits_props [of n] nat_digits_ne [of n] by simp_all

text \<open>No address of a route is taken by a route before it.\<close>

lemma first_match:
  assumes "r \<in> set urlpatterns" and "fill (ro_path r) as = Some ws"
  shows "first_route urlpatterns ws = Some (ro_view r, as)"
  using assms unfolding urlpatterns_def set_simps
  by (elim insertE emptyE; simp only: fill_iff route.simps; elim exE conjE; simp add: int_part)

text \<open>The table of addresses is unambiguous: the address made from the name of a route and arguments for it, numbers
  in decimal and texts without a slash, leads to that route's view with those arguments.\<close>

lemma addresses_roundtrip:
  assumes "r \<in> set urlpatterns" and "reverse_path (ro_name r) as = Some p"
  shows "resolve_path p = Some (ro_view r, as)"
proof -
  have "List.find (\<lambda>q. ro_name q = ro_name r) urlpatterns = Some r"
    using assms(1) unfolding urlpatterns_def set_simps by (elim insertE emptyE; simp)
  with assms(2) obtain ws where ws: "fill (ro_path r) as = Some ws" "p = join ''/'' ws"
    by (auto simp: reverse_path_def)
  have "\<forall>t. Fixed t \<in> set (ro_path r) \<longrightarrow> CHR ''/'' \<notin> set t" "ro_path r \<noteq> []"
    using assms(1) unfolding urlpatterns_def set_simps by (elim insertE emptyE; simp)+
  with fill_matches [OF this(1) ws(1)] have "split_on CHR ''/'' p = ws"
    unfolding ws(2) by (intro split_on_join) auto
  with first_match [OF assms(1) ws(1)] show ?thesis by (simp add: resolve_path_def)
qed

section \<open>Servers\<close>

text \<open>Neither server registers a gateway or listens unless the configuration is complete and the port was bound; once the
  web server serves, the listener for agents is stopped whatever ends it.\<close>

lemma served_gateway:
  assumes "serve_web env is_file read_bytes bound http = (actions, r)" and "actions \<noteq> []"
  shows "\<exists>config g. config_from_env env is_file = Inr config \<and> bound (gc_listen config) \<noteq> 0
    \<and> hd actions = GatewayRegistered g \<and> gw_tokens g = gc_agent_tokens config
    \<and> (\<forall>host port. HttpServed host port \<in> set actions \<longrightarrow> last actions = GrpcStopped 5 \<and> r = http)"
proof (cases "bindR (config_from_env env is_file) (build_server read_bytes bound)")
  case (Inr g)
  then obtain config where "config_from_env env is_file = Inr config" "bound (gc_listen config) \<noteq> 0" "gw_tokens g = gc_agent_tokens config"
    by (auto simp: res_simps build_server_def init_gateway_def split: if_splits)
  moreover have "hd actions = GatewayRegistered g"
    "HttpServed host port \<in> set actions \<Longrightarrow> last actions = GrpcStopped 5 \<and> r = http" for host port
    using assms(1) Inr by (auto simp: serve_web_def split: sum.splits)
  ultimately show ?thesis by blast
qed (use assms in \<open>simp add: serve_web_def\<close>)

end
