(* ===== verification/Spec2Isabelle.thy ===== *)
theory Spec2Isabelle
  imports GraphQL_Claims Config_Claims Integrations_Claims Ecosystem Deploy_Claims Cli_Claims Cli_Args Web GraphQL_Types GraphQL_Termination
    Schema_Claims Migrations Site_Claims
begin

text \<open>
  A verification development for DjangoOps, a control plane and a command line for operating Django projects. The
  control plane (\<open>src/controlplane\<close>) keeps a gRPC stream to an agent in every managed project (\<open>gateway.py\<close>), stores the
  operations it asks agents for in a database (\<open>services.py\<close>, \<open>kubernetes.py\<close>, \<open>models.py\<close>), observes them
  (\<open>telemetry.py\<close>, \<open>observability.py\<close>) and offers them to users by GraphQL and by pages (\<open>graphql/\<close>, \<open>views.py\<close>). The
  command line (\<open>src/cli/djangoops\<close>) validates a project's configuration, generates its Compose file, and deploys, checks
  and backs up the project over SSH. Both share the registry of integrations (\<open>integrations.py\<close>).

  \<^bold>\<open>How the code is modelled.\<close> A function that may raise returns \<open>pyexn + 'a\<close> (theory Prelude), so every raise, \<open>except\<close> and
  early return is a branch. Dictionaries are association lists in insertion order. Strings are lists of
  characters, one for each code point up to 255 (PyString); patterns are a datatype with an executable
  matcher proved sound and complete for its language (Regex). State is a record that is passed along, and
  every coroutine of the gateway is a program counter of a labelled step relation, one step for each stretch between two
  \<open>await\<close>s, so that all interleavings are covered. Integers of the program are unbounded in Python and here.

  \<^bold>\<open>Theories and sources.\<close>
  \<^item> Prelude, PyString, PyPath, PyUrl, PyUuid, Regex, Redaction, Json, Shell: what the code uses of Python's library, as functions:
    exceptions, dictionaries, \<open>str\<close>, \<open>PurePosixPath\<close>, \<open>urlsplit\<close>, \<open>uuid.UUID\<close>, \<open>re\<close>, \<open>json\<close>, \<open>shlex.quote\<close>, and how a POSIX shell reads
    a word. Json_Roundtrip shows that reading inverts writing.
  \<^item> Contracts: the messages of the protocol and the interfaces between components, as locales.
  \<^item> Gateway, Gateway_Invariant, Gateway_System, Gateway_Properties, Gateway_Claims: \<open>gateway.py\<close>. Gateway has the records and one
    definition per handler; Gateway_Invariant shows that each keeps the invariant \<open>gw_ok\<close>; Gateway_System is the
    step relation with its reachable states; the claims are bounds, admission, order, isolation, the fate
    of jobs on disconnection, and two ways in which a job or a connection is stuck for good.
  \<^item> Diagnostics, Diagnostics_Properties, Diagnostics_Claims: \<open>services.py\<close> and the operation table of \<open>models.py\<close>. The
    statements on the table are a datatype; the consuming coroutine is the list of statements it issues. The claims
    are finality of settled rows, a reference for the status, bounds of what is stored and redaction of its free text, and trimming.
  \<^item> Kubernetes, Kubernetes_Properties, Kubernetes_Claims: \<open>kubernetes.py\<close>: validation, targets, releases, and the
    backend over the gateway.
  \<^item> Telemetry, Telemetry_Claims, Observability, Observability_Claims: \<open>telemetry.py\<close>, \<open>observability.py\<close>,
    \<open>kubernetes_observability.py\<close>: bounds, conservation of counters and payloads, one report per settled operation, and
    that the installed replacements behave as the originals where observability is not asked for.
  \<^item> Tenancy, GraphQL, GraphQL_Claims: \<open>graphql/schema.py\<close>, \<open>graphql/views.py\<close>: scoping of every query and mutation, and the
    resource check of a query against its written-out form.
  \<^item> GraphQL_Schema, GraphQL_Types: the declared types and roots of \<open>graphql/schema.py\<close> with what \<open>observability.py\<close> installs
    into them, the resolvers from coerced arguments to values, and type soundness: every answer is of its declared type,
    in every database the mutations can leave, and the exceptions that become errors of a response are named.
  \<^item> GraphQL_Termination: the resource check on a stack of finitely many frames. The recursion terminates for every
    document, cyclic fragments included, by the fragments not yet entered and then the size of the selection; the
    frames it needs are computed exactly, and bounded from the document.
  \<^item> Schema, Schema_Claims, Migrations: the tables of \<open>models.py\<close> as declarations, the migrations that build them, and that
    what the services write fits the columns.
  \<^item> Site, Site_Claims: \<open>settings.py\<close>, \<open>urls.py\<close>, \<open>server.py\<close>, \<open>webserver.py\<close>: the settings of a process without debug, the
    addresses and their inverse, and the order in which the servers start and stop.
  \<^item> Web: \<open>views.py\<close>, \<open>config.py\<close>, \<open>runtime.py\<close>, \<open>gateway_runtime.py\<close> and the command line's \<open>telemetry.py\<close>.
  \<^item> Config, Config_Claims: \<open>cli/djangoops/config.py\<close>: validators, schema versions and the round trip of a configuration.
  \<^item> Integrations, Integrations_Claims, Ecosystem: \<open>integrations.py\<close>, \<open>ecosystem_config.py\<close>, \<open>ecosystem.py\<close>,
    \<open>ecosystem_views.py\<close>: what is accepted and what evaluating it may show.
  \<^item> Compose, Compose_Claims: \<open>compose.py\<close>: the generated document is closed.
  \<^item> Deploy, Deploy_Claims: \<open>deploy.py\<close>: the stages of a deployment with what each failure undoes, the words the remote
    shell reads, and the files that are uploaded.
  \<^item> Health, Health_Claims: \<open>health.py\<close>: the remote command and exactly the outputs accepted as a report.
  \<^item> Backup, Backup_Claims: \<open>backup.py\<close>: every text sent to the host. The restore command is proved to be the sequence of
    pipelines \<open>check_steps\<close> and \<open>change_steps\<close>, and its claim is about how \<open>sh\<close> runs them under \<open>set -e\<close>.
  \<^item> Cli, Cli_Args, Cli_Claims: \<open>cli.py\<close>: options, commands, exit status, output and files.

  \<^bold>\<open>Interfaces.\<close> \<open>bounded_memory\<close> (a set that remembers the last keys it was shown: the gateway's finished jobs, the observer's
  reported rows), \<open>lifecycle\<close> (rows whose settled states are final: operations, releases), \<open>redactor\<close> (replacing what a
  pattern finds: the services and the telemetry) and \<open>agent_reports\<close> (what the services rely on in a backend: the gateway
  in every reachable state) are locales; each is interpreted on the model's own definitions in the theory that
  provides them, and the properties use the interpreted facts.

  \<^bold>\<open>Parameters.\<close> Code that is not part of the repository is an argument: the YAML library (\<open>load\<close>, \<open>dump\<close>; loading
  may also raise anything, and that it inverts dumping is a hypothesis of the round trip only), the SSH client and which remote commands succeed, the clock,
  generated identifiers, SHA-256, the check of an IP address inside brackets, the order of a database query, the GraphQL
  executor, the Kubernetes backend. Its answers are arbitrary unless a theorem names a hypothesis.

  \<^bold>\<open>Bounds and fuel.\<close> The only fuel is in the JSON reader and the pattern matcher, and is the length of the text, which each
  step shortens; the round trip and the language theorem show that it is enough. The stack of GraphQL_Termination is
  no fuel: running out of it is the \<open>RecursionError\<close> of the code. Every other recursion has a termination proof.

  \<^bold>\<open>Not modelled.\<close> The three lines of \<open>asgi.py\<close>, \<open>wsgi.py\<close> and \<open>manage.py\<close> that name the settings module, and generated
  protocol code (the messages are the datatypes of Contracts). What Django, gRPC, uvicorn and \<open>graphql-core\<close> do with the
  settings, tables, migrations, addresses and types declared here is theirs; of Django's lookups, that a text is compared as a UUID with
  an id column and raises \<open>ValidationError\<close> when it is none (PyUuid). Packing the release archive is \<open>tarfile\<close>; splitting
  words into options is \<open>argparse\<close>. The Go agent, the Helm chart and the templates are
  in other languages. Code points above 255 are outside the model, as are log lines.
\<close>

end
